(* ===== verification/JS_Number.thy ===== *)
theory JS_Number
  imports Complex_Main "HOL-Library.Log_Nat"
begin

text \<open>
  ECMAScript numbers as exact rationals with the binary64 rounding written out.

  A finite double is the rational \<open>m * 2 powi e\<close> with a significand of at most 53 bits and
  \<open>e \<ge> -1074\<close> (\<open>is_f64\<close>); \<open>f64\<close> rounds a rational to the nearest such number, ties to the
  even significand, and every arithmetic operator of the source is the exact operation followed
  by \<open>f64\<close>. Infinities, NaN and the overflow range above \<open>2 ^ 1024\<close> are not values of this
  model: a component whose code can divide by zero tests the divisor itself. The lemmas show that
  rounding is monotone, exact on representable numbers and in particular on integers up to
  \<open>2 ^ 53\<close>, and bound its error.
\<close>

section \<open>Rounding to binary64\<close>

definition flog2 :: "rat \<Rightarrow> int" where
  "flog2 x = (case quotient_of x of (a, b) \<Rightarrow>
     (let d = bitlen a - bitlen b in if 2 powi d \<le> x then d else d - 1))"

definition round_half_even :: "rat \<Rightarrow> int" where
  "round_half_even x =
     (let n = \<lfloor>x\<rfloor>; d = x - of_int n
      in if d < 1/2 then n else if 1/2 < d then n + 1 else if even n then n else n + 1)"

definition ulp_exp :: "rat \<Rightarrow> int" where
  "ulp_exp x = max (-1074) (flog2 x - 52)"

definition f64_abs :: "rat \<Rightarrow> rat" where
  "f64_abs x = of_int (round_half_even (x / 2 powi ulp_exp x)) * 2 powi ulp_exp x"

definition f64 :: "rat \<Rightarrow> rat" where
  "f64 x = (if x < 0 then - f64_abs (- x) else f64_abs x)"

definition is_f64 :: "rat \<Rightarrow> bool" where
  "is_f64 x \<longleftrightarrow> (\<exists>m e. x = of_int m * 2 powi e \<and> \<bar>m\<bar> \<le> 2 ^ 53 \<and> - 1074 \<le> e)"

definition fadd :: "rat \<Rightarrow> rat \<Rightarrow> rat" where "fadd x y = f64 (x + y)"
definition fsub :: "rat \<Rightarrow> rat \<Rightarrow> rat" where "fsub x y = f64 (x - y)"
definition fmul :: "rat \<Rightarrow> rat \<Rightarrow> rat" where "fmul x y = f64 (x * y)"
definition fdiv :: "rat \<Rightarrow> rat \<Rightarrow> rat" where "fdiv x y = f64 (x / y)"

text \<open>\<open>Math.round\<close>, and \<open>Number(x.toFixed(d))\<close>: the decimal nearest to the exact value of
  the double (the larger on a tie), read back as a double.\<close>

definition math_round :: "rat \<Rightarrow> int" where
  "math_round x = \<lfloor>x + 1/2\<rfloor>"

definition to_fixed :: "nat \<Rightarrow> rat \<Rightarrow> rat" where
  "to_fixed d x =
     (if x < 0 then - f64 (of_int (math_round (- x * 10 ^ d)) / 10 ^ d)
      else f64 (of_int (math_round (x * 10 ^ d)) / 10 ^ d))"

subsection \<open>The binary exponent\<close>

lemma powi_pos [simp]: "0 < (2::rat) powi e"
  by (simp add: zero_less_power_int)

lemma powi_nonneg [simp]: "0 \<le> (2::rat) powi e"
  by (simp add: less_imp_le)

lemma powi_le_iff: "(2::rat) powi a \<le> 2 powi b \<longleftrightarrow> a \<le> b"
proof
  assume "(2::rat) powi a \<le> 2 powi b"
  then show "a \<le> b"
    using power_int_strict_increasing [of b a "2::rat"] by linarith
next
  assume "a \<le> b"
  then show "(2::rat) powi a \<le> 2 powi b" by (rule power_int_increasing) simp
qed

lemma powi_less_iff: "(2::rat) powi a < 2 powi b \<longleftrightarrow> a < b"
  using powi_le_iff [of b a] by linarith

lemma powi_add2: "(2::rat) powi (a + b) = 2 powi a * 2 powi b"
  by (simp add: power_int_add)

lemma powi_diff2: "(2::rat) powi (a - b) = 2 powi a / 2 powi b"
  by (simp add: power_int_diff)

lemma powi_nat: "0 \<le> e \<Longrightarrow> (2::rat) powi e = of_int (2 ^ nat e)"
  by (simp add: power_int_nonneg_exp)

lemma powi_le_of_int: "0 \<le> e \<Longrightarrow> 2 ^ nat e \<le> a \<Longrightarrow> (2::rat) powi e \<le> of_int a"
  by (simp add: powi_nat del: of_int_power)

lemma of_int_less_powi: "0 \<le> e \<Longrightarrow> a < 2 ^ nat e \<Longrightarrow> of_int a < (2::rat) powi e"
  by (simp add: powi_nat del: of_int_power)

lemma bitlen_powi:
  assumes "0 < a"
  shows "2 powi (bitlen a - 1) \<le> (of_int a :: rat)" "(of_int a :: rat) < 2 powi bitlen a"
proof -
  have b: "2 ^ nat (bitlen a - 1) \<le> a" "a < 2 ^ nat (bitlen a)"
    using bitlen_bounds [OF assms] by auto
  have p: "1 \<le> bitlen a"
    using bitlen_eq_zero_iff [of a] bitlen_nonneg [of a] assms by linarith
  show "2 powi (bitlen a - 1) \<le> (of_int a :: rat)"
    using p b(1) by (intro powi_le_of_int) auto
  show "(of_int a :: rat) < 2 powi bitlen a"
    using p b(2) by (intro of_int_less_powi) auto
qed

lemma flog2_bounds:
  assumes "0 < x"
  shows "2 powi flog2 x \<le> x" "x < 2 powi (flog2 x + 1)"
proof -
  obtain a b where q: "quotient_of x = (a, b)" by (cases "quotient_of x")
  have b: "0 < b" and x: "x = of_int a / of_int b"
    using quotient_of_denom_pos [OF q] quotient_of_div [OF q] by auto
  have a: "0 < a" using assms b x by (simp add: zero_less_divide_iff)
  let ?d = "bitlen a - bitlen b"
  have up: "x < 2 powi (?d + 1)"
  proof -
    have "x < 2 powi bitlen a / 2 powi (bitlen b - 1)"
      unfolding x using bitlen_powi [OF a] bitlen_powi [OF b] a b by (intro frac_less) auto
    then show ?thesis by (simp add: powi_diff2 [symmetric] algebra_simps)
  qed
  have lo: "2 powi (?d - 1) \<le> x"
  proof -
    have "2 powi (bitlen a - 1) / 2 powi bitlen b \<le> x"
      unfolding x using bitlen_powi [OF a] bitlen_powi [OF b] a b by (intro frac_le) auto
    then show ?thesis by (simp add: powi_diff2 [symmetric] algebra_simps)
  qed
  show "2 powi flog2 x \<le> x" "x < 2 powi (flog2 x + 1)"
    using up lo by (auto simp: flog2_def q Let_def)
qed

lemma flog2_less: "0 < x \<Longrightarrow> x < 2 powi k \<Longrightarrow> flog2 x < k"
  using flog2_bounds(1) [of x] powi_less_iff [of "flog2 x" k] by linarith

lemma flog2_mono: "0 < x \<Longrightarrow> x \<le> y \<Longrightarrow> flog2 x \<le> flog2 y"
  using flog2_less [of x "flog2 y + 1"] flog2_bounds(2) [of y] by fastforce

subsection \<open>Rounding to an integer\<close>

lemma round_half_even_of_int [simp]: "round_half_even (of_int n) = n"
  by (simp add: round_half_even_def)

lemma round_half_even_mono:
  assumes "x \<le> y" shows "round_half_even x \<le> round_half_even y"
proof (cases "\<lfloor>x\<rfloor> = \<lfloor>y\<rfloor>")
  case True
  then show ?thesis using assms by (auto simp: round_half_even_def Let_def)
next
  case False
  with floor_mono [OF assms] have "\<lfloor>x\<rfloor> + 1 \<le> \<lfloor>y\<rfloor>" by linarith
  then show ?thesis by (auto simp: round_half_even_def Let_def)
qed

lemma round_half_even_error: "\<bar>of_int (round_half_even x) - x\<bar> \<le> 1/2"
proof -
  have "of_int \<lfloor>x\<rfloor> \<le> x" "x < of_int \<lfloor>x\<rfloor> + 1" by linarith+
  then show ?thesis by (auto simp: round_half_even_def Let_def abs_le_iff)
qed

lemma round_half_even_le_int: "x \<le> of_int n \<Longrightarrow> round_half_even x \<le> n"
  using round_half_even_mono [of x "of_int n"] by simp

lemma round_half_even_ge_int: "of_int n \<le> x \<Longrightarrow> n \<le> round_half_even x"
  using round_half_even_mono [of "of_int n" x] by simp

subsection \<open>Monotonicity\<close>

lemma f64_abs_0 [simp]: "f64_abs 0 = 0"
  using round_half_even_of_int [of 0] by (simp add: f64_abs_def)

lemma f64_abs_nonneg: "0 \<le> x \<Longrightarrow> 0 \<le> f64_abs x"
  using round_half_even_ge_int [of 0 "x / 2 powi ulp_exp x"] by (simp add: f64_abs_def)

lemma scaled_less:
  assumes "0 < x" shows "x / 2 powi ulp_exp x < 2 ^ 53"
proof -
  have "x < 2 powi (flog2 x + 1)" by (rule flog2_bounds(2) [OF assms])
  also have "\<dots> \<le> 2 powi (53 + ulp_exp x)" by (simp add: powi_le_iff ulp_exp_def)
  also have "\<dots> = 2 ^ 53 * 2 powi ulp_exp x" by (simp add: powi_add2)
  finally show ?thesis by (simp add: divide_less_eq)
qed

lemma f64_abs_le:
  assumes "0 < x" shows "f64_abs x \<le> 2 powi (53 + ulp_exp x)"
proof -
  have "round_half_even (x / 2 powi ulp_exp x) \<le> 2 ^ 53"
    using scaled_less [OF assms] by (intro round_half_even_le_int) simp
  then have "(of_int (round_half_even (x / 2 powi ulp_exp x)) :: rat) \<le> 2 ^ 53"
    by (metis of_int_le_iff of_int_numeral of_int_power)
  then show ?thesis by (simp add: f64_abs_def powi_add2 mult_right_mono)
qed

lemma f64_abs_ge:
  assumes "0 < x" "ulp_exp x = flog2 x - 52" shows "2 powi (52 + ulp_exp x) \<le> f64_abs x"
proof -
  have "2 powi (52 + ulp_exp x) \<le> x" using flog2_bounds(1) [OF assms(1)] assms(2) by simp
  then have "2 ^ 52 \<le> x / 2 powi ulp_exp x"
    by (simp add: powi_add2 le_divide_eq)
  then have "2 ^ 52 \<le> round_half_even (x / 2 powi ulp_exp x)"
    by (intro round_half_even_ge_int) simp
  then have "(2 ^ 52 :: rat) \<le> of_int (round_half_even (x / 2 powi ulp_exp x))"
    by (metis of_int_le_iff of_int_numeral of_int_power)
  then show ?thesis by (simp add: f64_abs_def powi_add2 mult_right_mono)
qed

lemma f64_abs_mono:
  assumes "0 \<le> x" "x \<le> y" shows "f64_abs x \<le> f64_abs y"
proof (cases "x = 0")
  case True
  then show ?thesis using f64_abs_nonneg [of y] assms by simp
next
  case False
  with assms have x: "0 < x" and y: "0 < y" by auto
  have e: "ulp_exp x \<le> ulp_exp y"
    using flog2_mono [OF x assms(2)] by (auto simp: ulp_exp_def)
  show ?thesis
  proof (cases "ulp_exp x = ulp_exp y")
    case True
    then show ?thesis using assms(2)
      by (auto simp: f64_abs_def intro!: mult_right_mono round_half_even_mono divide_right_mono)
  next
    case False
    with e have less: "ulp_exp x < ulp_exp y" by simp
    then have ey: "ulp_exp y = flog2 y - 52" by (auto simp: ulp_exp_def)
    have "f64_abs x \<le> 2 powi (53 + ulp_exp x)" by (rule f64_abs_le [OF x])
    also have "\<dots> \<le> 2 powi (52 + ulp_exp y)" using less by (simp add: powi_le_iff)
    also have "\<dots> \<le> f64_abs y" by (rule f64_abs_ge [OF y ey])
    finally show ?thesis .
  qed
qed

theorem f64_mono: "x \<le> y \<Longrightarrow> f64 x \<le> f64 y"
  using f64_abs_mono [of "- y" "- x"] f64_abs_mono [of x y]
    f64_abs_nonneg [of "- x"] f64_abs_nonneg [of y]
  by (auto simp: f64_def)

lemma f64_0 [simp]: "f64 0 = 0"
  by (simp add: f64_def)

lemma f64_minus: "f64 (- x) = - f64 x"
  by (auto simp: f64_def)

lemma f64_nonneg: "0 \<le> x \<Longrightarrow> 0 \<le> f64 x"
  using f64_mono [of 0 x] by simp

lemma f64_nonpos: "x \<le> 0 \<Longrightarrow> f64 x \<le> 0"
  using f64_mono [of x 0] by simp

subsection \<open>Exactness on representable numbers\<close>

lemma f64_abs_exact:
  assumes x: "x = of_int m * 2 powi e" and "0 \<le> m" "m < 2 ^ 53" "- 1074 \<le> e"
  shows "f64_abs x = x"
proof (cases "m = 0")
  case False
  with assms have m: "0 < m" and pos: "0 < x" by auto
  have "(of_int m :: rat) < 2 ^ 53" using assms(3) by (metis of_int_less_iff of_int_numeral of_int_power)
  then have "x < 2 powi (53 + e)" by (simp add: x powi_add2)
  from flog2_less [OF pos this] have e: "ulp_exp x \<le> e"
    using assms(4) by (simp add: ulp_exp_def)
  define k where "k = nat (e - ulp_exp x)"
  have "x / 2 powi ulp_exp x = of_int m * 2 powi (e - ulp_exp x)"
    by (simp add: x powi_diff2)
  also have "\<dots> = of_int (m * 2 ^ k)" using e by (simp add: powi_nat k_def)
  finally have s: "x / 2 powi ulp_exp x = of_int (m * 2 ^ k)" .
  then have "f64_abs x = x / 2 powi ulp_exp x * 2 powi ulp_exp x"
    unfolding f64_abs_def by (simp only: s round_half_even_of_int)
  then show ?thesis by simp
qed (simp add: x)

lemma f64_exact:
  assumes "is_f64 x" shows "f64 x = x"
proof -
  have pos: "f64_abs y = y"
    if "y = of_int m * 2 powi e" "0 \<le> m" "m \<le> 2 ^ 53" "- 1074 \<le> e" for y m e
  proof (cases "m = 2 ^ 53")
    case True
    have "y = of_int (2 ^ 52) * 2 powi (e + 1)"
      using that(1) True by (simp add: powi_add2)
    from f64_abs_exact [OF this] that(4) show ?thesis by simp
  next
    case False
    with f64_abs_exact [OF that(1,2) _ that(4)] that(3) show ?thesis by simp
  qed
  obtain m e where x: "x = of_int m * 2 powi e" "\<bar>m\<bar> \<le> 2 ^ 53" "- 1074 \<le> e"
    using assms by (auto simp: is_f64_def)
  show ?thesis
  proof (cases "x < 0")
    case True
    then have "m < 0" using x(1) mult_nonneg_nonneg [of "of_int m :: rat" "2 powi e"]
      by (metis linorder_not_less of_int_0_le_iff powi_nonneg)
    with x pos [of "- x" "- m" e] True show ?thesis by (simp add: f64_def)
  next
    case False
    then have "0 \<le> m" using x(1) mult_neg_pos [of "of_int m :: rat" "2 powi e"]
      by (cases "0 \<le> m") auto
    with x pos [of x m e] False show ?thesis by (simp add: f64_def)
  qed
qed

lemma is_f64_f64 [simp, intro]: "is_f64 (f64 x)"
proof -
  have *: "\<exists>m e. f64_abs y = of_int m * 2 powi e \<and> 0 \<le> m \<and> m \<le> 2 ^ 53 \<and> - 1074 \<le> e"
    if "0 \<le> y" for y
  proof (intro exI conjI)
    show "f64_abs y = of_int (round_half_even (y / 2 powi ulp_exp y)) * 2 powi ulp_exp y"
      by (rule f64_abs_def)
    show "0 \<le> round_half_even (y / 2 powi ulp_exp y)"
      using that by (intro round_half_even_ge_int) simp
    show "round_half_even (y / 2 powi ulp_exp y) \<le> 2 ^ 53"
      using that scaled_less [of y] by (cases "y = 0") (auto intro!: round_half_even_le_int)
  qed (simp add: ulp_exp_def)
  show ?thesis
  proof (cases "x < 0")
    case True
    with * [of "- x"] obtain m e where "f64_abs (- x) = of_int m * 2 powi e"
      "0 \<le> m" "m \<le> 2 ^ 53" "- 1074 \<le> e" by auto
    with True have "f64 x = of_int (- m) * 2 powi e \<and> \<bar>- m\<bar> \<le> 2 ^ 53 \<and> - 1074 \<le> e"
      by (simp add: f64_def)
    then show ?thesis unfolding is_f64_def by blast
  next
    case False
    with * [of x] show ?thesis by (force simp: f64_def is_f64_def)
  qed
qed

lemma f64_idem [simp]: "f64 (f64 x) = f64 x"
  by (rule f64_exact) simp

lemma is_f64_of_int: "\<bar>n\<bar> \<le> 2 ^ 53 \<Longrightarrow> is_f64 (of_int n)"
  unfolding is_f64_def by (intro exI [of _ n] exI [of _ 0]) simp

lemma is_f64_0 [simp, intro]: "is_f64 0"
  using is_f64_of_int [of 0] by simp

lemma f64_of_int: "\<bar>n\<bar> \<le> 2 ^ 53 \<Longrightarrow> f64 (of_int n) = of_int n"
  by (rule f64_exact) (rule is_f64_of_int)

lemma f64_ge_is_f64: "is_f64 y \<Longrightarrow> y \<le> x \<Longrightarrow> y \<le> f64 x"
  using f64_mono [of y x] f64_exact [of y] by simp

lemma f64_le_is_f64: "is_f64 y \<Longrightarrow> x \<le> y \<Longrightarrow> f64 x \<le> y"
  using f64_mono [of x y] f64_exact [of y] by simp

subsection \<open>The rounding error\<close>

lemma f64_abs_error:
  assumes "0 \<le> x" shows "\<bar>f64_abs x - x\<bar> \<le> x / 2 ^ 53 + 1 / 2 ^ 1075"
proof (cases "x = 0")
  case False
  with assms have x: "0 < x" by simp
  let ?u = "2 powi ulp_exp x :: rat"
  have "f64_abs x - x = (of_int (round_half_even (x / ?u)) - x / ?u) * ?u"
    by (simp add: f64_abs_def left_diff_distrib)
  then have "\<bar>f64_abs x - x\<bar> = \<bar>of_int (round_half_even (x / ?u)) - x / ?u\<bar> * ?u"
    by (simp add: abs_mult)
  also have "\<dots> \<le> 1/2 * ?u" by (intro mult_right_mono round_half_even_error) simp
  also have "\<dots> \<le> x / 2 ^ 53 + 1 / 2 ^ 1075"
  proof (cases "ulp_exp x = - 1074")
    case True
    have "1/2 * ?u = 1 / 2 ^ 1075"
      unfolding True by (simp add: power_int_minus_divide)
    then show ?thesis using x by simp
  next
    case False
    then have "?u = 2 powi flog2 x / 2 ^ 52"
      by (simp add: ulp_exp_def powi_diff2 max_def split: if_splits)
    then have "1/2 * ?u = 2 powi flog2 x / 2 ^ 53" by simp
    also have "\<dots> \<le> x / 2 ^ 53"
      by (intro divide_right_mono flog2_bounds(1) x) simp
    finally show ?thesis by (simp add: add_increasing2)
  qed
  finally show ?thesis .
qed simp

theorem f64_error: "\<bar>f64 x - x\<bar> \<le> \<bar>x\<bar> / 2 ^ 53 + 1 / 2 ^ 1075"
  using f64_abs_error [of x] f64_abs_error [of "- x"]
  by (auto simp: f64_def abs_if split: if_splits)

section \<open>Rounding to integers and decimals\<close>

lemma math_round_of_int [simp]: "math_round (of_int n) = n"
  by (simp add: math_round_def) linarith

lemma math_round_mono: "x \<le> y \<Longrightarrow> math_round x \<le> math_round y"
  by (simp add: math_round_def floor_mono)

lemma to_fixed_nonneg: "0 \<le> x \<Longrightarrow> 0 \<le> to_fixed d x"
  using math_round_mono [of 0 "x * 10 ^ d"] math_round_of_int [of 0]
  by (auto simp: to_fixed_def intro!: f64_nonneg divide_nonneg_nonneg)

lemma to_fixed_mono: "0 \<le> x \<Longrightarrow> x \<le> y \<Longrightarrow> to_fixed d x \<le> to_fixed d y"
  by (auto simp: to_fixed_def intro!: f64_mono divide_right_mono math_round_mono mult_right_mono)

text \<open>The quotient of two integers rounds up to the same integer as a double as it does exactly.\<close>

lemma ceiling_fdiv:
  assumes "0 \<le> a" "a \<le> 2 ^ 52" "0 < b" "b \<le> 2 ^ 52"
  shows "\<lceil>fdiv (of_int a) (of_int b)\<rceil> = (a + b - 1) div b"
proof -
  let ?q = "of_int a / of_int b :: rat" and ?c = "(a + b - 1) div b"
  have mod: "(a + b - 1) mod b < b" "0 \<le> (a + b - 1) mod b" using assms(3) by simp_all
  have dm: "b * ?c + (a + b - 1) mod b = a + b - 1" by (rule mult_div_mod_eq)
  have up: "a \<le> b * ?c" and down: "b * ?c + 1 \<le> a + b" using mod dm by linarith+
  have b: "(0 :: rat) < of_int b" using assms(3) by simp
  have c0: "0 \<le> ?c" using assms by (simp add: pos_imp_zdiv_nonneg_iff)
  have "?c \<le> b * ?c" using c0 assms(3) mult_right_mono [of 1 b ?c] by simp
  then have "is_f64 (of_int ?c)" using c0 down assms by (intro is_f64_of_int) auto
  moreover have "?q \<le> of_int ?c"
    using up b by (simp add: pos_divide_le_eq mult.commute flip: of_int_mult)
  ultimately have hi: "f64 ?q \<le> of_int ?c" by (rule f64_le_is_f64)
  have "(of_int a :: rat) \<le> 2 ^ 52" using assms(2) of_int_le_iff [of a "2 ^ 52", where ?'a = rat] by simp
  then have e1: "?q / 2 ^ 53 * of_int b \<le> 1 / 2" using b by simp
  have "(of_int b :: rat) \<le> of_int (2 ^ 52)" using assms(4) by (simp only: of_int_le_iff)
  also have "\<dots> < 2 ^ 1075 / 2" by simp
  finally have e2: "1 / 2 ^ 1075 * (of_int b :: rat) < 1 / 2" by simp
  have "(?q / 2 ^ 53 + 1 / 2 ^ 1075) * of_int b < 1"
    unfolding distrib_right using add_le_less_mono [OF e1 e2] by simp
  moreover have "0 \<le> ?q" using assms by simp
  then have "\<bar>f64 ?q - ?q\<bar> * of_int b \<le> (?q / 2 ^ 53 + 1 / 2 ^ 1075) * of_int b"
    using f64_error [of ?q] b by (intro mult_right_mono) (auto simp: abs_of_nonneg)
  ultimately have "\<bar>f64 ?q - ?q\<bar> * of_int b < 1" by linarith
  moreover have "(?q - f64 ?q) * of_int b \<le> \<bar>f64 ?q - ?q\<bar> * of_int b"
    using b by (intro mult_right_mono) auto
  ultimately have "?q * of_int b - 1 < f64 ?q * of_int b" unfolding left_diff_distrib by linarith
  moreover have "(of_int ?c - 1) * of_int b \<le> ?q * of_int b - 1"
  proof -
    have "(of_int ((?c - 1) * b) :: rat) \<le> of_int (a - 1)" using down by (simp only: of_int_le_iff) (simp add: algebra_simps)
    then show ?thesis using b by simp
  qed
  ultimately have "(of_int ?c - 1) * of_int b < f64 ?q * of_int b" by linarith
  then have "of_int ?c - 1 < f64 ?q" using b by (simp only: mult_less_cancel_right_pos)
  then show ?thesis using hi by (simp add: fdiv_def ceiling_eq_iff)
qed

end
