(* ===== verification/Prelude.thy ===== *)
theory Prelude
  imports JS_Number "HOL-Library.AList"
begin

text \<open>
  What the components share: the two theorem collections the component proofs draw on, the
  exceptions the code throws, ECMAScript maps as association lists in insertion order, and the
  string functions of the language the source uses.

  Strings are lists of code units below 256; case conversion is that of the ASCII letters.
  A \<open>Map\<close> (and a plain object used as a dictionary) is an association list with distinct keys:
  \<open>AList.update\<close> overwrites in place or appends, as \<open>set\<close> does, and \<open>AList.delete\<close> removes the
  key, so the list order is the iteration order. Deleting visited keys while iterating is
  \<open>map_delete_each\<close>, shown equal to a filter. The locale \<open>bounded_log\<close> is the contract of the
  in-memory ring buffers (newest first, at most \<open>cap\<close> entries).
\<close>

named_theorems preserved \<open>operations keep their component's invariant\<close>
named_theorems unchanged \<open>what an operation leaves alone\<close>

section \<open>Exceptions\<close>

text \<open>The HTTP exceptions of NestJS that the services construct, with their message, and a bare
  \<open>Error\<close>.\<close>

datatype error =
    NotFoundException string
  | BadRequestException string
  | UnauthorizedException string
  | ForbiddenException string
  | ConflictException string
  | InternalServerErrorException string
  | RateLimitExceeded int
  | JsError string

section \<open>Defaults and sums\<close>

text \<open>\<open>x ?? d\<close>, for a value that may be missing.\<close>

definition or_else :: "'a option \<Rightarrow> 'a \<Rightarrow> 'a" where
  "or_else x d = (case x of Some y \<Rightarrow> y | None \<Rightarrow> d)"

lemma or_else_simps [simp]: "or_else None d = d" "or_else (Some y) d = y"
  by (simp_all add: or_else_def)

text \<open>An optional text that is present and not empty, as \<open>if (s)\<close> tests it.\<close>

definition given :: "string option \<Rightarrow> bool" where
  "given x = (case x of Some s \<Rightarrow> s \<noteq> [] | None \<Rightarrow> False)"

text \<open>\<open>xs.reduce((sum, x) => sum + x, 0)\<close>.\<close>

definition fsum :: "rat list \<Rightarrow> rat" where "fsum xs = foldl fadd 0 xs"

section \<open>Maps in insertion order\<close>

type_synonym 'v jsmap = "(string \<times> 'v) list"

abbreviation map_get :: "('k \<times> 'v) list \<Rightarrow> 'k \<Rightarrow> 'v option" where
  "map_get m k \<equiv> map_of m k"

abbreviation map_set :: "'k \<Rightarrow> 'v \<Rightarrow> ('k \<times> 'v) list \<Rightarrow> ('k \<times> 'v) list" where
  "map_set \<equiv> AList.update"

abbreviation map_delete :: "'k \<Rightarrow> ('k \<times> 'v) list \<Rightarrow> ('k \<times> 'v) list" where
  "map_delete \<equiv> AList.delete"

abbreviation map_keys :: "('k \<times> 'v) list \<Rightarrow> 'k list" where
  "map_keys m \<equiv> map fst m"

abbreviation wf_map :: "('k \<times> 'v) list \<Rightarrow> bool" where
  "wf_map m \<equiv> distinct (map_keys m)"

fun map_delete_each ::
  "('k \<Rightarrow> 'v \<Rightarrow> bool) \<Rightarrow> ('k \<times> 'v) list \<Rightarrow> ('k \<times> 'v) list \<Rightarrow> ('k \<times> 'v) list" where
  "map_delete_each P [] m = m"
| "map_delete_each P ((k, v) # es) m = map_delete_each P es (if P k v then map_delete k m else m)"

lemma map_get_set [simp]: "map_get (map_set k v m) k' = (if k' = k then Some v else map_get m k')"
  by (simp add: update_conv')

lemma map_get_delete [simp]: "map_get (map_delete k m) k' = (if k' = k then None else map_get m k')"
  by (simp add: delete_conv')

lemma wf_map_set [simp, intro]: "wf_map m \<Longrightarrow> wf_map (map_set k v m)"
  by (rule distinct_update)

lemma wf_map_delete [simp, intro]: "wf_map m \<Longrightarrow> wf_map (map_delete k m)"
  by (rule distinct_delete)

lemma wf_map_filter [simp, intro]: "wf_map m \<Longrightarrow> wf_map (filter P m)"
  by (rule distinct_map_filter)

lemma set_map_set:
  "wf_map m \<Longrightarrow> set (map_set k v m) = insert (k, v) {p \<in> set m. fst p \<noteq> k}"
  by (induction m) (auto simp: image_iff)

lemma set_map_set_subset: "set (map_set k v m) \<subseteq> insert (k, v) (set m)"
  by (induction m) auto

lemma set_map_delete: "set (map_delete k m) = {p \<in> set m. fst p \<noteq> k}"
  by (auto simp: AList.delete_eq)

lemma map_set_twice [simp]: "map_set k v (map_set k u m) = map_set k v m"
  by (induction m) auto

lemma map_set_new: "map_get m k = None \<Longrightarrow> map_set k v m = m @ [(k, v)]"
  by (induction m) (auto split: if_splits)

lemma map_keys_set: "map_keys (map_set k v m) = (if k \<in> fst ` set m then map_keys m else map_keys m @ [k])"
  by (simp add: update_keys)

lemma length_map_set:
  "length (map_set k v m) = (if map_get m k = None then Suc (length m) else length m)"
  by (induction m) (auto split: if_splits)

lemma map_get_filter:
  "wf_map m \<Longrightarrow>
   map_get (filter (\<lambda>(k, v). P k v) m) k =
     (case map_get m k of None \<Rightarrow> None | Some v \<Rightarrow> if P k v then Some v else None)"
  by (induction m) (auto split: option.splits dest!: map_of_SomeD simp: rev_image_eqI)

lemma map_get_None_iff: "map_get m k = None \<longleftrightarrow> k \<notin> set (map_keys m)"
  by (simp add: map_of_eq_None_iff)

lemma map_delete_each_filter_aux:
  "distinct (map_keys es) \<Longrightarrow>
   map_delete_each P es m = filter (\<lambda>(k, v). \<forall>u. (k, u) \<in> set es \<longrightarrow> \<not> P k u) m"
proof (induction es arbitrary: m)
  case Nil
  then show ?case by (auto intro!: filter_True [symmetric])
next
  case (Cons e es)
  obtain k v where e: "e = (k, v)" by (cases e)
  then show ?case using Cons
    by (auto simp: AList.delete_eq image_iff intro!: filter_cong)
qed

theorem map_delete_each_filter:
  assumes "wf_map m" shows "map_delete_each P m m = filter (\<lambda>(k, v). \<not> P k v) m"
  unfolding map_delete_each_filter_aux [OF assms]
  using assms by (intro filter_cong) (auto dest: eq_key_imp_eq_value)

section \<open>Strings\<close>

definition starts_with :: "string \<Rightarrow> string \<Rightarrow> bool" where
  "starts_with s p \<longleftrightarrow> take (length p) s = p"

definition ends_with :: "string \<Rightarrow> string \<Rightarrow> bool" where
  "ends_with s p \<longleftrightarrow> length p \<le> length s \<and> drop (length s - length p) s = p"

fun str_includes :: "string \<Rightarrow> string \<Rightarrow> bool" where
  "str_includes [] p = (p = [])"
| "str_includes (c # cs) p = (starts_with (c # cs) p \<or> str_includes cs p)"

definition is_js_space :: "char \<Rightarrow> bool" where
  "is_js_space c \<longleftrightarrow> of_char c \<in> {9, 10, 11, 12, 13, 32, 160 :: nat}"

definition js_trim :: "string \<Rightarrow> string" where
  "js_trim s = rev (dropWhile is_js_space (rev (dropWhile is_js_space s)))"

definition upper_char :: "char \<Rightarrow> char" where
  "upper_char c = (if 97 \<le> (of_char c :: nat) \<and> (of_char c :: nat) \<le> 122
     then char_of ((of_char c :: nat) - 32) else c)"

definition lower_char :: "char \<Rightarrow> char" where
  "lower_char c = (if 65 \<le> (of_char c :: nat) \<and> (of_char c :: nat) \<le> 90
     then char_of ((of_char c :: nat) + 32) else c)"

definition to_upper :: "string \<Rightarrow> string" where "to_upper s = map upper_char s"
definition to_lower :: "string \<Rightarrow> string" where "to_lower s = map lower_char s"

fun split_on :: "char \<Rightarrow> string \<Rightarrow> string list" where
  "split_on c [] = [[]]"
| "split_on c (x # xs) =
     (if x = c then [] # split_on c xs
      else (case split_on c xs of [] \<Rightarrow> [[x]] | y # ys \<Rightarrow> (x # y) # ys))"

fun join :: "string \<Rightarrow> string list \<Rightarrow> string" where
  "join sep [] = []"
| "join sep [x] = x"
| "join sep (x # y # ys) = x @ sep @ join sep (y # ys)"

lemma starts_with_append [simp]: "starts_with (p @ s) p"
  by (simp add: starts_with_def)

lemma starts_with_iff: "starts_with s p \<longleftrightarrow> (\<exists>t. s = p @ t)"
  by (auto simp: starts_with_def) (metis append_take_drop_id)

lemma split_on_neq_Nil [simp]: "split_on c s \<noteq> []"
  by (cases s) (auto split: list.splits)

lemma split_on_free: "p \<in> set (split_on c s) \<Longrightarrow> c \<notin> set p"
  by (induction s arbitrary: p) (auto split: if_splits list.splits)

theorem join_split_on: "join [c] (split_on c s) = s"
proof (induction s)
  case (Cons x xs)
  obtain y ys where s: "split_on c xs = y # ys" by (cases "split_on c xs") auto
  with Cons show ?case by (cases ys) auto
qed simp

lemma split_on_no_sep: "c \<notin> set s \<Longrightarrow> split_on c s = [s]"
  by (induction s) auto

lemma split_on_append: "c \<notin> set p \<Longrightarrow> split_on c (p @ c # s) = p # split_on c s"
  by (induction p) auto

lemma hd_split_on_free: "c \<notin> set s \<Longrightarrow> hd (split_on c (s @ c # t)) = s"
  by (simp add: split_on_append)

lemma split_on_join: "ps \<noteq> [] \<Longrightarrow> \<forall>p \<in> set ps. c \<notin> set p \<Longrightarrow> split_on c (join [c] ps) = ps"
proof (induction "[c]" ps rule: join.induct)
  case (3 x y ys)
  then show ?case using split_on_append [of c x "join [c] (y # ys)"] by simp
qed (simp_all add: split_on_no_sep)

lemma find_append: "List.find P (xs @ ys) = (case List.find P xs of None \<Rightarrow> List.find P ys | Some x \<Rightarrow> Some x)"
  by (induction xs) auto

text \<open>\<open>xs.slice(0, n)\<close>: a negative end counts from the back.\<close>

definition slice_to :: "int \<Rightarrow> 'a list \<Rightarrow> 'a list" where
  "slice_to n xs = take (nat (if n < 0 then int (length xs) + n else n)) xs"

text \<open>\<open>xs.slice(n)\<close>: a negative start counts from the back.\<close>

definition slice_from :: "int \<Rightarrow> 'a list \<Rightarrow> 'a list" where
  "slice_from n xs = drop (nat (if n < 0 then int (length xs) + n else n)) xs"

lemma length_slice_from_neg: "0 < n \<Longrightarrow> length (slice_from (- int n) xs) = min n (length xs)"
  by (simp add: slice_from_def)

section \<open>Bounded buffers\<close>

text \<open>The in-memory buffers of the monitoring services: an entry goes to the front, and the last
  one is dropped when the buffer has outgrown its capacity.\<close>

definition unshift_bounded :: "nat \<Rightarrow> 'a \<Rightarrow> 'a list \<Rightarrow> 'a list" where
  "unshift_bounded cap x xs =
     (let ys = x # xs in if cap < length ys then butlast ys else ys)"

locale bounded_log =
  fixes items :: "'s \<Rightarrow> 'a list"
    and add :: "'e \<Rightarrow> 's \<Rightarrow> 's"
    and entry :: "'e \<Rightarrow> 's \<Rightarrow> 'a"
    and cap :: nat
  assumes items_add: "items (add e s) = unshift_bounded cap (entry e s) (items s)"
begin

lemma length_add: "length (items s) \<le> cap \<Longrightarrow> length (items (add e s)) \<le> cap"
  by (simp add: items_add unshift_bounded_def Let_def)

lemma add_take: "length (items s) \<le> cap \<Longrightarrow> items (add e s) = take cap (entry e s # items s)"
  by (cases "length (items s) = cap")
    (auto simp: items_add unshift_bounded_def Let_def butlast_conv_take)

lemma newest_first: "0 < cap \<Longrightarrow> length (items s) \<le> cap \<Longrightarrow> hd (items (add e s)) = entry e s"
  by (simp add: add_take take_Cons' )

lemma length_run: "length (items s) \<le> cap \<Longrightarrow> length (items (foldl (\<lambda>s e. add e s) s es)) \<le> cap"
  by (induction es arbitrary: s) (auto intro: length_add)

end

end
