(* ===== verification/Rate_Algorithms.thy ===== *)
theory Rate_Algorithms
  imports Prelude
begin

text \<open>
  The two limiters of src/rate-limit/rate-limit.algorithms.ts and the types of
  src/rate-limit/rate-limit.types.ts.

  Limits, windows and timestamps are whole numbers (the configuration loader only lets positive
  integers through); the bucket level, the refill rate and the waiting times are doubles. The
  locale \<open>limiter\<close> is what \<open>RateLimitService\<close> relies on: results within bounds, the invariant
  kept, and a decision that reads and writes only the state of its own key. Both limiters
  interpret it, and the isolation of clients is proved once inside it.
\<close>

section \<open>Policies and results\<close>

datatype algorithm = TokenBucket | SlidingWindow

record policy =
  limit :: int
  windowMs :: int
  algorithm :: algorithm

record result =
  allowed :: bool
  r_limit :: int
  remaining :: int
  resetAt :: int
  retryAfterMs :: int

definition policy_ok :: "policy \<Rightarrow> bool" where
  "policy_ok p \<longleftrightarrow> 0 < limit p \<and> limit p \<le> 2 ^ 53 \<and> 0 < windowMs p \<and> windowMs p \<le> 2 ^ 53"

definition result_ok :: "policy \<Rightarrow> int \<Rightarrow> result \<Rightarrow> bool" where
  "result_ok p now r \<longleftrightarrow>
     r_limit r = limit p \<and> 0 \<le> remaining r \<and> now \<le> resetAt r \<and>
     (if allowed r then remaining r < limit p \<and> retryAfterMs r = 0
      else remaining r = 0 \<and> 1 \<le> retryAfterMs r)"

section \<open>Token bucket\<close>

record bucket =
  tokens :: rat
  lastRefill :: int
  b_limit :: int
  b_windowMs :: int

definition refillRate :: "policy \<Rightarrow> rat" where
  "refillRate p = fdiv (of_int (limit p)) (of_int (windowMs p))"

definition bucket_for :: "string \<Rightarrow> policy \<Rightarrow> int \<Rightarrow> bucket jsmap \<Rightarrow> bucket" where
  "bucket_for key p now m =
     (let fresh = \<lparr>tokens = of_int (limit p), lastRefill = now, b_limit = limit p,
                    b_windowMs = windowMs p\<rparr>
      in case map_get m key of
           None \<Rightarrow> fresh
         | Some b \<Rightarrow> if b_limit b \<noteq> limit p \<or> b_windowMs b \<noteq> windowMs p then fresh else b)"

definition refilled :: "policy \<Rightarrow> int \<Rightarrow> bucket \<Rightarrow> rat" where
  "refilled p now b =
     (let elapsed = max 0 (now - lastRefill b)
      in min (of_int (limit p)) (fadd (tokens b) (fmul (of_int elapsed) (refillRate p))))"

definition take_token :: "policy \<Rightarrow> int \<Rightarrow> bucket \<Rightarrow> result \<times> bucket" where
  "take_token p now b =
     (let rate = refillRate p;
          level = refilled p now b;
          ok = (1 \<le> level);
          left = (if ok then fsub level 1 else level)
      in (\<lparr>allowed = ok,
            r_limit = limit p,
            remaining = max 0 \<lfloor>left\<rfloor>,
            resetAt = now + \<lceil>fdiv (fsub (of_int (limit p)) left) rate\<rceil>,
            retryAfterMs = (if ok then 0 else max 1 \<lceil>fdiv (fsub 1 left) rate\<rceil>)\<rparr>,
          b\<lparr>tokens := left, lastRefill := now\<rparr>))"

definition tb_consume ::
  "string \<Rightarrow> policy \<Rightarrow> int \<Rightarrow> bucket jsmap \<Rightarrow> result \<times> bucket jsmap" where
  "tb_consume key p now m =
     (let (r, b) = take_token p now (bucket_for key p now m) in (r, map_set key b m))"

definition tb_prune :: "int \<Rightarrow> bucket jsmap \<Rightarrow> bucket jsmap" where
  "tb_prune olderThan m = map_delete_each (\<lambda>_ b. lastRefill b < olderThan) m m"

section \<open>Sliding window\<close>

record window =
  timestamps :: "int list"
  lastSeen :: int

definition sw_consume ::
  "string \<Rightarrow> policy \<Rightarrow> int \<Rightarrow> window jsmap \<Rightarrow> result \<times> window jsmap" where
  "sw_consume key p now m =
     (let cutoff = now - windowMs p;
          state = (case map_get m key of Some w \<Rightarrow> w | None \<Rightarrow> \<lparr>timestamps = [], lastSeen = now\<rparr>);
          live = filter (\<lambda>t. cutoff < t) (timestamps state);
          ok = int (length live) < limit p;
          stamps = (if ok then live @ [now] else live);
          reset = (case stamps of [] \<Rightarrow> now + windowMs p | oldest # _ \<Rightarrow> oldest + windowMs p)
      in (\<lparr>allowed = ok,
            r_limit = limit p,
            remaining = max 0 (limit p - int (length stamps)),
            resetAt = reset,
            retryAfterMs = (if ok then 0 else max 1 (reset - now))\<rparr>,
          map_set key (state\<lparr>timestamps := stamps, lastSeen := now\<rparr>) m))"

definition sw_prune :: "int \<Rightarrow> window jsmap \<Rightarrow> window jsmap" where
  "sw_prune olderThan m = map_delete_each (\<lambda>_ w. lastSeen w < olderThan) m m"

section \<open>The contract of a limiter\<close>

text \<open>The answers one client gets when a sequence of requests (key, policy, time) is served.\<close>

primrec decisions ::
  "(string \<Rightarrow> policy \<Rightarrow> int \<Rightarrow> 's \<Rightarrow> result \<times> 's) \<Rightarrow> string \<Rightarrow>
   (string \<times> policy \<times> int) list \<Rightarrow> 's \<Rightarrow> result list" where
  "decisions consume k [] s = []"
| "decisions consume k (q # qs) s =
     (let (r, s') = consume (fst q) (fst (snd q)) (snd (snd q)) s
      in if fst q = k then r # decisions consume k qs s' else decisions consume k qs s')"

locale limiter =
  fixes consume :: "string \<Rightarrow> policy \<Rightarrow> int \<Rightarrow> 's \<Rightarrow> result \<times> 's"
    and prune :: "int \<Rightarrow> 's \<Rightarrow> 's"
    and inv :: "'s \<Rightarrow> bool"
    and entry :: "'s \<Rightarrow> string \<Rightarrow> 'e option"
    and seen :: "'e \<Rightarrow> int"
  assumes consume_result: "inv s \<Longrightarrow> policy_ok p \<Longrightarrow> result_ok p now (fst (consume key p now s))"
    and consume_inv: "inv s \<Longrightarrow> policy_ok p \<Longrightarrow> inv (snd (consume key p now s))"
    and consume_other: "key' \<noteq> key \<Longrightarrow> entry (snd (consume key p now s)) key' = entry s key'"
    and consume_result_local:
      "entry s key = entry t key \<Longrightarrow> fst (consume key p now s) = fst (consume key p now t)"
    and consume_entry_local:
      "entry s key = entry t key \<Longrightarrow>
       entry (snd (consume key p now s)) key = entry (snd (consume key p now t)) key"
    and prune_inv: "inv s \<Longrightarrow> inv (prune cutoff s)"
    and prune_entry: "inv s \<Longrightarrow> entry (prune cutoff s) key =
      (case entry s key of None \<Rightarrow> None | Some e \<Rightarrow> if seen e < cutoff then None else Some e)"
begin

lemma decisions_local:
  "entry s k = entry t k \<Longrightarrow> decisions consume k qs s = decisions consume k (filter (\<lambda>q. fst q = k) qs) t"
proof (induction qs arbitrary: s t)
  case (Cons q qs)
  obtain key p now where q: "q = (key, p, now)" by (cases q)
  show ?case
  proof (cases "key = k")
    case True
    with Cons.prems consume_result_local [of s k t p now] consume_entry_local [of s k t p now]
      Cons.IH [of "snd (consume k p now s)" "snd (consume k p now t)"]
    show ?thesis by (simp add: q case_prod_beta Let_def)
  next
    case False
    with Cons.prems have "entry (snd (consume key p now s)) k = entry t k"
      by (simp add: consume_other)
    with False Cons.IH [of _ t] show ?thesis by (simp add: q case_prod_beta Let_def)
  qed
qed simp

lemma isolation: "decisions consume k qs s = decisions consume k (filter (\<lambda>q. fst q = k) qs) s"
  by (rule decisions_local) simp

lemma prune_keeps: "inv s \<Longrightarrow> entry s key = Some e \<Longrightarrow> cutoff \<le> seen e \<Longrightarrow>
   fst (consume key p now (prune cutoff s)) = fst (consume key p now s)"
  by (rule consume_result_local) (simp add: prune_entry)

end

end
