(* ===== verification/Sliding_Window.thy ===== *)
theory Sliding_Window
  imports Rate_Algorithms
begin

text \<open>
  Correctness of \<open>SlidingWindowRateLimiter\<close>: in every window of \<open>windowMs\<close> milliseconds at most
  \<open>limit\<close> requests of a client are admitted, and a rejected client that waits \<open>retryAfterMs\<close>
  without sending is admitted.
\<close>

definition windows_ok :: "window jsmap \<Rightarrow> bool" where
  "windows_ok m \<longleftrightarrow> wf_map m"

definition live_stamps :: "string \<Rightarrow> policy \<Rightarrow> int \<Rightarrow> window jsmap \<Rightarrow> int list" where
  "live_stamps key p now m = filter (\<lambda>t. now - windowMs p < t)
     (case map_get m key of Some w \<Rightarrow> timestamps w | None \<Rightarrow> [])"

lemma sw_allowed:
  "allowed (fst (sw_consume key p now m)) \<longleftrightarrow> int (length (live_stamps key p now m)) < limit p"
  by (simp add: sw_consume_def live_stamps_def Let_def split: option.split)

lemma sw_entry:
  "map_get (snd (sw_consume key p now m)) key =
     Some \<lparr>timestamps = (if int (length (live_stamps key p now m)) < limit p
            then live_stamps key p now m @ [now] else live_stamps key p now m), lastSeen = now\<rparr>"
  by (simp add: sw_consume_def live_stamps_def Let_def split: option.split)

lemma live_stamps_bound: "t \<in> set (live_stamps key p now m) \<Longrightarrow> now - windowMs p < t"
  by (auto simp: live_stamps_def)

lemma sw_retry:
  "\<not> allowed (fst (sw_consume key p now m)) \<Longrightarrow> 0 < limit p \<Longrightarrow>
   retryAfterMs (fst (sw_consume key p now m)) =
     max 1 (hd (live_stamps key p now m) + windowMs p - now)"
  by (cases "live_stamps key p now m")
    (auto simp: sw_consume_def live_stamps_def Let_def split: option.splits)

lemma sw_result_ok:
  assumes "policy_ok p" shows "result_ok p now (fst (sw_consume key p now m))"
proof -
  define live where "live = live_stamps key p now m"
  have c: "fst (sw_consume key p now m) =
    (let ok = int (length live) < limit p;
         stamps = (if ok then live @ [now] else live);
         reset = (case stamps of [] \<Rightarrow> now + windowMs p | oldest # _ \<Rightarrow> oldest + windowMs p)
     in \<lparr>allowed = ok, r_limit = limit p, remaining = max 0 (limit p - int (length stamps)),
         resetAt = reset, retryAfterMs = (if ok then 0 else max 1 (reset - now))\<rparr>)"
    by (simp add: sw_consume_def live_def live_stamps_def Let_def split: option.split)
  have "\<And>t. t \<in> set live \<Longrightarrow> now \<le> t + windowMs p"
    using live_stamps_bound [of _ key p now m] by (fastforce simp: live_def)
  then show ?thesis using assms unfolding c
    by (cases live) (auto simp: result_ok_def policy_ok_def Let_def)
qed

interpretation sw: limiter sw_consume sw_prune windows_ok map_get lastSeen
proof
  fix m m' :: "window jsmap" and p key key' now cutoff
  show "policy_ok p \<Longrightarrow> result_ok p now (fst (sw_consume key p now m))"
    by (rule sw_result_ok)
  show "windows_ok m \<Longrightarrow> windows_ok (snd (sw_consume key p now m))"
    by (auto simp: windows_ok_def sw_consume_def Let_def)
  show "key' \<noteq> key \<Longrightarrow> map_get (snd (sw_consume key p now m)) key' = map_get m key'"
    by (simp add: sw_consume_def Let_def)
  show "map_get m key = map_get m' key \<Longrightarrow>
      fst (sw_consume key p now m) = fst (sw_consume key p now m')"
    by (simp add: sw_consume_def Let_def)
  show "map_get m key = map_get m' key \<Longrightarrow>
      map_get (snd (sw_consume key p now m)) key = map_get (snd (sw_consume key p now m')) key"
    by (simp add: sw_consume_def Let_def)
  show "windows_ok m \<Longrightarrow> windows_ok (sw_prune cutoff m)"
    by (auto simp: windows_ok_def sw_prune_def map_delete_each_filter)
  show "windows_ok m \<Longrightarrow> map_get (sw_prune cutoff m) key =
      (case map_get m key of None \<Rightarrow> None | Some e \<Rightarrow> if lastSeen e < cutoff then None else Some e)"
    by (auto simp: windows_ok_def sw_prune_def map_delete_each_filter map_get_filter split: option.split)
qed

section \<open>No window holds more than the limit\<close>

text \<open>The times at which a client's requests were admitted, and the map after them.\<close>

fun sw_admitted :: "string \<Rightarrow> policy \<Rightarrow> int list \<Rightarrow> window jsmap \<Rightarrow> int list" where
  "sw_admitted key p [] m = []"
| "sw_admitted key p (t # ts) m =
     (let (r, m') = sw_consume key p t m
      in (if allowed r then [t] else []) @ sw_admitted key p ts m')"

definition in_window :: "policy \<Rightarrow> int \<Rightarrow> int list \<Rightarrow> nat" where
  "in_window p x A = length (filter (\<lambda>t. x - windowMs p < t \<and> t \<le> x) A)"

definition window_bounded :: "policy \<Rightarrow> int list \<Rightarrow> bool" where
  "window_bounded p A \<longleftrightarrow> (\<forall>x. int (in_window p x A) \<le> limit p)"

lemma length_filter_mono:
  "(\<And>x. x \<in> set xs \<Longrightarrow> P x \<Longrightarrow> Q x) \<Longrightarrow> length (filter P xs) \<le> length (filter Q xs)"
  by (induction xs) (auto simp: le_SucI)

lemma window_bounded_append:
  assumes A: "window_bounded p A" and le: "\<forall>a \<in> set A. a \<le> t"
    and live: "int (length (filter (\<lambda>a. t - windowMs p < a) A)) < limit p"
  shows "window_bounded p (A @ [t])"
  unfolding window_bounded_def
proof
  fix x
  show "int (in_window p x (A @ [t])) \<le> limit p"
  proof (cases "t \<le> x")
    case True
    have "length (filter (\<lambda>a. x - windowMs p < a \<and> a \<le> x) A) \<le>
        length (filter (\<lambda>a. t - windowMs p < a) A)"
      using True by (intro length_filter_mono) auto
    with live show ?thesis by (auto simp: in_window_def)
  next
    case False
    with A show ?thesis by (auto simp: in_window_def window_bounded_def)
  qed
qed

lemma sw_admitted_bounded:
  assumes "0 < windowMs p" "sorted ts" "window_bounded p A"
    "\<forall>a \<in> set A. \<forall>t \<in> set ts. a \<le> t"
    "\<forall>t \<in> set ts. live_stamps key p t m = filter (\<lambda>a. t - windowMs p < a) A"
  shows "window_bounded p (A @ sw_admitted key p ts m)"
  using assms
proof (induction ts arbitrary: A m)
  case (Cons t ts)
  let ?m = "snd (sw_consume key p t m)"
  let ?A = "if allowed (fst (sw_consume key p t m)) then A @ [t] else A"
  have live: "live_stamps key p t m = filter (\<lambda>a. t - windowMs p < a) A" using Cons.prems by simp
  have "window_bounded p (?A @ sw_admitted key p ts ?m)"
  proof (rule Cons.IH)
    show "window_bounded p ?A"
      using Cons.prems by (auto simp: sw_allowed live intro!: window_bounded_append)
    show "\<forall>u \<in> set ts. live_stamps key p u ?m = filter (\<lambda>a. u - windowMs p < a) ?A"
    proof
      fix u assume "u \<in> set ts"
      with Cons.prems have u: "t \<le> u" by simp
      have "filter (\<lambda>a. u - windowMs p < a \<and> t - windowMs p < a) A =
          filter (\<lambda>a. u - windowMs p < a) A"
        using u by (intro filter_cong) auto
      then show "live_stamps key p u ?m = filter (\<lambda>a. u - windowMs p < a) ?A"
        by (simp add: live_stamps_def [of _ _ u] sw_entry sw_allowed live conj_commute)
    qed
  qed (use Cons.prems in auto)
  then show ?case by (simp add: case_prod_beta Let_def split: if_splits)
qed simp

text \<open>C2. Sliding-window safety. Whatever the arrival times of a client's requests, every window of
  \<open>windowMs\<close> milliseconds contains at most \<open>limit\<close> admitted ones.\<close>

theorem sliding_window_bound:
  assumes "policy_ok p" "sorted ts" "map_get m key = None"
  shows "int (in_window p x (sw_admitted key p ts m)) \<le> limit p"
proof -
  have "window_bounded p ([] @ sw_admitted key p ts m)"
    using assms by (intro sw_admitted_bounded)
      (auto simp: policy_ok_def window_bounded_def in_window_def live_stamps_def)
  then show ?thesis by (simp add: window_bounded_def)
qed

definition two_per_second :: policy where
  "two_per_second = \<lparr>limit = 2, windowMs = 1000, algorithm = SlidingWindow\<rparr>"

theorem sliding_window_bound_witness:
  "sw_admitted ''u'' two_per_second [0, 10, 20, 1005] [] = [0, 10, 1005] \<and>
   int (in_window two_per_second 1005 (sw_admitted ''u'' two_per_second [0, 10, 20, 1005] [])) \<le> 2"
  using sliding_window_bound [of two_per_second "[0, 10, 20, 1005]" "[]" "''u''" 1005]
  by (simp add: policy_ok_def two_per_second_def sw_consume_def Let_def)

section \<open>Waiting as told\<close>

lemma hd_expired:
  fixes c :: int assumes "xs \<noteq> []" "hd xs \<le> c" shows "length (filter (\<lambda>t. c < t) xs) < length xs"
  using assms by (cases xs) (auto simp: le_imp_less_Suc)

text \<open>The number of stored time stamps of a key never exceeds the limit of a constant policy.\<close>

lemma sw_stored_le_limit:
  assumes "0 \<le> limit p" "\<forall>w. map_get m key = Some w \<longrightarrow> int (length (timestamps w)) \<le> limit p"
  shows "\<forall>w. map_get (snd (sw_consume key p t m)) key = Some w \<longrightarrow>
     int (length (timestamps w)) \<le> limit p"
proof -
  have "int (length (live_stamps key p t m)) \<le> limit p"
  proof (cases "map_get m key")
    case (Some w)
    then have "length (live_stamps key p t m) \<le> length (timestamps w)"
      by (simp add: live_stamps_def)
    with Some assms(2) show ?thesis by force
  qed (use assms(1) in \<open>simp add: live_stamps_def\<close>)
  then show ?thesis by (auto simp: sw_entry)
qed

text \<open>Sliding-window progress. A rejected client that sends nothing for \<open>retryAfterMs\<close> is
  admitted by its next request.\<close>

theorem sliding_retry_admitted:
  assumes "policy_ok p" "\<forall>w. map_get m key = Some w \<longrightarrow> int (length (timestamps w)) \<le> limit p"
    "sw_consume key p now m = (r, m')" "\<not> allowed r" "now + retryAfterMs r \<le> later"
  shows "allowed (fst (sw_consume key p later m'))"
proof -
  let ?live = "live_stamps key p now m"
  have r: "r = fst (sw_consume key p now m)" and m': "m' = snd (sw_consume key p now m)"
    using assms(3) by auto
  have full: "\<not> int (length ?live) < limit p" using assms(4) by (simp add: r sw_allowed)
  then have "?live \<noteq> []" using assms(1) by (auto simp: policy_ok_def)
  have "hd ?live \<le> later - windowMs p"
    using assms(1,4,5) sw_retry [of key p now m] by (simp add: r policy_ok_def)
  with \<open>?live \<noteq> []\<close> have "length (filter (\<lambda>t. later - windowMs p < t) ?live) < length ?live"
    by (rule hd_expired)
  moreover have "int (length ?live) \<le> limit p"
    using sw_stored_le_limit [OF _ assms(2), of now] assms(1) full
    by (simp add: sw_entry policy_ok_def)
  ultimately show ?thesis
    using full by (simp add: sw_allowed live_stamps_def [of _ _ later] m' sw_entry)
qed

theorem sliding_retry_admitted_witness:
  "allowed (fst (sw_consume ''u'' two_per_second 1000
     [(''u'', \<lparr>timestamps = [0, 10], lastSeen = 20\<rparr>)]))"
  using sliding_retry_admitted [of two_per_second "[(''u'', \<lparr>timestamps = [0, 10], lastSeen = 10\<rparr>)]"
      "''u''" 20 "\<lparr>allowed = False, r_limit = 2, remaining = 0, resetAt = 1000, retryAfterMs = 980\<rparr>"
      "[(''u'', \<lparr>timestamps = [0, 10], lastSeen = 20\<rparr>)]" 1000]
  by (simp add: policy_ok_def two_per_second_def sw_consume_def Let_def)

end
