(* ===== verification/JS_Text.thy ===== *)
theory JS_Text
  imports Prelude
begin

text \<open>
  Text and JSON as the language reads and prints them: decimal printing of whole numbers,
  \<open>Number(s)\<close> for strings (\<open>number_of_string\<close>, decimal, hexadecimal, octal and binary literals;
  \<open>None\<close> is NaN or an infinity), JSON values and \<open>Number(v)\<close> for them. The conversion from
  decimal text rounds the exact value once, as the standard requires of literals of up to
  twenty significant digits.
\<close>

section \<open>Printing whole numbers\<close>

fun digits_of :: "nat \<Rightarrow> string" where
  "digits_of n = (if n < 10 then [char_of (48 + n)] else digits_of (n div 10) @ [char_of (48 + n mod 10)])"

declare digits_of.simps [simp del]

definition string_of_int :: "int \<Rightarrow> string" where
  "string_of_int i = (if i < 0 then CHR ''-'' # digits_of (nat (- i)) else digits_of (nat i))"

definition digit_value :: "char \<Rightarrow> nat option" where
  "digit_value c = (let n = of_char c :: nat in
     if 48 \<le> n \<and> n \<le> 57 then Some (n - 48)
     else if 97 \<le> n \<and> n \<le> 122 then Some (n - 87)
     else if 65 \<le> n \<and> n \<le> 90 then Some (n - 55) else None)"

fun parse_digits :: "nat \<Rightarrow> nat \<Rightarrow> string \<Rightarrow> nat option" where
  "parse_digits base acc [] = Some acc"
| "parse_digits base acc (c # cs) =
     (case digit_value c of None \<Rightarrow> None
      | Some d \<Rightarrow> if d < base then parse_digits base (acc * base + d) cs else None)"

lemma digit_value_digit: "d < 10 \<Longrightarrow> digit_value (char_of (48 + d)) = Some d"
  by (simp add: digit_value_def Let_def of_char_of)

lemma parse_digits_append:
  "parse_digits b acc (xs @ ys) =
     (case parse_digits b acc xs of None \<Rightarrow> None | Some a \<Rightarrow> parse_digits b a ys)"
  by (induction xs arbitrary: acc) (auto split: option.split)

lemma digits_of_nonempty [simp]: "digits_of n \<noteq> []"
  by (subst digits_of.simps) simp

lemma parse_digits_of: "parse_digits 10 0 (digits_of n) = Some n"
proof (induction n rule: digits_of.induct)
  case (1 n)
  show ?case
  proof (cases "n < 10")
    case True
    then show ?thesis by (subst digits_of.simps) (simp add: digit_value_digit)
  next
    case False
    with 1 show ?thesis
      by (subst digits_of.simps) (simp add: parse_digits_append digit_value_digit)
  qed
qed

lemma digits_of_digit: "c \<in> set (digits_of n) \<Longrightarrow> \<exists>d<(10::nat). c = char_of (48 + d)"
proof (induction n rule: digits_of.induct)
  case (1 n)
  show ?case
  proof (cases "n < 10")
    case True
    with "1.prems" show ?thesis by (subst (asm) digits_of.simps) auto
  next
    case False
    have "\<exists>d<(10::nat). char_of (48 + n mod 10) = (char_of (48 + d) :: char)"
      by (intro exI [of _ "n mod 10"]) simp
    with False 1 show ?thesis by (subst (asm) (2) digits_of.simps) auto
  qed
qed

lemma inj_digits_of: "digits_of m = digits_of n \<Longrightarrow> m = n"
  by (metis option.inject parse_digits_of)

section \<open>Reading numbers\<close>

definition split_at_char :: "char \<Rightarrow> string \<Rightarrow> string \<times> string option" where
  "split_at_char c s = (let a = takeWhile (\<lambda>x. x \<noteq> c) s; r = dropWhile (\<lambda>x. x \<noteq> c) s
     in (a, if r = [] then None else Some (tl r)))"

text \<open>An unsigned decimal literal: digits, an optional fraction and an optional exponent; at least
  one digit before or after the point.\<close>

definition parse_exponent :: "string \<Rightarrow> int option" where
  "parse_exponent s =
     (let (neg, ds) = (case s of [] \<Rightarrow> (False, []) | c # cs \<Rightarrow>
                         if c = CHR ''-'' then (True, cs) else if c = CHR ''+'' then (False, cs)
                         else (False, s))
      in if ds = [] then None
         else map_option (\<lambda>n. if neg then - int n else int n) (parse_digits 10 0 ds))"

definition parse_decimal :: "string \<Rightarrow> rat option" where
  "parse_decimal s =
     (let (mantissa, ex) = split_at_char (CHR ''e'') (map (\<lambda>c. if c = CHR ''E'' then CHR ''e'' else c) s);
          (whole, frac) = split_at_char (CHR ''.'') mantissa;
          fdigits = (case frac of None \<Rightarrow> [] | Some f \<Rightarrow> f)
      in if whole @ fdigits = [] then None
         else (case (parse_digits 10 0 (whole @ fdigits),
                     case ex of None \<Rightarrow> Some 0 | Some e \<Rightarrow> parse_exponent e) of
                 (Some n, Some e) \<Rightarrow> Some (f64 (of_nat n * 10 powi (e - int (length fdigits))))
               | _ \<Rightarrow> None))"

definition parse_radix :: "nat \<Rightarrow> string \<Rightarrow> rat option" where
  "parse_radix base s = (if s = [] then None else map_option (\<lambda>n. f64 (of_nat n)) (parse_digits base 0 s))"

definition number_of_string :: "string \<Rightarrow> rat option" where
  "number_of_string str =
     (let s = js_trim str in
      if s = [] then Some 0
      else if starts_with (to_lower s) ''0x'' then parse_radix 16 (drop 2 s)
      else if starts_with (to_lower s) ''0o'' then parse_radix 8 (drop 2 s)
      else if starts_with (to_lower s) ''0b'' then parse_radix 2 (drop 2 s)
      else if starts_with s ''-'' then map_option uminus (parse_decimal (drop 1 s))
      else if starts_with s ''+'' then parse_decimal (drop 1 s)
      else parse_decimal s)"

definition is_integer :: "rat \<Rightarrow> bool" where
  "is_integer x \<longleftrightarrow> of_int \<lfloor>x\<rfloor> = x"

section \<open>JSON values\<close>

datatype json =
    JNull
  | JBool bool
  | JNum rat
  | JStr string
  | JArr "json list"
  | JObj "(string \<times> json) list"

text \<open>\<open>Number(v)\<close>. An array converts through its text: empty to 0, a single element as that
  element's text (\<open>null\<close> being empty, a boolean a word), and several contain a comma.\<close>

fun number_of_json :: "json \<Rightarrow> rat option" where
  "number_of_json JNull = Some 0"
| "number_of_json (JBool b) = Some (if b then 1 else 0)"
| "number_of_json (JNum n) = Some n"
| "number_of_json (JStr s) = number_of_string s"
| "number_of_json (JArr []) = Some 0"
| "number_of_json (JArr [JBool b]) = None"
| "number_of_json (JArr [x]) = number_of_json x"
| "number_of_json (JArr (x # y # zs)) = None"
| "number_of_json (JObj fs) = None"

text \<open>The values \<open>!v\<close> holds of.\<close>

definition falsy :: "json \<Rightarrow> bool" where
  "falsy j = (j = JNull \<or> j = JBool False \<or> j = JNum 0 \<or> j = JStr [])"

end
