(* ===== verification/Rate_Config.thy ===== *)
theory Rate_Config
  imports JS_Text Rate_Algorithms
begin

text \<open>
  The configuration loader src/rate-limit/rate-limit.config.ts, over the environment as a
  dictionary. \<open>JSON.parse\<close> is an argument (\<open>None\<close> when it throws). Whatever the environment says,
  the loaded policies have positive whole limits and windows.
\<close>

datatype scope = Ip | User | Endpoint

record endpoint_policy = policy +
  e_path :: string
  e_method :: "string option"
  e_scope :: scope

record configuration =
  enabled :: bool
  failOpen :: bool
  ip_policy :: policy
  user_policy :: policy
  endpoints :: "endpoint_policy list"
  wl_ips :: "string list"
  wl_userIds :: "string list"
  wl_apiKeys :: "string list"

definition DEFAULT_WINDOW_MS :: int where "DEFAULT_WINDOW_MS = 60000"

definition positiveInteger :: "string option \<Rightarrow> int \<Rightarrow> int" where
  "positiveInteger value fallback =
     (case value of
        None \<Rightarrow> fallback
      | Some v \<Rightarrow>
          if js_trim v = [] then fallback
          else (case number_of_string v of
                  None \<Rightarrow> fallback
                | Some parsed \<Rightarrow> if is_integer parsed \<and> 0 < parsed then \<lfloor>parsed\<rfloor> else fallback))"

definition booleanValue :: "string option \<Rightarrow> bool \<Rightarrow> bool" where
  "booleanValue value fallback =
     (case value of
        None \<Rightarrow> fallback
      | Some v \<Rightarrow> to_lower (js_trim v) \<notin> set [''false'', ''0'', ''no'', ''off''])"

definition algorithmValue :: "json option \<Rightarrow> algorithm \<Rightarrow> algorithm" where
  "algorithmValue value fallback =
     (if value = Some (JStr ''sliding-window'') then SlidingWindow
      else if value = Some (JStr ''token-bucket'') then TokenBucket else fallback)"

definition stringSet :: "string option \<Rightarrow> string list" where
  "stringSet value =
     remdups (filter (\<lambda>item. item \<noteq> [])
       (map js_trim (split_on (CHR '','') (case value of None \<Rightarrow> [] | Some v \<Rightarrow> v))))"

definition is_letter :: "char \<Rightarrow> bool" where
  "is_letter c \<longleftrightarrow> (let n = of_char c :: nat in 65 \<le> n \<and> n \<le> 90 \<or> 97 \<le> n \<and> n \<le> 122)"

text \<open>The match of \<open>/^([A-Za-z]+)\s+(.+)$/\<close>: letters, white space, and the rest of the one line.\<close>

definition match_selector :: "string \<Rightarrow> (string \<times> string) option" where
  "match_selector s =
     (let method = takeWhile is_letter s;
          after = dropWhile is_letter s;
          rest = dropWhile is_js_space after
      in if method = [] \<or> length rest = length after \<or> rest = []
            \<or> CHR 0x0A \<in> set rest \<or> CHR 0x0D \<in> set rest
         then None else Some (method, rest))"

definition parseEndpointKey :: "string \<Rightarrow> string option \<times> string" where
  "parseEndpointKey key =
     (case match_selector (js_trim key) of
        None \<Rightarrow> (None, js_trim key)
      | Some (m, p) \<Rightarrow> (Some (to_upper m), js_trim p))"

definition parse_endpoint :: "string \<Rightarrow> json \<Rightarrow> endpoint_policy option" where
  "parse_endpoint key value =
     (case value of
        JObj candidate \<Rightarrow>
          (case (Option.bind (map_get candidate ''limit'') number_of_json,
                 Option.bind (map_get candidate ''windowMs'') number_of_json) of
             (Some l, Some w) \<Rightarrow>
               if \<not> is_integer l \<or> l \<le> 0 \<or> \<not> is_integer w \<or> w \<le> 0 then None
               else (case parseEndpointKey key of (method, path) \<Rightarrow>
                 Some \<lparr>limit = \<lfloor>l\<rfloor>, windowMs = \<lfloor>w\<rfloor>,
                   algorithm = algorithmValue (map_get candidate ''algorithm'') TokenBucket,
                   e_path = path, e_method = method,
                   e_scope = (if map_get candidate ''scope'' = Some (JStr ''ip'') then Ip else User)\<rparr>)
           | _ \<Rightarrow> None)
      | _ \<Rightarrow> None)"

definition parseEndpointPolicies :: "(string \<Rightarrow> json option) \<Rightarrow> string option \<Rightarrow> endpoint_policy list" where
  "parseEndpointPolicies json_parse raw =
     (case raw of
        None \<Rightarrow> []
      | Some r \<Rightarrow>
          if r = [] then []
          else (case json_parse r of
                  Some (JObj entries) \<Rightarrow> List.map_filter (\<lambda>(k, v). parse_endpoint k v) entries
                | _ \<Rightarrow> []))"

definition policyFromEnvironment :: "string jsmap \<Rightarrow> string \<Rightarrow> policy \<Rightarrow> policy" where
  "policyFromEnvironment env prefix defaults =
     \<lparr>limit = positiveInteger (map_get env (''RATE_LIMIT_'' @ prefix @ ''_LIMIT'')) (limit defaults),
      windowMs = positiveInteger (map_get env (''RATE_LIMIT_'' @ prefix @ ''_WINDOW_MS'')) (windowMs defaults),
      algorithm = algorithmValue (map_option JStr (map_get env (''RATE_LIMIT_'' @ prefix @ ''_ALGORITHM'')))
        (algorithm defaults)\<rparr>"

definition loadRateLimitConfiguration :: "(string \<Rightarrow> json option) \<Rightarrow> string jsmap \<Rightarrow> configuration" where
  "loadRateLimitConfiguration json_parse env =
     \<lparr>enabled = booleanValue (map_get env ''RATE_LIMIT_ENABLED'') True,
      failOpen = booleanValue (map_get env ''RATE_LIMIT_FAIL_OPEN'') True,
      ip_policy = policyFromEnvironment env ''IP''
        \<lparr>limit = 100, windowMs = DEFAULT_WINDOW_MS, algorithm = TokenBucket\<rparr>,
      user_policy = policyFromEnvironment env ''USER''
        \<lparr>limit = 300, windowMs = DEFAULT_WINDOW_MS, algorithm = SlidingWindow\<rparr>,
      endpoints = parseEndpointPolicies json_parse (map_get env ''RATE_LIMIT_ENDPOINTS_JSON''),
      wl_ips = stringSet (map_get env ''RATE_LIMIT_WHITELIST_IPS''),
      wl_userIds = stringSet (map_get env ''RATE_LIMIT_WHITELIST_USER_IDS''),
      wl_apiKeys = stringSet (map_get env ''RATE_LIMIT_WHITELIST_API_KEYS'')\<rparr>"

section \<open>Loaded policies are positive\<close>

definition policy_positive :: "('a policy_scheme) \<Rightarrow> bool" where
  "policy_positive p \<longleftrightarrow> 0 < limit p \<and> 0 < windowMs p"

lemma is_integer_ge_1: "is_integer x \<Longrightarrow> 0 < x \<Longrightarrow> 1 \<le> x"
  unfolding is_integer_def by (metis of_int_0_less_iff of_int_1_le_iff zless_imp_add1_zle add_0)

lemma positiveInteger_pos: "0 < fallback \<Longrightarrow> 0 < positiveInteger value fallback"
  by (auto simp: positiveInteger_def is_integer_ge_1 split: option.split)

lemma policyFromEnvironment_positive:
  "policy_positive d \<Longrightarrow> policy_positive (policyFromEnvironment env prefix d)"
  by (simp add: policy_positive_def policyFromEnvironment_def positiveInteger_pos)

lemma parse_endpoint_positive:
  "parse_endpoint k v = Some p \<Longrightarrow> policy_positive p \<and> e_scope p \<noteq> Endpoint"
  by (auto simp: parse_endpoint_def policy_positive_def not_le is_integer_ge_1
      split: json.splits option.splits if_splits prod.splits)

lemma parseEndpointPolicies_positive:
  assumes "p \<in> set (parseEndpointPolicies jp raw)"
  shows "policy_positive p \<and> e_scope p \<noteq> Endpoint"
proof -
  have "\<exists>es. parseEndpointPolicies jp raw = List.map_filter (\<lambda>(k, v). parse_endpoint k v) es"
    by (auto simp: parseEndpointPolicies_def intro: exI [of _ "[]"] split: option.split json.split)
  with assms obtain k v where "parse_endpoint k v = Some p"
    by (auto simp: map_filter_def)
  then show ?thesis by (rule parse_endpoint_positive)
qed

lemma stringSet_clean: "[] \<notin> set (stringSet v)"
  by (simp add: stringSet_def)

text \<open>C4. Configuration is always usable. Whatever the environment contains, every loaded policy (per
  IP, per user and per endpoint) has a positive limit and window, endpoint scopes are IP or user,
  and the whitelists contain no empty entry.\<close>

theorem configuration_usable:
  "let c = loadRateLimitConfiguration json_parse env in
     policy_positive (ip_policy c) \<and> policy_positive (user_policy c) \<and>
     list_all (\<lambda>e. policy_positive e \<and> e_scope e \<noteq> Endpoint) (endpoints c) \<and>
     [] \<notin> set (wl_ips c @ wl_userIds c @ wl_apiKeys c)"
proof -
  have "policy_positive (policyFromEnvironment env x \<lparr>limit = n, windowMs = DEFAULT_WINDOW_MS, algorithm = a\<rparr>)"
    if "0 < n" for x n a
    using that by (intro policyFromEnvironment_positive) (simp add: policy_positive_def DEFAULT_WINDOW_MS_def)
  then show ?thesis
    using parseEndpointPolicies_positive stringSet_clean
    by (simp add: loadRateLimitConfiguration_def list_all_iff Let_def)
qed

end
