(* ===== verification/Token_Bucket.thy ===== *)
theory Token_Bucket
  imports Rate_Algorithms
begin

text \<open>
  Correctness of \<open>TokenBucketRateLimiter\<close> with its double arithmetic: the level stays a double
  between 0 and the limit, a fresh bucket serves exactly its limit at one instant, and over any
  run the admissions are bounded by the limit plus what the refill rate provides, up to the
  accumulated rounding. A client that waits a millisecond longer than told is admitted; the
  waiting time itself is not always enough, because of rounding.
\<close>

section \<open>The level stays between 0 and the limit\<close>

definition bucket_ok :: "bucket \<Rightarrow> bool" where
  "bucket_ok b \<longleftrightarrow> is_f64 (tokens b) \<and> 0 \<le> tokens b \<and> tokens b \<le> of_int (b_limit b)"

definition buckets_ok :: "bucket jsmap \<Rightarrow> bool" where
  "buckets_ok m \<longleftrightarrow> wf_map m \<and> (\<forall>(k, b) \<in> set m. bucket_ok b)"

lemma is_f64_limit: "policy_ok p \<Longrightarrow> is_f64 (of_int (limit p))"
  by (intro is_f64_of_int) (auto simp: policy_ok_def)

lemma is_f64_1 [simp, intro]: "is_f64 1"
  using is_f64_of_int [of 1] by simp

lemma refillRate_nonneg: "policy_ok p \<Longrightarrow> 0 \<le> refillRate p"
  by (auto simp: refillRate_def fdiv_def policy_ok_def intro!: f64_nonneg divide_nonneg_nonneg)

lemma buckets_okD: "buckets_ok m \<Longrightarrow> map_get m key = Some b \<Longrightarrow> bucket_ok b"
  by (auto simp: buckets_ok_def dest!: map_of_SomeD)

lemma bucket_for_ok:
  assumes "policy_ok p" "buckets_ok m"
  shows "bucket_ok (bucket_for key p now m) \<and> b_limit (bucket_for key p now m) = limit p"
proof (cases "map_get m key")
  case None
  then show ?thesis using is_f64_limit [OF assms(1)] assms(1)
    by (simp add: bucket_for_def Let_def bucket_ok_def policy_ok_def)
next
  case (Some b)
  then show ?thesis using buckets_okD [OF assms(2) Some] is_f64_limit [OF assms(1)] assms(1)
    by (auto simp: bucket_for_def Let_def bucket_ok_def policy_ok_def)
qed

lemma refilled_ge:
  assumes "policy_ok p" "bucket_ok b" "b_limit b = limit p"
  shows "tokens b \<le> refilled p now b"
  using assms refillRate_nonneg [OF assms(1)]
  by (auto simp: refilled_def Let_def bucket_ok_def fadd_def fmul_def
      intro!: f64_ge_is_f64 f64_nonneg mult_nonneg_nonneg)

lemma refilled_bounds:
  assumes "policy_ok p" "bucket_ok b" "b_limit b = limit p"
  shows "0 \<le> refilled p now b" "refilled p now b \<le> of_int (limit p)" "is_f64 (refilled p now b)"
proof -
  show "0 \<le> refilled p now b"
    using refilled_ge [OF assms] assms(2) by (auto simp: bucket_ok_def intro: order_trans)
  show "refilled p now b \<le> of_int (limit p)" by (simp add: refilled_def Let_def)
  show "is_f64 (refilled p now b)"
    using is_f64_limit [OF assms(1)] by (auto simp: refilled_def Let_def fadd_def min_def)
qed

lemma left_bounds:
  assumes p: "policy_ok p" and l: "0 \<le> l" "l \<le> of_int (limit p)" "is_f64 l"
    and left: "left = (if 1 \<le> l then fsub l 1 else l)"
  shows "0 \<le> left" "left \<le> of_int (limit p)" "is_f64 left"
    "1 \<le> l \<Longrightarrow> left \<le> of_int (limit p - 1)"
proof -
  have "is_f64 (of_int (limit p - 1))"
    using p by (intro is_f64_of_int) (auto simp: policy_ok_def)
  then have "1 \<le> l \<Longrightarrow> f64 (l - 1) \<le> of_int (limit p - 1)"
    using l by (intro f64_le_is_f64) auto
  then show "0 \<le> left" "left \<le> of_int (limit p)" "is_f64 left"
    "1 \<le> l \<Longrightarrow> left \<le> of_int (limit p - 1)"
    using l left by (auto simp: fsub_def intro: f64_nonneg)
qed

lemma take_token_ok:
  assumes p: "policy_ok p" and b: "bucket_ok b" "b_limit b = limit p"
  shows "result_ok p now (fst (take_token p now b))" (is ?r)
    and "bucket_ok (snd (take_token p now b))" (is ?b)
proof -
  let ?l = "refilled p now b"
  let ?left = "if 1 \<le> ?l then fsub ?l 1 else ?l"
  note left = left_bounds [OF p refilled_bounds [OF p b] refl, of now]
  have rate: "0 \<le> refillRate p" by (rule refillRate_nonneg [OF p])
  have reset: "0 \<le> fdiv (fsub (of_int (limit p)) ?left) (refillRate p)"
    using rate left(2) unfolding fdiv_def fsub_def
    by (intro f64_nonneg divide_nonneg_nonneg) auto
  have floor: "1 \<le> ?l \<Longrightarrow> \<lfloor>?left\<rfloor> < limit p" "0 \<le> \<lfloor>?left\<rfloor>" "\<not> 1 \<le> ?l \<Longrightarrow> \<lfloor>?left\<rfloor> = 0"
    using left(1,4) by (auto simp: floor_eq_iff) linarith+
  show ?r using reset floor p
    by (auto simp: result_ok_def take_token_def Let_def policy_ok_def)
  show ?b using left b by (simp add: take_token_def Let_def bucket_ok_def)
qed

lemma b_limit_take_token [simp]: "b_limit (snd (take_token p now b)) = b_limit b"
  and b_windowMs_take_token [simp]: "b_windowMs (snd (take_token p now b)) = b_windowMs b"
  and lastRefill_take_token [simp]: "lastRefill (snd (take_token p now b)) = now"
  by (simp_all add: take_token_def Let_def)

lemma tb_consume_simp:
  "tb_consume key p now m =
     (fst (take_token p now (bucket_for key p now m)),
      map_set key (snd (take_token p now (bucket_for key p now m))) m)"
  by (simp add: tb_consume_def case_prod_beta Let_def)

lemma buckets_ok_consume:
  assumes "buckets_ok m" "policy_ok p" shows "buckets_ok (snd (tb_consume key p now m))"
  using assms take_token_ok(2) [OF assms(2)] bucket_for_ok [OF assms(2,1)] set_map_set_subset
  by (fastforce simp: tb_consume_simp buckets_ok_def)

lemma bucket_for_local:
  "map_get m key = map_get m' key \<Longrightarrow> bucket_for key p now m = bucket_for key p now m'"
  by (simp add: bucket_for_def)

interpretation tb: limiter tb_consume tb_prune buckets_ok map_get lastRefill
proof
  fix m m' :: "bucket jsmap" and p key key' now cutoff
  show "buckets_ok m \<Longrightarrow> policy_ok p \<Longrightarrow> result_ok p now (fst (tb_consume key p now m))"
    by (simp add: tb_consume_simp take_token_ok(1) bucket_for_ok)
  show "buckets_ok m \<Longrightarrow> policy_ok p \<Longrightarrow> buckets_ok (snd (tb_consume key p now m))"
    by (rule buckets_ok_consume)
  show "key' \<noteq> key \<Longrightarrow> map_get (snd (tb_consume key p now m)) key' = map_get m key'"
    by (simp add: tb_consume_simp)
  show "map_get m key = map_get m' key \<Longrightarrow>
      fst (tb_consume key p now m) = fst (tb_consume key p now m')"
    by (simp add: tb_consume_simp bucket_for_local [of m])
  show "map_get m key = map_get m' key \<Longrightarrow>
      map_get (snd (tb_consume key p now m)) key = map_get (snd (tb_consume key p now m')) key"
    by (simp add: tb_consume_simp bucket_for_local [of m])
  show "buckets_ok m \<Longrightarrow> buckets_ok (tb_prune cutoff m)"
    by (auto simp: buckets_ok_def tb_prune_def map_delete_each_filter)
  show "buckets_ok m \<Longrightarrow> map_get (tb_prune cutoff m) key =
      (case map_get m key of None \<Rightarrow> None | Some e \<Rightarrow> if lastRefill e < cutoff then None else Some e)"
    by (auto simp: buckets_ok_def tb_prune_def map_delete_each_filter map_get_filter split: option.split)
qed

section \<open>A burst at one instant\<close>

fun tb_burst :: "string \<Rightarrow> policy \<Rightarrow> int \<Rightarrow> nat \<Rightarrow> bucket jsmap \<Rightarrow> bool list \<times> bucket jsmap" where
  "tb_burst key p now 0 m = ([], m)"
| "tb_burst key p now (Suc n) m =
     (let (r, m1) = tb_consume key p now m; (rs, m2) = tb_burst key p now n m1
      in (allowed r # rs, m2))"

definition full_bucket :: "policy \<Rightarrow> int \<Rightarrow> int \<Rightarrow> bucket" where
  "full_bucket p now i =
     \<lparr>tokens = of_int i, lastRefill = now, b_limit = limit p, b_windowMs = windowMs p\<rparr>"

lemma refilled_same_instant:
  assumes "policy_ok p" "0 \<le> i" "i \<le> limit p"
  shows "refilled p now (full_bucket p now i) = of_int i"
proof -
  have "f64 (of_int i) = of_int i"
    using assms by (intro f64_of_int) (auto simp: policy_ok_def)
  then show ?thesis using assms
    by (simp add: refilled_def full_bucket_def fadd_def fmul_def)
qed

lemma take_token_same_instant:
  assumes "policy_ok p" "0 \<le> i" "i \<le> limit p"
  shows "allowed (fst (take_token p now (full_bucket p now i))) = (1 \<le> i)"
    "snd (take_token p now (full_bucket p now i)) = full_bucket p now (max 0 (i - 1))"
proof -
  have "1 \<le> i \<Longrightarrow> f64 (of_int i - 1) = of_int (i - 1)"
    using f64_of_int [of "i - 1"] assms by (auto simp: policy_ok_def)
  then show "snd (take_token p now (full_bucket p now i)) = full_bucket p now (max 0 (i - 1))"
    using refilled_same_instant [OF assms] assms(2)
    by (cases "1 \<le> i") (auto simp: take_token_def Let_def fsub_def full_bucket_def)
  show "allowed (fst (take_token p now (full_bucket p now i))) = (1 \<le> i)"
    using refilled_same_instant [OF assms] by (simp add: take_token_def Let_def)
qed

lemma bucket_for_full:
  "map_get m key = Some (full_bucket p now i) \<Longrightarrow> bucket_for key p now' m = full_bucket p now i"
  by (simp add: bucket_for_def full_bucket_def)

lemma bucket_for_new:
  "map_get m key = None \<Longrightarrow> bucket_for key p now m = full_bucket p now (limit p)"
  by (simp add: bucket_for_def full_bucket_def Let_def)

lemma tb_burst_from:
  assumes "policy_ok p" "0 \<le> i" "i \<le> limit p" "bucket_for key p now m = full_bucket p now i"
  shows "fst (tb_burst key p now n m) =
      replicate (min n (nat i)) True @ replicate (n - nat i) False"
  using assms
proof (induction n arbitrary: i m)
  case (Suc n)
  let ?i = "max 0 (i - 1)" and ?m = "map_set key (full_bucket p now (max 0 (i - 1))) m"
  note step = take_token_same_instant [OF Suc.prems(1-3), of now]
  have c: "tb_consume key p now m = (fst (take_token p now (full_bucket p now i)), ?m)"
    by (simp add: tb_consume_simp Suc.prems(4) step)
  have "fst (tb_burst key p now n ?m) =
      replicate (min n (nat ?i)) True @ replicate (n - nat ?i) False"
    using Suc.prems by (intro Suc.IH bucket_for_full) auto
  then have b: "fst (tb_burst key p now (Suc n) m) =
      (1 \<le> i) # replicate (min n (nat ?i)) True @ replicate (n - nat ?i) False"
    by (simp add: c step case_prod_beta Let_def)
  show ?case
  proof (cases "1 \<le> i")
    case True
    then have "nat i = Suc (nat ?i)" by simp
    with True b show ?thesis by simp
  next
    case False
    with Suc.prems have "i = 0" by simp
    with b show ?thesis by simp
  qed
qed simp

text \<open>A fresh bucket serves a burst of \<open>n\<close> simultaneous requests exactly up to its limit: the
  first \<open>limit\<close> requests are admitted and every later one is rejected.\<close>

theorem token_burst:
  assumes "policy_ok p" "map_get m key = None"
  shows "fst (tb_burst key p now n m) =
      replicate (min n (nat (limit p))) True @ replicate (n - nat (limit p)) False"
  using assms by (intro tb_burst_from bucket_for_new) (auto simp: policy_ok_def)

theorem token_burst_witness:
  "fst (tb_burst ''ip:1'' \<lparr>limit = 2, windowMs = 60000, algorithm = TokenBucket\<rparr> 5 3 [])
     = [True, True, False]"
  using token_burst [of "\<lparr>limit = 2, windowMs = 60000, algorithm = TokenBucket\<rparr>" "[]" "''ip:1''" 5 3]
  by (simp add: policy_ok_def numeral_eq_Suc)

section \<open>Admissions over a run\<close>

text \<open>The number of admitted requests when a client's requests arrive at the times \<open>ts\<close>.\<close>

fun tb_admitted :: "string \<Rightarrow> policy \<Rightarrow> int list \<Rightarrow> bucket jsmap \<Rightarrow> nat" where
  "tb_admitted key p [] m = 0"
| "tb_admitted key p (t # ts) m =
     (let (r, m') = tb_consume key p t m
      in (if allowed r then 1 else 0) + tb_admitted key p ts m')"

definition eta :: rat where "eta = 1 / 2 ^ 1075"

lemma f64_upper: "0 \<le> x \<Longrightarrow> f64 x \<le> x + x / 2 ^ 53 + eta"
  using f64_error [of x] by (auto simp: abs_le_iff eta_def)

lemma f64_lower: "0 \<le> x \<Longrightarrow> x - x / 2 ^ 53 - eta \<le> f64 x"
  using f64_error [of x] by (auto simp: abs_le_iff eta_def)

lemma eta_bounds: "0 \<le> eta" "eta \<le> 1 / 2 ^ 60"
proof -
  show "0 \<le> eta" by (simp add: eta_def)
  show "eta \<le> 1 / 2 ^ 60" unfolding eta_def
    by (intro divide_left_mono power_increasing) auto
qed

lemma eta_le: "1 \<le> L \<Longrightarrow> eta \<le> L / 2 ^ 60"
  using eta_bounds divide_right_mono [of 1 L "2 ^ 60"] by simp

definition gain :: "policy \<Rightarrow> rat" where
  "gain p = refillRate p * (1 + 1 / 2 ^ 53)"

lemma min_round_upper:
  assumes "0 \<le> s" "1 \<le> L" shows "min L (f64 s) \<le> s + L / 2 ^ 53 + L / 2 ^ 60"
proof (cases "s \<le> L")
  case True
  have "f64 s \<le> s + s / 2 ^ 53 + eta" by (rule f64_upper [OF assms(1)])
  also have "\<dots> \<le> s + L / 2 ^ 53 + L / 2 ^ 60"
    using True eta_le [OF assms(2)] divide_right_mono [OF True, of "2 ^ 53"] by simp
  finally show ?thesis by simp
next
  case False
  then have "min L (f64 s) \<le> s" by simp
  with assms show ?thesis by simp
qed

lemma refilled_upper:
  assumes p: "policy_ok p" and b: "bucket_ok b" and t: "lastRefill b \<le> t"
  shows "refilled p t b \<le>
     tokens b + of_int (t - lastRefill b) * gain p + of_int (limit p) / 2 ^ 52"
proof -
  let ?L = "of_int (limit p) :: rat" and ?e = "of_int (t - lastRefill b) :: rat"
  let ?R = "refillRate p"
  have L: "1 \<le> ?L" using p by (simp add: policy_ok_def)
  have e: "0 \<le> ?e * ?R" using t refillRate_nonneg [OF p] by simp
  have tok: "0 \<le> tokens b" using b by (simp add: bucket_ok_def)
  define x where "x = ?e * ?R"
  have g: "?e * gain p = x + x / 2 ^ 53" by (simp add: x_def gain_def distrib_left)
  have f: "fmul ?e ?R \<le> x + x / 2 ^ 53 + eta" "0 \<le> fmul ?e ?R"
    using f64_upper [OF e] f64_nonneg [OF e] by (simp_all add: fmul_def x_def)
  have "refilled p t b = min ?L (f64 (tokens b + fmul ?e ?R))"
    using t by (simp add: refilled_def fadd_def)
  also have "\<dots> \<le> tokens b + fmul ?e ?R + ?L / 2 ^ 53 + ?L / 2 ^ 60"
    using tok f(2) L by (intro min_round_upper) auto
  also have "\<dots> \<le> tokens b + ?e * gain p + ?L / 2 ^ 52"
    unfolding g using f(1) eta_le [OF L] L by simp
  finally show ?thesis .
qed

lemma take_token_upper:
  assumes p: "policy_ok p" and b: "bucket_ok b" "b_limit b = limit p" and t: "lastRefill b \<le> t"
  shows "(if allowed (fst (take_token p t b)) then 1 else 0) + tokens (snd (take_token p t b)) \<le>
     tokens b + of_int (t - lastRefill b) * gain p + of_int (limit p) / 2 ^ 51"
proof -
  let ?L = "of_int (limit p) :: rat"
  let ?l = "refilled p t b"
  note up = refilled_upper [OF p b(1) t] and bd = refilled_bounds [OF p b, of t]
  have L: "1 \<le> ?L" using p by (simp add: policy_ok_def)
  show ?thesis
  proof (cases "1 \<le> ?l")
    case True
    have "f64 (?l - 1) \<le> ?l - 1 + (?l - 1) / 2 ^ 53 + eta"
      using True by (intro f64_upper) simp
    also have "\<dots> \<le> ?l - 1 + ?L / 2 ^ 53 + ?L / 2 ^ 60"
    proof -
      have "(?l - 1) / 2 ^ 53 \<le> ?L / 2 ^ 53" using bd(2) by (intro divide_right_mono) auto
      with eta_le [OF L] show ?thesis by linarith
    qed
    finally have "1 + f64 (?l - 1) \<le> ?l + ?L / 2 ^ 52" using L by simp
    with True up show ?thesis by (simp add: take_token_def Let_def fsub_def)
  next
    case False
    with up L show ?thesis by (simp add: take_token_def Let_def)
  qed
qed

lemma tb_admitted_from:
  assumes "policy_ok p" "bucket_ok b" "b_limit b = limit p" "b_windowMs b = windowMs p"
    "map_get m key = Some b" "sorted (lastRefill b # ts)"
  shows "of_nat (tb_admitted key p ts m) \<le>
     tokens b + of_int (last (lastRefill b # ts) - lastRefill b) * gain p
       + of_nat (length ts) * (of_int (limit p) / 2 ^ 51)"
  using assms(2-)
proof (induction ts arbitrary: b m)
  case Nil
  then show ?case by (simp add: bucket_ok_def)
next
  case (Cons t ts)
  let ?b = "snd (take_token p t b)" and ?r = "fst (take_token p t b)"
  have bf: "bucket_for key p t m = b" using Cons.prems by (simp add: bucket_for_def Let_def)
  have adm: "tb_admitted key p (t # ts) m =
      (if allowed ?r then 1 else 0) + tb_admitted key p ts (map_set key ?b m)"
    by (simp add: tb_consume_simp bf)
  have IH: "of_nat (tb_admitted key p ts (map_set key ?b m)) \<le>
     tokens ?b + of_int (last (t # ts) - t) * gain p
       + of_nat (length ts) * (of_int (limit p) / 2 ^ 51)"
    using Cons.IH [of ?b "map_set key ?b m"] Cons.prems take_token_ok(2) [OF assms(1), of b t]
    by simp
  have "(if allowed ?r then 1 else 0) + tokens ?b \<le>
      tokens b + of_int (t - lastRefill b) * gain p + of_int (limit p) / 2 ^ 51"
    using Cons.prems by (intro take_token_upper [OF assms(1)]) auto
  moreover have "of_int (last (t # ts) - lastRefill b) * gain p =
      of_int (last (t # ts) - t) * gain p + of_int (t - lastRefill b) * gain p"
    by (simp add: left_diff_distrib)
  moreover have "of_nat (length (t # ts)) * (of_int (limit p) / 2 ^ 51 :: rat) =
      of_nat (length ts) * (of_int (limit p) / 2 ^ 51) + of_int (limit p) / 2 ^ 51"
    by (simp only: length_Cons of_nat_Suc distrib_right mult_1 add.commute)
  ultimately show ?case using IH unfolding adm of_nat_add
    by (simp only: last.simps list.distinct if_False) (simp split: if_splits)
qed



section \<open>Waiting as told\<close>

lemma refillRate_bounds:
  assumes "policy_ok p" "windowMs p \<le> 2 ^ 40 * limit p"
  shows "1 / 2 ^ 40 \<le> refillRate p" "refillRate p \<le> 2 ^ 53"
proof -
  let ?q = "of_int (limit p) / of_int (windowMs p) :: rat"
  have w: "0 < (of_int (windowMs p) :: rat)" using assms(1) by (simp add: policy_ok_def)
  have "of_int (windowMs p) \<le> (of_int (2 ^ 40 * limit p) :: rat)"
    using assms(2) by (simp only: of_int_le_iff)
  then have lo: "1 / 2 ^ 40 \<le> ?q" using w by (simp add: field_simps)
  have "of_int (limit p) \<le> (of_int (2 ^ 53 * windowMs p) :: rat)"
    using assms(1) unfolding of_int_le_iff by (auto simp: policy_ok_def intro: order_trans)
  then have hi: "?q \<le> 2 ^ 53" using w by (simp add: field_simps)
  have "is_f64 (1 / 2 ^ 40)" unfolding is_f64_def
    by (intro exI [of _ 1] exI [of _ "- 40"]) (simp add: power_int_minus_divide)
  then show "1 / 2 ^ 40 \<le> refillRate p"
    unfolding refillRate_def fdiv_def using lo by (rule f64_ge_is_f64)
  have "is_f64 (2 ^ 53)" using is_f64_of_int [of "2 ^ 53"] by simp
  then show "refillRate p \<le> 2 ^ 53"
    unfolding refillRate_def fdiv_def using hi by (rule f64_le_is_f64)
qed

lemma eta_small: "eta \<le> 1 / 2 ^ 200"
  unfolding eta_def by (intro divide_left_mono power_increasing) auto

lemma wait_refills:
  assumes t: "0 \<le> t" "t < 1" and R: "1 / 2 ^ 40 \<le> R" "R \<le> 2 ^ 53"
    and wait: "\<lceil>fdiv (fsub 1 t) R\<rceil> + 1 \<le> n"
  shows "1 \<le> fadd t (fmul (of_int n) R)"
proof -
  let ?a = "f64 (1 - t)" and ?u = "1 / 2 ^ 53 :: rat"
  have R0: "0 < R" using R(1) by (rule less_le_trans [rotated]) simp
  have "(1 - t) / 2 ^ 53 \<le> 1 / 2 ^ 53" using t by (intro divide_right_mono) auto
  then have a: "1 - t - 1 / 2 ^ 53 - eta \<le> ?a"
    using f64_lower [of "1 - t"] t by linarith
  have a': "?a \<le> 1" "0 \<le> ?a"
    using f64_le_is_f64 [of 1 "1 - t"] f64_nonneg [of "1 - t"] t by simp_all
  have q: "?a / R - ?a / R / 2 ^ 53 - eta \<le> f64 (?a / R)"
    using a' R0 by (intro f64_lower) simp
  have "f64 (?a / R) \<le> of_int \<lceil>fdiv (fsub 1 t) R\<rceil>" by (simp add: fdiv_def fsub_def)
  also have "\<dots> \<le> of_int (n - 1)" using wait by (simp only: of_int_le_iff)
  finally have "f64 (?a / R) + 1 \<le> of_int n" by simp
  with q have "(?a / R - ?a / R / 2 ^ 53 - eta + 1) * R \<le> of_int n * R"
    using R0 by (intro mult_right_mono) auto
  moreover have "(?a / R - ?a / R / 2 ^ 53 - eta + 1) * R = ?a - ?a / 2 ^ 53 - eta * R + R"
    using R0 by (simp add: algebra_simps)
  moreover have "eta * R \<le> 1 / 2 ^ 100"
    using mult_mono [OF eta_small R(2)] R0 by simp
  ultimately have nR: "1 - t + R - 1 / 2 ^ 51 \<le> of_int n * R"
    using a a' eta_small by simp
  define y where "y = 1 - t + R - 1 / 2 ^ 51"
  have y: "1 - t + R - 1 / 2 ^ 51 \<le> y" "0 \<le> y" "y \<le> 1 + R"
    using t R(1) by (simp_all add: y_def)
  have y': "y / 2 ^ 53 \<le> (1 + R) / 2 ^ 53" using y(3) by (intro divide_right_mono) auto
  have "y - y / 2 ^ 53 - eta \<le> fmul (of_int n) R"
    using f64_lower [OF y(2)] f64_mono [OF nR [folded y_def]] by (simp add: fmul_def)
  then have "1 \<le> t + fmul (of_int n) R" using y(1) y' R(1) eta_small by simp
  then show ?thesis unfolding fadd_def by (intro f64_ge_is_f64) auto
qed

text \<open>Waiting. After a rejection, a client that sends nothing for \<open>retryAfterMs\<close> and one more
  millisecond is admitted (for windows of at most \<open>2 ^ 40\<close> ms per admitted request).\<close>

theorem token_retry_admitted:
  assumes "policy_ok p" "windowMs p \<le> 2 ^ 40 * limit p" "buckets_ok m"
    "tb_consume key p now m = (r, m')" "\<not> allowed r" "now + retryAfterMs r + 1 \<le> later"
  shows "allowed (fst (tb_consume key p later m'))"
proof -
  let ?b = "bucket_for key p now m"
  let ?l = "refilled p now ?b"
  note bf = bucket_for_ok [OF assms(1,3), of key now]
  have r: "r = fst (take_token p now ?b)" and m': "m' = map_set key (snd (take_token p now ?b)) m"
    using assms(4) by (auto simp: tb_consume_simp)
  have l: "\<not> 1 \<le> ?l" and retry: "retryAfterMs r = max 1 \<lceil>fdiv (fsub 1 ?l) (refillRate p)\<rceil>"
    and b': "snd (take_token p now ?b) = ?b\<lparr>tokens := ?l, lastRefill := now\<rparr>"
    using assms(5) by (auto simp: r take_token_def Let_def)
  have same: "b_limit ?b = limit p" "b_windowMs ?b = windowMs p"
    by (auto simp: bucket_for_def Let_def split: option.split)
  then have bf': "bucket_for key p later m' = ?b\<lparr>tokens := ?l, lastRefill := now\<rparr>"
    by (simp add: bucket_for_def [of _ _ later] m' b' Let_def)
  have "1 \<le> fadd ?l (fmul (of_int (later - now)) (refillRate p))"
  proof (rule wait_refills)
    show "0 \<le> ?l" using refilled_bounds(1) [OF assms(1)] bf by blast
    show "?l < 1" using l by simp
    show "\<lceil>fdiv (fsub 1 ?l) (refillRate p)\<rceil> + 1 \<le> later - now"
      using assms(6) retry by simp
  qed (use refillRate_bounds [OF assms(1,2)] in auto)
  moreover have "max 0 (later - now) = later - now" using assms(6) retry by simp
  moreover have "1 \<le> (of_int (limit p) :: rat)" using assms(1) by (simp add: policy_ok_def)
  ultimately show ?thesis
    by (simp add: tb_consume_simp bf' take_token_def Let_def refilled_def)
qed

definition hourly :: policy where
  "hourly = \<lparr>limit = 150, windowMs = 3600000, algorithm = TokenBucket\<rparr>"

definition drained :: "bucket jsmap" where
  "drained = [(''k'', \<lparr>tokens = 0, lastRefill = 0, b_limit = 150, b_windowMs = 3600000\<rparr>)]"

lemma hourly_simps [simp]: "limit hourly = 150" "windowMs hourly = 3600000"
  by (simp_all add: hourly_def)

lemma hourly_numbers:
  "refillRate hourly = 6148914691236517 / 147573952589676412928"
  "fmul 5247 (6148914691236517 / 147573952589676412928) = 7876795748270997 / 36028797018963968"
  "fadd 0 (7876795748270997 / 36028797018963968) = 7876795748270997 / 36028797018963968"
  "fsub 1 (7876795748270997 / 36028797018963968) = 7038000317673243 / 9007199254740992"
  "fdiv (7038000317673243 / 9007199254740992) (6148914691236517 / 147573952589676412928) = 18753"
  "fmul 18753 (6148914691236517 / 147573952589676412928) = 3519000158836621 / 4503599627370496"
  "fadd (7876795748270997 / 36028797018963968) (3519000158836621 / 4503599627370496) = 9007199254740991 / 9007199254740992"
  by (unfold hourly_def, code_simp+)

lemma drained_bucket: "bucket_for ''k'' hourly now drained =
    \<lparr>tokens = 0, lastRefill = 0, b_limit = 150, b_windowMs = 3600000\<rparr>"
  by (simp add: bucket_for_def drained_def hourly_def Let_def)

lemma first_rejection:
  defines "r \<equiv> fst (tb_consume ''k'' hourly 5247 drained)"
  shows "\<not> allowed r" "retryAfterMs r = 18753"
    "map_get (snd (tb_consume ''k'' hourly 5247 drained)) ''k'' =
       Some \<lparr>tokens = 7876795748270997 / 36028797018963968, lastRefill = 5247, b_limit = 150, b_windowMs = 3600000\<rparr>"
  by (simp_all add: r_def tb_consume_simp drained_bucket take_token_def Let_def refilled_def hourly_numbers)

text \<open>Rounding shows. With 150 requests per hour, a client whose bucket is empty at time 0 is
  rejected at 5247 ms and told to retry after 18753 ms; at exactly that time, 24000 ms, the level
  in doubles is just below 1 and it is rejected again.\<close>

theorem token_retry_too_early:
  "(let (r1, m1) = tb_consume ''k'' hourly 5247 drained;
        r2 = fst (tb_consume ''k'' hourly (5247 + retryAfterMs r1) m1)
    in \<not> allowed r1 \<and> retryAfterMs r1 = 18753 \<and> \<not> allowed r2)"
proof -
  let ?m = "snd (tb_consume ''k'' hourly 5247 drained)"
  have "bucket_for ''k'' hourly 24000 ?m =
      \<lparr>tokens = 7876795748270997 / 36028797018963968, lastRefill = 5247, b_limit = 150, b_windowMs = 3600000\<rparr>"
    using first_rejection(3) by (simp add: bucket_for_def)
  then have "\<not> allowed (fst (tb_consume ''k'' hourly 24000 ?m))"
    by (simp add: tb_consume_simp take_token_def Let_def refilled_def hourly_numbers)
  then show ?thesis using first_rejection(1,2) by (simp add: case_prod_beta)
qed

theorem token_retry_admitted_witness:
  "allowed (fst (tb_consume ''k'' hourly 24001 (snd (tb_consume ''k'' hourly 5247 drained))))"
proof (rule token_retry_admitted [of hourly drained "''k''" 5247 "fst (tb_consume ''k'' hourly 5247 drained)"])
  show "policy_ok hourly" "windowMs hourly \<le> 2 ^ 40 * limit hourly"
    by (simp_all add: policy_ok_def hourly_def)
  show "buckets_ok drained" by (simp add: buckets_ok_def drained_def bucket_ok_def)
  show "tb_consume ''k'' hourly 5247 drained =
      (fst (tb_consume ''k'' hourly 5247 drained), snd (tb_consume ''k'' hourly 5247 drained))"
    by simp
  show "\<not> allowed (fst (tb_consume ''k'' hourly 5247 drained))"
    by (rule first_rejection)
  show "5247 + retryAfterMs (fst (tb_consume ''k'' hourly 5247 drained)) + 1 \<le> 24001"
    by (simp add: first_rejection)
qed

end
