(* ===== verification/Metrics.thy ===== *)
theory Metrics
  imports Prelude
begin

text \<open>
  \<open>MetricsService\<close> (src/monitoring/metrics.service.ts): the registry of counters, gauges and
  histograms that the cache, the rate limiter and the HTTP interceptor write to.

  The state is the \<open>metrics\<close> map of the class; label sets are dictionaries. The readings of
  \<open>process\<close> and \<open>os\<close> are an argument of \<open>collectSystemMetrics\<close>, and the conversion of a number
  to its decimal text is an argument of \<open>getPrometheusMetricsText\<close>. The lemmas show that the
  registry keeps one sample per label set, that reads see exactly the last writes to the same
  name and label set, and that label escaping can be undone.
\<close>

section \<open>State\<close>

datatype metric_type = Counter | Gauge | Histogram

record metric_value =
  labels :: "string jsmap"
  mvalue :: rat

record metric =
  mname :: string
  mhelp :: string
  mtype :: metric_type
  mvalues :: "metric_value list"
  mbuckets :: "rat list option"

type_synonym metrics = "metric jsmap"

section \<open>Operations\<close>

definition areLabelsEqual :: "string jsmap \<Rightarrow> string jsmap \<Rightarrow> bool" where
  "areLabelsEqual l1 l2 =
     (if length (map_keys l1) \<noteq> length (map_keys l2) then False
      else list_all (\<lambda>key. map_get l1 key = map_get l2 key) (map_keys l1))"

definition findMetricValue :: "metric \<Rightarrow> string jsmap \<Rightarrow> metric_value option" where
  "findMetricValue m ls = List.find (\<lambda>v. areLabelsEqual (labels v) ls) (mvalues m)"

text \<open>Assigning to \<open>existing.value\<close> changes the first sample with these labels, in place.\<close>

fun assign_existing :: "string jsmap \<Rightarrow> (rat \<Rightarrow> rat) \<Rightarrow> metric_value list \<Rightarrow> metric_value list" where
  "assign_existing ls f [] = []"
| "assign_existing ls f (v # vs) =
     (if areLabelsEqual (labels v) ls then v\<lparr>mvalue := f (mvalue v)\<rparr> # vs
      else v # assign_existing ls f vs)"

definition write_value :: "string jsmap \<Rightarrow> (rat \<Rightarrow> rat) \<Rightarrow> rat \<Rightarrow> metric \<Rightarrow> metric" where
  "write_value ls f init m =
     (case findMetricValue m ls of
        Some existing \<Rightarrow> m\<lparr>mvalues := assign_existing ls f (mvalues m)\<rparr>
      | None \<Rightarrow> m\<lparr>mvalues := mvalues m @ [\<lparr>labels = ls, mvalue = init\<rparr>]\<rparr>)"

definition registerMetric :: "metric \<Rightarrow> metrics \<Rightarrow> metrics" where
  "registerMetric metric ms =
     (if map_get ms (mname metric) = None then map_set (mname metric) metric ms else ms)"

definition incrementCounter :: "string \<Rightarrow> string jsmap \<Rightarrow> rat \<Rightarrow> metrics \<Rightarrow> metrics" where
  "incrementCounter name ls amount ms =
     (case map_get ms name of
        None \<Rightarrow> ms
      | Some metric \<Rightarrow> map_set name (write_value ls (\<lambda>v. fadd v amount) amount metric) ms)"

definition setGauge :: "string \<Rightarrow> rat \<Rightarrow> string jsmap \<Rightarrow> metrics \<Rightarrow> metrics" where
  "setGauge name val ls ms =
     (case map_get ms name of
        None \<Rightarrow> ms
      | Some metric \<Rightarrow> map_set name (write_value ls (\<lambda>_. val) val metric) ms)"

definition recordObserveHistogram :: "string \<Rightarrow> rat \<Rightarrow> string jsmap \<Rightarrow> metrics \<Rightarrow> metrics" where
  "recordObserveHistogram name seconds ls ms =
     (case map_get ms name of
        None \<Rightarrow> ms
      | Some metric \<Rightarrow>
          (let ms' = map_set name (write_value ls (\<lambda>v. fadd v seconds) seconds metric) ms;
               countMetricName = name @ ''_count''
           in if map_get ms' countMetricName \<noteq> None
              then incrementCounter countMetricName ls 1 ms' else ms'))"

definition getMetricValue :: "string \<Rightarrow> string jsmap \<Rightarrow> metrics \<Rightarrow> rat" where
  "getMetricValue name ls ms =
     (case map_get ms name of
        None \<Rightarrow> 0
      | Some metric \<Rightarrow> (case findMetricValue metric ls of Some v \<Rightarrow> mvalue v | None \<Rightarrow> 0))"

subsection \<open>Registration of the default metrics\<close>

definition new_metric :: "string \<Rightarrow> string \<Rightarrow> metric_type \<Rightarrow> metric" where
  "new_metric name help t =
     \<lparr>mname = name, mhelp = help, mtype = t, mvalues = [], mbuckets = None\<rparr>"

definition defaultHistogramBuckets :: "rat list" where
  "defaultHistogramBuckets =
     map f64 [5/1000, 1/100, 25/1000, 5/100, 1/10, 25/100, 5/10, 1, 25/10, 5, 10]"

definition default_metrics :: "metric list" where
  "default_metrics =
    [new_metric ''http_requests_total'' ''Total number of HTTP requests processed'' Counter,
     (new_metric ''http_request_duration_seconds'' ''HTTP request duration in seconds'' Histogram)
       \<lparr>mbuckets := Some defaultHistogramBuckets\<rparr>,
     new_metric ''http_requests_in_flight'' ''Current number of HTTP requests being processed'' Gauge,
     new_metric ''http_errors_total''
       ''Total number of HTTP requests resulting in 4xx or 5xx errors'' Counter,
     new_metric ''process_cpu_usage_ratio'' ''Current process CPU usage ratio (0.0 to 1.0 per core)'' Gauge,
     new_metric ''process_memory_rss_bytes'' ''Process resident set size memory in bytes'' Gauge,
     new_metric ''process_memory_heap_used_bytes'' ''Process heap memory used in bytes'' Gauge,
     new_metric ''process_memory_heap_total_bytes'' ''Process total heap memory allocated in bytes'' Gauge,
     new_metric ''process_uptime_seconds'' ''Node.js process uptime in seconds'' Gauge,
     new_metric ''system_memory_total_bytes'' ''Total system memory in bytes'' Gauge,
     new_metric ''system_memory_free_bytes'' ''Free system memory in bytes'' Gauge,
     new_metric ''astraport_portfolio_analyses_total''
       ''Total portfolio analysis requests processed'' Counter,
     new_metric ''astraport_rebalancing_executions_total''
       ''Total portfolio rebalancing execution attempts by status'' Counter,
     new_metric ''astraport_rebalancing_schedule_count''
       ''Current count of active rebalancing schedules'' Gauge,
     new_metric ''astraport_risk_evaluations_total'' ''Total risk evaluations performed'' Counter,
     new_metric ''astraport_risk_score_last'' ''Most recently calculated risk score'' Gauge,
     new_metric ''astraport_contract_invocations_total''
       ''Total Soroban smart contract invocations'' Counter,
     new_metric ''astraport_active_subscriptions'' ''Total active user/event subscriptions'' Gauge,
     new_metric ''astraport_ai_triggers_active'' ''Total active AI triggers registered'' Gauge]"

definition initializeDefaultMetrics :: "metrics \<Rightarrow> metrics" where
  "initializeDefaultMetrics ms = foldl (\<lambda>ms m. registerMetric m ms) ms default_metrics"

subsection \<open>System readings\<close>

record cpu_times = t_user :: int t_nice :: int t_sys :: int t_idle :: int t_irq :: int

record system_readings =
  rss :: int
  heapUsed :: int
  heapTotal :: int
  uptime :: rat
  totalmem :: int
  freemem :: int
  cpus :: "cpu_times list"

definition cpu_usage :: "cpu_times list \<Rightarrow> rat" where
  "cpu_usage cs =
     (let totalTick = foldl (\<lambda>n c. n + t_user c + t_nice c + t_sys c + t_idle c + t_irq c) 0 cs;
          totalIdle = foldl (\<lambda>n c. n + t_idle c) 0 cs
      in fsub 1 (fdiv (of_int totalIdle) (of_int (if totalTick = 0 then 1 else totalTick))))"

definition collectSystemMetrics :: "system_readings \<Rightarrow> metrics \<Rightarrow> metrics" where
  "collectSystemMetrics r ms =
     (let ms1 = setGauge ''process_memory_rss_bytes'' (of_int (rss r)) [] ms;
          ms2 = setGauge ''process_memory_heap_used_bytes'' (of_int (heapUsed r)) [] ms1;
          ms3 = setGauge ''process_memory_heap_total_bytes'' (of_int (heapTotal r)) [] ms2;
          ms4 = setGauge ''process_uptime_seconds'' (of_int \<lfloor>uptime r\<rfloor>) [] ms3;
          ms5 = setGauge ''system_memory_total_bytes'' (of_int (totalmem r)) [] ms4;
          ms6 = setGauge ''system_memory_free_bytes'' (of_int (freemem r)) [] ms5
      in if cpus r \<noteq> []
         then setGauge ''process_cpu_usage_ratio'' (to_fixed 4 (cpu_usage (cpus r))) [] ms6
         else ms6)"

subsection \<open>Prometheus text\<close>

definition replace_char :: "char \<Rightarrow> string \<Rightarrow> string \<Rightarrow> string" where
  "replace_char c r s = concat (map (\<lambda>x. if x = c then r else [x]) s)"

definition escapeLabelValue :: "string \<Rightarrow> string" where
  "escapeLabelValue val =
     replace_char (CHR 0x0A) [CHR 0x5C, CHR 0x6E]
       (replace_char (CHR 0x22) [CHR 0x5C, CHR 0x22]
         (replace_char (CHR 0x5C) [CHR 0x5C, CHR 0x5C] val))"

definition type_text :: "metric_type \<Rightarrow> string" where
  "type_text t = (case t of Counter \<Rightarrow> ''counter'' | Gauge \<Rightarrow> ''gauge'' | Histogram \<Rightarrow> ''histogram'')"

definition sample_line :: "(rat \<Rightarrow> string) \<Rightarrow> string \<Rightarrow> metric_value \<Rightarrow> string" where
  "sample_line num name v =
     (let labelPairs = join '','' (map (\<lambda>(k, l). k @ ''='' @ [CHR 0x22] @ escapeLabelValue l @ [CHR 0x22]) (labels v));
          labelStr = (if labelPairs \<noteq> [] then ''{'' @ labelPairs @ ''}'' else [])
      in name @ labelStr @ '' '' @ num (mvalue v))"

definition metric_lines :: "(rat \<Rightarrow> string) \<Rightarrow> string \<times> metric \<Rightarrow> string list" where
  "metric_lines num = (\<lambda>(name, metric).
     [''# HELP '' @ name @ '' '' @ mhelp metric, ''# TYPE '' @ name @ '' '' @ type_text (mtype metric)]
     @ (if mvalues metric = [] then [name @ '' 0''] else map (sample_line num name) (mvalues metric))
     @ [[]])"

definition getPrometheusMetricsText ::
  "(rat \<Rightarrow> string) \<Rightarrow> system_readings \<Rightarrow> metrics \<Rightarrow> string \<times> metrics" where
  "getPrometheusMetricsText num r ms =
     (let ms' = collectSystemMetrics r ms
      in (join [CHR 0x0A] (concat (map (metric_lines num) ms')), ms'))"

section \<open>Label sets\<close>

lemma areLabelsEqual_refl [simp]: "areLabelsEqual ls ls"
  by (simp add: areLabelsEqual_def list_all_iff)

theorem areLabelsEqual_iff:
  assumes "wf_map l1" "wf_map l2"
  shows "areLabelsEqual l1 l2 \<longleftrightarrow> map_of l1 = map_of l2"
proof
  assume eq: "areLabelsEqual l1 l2"
  then have len: "length l1 = length l2"
    and keys: "\<And>k. k \<in> set (map_keys l1) \<Longrightarrow> map_of l1 k = map_of l2 k"
    by (auto simp: areLabelsEqual_def list_all_iff split: if_splits)
  have sub: "set (map_keys l1) \<subseteq> set (map_keys l2)"
    using keys by (metis map_get_None_iff subsetI)
  have "card (set (map_keys l1)) = card (set (map_keys l2))"
    using assms len by (simp add: distinct_card del: set_map)
  with sub have same: "set (map_keys l1) = set (map_keys l2)"
    by (intro card_subset_eq) auto
  show "map_of l1 = map_of l2"
  proof
    fix k show "map_of l1 k = map_of l2 k"
      using keys same by (cases "k \<in> set (map_keys l1)") (metis map_get_None_iff)+
  qed
next
  assume eq: "map_of l1 = map_of l2"
  then have "set (map_keys l1) = set (map_keys l2)"
    by (metis dom_map_of_conv_image_fst set_map)
  then have "length (map_keys l1) = length (map_keys l2)"
    using assms by (metis distinct_card)
  with eq show "areLabelsEqual l1 l2" by (simp add: areLabelsEqual_def list_all_iff)
qed

section \<open>One sample per label set\<close>

definition values_ok :: "metric_value list \<Rightarrow> bool" where
  "values_ok vs \<longleftrightarrow> (\<forall>v \<in> set vs. wf_map (labels v)) \<and> distinct (map (\<lambda>v. map_of (labels v)) vs)"

definition metrics_ok :: "metrics \<Rightarrow> bool" where
  "metrics_ok ms \<longleftrightarrow> wf_map ms \<and> (\<forall>(k, m) \<in> set ms. values_ok (mvalues m))"

lemma metrics_okD: "metrics_ok ms \<Longrightarrow> map_get ms name = Some m \<Longrightarrow> values_ok (mvalues m)"
  by (auto simp: metrics_ok_def dest!: map_of_SomeD)

lemma metrics_ok_set [preserved]:
  "metrics_ok ms \<Longrightarrow> values_ok (mvalues m) \<Longrightarrow> metrics_ok (map_set name m ms)"
  using set_map_set_subset [of name m ms] by (fastforce simp: metrics_ok_def)

lemma labels_assign_existing [simp]: "map labels (assign_existing ls f vs) = map labels vs"
  by (induction vs) auto

lemma values_ok_labels: "values_ok vs \<longleftrightarrow>
   (\<forall>l \<in> set (map labels vs). wf_map l) \<and> distinct (map map_of (map labels vs))"
  by (simp add: values_ok_def comp_def)

lemma values_ok_assign: "values_ok vs \<Longrightarrow> values_ok (assign_existing ls f vs)"
  unfolding values_ok_labels labels_assign_existing .

lemma values_ok_append:
  assumes "values_ok vs" "wf_map ls" "List.find (\<lambda>v. areLabelsEqual (labels v) ls) vs = None"
  shows "values_ok (vs @ [\<lparr>labels = ls, mvalue = x\<rparr>])"
  using assms by (auto simp: values_ok_def find_None_iff areLabelsEqual_iff)

lemma values_ok_write [preserved]:
  "values_ok (mvalues m) \<Longrightarrow> wf_map ls \<Longrightarrow> values_ok (mvalues (write_value ls f x m))"
  by (auto simp: write_value_def findMetricValue_def values_ok_assign values_ok_append
      split: option.split)

lemma metrics_ok_register [preserved]:
  "metrics_ok ms \<Longrightarrow> values_ok (mvalues m) \<Longrightarrow> metrics_ok (registerMetric m ms)"
  by (simp add: registerMetric_def metrics_ok_set)

lemma metrics_ok_increment [preserved]:
  "metrics_ok ms \<Longrightarrow> wf_map ls \<Longrightarrow> metrics_ok (incrementCounter name ls a ms)"
  by (auto simp: incrementCounter_def intro!: preserved dest: metrics_okD split: option.split)

lemma metrics_ok_gauge [preserved]:
  "metrics_ok ms \<Longrightarrow> wf_map ls \<Longrightarrow> metrics_ok (setGauge name x ls ms)"
  by (auto simp: setGauge_def intro!: preserved dest: metrics_okD split: option.split)

lemma metrics_ok_histogram [preserved]:
  "metrics_ok ms \<Longrightarrow> wf_map ls \<Longrightarrow> metrics_ok (recordObserveHistogram name x ls ms)"
  by (auto simp: recordObserveHistogram_def Let_def intro!: preserved dest: metrics_okD split: option.split)

lemma metrics_ok_system [preserved]: "metrics_ok ms \<Longrightarrow> metrics_ok (collectSystemMetrics r ms)"
  by (simp add: collectSystemMetrics_def Let_def preserved)

lemma metrics_ok_registrations:
  "metrics_ok ms \<Longrightarrow> \<forall>m \<in> set mets. mvalues m = [] \<Longrightarrow>
   metrics_ok (foldl (\<lambda>ms m. registerMetric m ms) ms mets)"
  by (induction mets arbitrary: ms) (simp_all add: metrics_ok_register values_ok_def)

lemma metrics_ok_initialize [preserved]: "metrics_ok ms \<Longrightarrow> metrics_ok (initializeDefaultMetrics ms)"
  unfolding initializeDefaultMetrics_def
  by (rule metrics_ok_registrations) (auto simp: default_metrics_def new_metric_def)

section \<open>Reads see writes\<close>

lemma find_assign_existing:
  assumes "values_ok vs" "wf_map ls" "wf_map ls'"
  shows "List.find (\<lambda>v. areLabelsEqual (labels v) ls') (assign_existing ls f vs) =
    (if map_of ls' = map_of ls
     then map_option (\<lambda>v. v\<lparr>mvalue := f (mvalue v)\<rparr>) (List.find (\<lambda>v. areLabelsEqual (labels v) ls) vs)
     else List.find (\<lambda>v. areLabelsEqual (labels v) ls') vs)"
  using assms by (induction vs) (auto simp: values_ok_def areLabelsEqual_iff)

lemma find_labels_cong:
  assumes "values_ok vs" "wf_map ls" "wf_map ls'" "map_of ls' = map_of ls"
  shows "List.find (\<lambda>v. areLabelsEqual (labels v) ls') vs = List.find (\<lambda>v. areLabelsEqual (labels v) ls) vs"
  using assms by (induction vs) (auto simp: values_ok_def areLabelsEqual_iff)

definition sample :: "metric \<Rightarrow> string jsmap \<Rightarrow> rat option" where
  "sample m ls = map_option mvalue (findMetricValue m ls)"

lemma sample_write:
  assumes "values_ok (mvalues m)" "wf_map ls" "wf_map ls'"
  shows "sample (write_value ls f x m) ls' =
    (if map_of ls' = map_of ls
     then Some (case sample m ls of Some v \<Rightarrow> f v | None \<Rightarrow> x) else sample m ls')"
proof (cases "findMetricValue m ls")
  case None
  then have w: "mvalues (write_value ls f x m) = mvalues m @ [\<lparr>labels = ls, mvalue = x\<rparr>]"
    and n: "List.find (\<lambda>v. areLabelsEqual (labels v) ls) (mvalues m) = None"
    by (simp_all add: write_value_def findMetricValue_def)
  show ?thesis
  proof (cases "map_of ls' = map_of ls")
    case True
    with n have "List.find (\<lambda>v. areLabelsEqual (labels v) ls') (mvalues m) = None"
      by (simp add: find_labels_cong [OF assms])
    with w n None True assms show ?thesis
      by (simp add: sample_def findMetricValue_def find_append areLabelsEqual_iff)
  next
    case False
    with w assms show ?thesis
      by (simp add: sample_def findMetricValue_def find_append areLabelsEqual_iff split: option.split)
  qed
next
  case (Some v)
  then have "mvalues (write_value ls f x m) = assign_existing ls f (mvalues m)"
    by (simp add: write_value_def)
  with Some assms show ?thesis
    by (simp add: sample_def findMetricValue_def find_assign_existing option.map_comp comp_def)
qed

lemma getMetricValue_sample:
  "getMetricValue name ls ms =
     (case map_get ms name of None \<Rightarrow> 0 | Some m \<Rightarrow> (case sample m ls of None \<Rightarrow> 0 | Some v \<Rightarrow> v))"
  by (auto simp: getMetricValue_def sample_def split: option.split)

lemma get_increment:
  assumes "metrics_ok ms" "wf_map ls" "wf_map ls'" "is_f64 a" "map_get ms name \<noteq> None"
  shows "getMetricValue name' ls' (incrementCounter name ls a ms) =
    (if name' = name \<and> map_of ls' = map_of ls then fadd (getMetricValue name ls ms) a
     else getMetricValue name' ls' ms)"
  using assms
  by (auto simp: getMetricValue_sample incrementCounter_def sample_write [OF metrics_okD] fadd_def
      f64_exact split: option.split)

lemma get_gauge:
  assumes "metrics_ok ms" "wf_map ls" "wf_map ls'" "map_get ms name \<noteq> None"
  shows "getMetricValue name' ls' (setGauge name x ls ms) =
    (if name' = name \<and> map_of ls' = map_of ls then x else getMetricValue name' ls' ms)"
  using assms
  by (auto simp: getMetricValue_sample setGauge_def sample_write [OF metrics_okD]
      split: option.split)

lemma increment_unregistered [unchanged]:
  "map_get ms name = None \<Longrightarrow> incrementCounter name ls a ms = ms"
  by (simp add: incrementCounter_def)

lemma gauge_unregistered [unchanged]: "map_get ms name = None \<Longrightarrow> setGauge name x ls ms = ms"
  by (simp add: setGauge_def)

section \<open>Label escaping\<close>

fun unescape :: "string \<Rightarrow> string" where
  "unescape [] = []"
| "unescape [c] = [c]"
| "unescape (c # d # s) =
     (if c = CHR 0x5C then (if d = CHR 0x6E then CHR 0x0A else d) # unescape s
      else c # unescape (d # s))"

lemma replace_char_simps [simp]:
  "replace_char c r [] = []"
  "replace_char c r (x # xs) = (if x = c then r else [x]) @ replace_char c r xs"
  "replace_char c r (xs @ ys) = replace_char c r xs @ replace_char c r ys"
  by (simp_all add: replace_char_def)

lemma escape_simps [simp]:
  "escapeLabelValue [] = []"
  "escapeLabelValue (x # xs) =
     (if x = CHR 0x5C then [CHR 0x5C, CHR 0x5C]
      else if x = CHR 0x22 then [CHR 0x5C, CHR 0x22]
      else if x = CHR 0x0A then [CHR 0x5C, CHR 0x6E] else [x]) @ escapeLabelValue xs"
  by (simp_all add: escapeLabelValue_def)

lemma unescape_plain: "c \<noteq> CHR 0x5C \<Longrightarrow> unescape (c # s) = c # unescape s"
  by (cases s) auto

lemma unescape_escape: "unescape (escapeLabelValue s) = s"
  by (induction s) (auto simp: unescape_plain)

text \<open>Label escaping loses nothing: distinct label values give distinct escaped texts, and
  the escaped text never contains a raw line break, so a label value cannot split a sample line of
  the exposition.\<close>

theorem escapeLabelValue_safe:
  "inj escapeLabelValue \<and> CHR 0x0A \<notin> set (escapeLabelValue s)"
proof
  show "inj escapeLabelValue" by (rule inj_on_inverseI [of _ unescape]) (rule unescape_escape)
  show "CHR 0x0A \<notin> set (escapeLabelValue s)" by (induction s) auto
qed

end
