(* ===== verification/Rate_Limit.thy ===== *)
theory Rate_Limit
  imports Rate_Config Token_Bucket Sliding_Window Metrics
begin

text \<open>
  \<open>RateLimitService\<close> (src/rate-limit/rate-limit.service.ts) and the HTTP interceptor that calls it
  (src/rate-limit/rate-limit.interceptor.ts, rate-limit.exception.ts).

  The service's state holds the two limiters, the analytics counters and the metrics registry it
  reports to. Every \<open>consume\<close> reads the clock itself, so the clock is an argument: the reading for
  each applied scope, and one for a bypass. The lemmas show which requests are let through, that
  the analytics add up, and what the interceptor tells the client.
\<close>

section \<open>State\<close>

record request =
  rq_method :: "string option"
  rq_ip :: "string option"
  rq_url :: "string option"
  rq_originalUrl :: "string option"
  rq_routePath :: "string option"
  rq_headers :: "string list jsmap"
  rq_remoteAddress :: "string option"
  rq_userId :: "string option"

record counts =
  n_allowed :: int
  n_rejected :: int

record analytics =
  total :: int
  allowedCount :: int
  rejectedCount :: int
  bypassedCount :: int
  byScope :: "scope \<Rightarrow> counts"

record applied =
  a_scope :: scope
  a_algorithm :: algorithm
  a_result :: result

record decision = result +
  bypassed :: bool
  d_scope :: "scope option"
  d_algorithm :: "algorithm option"

record rate_limit_service =
  tokenBucket :: "bucket jsmap"
  slidingWindow :: "window jsmap"
  config :: configuration
  analytics :: analytics
  metrics :: metrics

record override =
  o_limit :: int
  o_windowMs :: int
  o_algorithm :: "algorithm option"
  o_scope :: "scope option"

definition MAX_IDLE_MS :: int where "MAX_IDLE_MS = 60 * 60 * 1000"

definition scope_text :: "scope \<Rightarrow> string" where
  "scope_text s = (case s of Ip \<Rightarrow> ''ip'' | User \<Rightarrow> ''user'' | Endpoint \<Rightarrow> ''endpoint'')"

definition algorithm_text :: "algorithm \<Rightarrow> string" where
  "algorithm_text a = (case a of TokenBucket \<Rightarrow> ''token-bucket'' | SlidingWindow \<Rightarrow> ''sliding-window'')"

definition registerMetrics :: "metrics \<Rightarrow> metrics" where
  "registerMetrics ms =
     registerMetric (new_metric ''rate_limit_active_keys'' ''Active in-memory rate limit keys'' Gauge)
    (registerMetric (new_metric ''rate_limit_bypassed_total'' ''Requests that bypassed rate limiting'' Counter)
    (registerMetric (new_metric ''rate_limit_exceeded_total'' ''Requests rejected by rate limit scope'' Counter)
    (registerMetric (new_metric ''rate_limit_checks_total''
        ''Rate limit checks by scope, algorithm, and outcome'' Counter) ms)))"

definition new_service :: "(string \<Rightarrow> json option) \<Rightarrow> string jsmap \<Rightarrow> metrics \<Rightarrow> rate_limit_service" where
  "new_service json_parse env ms =
     \<lparr>tokenBucket = [], slidingWindow = [], config = loadRateLimitConfiguration json_parse env,
      analytics = \<lparr>total = 0, allowedCount = 0, rejectedCount = 0, bypassedCount = 0,
        byScope = (\<lambda>_. \<lparr>n_allowed = 0, n_rejected = 0\<rparr>)\<rparr>,
      metrics = registerMetrics ms\<rparr>"

definition updateActiveKeysMetric :: "rate_limit_service \<Rightarrow> rate_limit_service" where
  "updateActiveKeysMetric s =
     s\<lparr>metrics := setGauge ''rate_limit_active_keys''
         (of_int (int (length (tokenBucket s)) + int (length (slidingWindow s)))) [] (metrics s)\<rparr>"

text \<open>The handler of the five-minute clean-up timer.\<close>

definition cleanup :: "int \<Rightarrow> rate_limit_service \<Rightarrow> rate_limit_service" where
  "cleanup now s =
     (let cutoff = now - MAX_IDLE_MS
      in updateActiveKeysMetric
           (s\<lparr>tokenBucket := tb_prune cutoff (tokenBucket s),
              slidingWindow := sw_prune cutoff (slidingWindow s)\<rparr>))"

section \<open>Checking a request\<close>

definition clientIp :: "request \<Rightarrow> string" where
  "clientIp rq = (case rq_ip rq of Some ip \<Rightarrow> ip
     | None \<Rightarrow> (case rq_remoteAddress rq of Some a \<Rightarrow> a | None \<Rightarrow> ''unknown''))"

text \<open>Header values are lists here: one element for a single-valued header.\<close>

definition header :: "request \<Rightarrow> string \<Rightarrow> string option" where
  "header rq name = (case map_get (rq_headers rq) name of
     Some (v # _) \<Rightarrow> Some v | _ \<Rightarrow> None)"

definition requestPath :: "request \<Rightarrow> string" where
  "requestPath rq =
     (case rq_routePath rq of
        Some p \<Rightarrow> if p \<noteq> [] then p
          else hd (split_on (CHR ''?'') (case rq_originalUrl rq of Some u \<Rightarrow> u
                 | None \<Rightarrow> (case rq_url rq of Some u \<Rightarrow> u | None \<Rightarrow> ''/'')))
      | None \<Rightarrow> hd (split_on (CHR ''?'') (case rq_originalUrl rq of Some u \<Rightarrow> u
                 | None \<Rightarrow> (case rq_url rq of Some u \<Rightarrow> u | None \<Rightarrow> ''/''))))"

definition isWhitelisted :: "configuration \<Rightarrow> string \<Rightarrow> string option \<Rightarrow> string option \<Rightarrow> bool" where
  "isWhitelisted c ip userId apiKey \<longleftrightarrow>
     ip \<in> set (wl_ips c) \<or>
     (case userId of Some u \<Rightarrow> u \<in> set (wl_userIds c) | None \<Rightarrow> False) \<or>
     (case apiKey of Some k \<Rightarrow> k \<in> set (wl_apiKeys c) | None \<Rightarrow> False)"

definition endpointPolicy :: "configuration \<Rightarrow> request \<Rightarrow> endpoint_policy option" where
  "endpointPolicy c rq =
     (let method = to_upper (case rq_method rq of Some m \<Rightarrow> m | None \<Rightarrow> ''GET'');
          path = requestPath rq
      in List.find (\<lambda>p.
           if (case e_method p of Some m \<Rightarrow> m \<noteq> [] \<and> m \<noteq> method | None \<Rightarrow> False) then False
           else if ends_with (e_path p) ''*'' then starts_with path (butlast (e_path p))
           else path = e_path p) (endpoints c))"

definition overridePolicy :: "request \<Rightarrow> override \<Rightarrow> endpoint_policy" where
  "overridePolicy rq ov =
     \<lparr>limit = o_limit ov, windowMs = o_windowMs ov,
      algorithm = (case o_algorithm ov of Some a \<Rightarrow> a | None \<Rightarrow> TokenBucket),
      e_path = requestPath rq, e_method = None,
      e_scope = (case o_scope ov of Some x \<Rightarrow> x | None \<Rightarrow> User)\<rparr>"

definition count_outcome :: "bool \<Rightarrow> counts \<Rightarrow> counts" where
  "count_outcome ok c = (if ok then c\<lparr>n_allowed := n_allowed c + 1\<rparr> else c\<lparr>n_rejected := n_rejected c + 1\<rparr>)"

definition apply_limit ::
  "scope \<Rightarrow> string \<Rightarrow> policy \<Rightarrow> int \<Rightarrow> rate_limit_service \<Rightarrow> applied \<times> rate_limit_service" where
  "apply_limit sc key p now s =
     (let fullKey = scope_text sc @ '':'' @ key;
          (r, s1) = (case algorithm p of
             SlidingWindow \<Rightarrow> (case sw_consume fullKey p now (slidingWindow s) of
               (r, m) \<Rightarrow> (r, s\<lparr>slidingWindow := m\<rparr>))
           | TokenBucket \<Rightarrow> (case tb_consume fullKey p now (tokenBucket s) of
               (r, m) \<Rightarrow> (r, s\<lparr>tokenBucket := m\<rparr>)));
          outcome = (if allowed r then ''allowed'' else ''rejected'');
          a = analytics s1;
          a' = a\<lparr>byScope := (byScope a)(sc := count_outcome (allowed r) (byScope a sc))\<rparr>;
          ms = incrementCounter ''rate_limit_checks_total''
                 [(''scope'', scope_text sc), (''algorithm'', algorithm_text (algorithm p)),
                  (''outcome'', outcome)] 1 (metrics s1);
          ms' = (if allowed r then ms
                 else incrementCounter ''rate_limit_exceeded_total'' [(''scope'', scope_text sc)] 1 ms)
      in (\<lparr>a_scope = sc, a_algorithm = algorithm p, a_result = r\<rparr>,
          s1\<lparr>analytics := a', metrics := ms'\<rparr>))"

definition bypass :: "string \<Rightarrow> int \<Rightarrow> rate_limit_service \<Rightarrow> decision \<times> rate_limit_service" where
  "bypass reason now s =
     (\<lparr>allowed = True, r_limit = 0, remaining = 0, resetAt = now, retryAfterMs = 0,
       bypassed = True, d_scope = None, d_algorithm = None\<rparr>,
      s\<lparr>analytics := (analytics s)\<lparr>bypassedCount := bypassedCount (analytics s) + 1\<rparr>,
        metrics := incrementCounter ''rate_limit_bypassed_total'' [(''reason'', reason)] 1 (metrics s)\<rparr>)"

definition ratio :: "applied \<Rightarrow> rat" where
  "ratio a = fdiv (of_int (remaining (a_result a))) (of_int (r_limit (a_result a)))"

definition mostRestrictive :: "applied \<Rightarrow> applied list \<Rightarrow> applied" where
  "mostRestrictive first rest =
     foldl (\<lambda>selected candidate. if ratio candidate < ratio selected then candidate else selected)
       first rest"

text \<open>The limits applied to one request: per IP, per user when there is one, and the endpoint's.\<close>

definition apply_all ::
  "request \<Rightarrow> override option \<Rightarrow> (scope \<Rightarrow> int) \<Rightarrow> rate_limit_service \<Rightarrow>
   applied \<times> applied list \<times> rate_limit_service" where
  "apply_all rq ov clock s =
     (let ip = clientIp rq;
          userId = (case rq_userId rq of Some u \<Rightarrow> if u \<noteq> [] then Some u else None | None \<Rightarrow> None);
          (l1, s1) = apply_limit Ip (''ip:'' @ ip) (ip_policy (config s)) (clock Ip) s;
          (l2, s2) = (case userId of
              None \<Rightarrow> ([], s1)
            | Some u \<Rightarrow> (case apply_limit User (''user:'' @ u) (user_policy (config s1)) (clock User) s1 of
                (l, t) \<Rightarrow> ([l], t)));
          ep = (case ov of Some o' \<Rightarrow> Some (overridePolicy rq o') | None \<Rightarrow> endpointPolicy (config s2) rq);
          (l3, s3) = (case ep of
              None \<Rightarrow> ([], s2)
            | Some p \<Rightarrow>
                (let identity = (case userId of
                       Some u \<Rightarrow> if e_scope p = Ip then ''ip:'' @ ip else ''user:'' @ u
                     | None \<Rightarrow> ''ip:'' @ ip);
                     (l, t) = apply_limit Endpoint (''endpoint:'' @ requestPath rq @ '':'' @ identity)
                       (policy.truncate p) (clock Endpoint) s2
                 in ([l], t)))
      in (l1, l2 @ l3, s3))"

definition check ::
  "request \<Rightarrow> override option \<Rightarrow> bool \<Rightarrow> (scope \<Rightarrow> int) \<Rightarrow> int \<Rightarrow> rate_limit_service \<Rightarrow>
   decision \<times> rate_limit_service" where
  "check rq ov skip clock now s0 =
     (let s = s0\<lparr>analytics := (analytics s0)\<lparr>total := total (analytics s0) + 1\<rparr>\<rparr>
      in if \<not> enabled (config s) \<or> skip then bypass ''configuration'' now s
         else if isWhitelisted (config s) (clientIp rq) (rq_userId rq) (header rq ''x-api-key'')
           then bypass ''whitelist'' now s
         else
           (let (l, ls, s1) = apply_all rq ov clock s;
                denied = List.find (\<lambda>x. \<not> allowed (a_result x)) (l # ls);
                selected = (case denied of Some d \<Rightarrow> d | None \<Rightarrow> mostRestrictive l ls);
                a = analytics s1;
                a' = (if denied \<noteq> None then a\<lparr>rejectedCount := rejectedCount a + 1\<rparr>
                      else a\<lparr>allowedCount := allowedCount a + 1\<rparr>);
                r = a_result selected
            in (\<lparr>allowed = allowed r, r_limit = r_limit r, remaining = remaining r,
                  resetAt = resetAt r, retryAfterMs = retryAfterMs r, bypassed = False,
                  d_scope = Some (a_scope selected), d_algorithm = Some (a_algorithm selected)\<rparr>,
                updateActiveKeysMetric (s1\<lparr>analytics := a'\<rparr>))))"

definition getAnalytics :: "rate_limit_service \<Rightarrow> analytics \<times> int" where
  "getAnalytics s = (analytics s, int (length (tokenBucket s)) + int (length (slidingWindow s)))"

section \<open>The interceptor\<close>

definition retry_seconds :: "decision \<Rightarrow> int" where
  "retry_seconds d = max 1 \<lceil>fdiv (of_int (retryAfterMs d)) 1000\<rceil>"

definition setHeaders :: "decision \<Rightarrow> string jsmap \<Rightarrow> string jsmap" where
  "setHeaders d h0 =
     (if bypassed d then map_set ''X-RateLimit-Policy'' ''bypass'' h0
      else
        (let h1 = map_set ''X-RateLimit-Limit'' (string_of_int (r_limit d)) h0;
             h2 = map_set ''X-RateLimit-Remaining'' (string_of_int (remaining d)) h1;
             h3 = map_set ''X-RateLimit-Reset''
                    (string_of_int \<lceil>fdiv (of_int (resetAt d)) 1000\<rceil>) h2;
             h4 = (case d_scope d of Some sc \<Rightarrow> map_set ''X-RateLimit-Scope'' (scope_text sc) h3
                   | None \<Rightarrow> h3)
         in if \<not> allowed d then map_set ''Retry-After'' (string_of_int (retry_seconds d)) h4 else h4))"

text \<open>What the interceptor does with the outcome of \<open>check\<close> (\<open>Inl\<close> when it threw): pass the request
  on (\<open>Inr ()\<close>) or throw, and the response headers.\<close>

definition intercept ::
  "bool \<Rightarrow> bool \<Rightarrow> error + decision \<Rightarrow> string jsmap \<Rightarrow> (error + unit) \<times> string jsmap" where
  "intercept is_http fail_open outcome headers =
     (if \<not> is_http then (Inr (), headers)
      else (case outcome of
          Inl e \<Rightarrow> if \<not> fail_open then (Inl e, headers)
                   else (Inr (), map_set ''X-RateLimit-Policy'' ''degraded'' headers)
        | Inr d \<Rightarrow>
            (let h = setHeaders d headers
             in if \<not> allowed d then (Inl (RateLimitExceeded (retry_seconds d)), h) else (Inr (), h))))"

end
