(* ===== verification/Rate_Limit_Props.thy ===== *)
theory Rate_Limit_Props
  imports Rate_Limit
begin

text \<open>
  Properties of \<open>RateLimitService\<close> and its interceptor: verdicts, analytics, isolation of clients,
  and the response. They rest on the limiter contract of \<open>Rate_Algorithms\<close> through its two
  interpretations \<open>tb\<close> and \<open>sw\<close>.
\<close>

section \<open>One applied limit\<close>

lemma apply_limit_frame [unchanged]:
  assumes "apply_limit sc key p now s = (l, s')"
  shows "config s' = config s" and "total (analytics s') = total (analytics s)"
    and "allowedCount (analytics s') = allowedCount (analytics s)"
    and "rejectedCount (analytics s') = rejectedCount (analytics s)"
    and "bypassedCount (analytics s') = bypassedCount (analytics s)"
    and "a_scope l = sc" and "a_algorithm l = algorithm p"
    and "byScope (analytics s') = (byScope (analytics s))
       (sc := count_outcome (allowed (a_result l)) (byScope (analytics s) sc))"
  using assms by (auto simp: apply_limit_def Let_def split: prod.splits algorithm.splits)

lemma apply_limit_limiters:
  assumes "apply_limit sc key p now s = (l, s')"
  defines "k \<equiv> scope_text sc @ '':'' @ key"
  shows "algorithm p = TokenBucket \<Longrightarrow> a_result l = fst (tb_consume k p now (tokenBucket s)) \<and>
      tokenBucket s' = snd (tb_consume k p now (tokenBucket s)) \<and> slidingWindow s' = slidingWindow s"
    and "algorithm p = SlidingWindow \<Longrightarrow> a_result l = fst (sw_consume k p now (slidingWindow s)) \<and>
      slidingWindow s' = snd (sw_consume k p now (slidingWindow s)) \<and> tokenBucket s' = tokenBucket s"
  using assms by (auto simp: apply_limit_def Let_def split: prod.splits)

definition service_ok :: "rate_limit_service \<Rightarrow> bool" where
  "service_ok s \<longleftrightarrow> buckets_ok (tokenBucket s) \<and> windows_ok (slidingWindow s) \<and> metrics_ok (metrics s)"

lemma metrics_apply_limit:
  assumes "apply_limit sc key p now s = (l, s')" "metrics_ok (metrics s)"
  shows "metrics_ok (metrics s')"
proof -
  have m: "metrics s' = (if allowed (a_result l) then id
        else incrementCounter ''rate_limit_exceeded_total'' [(''scope'', scope_text sc)] 1)
      (incrementCounter ''rate_limit_checks_total''
        [(''scope'', scope_text sc), (''algorithm'', algorithm_text (algorithm p)),
         (''outcome'', if allowed (a_result l) then ''allowed'' else ''rejected'')] 1 (metrics s))"
    using assms(1) by (auto simp: apply_limit_def Let_def split: prod.splits algorithm.splits)
  show ?thesis unfolding m using assms(2) by (auto intro!: preserved)
qed

lemma apply_limit_ok:
  assumes "apply_limit sc key p now s = (l, s')" "service_ok s" "policy_ok p"
  shows "service_ok s'" "result_ok p now (a_result l)"
  using apply_limit_limiters [OF assms(1)] metrics_apply_limit [OF assms(1)] assms(2,3)
    tb.consume_inv [OF _ assms(3)] sw.consume_inv [OF _ assms(3)]
    tb.consume_result [OF _ assms(3)] sw.consume_result [OF _ assms(3)]
  by (cases "algorithm p"; auto simp: service_ok_def)+

lemma apply_limit_other_key:
  assumes "apply_limit sc key p now s = (l, s')" "k \<noteq> scope_text sc @ '':'' @ key"
  shows "map_get (tokenBucket s') k = map_get (tokenBucket s) k"
    "map_get (slidingWindow s') k = map_get (slidingWindow s) k"
  using apply_limit_limiters [OF assms(1)] tb.consume_other [OF assms(2)] sw.consume_other [OF assms(2)]
  by (cases "algorithm p"; auto)+

section \<open>All the limits of a request\<close>

text \<open>What every applied limit keeps, all the limits of a request keep.\<close>

lemma apply_all_induct:
  assumes all: "apply_all rq ov clock s = (l, ls, s')" and start: "P s"
    and ip: "\<And>s a t. P s \<Longrightarrow> apply_limit Ip (''ip:'' @ clientIp rq) (ip_policy (config s)) (clock Ip) s
        = (a, t) \<Longrightarrow> P t"
    and user: "\<And>s u a t. P s \<Longrightarrow> rq_userId rq = Some u \<Longrightarrow>
        apply_limit User (''user:'' @ u) (user_policy (config s)) (clock User) s = (a, t) \<Longrightarrow> P t"
    and ep: "\<And>s p i a t. P s \<Longrightarrow> (\<exists>o'. ov = Some o' \<and> p = overridePolicy rq o') \<or>
        endpointPolicy (config s) rq = Some p \<Longrightarrow>
        apply_limit Endpoint (''endpoint:'' @ requestPath rq @ '':'' @ i) (policy.truncate p)
          (clock Endpoint) s = (a, t) \<Longrightarrow> P t"
  shows "P s'"
proof -
  let ?uid = "case rq_userId rq of Some u \<Rightarrow> if u \<noteq> [] then Some u else None | None \<Rightarrow> None"
  obtain l1 s1 where 1: "apply_limit Ip (''ip:'' @ clientIp rq) (ip_policy (config s)) (clock Ip) s
      = (l1, s1)" by fastforce
  obtain l2 s2 where 2: "(case ?uid of None \<Rightarrow> ([], s1)
      | Some u \<Rightarrow> (case apply_limit User (''user:'' @ u) (user_policy (config s1)) (clock User) s1 of
          (l, t) \<Rightarrow> ([l], t))) = (l2, s2)" by fastforce
  have "P s1" by (rule ip [OF start 1])
  then have s2: "P s2" using 2 by (auto split: option.splits if_splits prod.splits intro: user)
  let ?ep = "case ov of Some o' \<Rightarrow> Some (overridePolicy rq o') | None \<Rightarrow> endpointPolicy (config s2) rq"
  show ?thesis
  proof (cases ?ep)
    case None
    then show ?thesis using all s2 unfolding apply_all_def Let_def 1 2 split by simp
  next
    case (Some p)
    then have p: "(\<exists>o'. ov = Some o' \<and> p = overridePolicy rq o') \<or> endpointPolicy (config s2) rq = Some p"
      by (auto split: option.splits)
    show ?thesis
      using all ep [OF s2 p] unfolding apply_all_def Let_def 1 2 split Some option.case
      by (auto split: prod.splits)
  qed
qed

lemma apply_all_config [unchanged]: "apply_all rq ov clock s = (l, ls, s') \<Longrightarrow> config s' = config s"
  by (rule apply_all_induct [where P = "\<lambda>t. config t = config s"]) (auto dest: apply_limit_frame(1))

lemma apply_all_analytics:
  assumes "apply_all rq ov clock s = (l, ls, s')"
  shows "total (analytics s') = total (analytics s)"
    "allowedCount (analytics s') = allowedCount (analytics s)"
    "rejectedCount (analytics s') = rejectedCount (analytics s)"
    "bypassedCount (analytics s') = bypassedCount (analytics s)"
    "byScope (analytics s') Ip = count_outcome (allowed (a_result l)) (byScope (analytics s) Ip)"
  using assms
  by (auto simp: apply_all_def Let_def apply_limit_frame split: prod.splits option.splits if_splits)

lemma apply_all_scopes:
  "apply_all rq ov clock s = (l, ls, s') \<Longrightarrow> a_scope l = Ip"
  by (auto simp: apply_all_def Let_def apply_limit_frame split: prod.splits option.splits if_splits)

text \<open>Isolation of addresses. Serving a request never touches the per-IP budget of another
  address, in either limiter, whatever the request's user, route and override.\<close>

theorem check_isolates_ip:
  assumes "clientIp rq \<noteq> ip"
  shows "case check rq ov skip clock now s of (d, s') \<Rightarrow>
    map_get (tokenBucket s') (''ip:ip:'' @ ip) = map_get (tokenBucket s) (''ip:ip:'' @ ip) \<and>
    map_get (slidingWindow s') (''ip:ip:'' @ ip) = map_get (slidingWindow s) (''ip:ip:'' @ ip)"
proof -
  let ?P = "\<lambda>t. map_get (tokenBucket t) (''ip:ip:'' @ ip) = map_get (tokenBucket s) (''ip:ip:'' @ ip) \<and>
    map_get (slidingWindow t) (''ip:ip:'' @ ip) = map_get (slidingWindow s) (''ip:ip:'' @ ip)"
  have step: "?P t" if "?P t0" "apply_limit sc key p n t0 = (a, t)"
    "''ip:ip:'' @ ip \<noteq> scope_text sc @ '':'' @ key" for t0 t sc key p n a
    using apply_limit_other_key [OF that(2,3)] that(1) by simp
  have "?P t" if "apply_all rq ov clock t0 = (l, ls, t)" "?P t0" for t0 t l ls
    using that
  proof (rule apply_all_induct)
    fix t0 u a t assume *: "?P t0" "apply_limit User (''user:'' @ u) (user_policy (config t0)) (clock User) t0 = (a, t)"
    show "?P t" by (rule step [OF *]) (simp add: scope_text_def)
  next
    fix t0 a t assume *: "?P t0" "apply_limit Ip (''ip:'' @ clientIp rq) (ip_policy (config t0)) (clock Ip) t0 = (a, t)"
    show "?P t" by (rule step [OF *]) (use assms(1) in \<open>simp add: scope_text_def\<close>)
  next
    fix t0 p i a t assume *: "?P t0" "apply_limit Endpoint (''endpoint:'' @ requestPath rq @ '':'' @ i)
      (policy.truncate p) (clock Endpoint) t0 = (a, t)"
    show "?P t" by (rule step [OF *]) (simp add: scope_text_def)
  qed
  then show ?thesis
    by (auto simp: check_def Let_def bypass_def updateActiveKeysMetric_def split: prod.split)
qed

text \<open>A concrete service with the default configuration, and a signed-in client.\<close>

definition demo_request :: request where
  "demo_request = \<lparr>rq_method = Some ''GET'', rq_ip = Some ''10.0.0.1'', rq_url = Some ''/pools?x=1'',
     rq_originalUrl = None, rq_routePath = None, rq_headers = [], rq_remoteAddress = None,
     rq_userId = Some ''u1''\<rparr>"

definition demo_service :: rate_limit_service where
  "demo_service = new_service (\<lambda>_. None) [] []"

lemma check_isolates_ip_witness:
  "case check demo_request None False (\<lambda>_. 5) 5 demo_service of (d, s') \<Rightarrow>
    map_get (tokenBucket s') ''ip:ip:10.0.0.2'' = map_get (tokenBucket demo_service) ''ip:ip:10.0.0.2'' \<and>
    map_get (slidingWindow s') ''ip:ip:10.0.0.2'' = map_get (slidingWindow demo_service) ''ip:ip:10.0.0.2''"
  using check_isolates_ip [where rq = demo_request and ip = "''10.0.0.2''" and ov = None and skip = False
      and clock = "\<lambda>_. 5" and now = 5 and s = demo_service]
  by (simp add: demo_request_def clientIp_def)

section \<open>The verdict\<close>

lemma foldl_restrictive:
  fixes r :: "'a \<Rightarrow> 'b::linorder"
  shows "foldl (\<lambda>sel c. if r c < r sel then c else sel) a xs \<in> set (a # xs) \<and>
    (\<forall>x \<in> set (a # xs). r (foldl (\<lambda>sel c. if r c < r sel then c else sel) a xs) \<le> r x)"
proof (induction xs arbitrary: a)
  case (Cons x xs)
  let ?b = "if r x < r a then x else a"
  have "r ?b \<le> r a" "r ?b \<le> r x" "?b \<in> {a, x}" by auto
  then show ?case using Cons [of ?b] by (auto intro: order_trans simp del: not_less)
qed simp

lemma mostRestrictive_in: "mostRestrictive l ls \<in> set (l # ls)"
  and mostRestrictive_le: "x \<in> set (l # ls) \<Longrightarrow> ratio (mostRestrictive l ls) \<le> ratio x"
  using foldl_restrictive [of ratio l ls] unfolding mostRestrictive_def by blast+

definition is_bypass :: "request \<Rightarrow> bool \<Rightarrow> configuration \<Rightarrow> bool" where
  "is_bypass rq skip c \<longleftrightarrow> \<not> enabled c \<or> skip \<or>
     isWhitelisted c (clientIp rq) (rq_userId rq) (header rq ''x-api-key'')"

lemma check_bypass:
  "is_bypass rq skip (config s) \<Longrightarrow>
   \<exists>reason. check rq ov skip clock now s =
     bypass reason now (s\<lparr>analytics := (analytics s)\<lparr>total := total (analytics s) + 1\<rparr>\<rparr>)"
  by (auto simp: is_bypass_def check_def Let_def)

definition counted :: "rate_limit_service \<Rightarrow> rate_limit_service" where
  "counted s = s\<lparr>analytics := (analytics s)\<lparr>total := total (analytics s) + 1\<rparr>\<rparr>"

lemma check_applied:
  assumes "\<not> is_bypass rq skip (config s)" "apply_all rq ov clock (counted s) = (l, ls, s1)"
  shows "check rq ov skip clock now s =
    (let denied = List.find (\<lambda>x. \<not> allowed (a_result x)) (l # ls);
         selected = (case denied of Some d \<Rightarrow> d | None \<Rightarrow> mostRestrictive l ls);
         a = analytics s1;
         a' = (if denied \<noteq> None then a\<lparr>rejectedCount := rejectedCount a + 1\<rparr>
               else a\<lparr>allowedCount := allowedCount a + 1\<rparr>);
         r = a_result selected
     in (\<lparr>allowed = allowed r, r_limit = r_limit r, remaining = remaining r,
           resetAt = resetAt r, retryAfterMs = retryAfterMs r, bypassed = False,
           d_scope = Some (a_scope selected), d_algorithm = Some (a_algorithm selected)\<rparr>,
         updateActiveKeysMetric (s1\<lparr>analytics := a'\<rparr>)))"
  using assms by (simp add: is_bypass_def check_def counted_def Let_def)

lemma verdict_applied:
  assumes "\<not> is_bypass rq skip (config s)" "apply_all rq ov clock (counted s) = (l, ls, s1)"
    "d = fst (check rq ov skip clock now s)"
  shows "(allowed d \<longleftrightarrow> list_all (\<lambda>x. allowed (a_result x)) (l # ls)) \<and>
    \<not> bypassed d \<and>
    list_ex (\<lambda>x. d_scope d = Some (a_scope x) \<and> remaining d = remaining (a_result x) \<and>
        r_limit d = r_limit (a_result x) \<and> retryAfterMs d = retryAfterMs (a_result x) \<and>
        (allowed d \<longrightarrow> list_all (\<lambda>y. ratio x \<le> ratio y) (l # ls))) (l # ls)"
proof (cases "List.find (\<lambda>x. \<not> allowed (a_result x)) (l # ls)")
  case None
  then have all: "\<forall>x \<in> set (l # ls). allowed (a_result x)" by (auto simp: find_None_iff simp del: find.simps)
  have d: "d = \<lparr>allowed = allowed (a_result (mostRestrictive l ls)),
     r_limit = r_limit (a_result (mostRestrictive l ls)),
     remaining = remaining (a_result (mostRestrictive l ls)),
     resetAt = resetAt (a_result (mostRestrictive l ls)),
     retryAfterMs = retryAfterMs (a_result (mostRestrictive l ls)), bypassed = False,
     d_scope = Some (a_scope (mostRestrictive l ls)),
     d_algorithm = Some (a_algorithm (mostRestrictive l ls))\<rparr>"
    using None unfolding assms(3) check_applied [OF assms(1,2)] by (simp only: Let_def fst_conv option.case)
  have "list_all (\<lambda>y. ratio (mostRestrictive l ls) \<le> ratio y) (l # ls)"
    using mostRestrictive_le by (auto simp: list_all_iff)
  then show ?thesis
    using all mostRestrictive_in [of l ls] unfolding d list_ex_iff list_all_iff by auto
next
  case (Some x)
  then have x: "x \<in> set (l # ls)" "\<not> allowed (a_result x)"
    unfolding find_Some_iff by (metis length_Cons nth_mem)+
  have d: "d = \<lparr>allowed = allowed (a_result x), r_limit = r_limit (a_result x),
     remaining = remaining (a_result x), resetAt = resetAt (a_result x),
     retryAfterMs = retryAfterMs (a_result x), bypassed = False,
     d_scope = Some (a_scope x), d_algorithm = Some (a_algorithm x)\<rparr>"
    using Some unfolding assms(3) check_applied [OF assms(1,2)] by (simp only: Let_def fst_conv option.case)
  then show ?thesis using x unfolding d list_ex_iff list_all_iff by auto
qed


lemma demo_no_bypass: "\<not> is_bypass demo_request False (config demo_service)"
  by code_simp


section \<open>Analytics\<close>

definition balanced :: "analytics \<Rightarrow> bool" where
  "balanced a \<longleftrightarrow>
     total a = allowedCount a + rejectedCount a + bypassedCount a \<and>
     n_allowed (byScope a Ip) + n_rejected (byScope a Ip) = allowedCount a + rejectedCount a"

lemma check_balanced:
  assumes "balanced (analytics s)" shows "balanced (analytics (snd (check rq ov skip clock now s)))"
proof (cases "is_bypass rq skip (config s)")
  case True
  then obtain reason where "check rq ov skip clock now s =
     bypass reason now (s\<lparr>analytics := (analytics s)\<lparr>total := total (analytics s) + 1\<rparr>\<rparr>)"
    using check_bypass by blast
  then show ?thesis using assms by (simp add: bypass_def balanced_def)
next
  case False
  obtain l ls s1 where a: "apply_all rq ov clock (counted s) = (l, ls, s1)"
    by (cases "apply_all rq ov clock (counted s)")
  show ?thesis
    using assms apply_all_analytics [OF a] unfolding check_applied [OF False a]
    by (simp add: Let_def updateActiveKeysMetric_def balanced_def counted_def count_outcome_def)
qed

text \<open>Serving a sequence of requests, each with its decorations and clock readings.\<close>

fun serve :: "(request \<times> override option \<times> bool \<times> (scope \<Rightarrow> int) \<times> int) list \<Rightarrow>
    rate_limit_service \<Rightarrow> rate_limit_service" where
  "serve [] s = s"
| "serve ((rq, ov, skip, clock, now) # qs) s = serve qs (snd (check rq ov skip clock now s))"

text \<open>Analytics add up. After any sequence of requests from start-up, the total is the number of
  admitted, rejected and bypassed requests, and the per-IP counters account for exactly the
  admitted and rejected ones.\<close>

theorem analytics_add_up: "balanced (analytics (serve qs (new_service json_parse env ms)))"
proof -
  have "balanced (analytics (serve qs s))" if "balanced (analytics s)" for s
    using that by (induction qs s rule: serve.induct) (auto intro: check_balanced)
  then show ?thesis by (simp add: new_service_def balanced_def)
qed

section \<open>The response\<close>

lemma bypass_allowed: "is_bypass rq skip (config s) \<Longrightarrow>
   allowed (fst (check rq ov skip clock now s)) \<and> bypassed (fst (check rq ov skip clock now s)) \<and>
   tokenBucket (snd (check rq ov skip clock now s)) = tokenBucket s \<and>
   slidingWindow (snd (check rq ov skip clock now s)) = slidingWindow s"
  using check_bypass [of rq skip s ov clock now] by (auto simp: bypass_def)

text \<open>Bypass. With the limiter disabled, a skip decoration or a whitelisted client, the request is
  admitted, no limiter state is consumed, and the response says only that it was bypassed.\<close>

theorem bypass_consumes_nothing:
  assumes "is_bypass rq skip (config s)"
  shows "case check rq ov skip clock now s of (d, s') \<Rightarrow>
    tokenBucket s' = tokenBucket s \<and> slidingWindow s' = slidingWindow s \<and>
    intercept True fo (Inr d) h = (Inr (), map_set ''X-RateLimit-Policy'' ''bypass'' h)"
  using bypass_allowed [OF assms, of ov clock now]
  by (auto simp: intercept_def setHeaders_def split: prod.split)

lemma bypass_consumes_nothing_witness:
  "case check demo_request None True (\<lambda>_. 5) 5 demo_service of (d, s') \<Rightarrow>
    tokenBucket s' = tokenBucket demo_service \<and> slidingWindow s' = slidingWindow demo_service \<and>
    intercept True True (Inr d) [] = (Inr (), map_set ''X-RateLimit-Policy'' ''bypass'' [])"
  by (rule bypass_consumes_nothing) (simp add: is_bypass_def)

lemma ceil_seconds:
  assumes "0 \<le> ms" "ms \<le> 2 ^ 42"
  shows "ms \<le> 1000 * \<lceil>fdiv (of_int ms) 1000\<rceil>" "1000 * \<lceil>fdiv (of_int ms) 1000\<rceil> < ms + 1000"
  using ceiling_fdiv [of ms 1000] assms by simp_all

text \<open>Rejection. A rejected request never reaches the handler: the interceptor throws the 429
  exception with the number of seconds it also puts in \<open>Retry-After\<close>, at least one, which cover
  the limiter's waiting time and exceed it by less than a second.\<close>

theorem reject_response:
  assumes "\<not> allowed d" "\<not> bypassed d" "1 \<le> retryAfterMs d" "retryAfterMs d \<le> 2 ^ 42"
  shows "\<exists>secs h'. intercept True fo (Inr d) h = (Inl (RateLimitExceeded secs), h') \<and>
    map_get h' ''Retry-After'' = Some (string_of_int secs) \<and>
    map_get h' ''X-RateLimit-Remaining'' = Some (string_of_int (remaining d)) \<and>
    1 \<le> secs \<and> retryAfterMs d \<le> 1000 * secs \<and> 1000 * secs < retryAfterMs d + 1000"
proof (intro exI conjI)
  show "intercept True fo (Inr d) h = (Inl (RateLimitExceeded (retry_seconds d)), setHeaders d h)"
    using assms(1) by (simp add: intercept_def)
  note c = ceil_seconds [of "retryAfterMs d"]
  have "1 \<le> \<lceil>fdiv (of_int (retryAfterMs d)) 1000\<rceil>" using c(1) assms(3,4) by linarith
  then have s: "retry_seconds d = \<lceil>fdiv (of_int (retryAfterMs d)) 1000\<rceil>"
    by (simp add: retry_seconds_def)
  show "1 \<le> retry_seconds d" "retryAfterMs d \<le> 1000 * retry_seconds d"
    "1000 * retry_seconds d < retryAfterMs d + 1000"
    using c assms(3,4) \<open>1 \<le> \<lceil>_\<rceil>\<close> unfolding s by linarith+
qed (use assms(1,2) in \<open>auto simp: setHeaders_def Let_def split: option.split\<close>)

definition demo_rejected :: decision where
  "demo_rejected = \<lparr>allowed = False, r_limit = 100, remaining = 0, resetAt = 3000, retryAfterMs = 1500,
     bypassed = False, d_scope = Some Ip, d_algorithm = Some TokenBucket\<rparr>"

lemma reject_response_witness:
  "\<exists>secs h'. intercept True False (Inr demo_rejected) [] = (Inl (RateLimitExceeded secs), h') \<and>
    map_get h' ''Retry-After'' = Some (string_of_int secs) \<and>
    map_get h' ''X-RateLimit-Remaining'' = Some (string_of_int (remaining demo_rejected)) \<and>
    1 \<le> secs \<and> retryAfterMs demo_rejected \<le> 1000 * secs \<and>
    1000 * secs < retryAfterMs demo_rejected + 1000"
  by (rule reject_response) (simp_all add: demo_rejected_def)

end
