(* ===== verification/Window_Refinement.thy ===== *)
theory Window_Refinement
  imports Sliding_Window Rate_Limit_Props
begin

text \<open>
  The sliding-window limiter of src/rate-limit/rate-limit.algorithms.ts together with the clean-up timer of
  rate-limit.service.ts, against its specification: a log of the admissions of every client, by which a request is
  admitted exactly if fewer than the limit lie in the window that ends with it.

  A run interleaves the requests of all clients with clean-ups. Shown are: as long as no window is longer than the
  hour after which an idle client is forgotten, the limiter answers as the log does; with a longer window a
  client that paused is given its whole limit again; and the policies of two methods of one path share a window.
\<close>

section \<open>Specification\<close>

datatype limiter_event = Hit string int | Cleanup int

definition event_time :: "limiter_event \<Rightarrow> int" where
  "event_time e = (case e of Hit _ t \<Rightarrow> t | Cleanup t \<Rightarrow> t)"

type_synonym admission_log = "string \<Rightarrow> int list"

definition recent :: "policy \<Rightarrow> int \<Rightarrow> int list \<Rightarrow> int list" where
  "recent p now A = filter (\<lambda>t. now - windowMs p < t) A"

fun spec_run :: "(string \<Rightarrow> policy) \<Rightarrow> limiter_event list \<Rightarrow> admission_log \<Rightarrow> bool list" where
  "spec_run pol [] A = []"
| "spec_run pol (Hit key now # es) A =
     (let ok = int (length (recent (pol key) now (A key))) < limit (pol key)
      in ok # spec_run pol es (if ok then A(key := A key @ [now]) else A))"
| "spec_run pol (Cleanup now # es) A = spec_run pol es A"

section \<open>The limiter with its clean-up\<close>

definition window_cleanup :: "int \<Rightarrow> window jsmap \<Rightarrow> window jsmap" where
  "window_cleanup now m = sw_prune (now - MAX_IDLE_MS) m"

fun window_run :: "(string \<Rightarrow> policy) \<Rightarrow> limiter_event list \<Rightarrow> window jsmap \<Rightarrow> bool list" where
  "window_run pol [] m = []"
| "window_run pol (Hit key now # es) m =
     (let (r, m') = sw_consume key (pol key) now m in allowed r # window_run pol es m')"
| "window_run pol (Cleanup now # es) m = window_run pol es (window_cleanup now m)"

lemma cleanup_windows: "slidingWindow (cleanup now s) = window_cleanup now (slidingWindow s)"
  by (simp add: cleanup_def window_cleanup_def updateActiveKeysMetric_def Let_def)

section \<open>Simulation\<close>

text \<open>A client without an entry has no admission left in its window; the stamps of an entry are those of the log
  as far as they can still matter, and none is later than the entry's last use.\<close>

definition agrees :: "policy \<Rightarrow> int \<Rightarrow> window option \<Rightarrow> int list \<Rightarrow> bool" where
  "agrees p now w A \<longleftrightarrow>
     (case w of
        None \<Rightarrow> (\<forall>a \<in> set A. a \<le> now - windowMs p)
      | Some w \<Rightarrow> (\<forall>a \<in> set A. a \<le> lastSeen w) \<and> (\<forall>t \<ge> now. recent p t (timestamps w) = recent p t A))"

definition simulates :: "(string \<Rightarrow> policy) \<Rightarrow> int \<Rightarrow> window jsmap \<Rightarrow> admission_log \<Rightarrow> bool" where
  "simulates pol now m A \<longleftrightarrow> windows_ok m \<and>
     (\<forall>key. (\<forall>a \<in> set (A key). a \<le> now) \<and> agrees (pol key) now (map_get m key) (A key))"

lemma recent_recent: "t \<le> t' \<Longrightarrow> recent p t' (recent p t A) = recent p t' A"
  by (auto simp: recent_def intro!: filter_cong)

lemma recent_append: "recent p t (A @ [a]) = recent p t A @ (if t - windowMs p < a then [a] else [])"
  by (simp add: recent_def)

lemma recent_none: "\<forall>a \<in> set A. a \<le> now - windowMs p \<Longrightarrow> now \<le> t \<Longrightarrow> recent p t A = []"
  by (fastforce simp: recent_def filter_empty_conv)

lemma agrees_later: "agrees p now w A \<Longrightarrow> now \<le> t \<Longrightarrow> agrees p t w A"
  by (fastforce simp: agrees_def split: option.splits)

lemma live_is_recent:
  assumes "simulates pol now m A" "now \<le> t"
  shows "live_stamps key (pol key) t m = recent (pol key) t (A key)"
proof -
  have a: "agrees (pol key) now (map_get m key) (A key)" using assms(1) by (simp add: simulates_def)
  have "live_stamps key (pol key) t m = recent (pol key) t (case map_get m key of Some w \<Rightarrow> timestamps w | None \<Rightarrow> [])"
    by (simp add: live_stamps_def recent_def)
  also have "\<dots> = recent (pol key) t (A key)"
    using a assms(2) by (auto simp: agrees_def recent_none recent_def [of _ _ "[]"] split: option.splits)
  finally show ?thesis .
qed

lemma hit_simulates:
  fixes key :: string
  assumes "simulates pol now m A" "now \<le> t"
  defines "ok \<equiv> int (length (recent (pol key) t (A key))) < limit (pol key)"
  shows "allowed (fst (sw_consume key (pol key) t m)) = ok \<and>
    simulates pol t (snd (sw_consume key (pol key) t m)) (if ok then A(key := A key @ [t]) else A)"
proof -
  note live = live_is_recent [OF assms(1,2)]
  let ?m = "snd (sw_consume key (pol key) t m)" and ?A = "if ok then A(key := A key @ [t]) else A"
  have old: "\<forall>a \<in> set (A k). a \<le> now" "agrees (pol k) now (map_get m k) (A k)" for k
    using assms(1) by (simp_all add: simulates_def)
  have "(\<forall>a \<in> set (?A k). a \<le> t) \<and> agrees (pol k) t (map_get ?m k) (?A k)" for k
  proof (cases "k = key")
    case True
    have "\<forall>a \<in> set (A key). a \<le> t" using old(1) assms(2) by fastforce
    then show ?thesis
      by (auto simp: True agrees_def sw_entry live ok_def [symmetric] recent_recent recent_append)
  next
    case False
    then have "map_get ?m k = map_get m k" by (simp add: sw.consume_other)
    moreover have "agrees (pol k) t (map_get m k) (A k)" using old(2) assms(2) by (rule agrees_later)
    moreover have "\<forall>a \<in> set (A k). a \<le> t" using old(1) [of k] assms(2) by fastforce
    ultimately show ?thesis using False by simp
  qed
  moreover have "windows_ok ?m" using assms(1) by (auto simp: simulates_def windows_ok_def sw_consume_def Let_def)
  moreover have "allowed (fst (sw_consume key (pol key) t m)) = ok" by (simp add: sw_allowed live ok_def)
  ultimately show ?thesis by (simp add: simulates_def)
qed

lemma cleanup_simulates:
  assumes "simulates pol now m A" "now \<le> t" "\<forall>key. windowMs (pol key) \<le> MAX_IDLE_MS"
  shows "simulates pol t (window_cleanup t m) A"
proof -
  have ok: "windows_ok m" using assms(1) by (simp add: simulates_def)
  have "(\<forall>a \<in> set (A k). a \<le> t) \<and> agrees (pol k) t (map_get (window_cleanup t m) k) (A k)" for k
  proof -
    have now: "\<forall>a \<in> set (A k). a \<le> now" "agrees (pol k) now (map_get m k) (A k)"
      using assms(1) by (simp_all add: simulates_def)
    have old: "\<forall>a \<in> set (A k). a \<le> t" "agrees (pol k) t (map_get m k) (A k)"
      using now(1) assms(2) agrees_later [OF now(2) assms(2)] by (fastforce, simp)
    moreover have "agrees (pol k) t None (A k)" if "map_get m k = Some w" "lastSeen w < t - MAX_IDLE_MS" for w
      using old(2) that assms(3) [rule_format, of k] by (fastforce simp: agrees_def)
    ultimately show ?thesis
      using assms(2) by (fastforce simp: window_cleanup_def sw.prune_entry [OF ok] split: option.splits)
  qed
  then show ?thesis using sw.prune_inv [OF ok] by (simp add: simulates_def window_cleanup_def)
qed

lemma run_refines:
  assumes "\<forall>key. windowMs (pol key) \<le> MAX_IDLE_MS"
  shows "sorted (now # map event_time es) \<Longrightarrow> simulates pol now m A \<Longrightarrow> window_run pol es m = spec_run pol es A"
proof (induction es arbitrary: now m A)
  case (Cons e es)
  then have t: "now \<le> event_time e" "sorted (event_time e # map event_time es)" by auto
  show ?case
  proof (cases e)
    case (Hit key u)
    then show ?thesis
      using hit_simulates [OF Cons.prems(2), of u key] t Cons.IH [OF t(2)]
      by (auto simp: event_time_def case_prod_beta Let_def)
  next
    case (Cleanup u)
    then show ?thesis
      using cleanup_simulates [OF Cons.prems(2) _ assms, of u] t Cons.IH [OF t(2)] by (simp add: event_time_def)
  qed
qed simp

text \<open>C3. Exactness. If no window is longer than an hour, the limiter and its clean-up, in any interleaving of
  clients and clean-ups in time order, admit exactly the requests before which fewer than the limit were
  admitted to their client within the window.\<close>

theorem window_refines_log:
  assumes "\<forall>key. windowMs (pol key) \<le> MAX_IDLE_MS" "sorted (map event_time es)"
  shows "window_run pol es [] = spec_run pol es (\<lambda>_. [])"
proof (cases es)
  case (Cons e es')
  have "simulates pol (event_time e) [] (\<lambda>_. [])" by (simp add: simulates_def agrees_def windows_ok_def)
  then show ?thesis using run_refines [OF assms(1), of "event_time e" es] assms(2) by (simp add: Cons)
qed simp

lemma window_refines_log_witness:
  "window_run (\<lambda>_. two_per_second) [Hit ''u'' 0, Hit ''v'' 5, Hit ''u'' 10, Cleanup 15, Hit ''u'' 20, Hit ''u'' 1005] [] =
    [True, True, True, False, True]"
proof -
  have "window_run (\<lambda>_. two_per_second) [Hit ''u'' 0, Hit ''v'' 5, Hit ''u'' 10, Cleanup 15, Hit ''u'' 20, Hit ''u'' 1005] [] =
      spec_run (\<lambda>_. two_per_second) [Hit ''u'' 0, Hit ''v'' 5, Hit ''u'' 10, Cleanup 15, Hit ''u'' 20, Hit ''u'' 1005] (\<lambda>_. [])"
    by (rule window_refines_log) (simp_all add: two_per_second_def MAX_IDLE_MS_def event_time_def)
  then show ?thesis by (simp add: two_per_second_def recent_def Let_def)
qed

section \<open>Where it fails\<close>

text \<open>One request a day: a client that was idle for more than an hour is admitted again after the clean-up, long before
  its window ends.\<close>

theorem long_window_forgotten:
  defines "daily \<equiv> \<lparr>limit = 1, windowMs = 86400000, algorithm = SlidingWindow\<rparr>"
    and "es \<equiv> [Hit ''u'' 0, Hit ''u'' 1000, Cleanup 3601001, Hit ''u'' 3601002]"
  shows "window_run (\<lambda>_. daily) es [] = [True, False, True] \<and> spec_run (\<lambda>_. daily) es (\<lambda>_. []) = [True, False, False]"
  unfolding daily_def es_def
  by (simp add: sw_consume_def window_cleanup_def sw_prune_def MAX_IDLE_MS_def recent_def Let_def)

section \<open>Policies of two methods\<close>

text \<open>A policy for one method of a path does not have a budget of its own: the key of the window is the path and the client. Here
  one GET, with a limit of four, leaves nothing of the one POST allowed.\<close>

definition sliding :: "int \<Rightarrow> policy" where
  "sliding n = \<lparr>limit = n, windowMs = 1000, algorithm = SlidingWindow\<rparr>"

definition two_methods :: rate_limit_service where
  "two_methods =
     \<lparr>tokenBucket = [], slidingWindow = [],
       config = \<lparr>enabled = True, failOpen = True, ip_policy = sliding 4, user_policy = sliding 4,
         endpoints = [policy.extend (sliding 4) \<lparr>e_path = ''/x'', e_method = Some ''GET'', e_scope = User\<rparr>,
           policy.extend (sliding 1) \<lparr>e_path = ''/x'', e_method = Some ''POST'', e_scope = User\<rparr>],
         wl_ips = [], wl_userIds = [], wl_apiKeys = []\<rparr>,
       analytics = analytics demo_service, metrics = []\<rparr>"

definition request_to :: "string \<Rightarrow> request" where
  "request_to m = demo_request\<lparr>rq_method := Some m, rq_userId := None, rq_url := Some ''/x''\<rparr>"

theorem methods_share_window:
  "allowed (fst (check (request_to ''POST'') None False (\<lambda>_. 5) 5 two_methods)) \<and>
   \<not> allowed (fst (check (request_to ''POST'') None False (\<lambda>_. 5) 5 (snd (check (request_to ''GET'') None False (\<lambda>_. 5) 5 two_methods))))"
  by code_simp

end
