(* ===== verification/Memory_Cache.thy ===== *)
theory Memory_Cache
  imports Prelude
begin

text \<open>
  The in-process cache level (src/cache/backends/memory-cache.ts) and the contract of a cache
  backend (the interface \<open>CacheBackend\<close> of src/cache/cache.types.ts).

  The \<open>Map\<close> of the code is an association list in insertion order, oldest entry first. The
  locale \<open>cache_backend\<close> states what callers rely on: a backend may forget entries, but it never
  returns a value other than the last one stored under the key, nor one that has expired. The
  coherence of whole runs is proved once in the locale; the memory backend interprets it.
\<close>

section \<open>The backend\<close>

record 'v cache_entry =
  entry_value :: 'v
  expiresAt :: int

type_synonym 'v store = "'v cache_entry jsmap"

definition memory_get :: "string \<Rightarrow> int \<Rightarrow> 'v store \<Rightarrow> 'v option \<times> 'v store" where
  "memory_get key now m =
     (case map_get m key of
        None \<Rightarrow> (None, m)
      | Some e \<Rightarrow>
          if expiresAt e \<le> now then (None, map_delete key m)
          else (Some (entry_value e), map_set key e (map_delete key m)))"

definition memory_getWithTtl :: "string \<Rightarrow> int \<Rightarrow> 'v store \<Rightarrow> ('v \<times> int) option \<times> 'v store" where
  "memory_getWithTtl key now m =
     (case map_get m key of
        None \<Rightarrow> (None, m)
      | Some e \<Rightarrow>
          (let pttl = expiresAt e - now
           in if pttl \<le> 0 then (None, map_delete key m)
              else (Some (entry_value e, pttl), map_set key e (map_delete key m))))"

definition evictExpired :: "int \<Rightarrow> 'v store \<Rightarrow> 'v store" where
  "evictExpired now m = map_delete_each (\<lambda>_ e. expiresAt e \<le> now) m m"

text \<open>The eviction loop of \<open>set\<close>: delete the first key while the map is full.\<close>

function make_room :: "nat \<Rightarrow> 'v store \<Rightarrow> 'v store" where
  "make_room maxKeys m =
     (if maxKeys \<le> length m
      then (case m of [] \<Rightarrow> m | (oldest, _) # _ \<Rightarrow> make_room maxKeys (map_delete oldest m))
      else m)"
  by pat_completeness auto

termination
  by (relation "measure (\<lambda>(_, m). length m)") (auto simp: less_Suc_eq_le length_delete_le)

declare make_room.simps [simp del]

text \<open>\<open>set\<close> reads the clock twice: for the eviction of expired entries and for the new entry.\<close>

definition memory_set :: "nat \<Rightarrow> string \<Rightarrow> 'v \<Rightarrow> int \<Rightarrow> int \<Rightarrow> int \<Rightarrow> 'v store \<Rightarrow> 'v store" where
  "memory_set maxKeys key v ttlMs now_evict now_store m =
     map_set key \<lparr>entry_value = v, expiresAt = now_store + ttlMs\<rparr>
       (make_room maxKeys (evictExpired now_evict m))"

definition memory_del :: "string \<Rightarrow> 'v store \<Rightarrow> 'v store" where
  "memory_del key m = map_delete key m"

definition memory_invalidateByPrefix :: "string \<Rightarrow> 'v store \<Rightarrow> int \<times> 'v store" where
  "memory_invalidateByPrefix prefix m =
     (int (length (filter (\<lambda>k. starts_with k prefix) (map_keys m))),
      map_delete_each (\<lambda>k _. starts_with k prefix) m m)"

definition memory_clear :: "'v store \<Rightarrow> 'v store" where
  "memory_clear m = []"

definition memory_size :: "'v store \<Rightarrow> int" where
  "memory_size m = int (length m)"

lemma map_leI: "(\<And>k x. f k = Some x \<Longrightarrow> g k = Some x) \<Longrightarrow> f \<subseteq>\<^sub>m g"
  by (auto simp: map_le_def)

section \<open>What callers of a cache backend rely on\<close>

datatype 'v cache_op =
    Get string int
  | Set string 'v int int int
  | Del string
  | InvalidateByPrefix string
  | Clear

text \<open>The promise: a map from keys to the last value stored, with its expiry time.\<close>

fun ideal_step :: "'v cache_op \<Rightarrow> (string \<rightharpoonup> 'v \<times> int) \<Rightarrow> (string \<rightharpoonup> 'v \<times> int)" where
  "ideal_step (Get k now) f = f"
| "ideal_step (Set k v ttl t1 t2) f = f(k \<mapsto> (v, t2 + ttl))"
| "ideal_step (Del k) f = f(k := None)"
| "ideal_step (InvalidateByPrefix p) f = (\<lambda>k. if starts_with k p then None else f k)"
| "ideal_step Clear f = Map.empty"

definition ideal :: "'v cache_op list \<Rightarrow> string \<rightharpoonup> 'v \<times> int" where
  "ideal ops = foldl (\<lambda>f op. ideal_step op f) Map.empty ops"

lemma ideal_simps [simp]: "ideal [] = Map.empty" "ideal (ops @ [op]) = ideal_step op (ideal ops)"
  by (simp_all add: ideal_def)

locale cache_backend =
  fixes get :: "string \<Rightarrow> int \<Rightarrow> 's \<Rightarrow> 'v option \<times> 's"
    and step :: "'v cache_op \<Rightarrow> 's \<Rightarrow> 's"
    and start :: 's
    and inv :: "'s \<Rightarrow> bool"
    and holds :: "'s \<Rightarrow> string \<rightharpoonup> 'v \<times> int"
  assumes start_inv: "inv start"
    and start_empty: "holds start = Map.empty"
    and step_inv: "inv s \<Longrightarrow> inv (step op s)"
    and step_holds: "inv s \<Longrightarrow> holds (step op s) \<subseteq>\<^sub>m ideal_step op (holds s)"
    and get_holds: "inv s \<Longrightarrow> fst (get k now s) = Some v \<Longrightarrow> \<exists>e. holds s k = Some (v, e) \<and> now < e"
begin

definition run :: "'v cache_op list \<Rightarrow> 's" where
  "run ops = foldl (\<lambda>s op. step op s) start ops"

lemma run_simps [simp]: "run [] = start" "run (ops @ [op]) = step op (run ops)"
  by (simp_all add: run_def)

lemma run_inv: "inv (run ops)"
  by (induction ops rule: rev_induct) (auto intro: start_inv step_inv)

lemma ideal_step_mono: "f \<subseteq>\<^sub>m g \<Longrightarrow> ideal_step op f \<subseteq>\<^sub>m ideal_step op g"
  by (cases op) (auto simp: map_le_def dom_def split: if_splits)

lemma run_holds: "holds (run ops) \<subseteq>\<^sub>m ideal ops"
proof (induction ops rule: rev_induct)
  case (snoc op ops)
  have "holds (step op (run ops)) \<subseteq>\<^sub>m ideal_step op (holds (run ops))"
    by (rule step_holds [OF run_inv])
  also have "\<dots> \<subseteq>\<^sub>m ideal_step op (ideal ops)"
    by (rule ideal_step_mono [OF snoc])
  finally show ?case by simp
qed (simp add: start_empty)

lemma coherent:
  assumes "fst (get k now (run ops)) = Some v"
  shows "\<exists>e. ideal ops k = Some (v, e) \<and> now < e"
  using get_holds [OF run_inv assms] run_holds [of ops]
  by (auto simp: map_le_def dom_def)

end

section \<open>Facts about the store\<close>

lemma memory_get_wf [preserved]: "wf_map m \<Longrightarrow> wf_map (snd (memory_get k now m))"
  by (auto simp: memory_get_def split: option.split)

lemma memory_getWithTtl_get:
  "snd (memory_getWithTtl k now m) = snd (memory_get k now m)"
  "map_option fst (fst (memory_getWithTtl k now m)) = fst (memory_get k now m)"
  by (auto simp: memory_get_def memory_getWithTtl_def Let_def split: option.split)

lemma evictExpired_filter: "wf_map m \<Longrightarrow> evictExpired now m = filter (\<lambda>(_, e). now < expiresAt e) m"
  unfolding evictExpired_def by (subst map_delete_each_filter) (auto simp: not_le)

lemma make_room_drop: "wf_map m \<Longrightarrow> make_room cap m = drop (Suc (length m) - cap) m"
proof (induction cap m rule: make_room.induct)
  case (1 cap m)
  show ?case
  proof (cases "cap \<le> length m \<and> m \<noteq> []")
    case False
    then show ?thesis by (subst make_room.simps) (auto split: list.split)
  next
    case True
    then obtain k e m' where m: "m = (k, e) # m'" by (cases m) auto
    have del: "map_delete k m' = m'"
      using "1.prems" unfolding m by (simp add: AList.delete_eq) (auto intro: filter_True simp: rev_image_eqI)
    have "make_room cap m = make_room cap m'"
      using True by (subst make_room.simps) (simp add: m del)
    also have "\<dots> = drop (Suc (length m') - cap) m'"
      using True "1.IH" [OF _ m refl] "1.prems" by (simp add: m del)
    finally show ?thesis using True by (simp add: m Suc_diff_le)
  qed
qed

lemma memory_set_eq:
  "wf_map m \<Longrightarrow> memory_set cap key v ttl t1 t2 m =
   map_set key \<lparr>entry_value = v, expiresAt = t2 + ttl\<rparr>
     (let live = filter (\<lambda>(_, e). t1 < expiresAt e) m in drop (Suc (length live) - cap) live)"
  by (simp add: memory_set_def evictExpired_filter make_room_drop Let_def)

lemma wf_map_drop: "wf_map m \<Longrightarrow> wf_map (drop n m)"
  by (simp add: drop_map [symmetric])

lemma memory_set_wf [preserved]: "wf_map m \<Longrightarrow> wf_map (memory_set cap key v ttl t1 t2 m)"
  by (simp add: memory_set_eq Let_def wf_map_drop)

lemma memory_set_length: "wf_map m \<Longrightarrow> length (memory_set cap key v ttl t1 t2 m) \<le> max 1 cap"
  by (auto simp: memory_set_eq length_map_set Let_def split: nat_diff_split)

lemma memory_get_length: "wf_map m \<Longrightarrow> length (snd (memory_get k now m)) \<le> length m"
  using length_delete_le [of k m]
  by (auto simp: memory_get_def length_map_set AList.delete_eq map_of_eq_None_iff split: option.split
      dest!: map_of_SomeD intro!: Suc_leI length_filter_less)

lemma map_get_drop: "wf_map m \<Longrightarrow> map_get (drop n m) k = Some x \<Longrightarrow> map_get m k = Some x"
  by (meson in_set_dropD map_of_SomeD map_of_is_SomeI)

lemma memory_invalidate_filter:
  "wf_map m \<Longrightarrow> snd (memory_invalidateByPrefix p m) = filter (\<lambda>(k, _). \<not> starts_with k p) m"
  by (simp add: memory_invalidateByPrefix_def map_delete_each_filter)

section \<open>The backend keeps the contract\<close>

fun memory_step :: "nat \<Rightarrow> 'v cache_op \<Rightarrow> 'v store \<Rightarrow> 'v store" where
  "memory_step cap (Get k now) m = snd (memory_get k now m)"
| "memory_step cap (Set k v ttl t1 t2) m = memory_set cap k v ttl t1 t2 m"
| "memory_step cap (Del k) m = memory_del k m"
| "memory_step cap (InvalidateByPrefix p) m = snd (memory_invalidateByPrefix p m)"
| "memory_step cap Clear m = memory_clear m"

definition memory_holds :: "'v store \<Rightarrow> string \<rightharpoonup> 'v \<times> int" where
  "memory_holds m k = map_option (\<lambda>e. (entry_value e, expiresAt e)) (map_get m k)"

definition memory_ok :: "nat \<Rightarrow> 'v store \<Rightarrow> bool" where
  "memory_ok cap m \<longleftrightarrow> wf_map m \<and> length m \<le> max 1 cap"

lemma memory_step_ok: "memory_ok cap m \<Longrightarrow> memory_ok cap (memory_step cap op m)"
  by (cases op)
    (auto simp: memory_ok_def memory_set_length [simplified] memory_del_def memory_invalidate_filter memory_clear_def
      intro: preserved order_trans [OF memory_get_length] order_trans [OF length_delete_le]
        order_trans [OF length_filter_le])

lemma memory_get_entry:
  "map_get (snd (memory_get k now m)) k' = Some e \<Longrightarrow> map_get m k' = Some e"
  by (auto simp: memory_get_def split: option.splits if_splits)

lemma memory_set_entry:
  "wf_map m \<Longrightarrow> map_get (memory_set cap k v ttl t1 t2 m) k' = Some e \<Longrightarrow>
   if k' = k then e = \<lparr>entry_value = v, expiresAt = t2 + ttl\<rparr> else map_get m k' = Some e"
  unfolding memory_set_eq Let_def
  by (auto dest!: map_get_drop [rotated] simp: map_get_filter split: option.splits if_splits)

lemma memory_step_holds:
  assumes "memory_ok cap m"
  shows "memory_holds (memory_step cap op m) \<subseteq>\<^sub>m ideal_step op (memory_holds m)"
proof -
  have wf: "wf_map m" using assms by (simp add: memory_ok_def)
  show ?thesis
  proof (cases op)
    case (Get k now)
    then show ?thesis by (auto intro!: map_leI simp: memory_holds_def dest!: memory_get_entry)
  next
    case (Set k v ttl t1 t2)
    then show ?thesis
      by (auto intro!: map_leI simp: memory_holds_def dest!: memory_set_entry [OF wf] split: if_splits)
  qed (auto intro!: map_leI simp: memory_holds_def memory_del_def memory_clear_def
      memory_invalidate_filter [OF wf] map_get_filter [OF wf] split: option.splits if_splits)
qed

interpretation mem: cache_backend memory_get "memory_step cap" "[]" "memory_ok cap" memory_holds
  for cap
proof
  show "memory_ok cap []" by (simp add: memory_ok_def)
  show "memory_holds [] = Map.empty" by (simp add: memory_holds_def fun_eq_iff)
next
  fix m :: "'v store" and k now v
  assume "fst (memory_get k now m) = Some v"
  then show "\<exists>e. memory_holds m k = Some (v, e) \<and> now < e"
    by (auto simp: memory_get_def memory_holds_def split: option.splits if_splits)
qed (rule memory_step_ok memory_step_holds; assumption)+

section \<open>Properties of the memory backend\<close>

definition memory_run :: "nat \<Rightarrow> 'v cache_op list \<Rightarrow> 'v store" where
  "memory_run cap ops = foldl (\<lambda>m op. memory_step cap op m) [] ops"

lemma memory_run_mem: "memory_run cap ops = mem.run cap ops"
  by (simp add: memory_run_def mem.run_def)

text \<open>C6. Coherence. After any sequence of operations, a hit of the memory cache returns the value
  last stored under the key, not since deleted, invalidated or cleared, and not expired.\<close>

theorem memory_coherent:
  assumes "fst (memory_get k now (memory_run cap ops)) = Some v"
  shows "\<exists>e. ideal ops k = Some (v, e) \<and> now < e"
  using assms unfolding memory_run_mem by (rule mem.coherent)

definition demo_ops :: "nat cache_op list" where
  "demo_ops = [Set ''a'' 1 100 0 0, Set ''b'' 2 100 0 0, Get ''a'' 5, Set ''a'' 3 100 7 7, Del ''b'']"

lemma memory_coherent_witness: "\<exists>e. ideal demo_ops ''a'' = Some (3, e) \<and> 50 < e"
  by (rule memory_coherent [of _ _ 4]) code_simp

text \<open>C7. Capacity. However it is used, the memory cache never holds more than \<open>maxKeys\<close> entries (one
  if \<open>maxKeys\<close> is zero), each under its own key.\<close>

theorem memory_bounded:
  "wf_map (memory_run cap ops) \<and> memory_size (memory_run cap ops) \<le> int (max 1 cap)"
  using mem.run_inv [of cap ops] unfolding memory_run_mem memory_ok_def memory_size_def by simp

lemma map_delete_fst: "map_delete k m = filter (\<lambda>p. fst p \<noteq> k) m"
  by (auto simp: AList.delete_eq intro: filter_cong)

lemma map_set_delete: "map_set k e (map_delete k m) = filter (\<lambda>p. fst p \<noteq> k) m @ [(k, e)]"
  by (subst map_set_new) (simp_all flip: map_delete_fst)

text \<open>Least recently used. A hit moves its key to the end of the order and keeps the others in
  place; storing a new key in a full cache of unexpired entries forgets exactly the first key of
  the order, the least recently used one, and puts the new key last.\<close>

theorem memory_lru:
  assumes "wf_map m" "\<forall>(_, e) \<in> set m. now < expiresAt e" "k \<notin> set (map_keys m)" "length m = cap" "0 < cap"
  shows "map_keys (memory_set cap k v ttl now t2 m) = tl (map_keys m) @ [k] \<and>
    (\<forall>j \<in> set (map_keys m).
       map_keys (snd (memory_get j now m)) = filter (\<lambda>i. i \<noteq> j) (map_keys m) @ [j])"
proof
  have "filter (\<lambda>(_, e). now < expiresAt e) m = m" using assms(2) by (auto intro!: filter_True)
  then have "memory_set cap k v ttl now t2 m = map_set k \<lparr>entry_value = v, expiresAt = t2 + ttl\<rparr> (tl m)"
    using assms(1,4,5) by (simp add: memory_set_eq drop_Suc)
  moreover have "map_get (tl m) k = None"
    using assms(3) by (cases m) (auto simp: map_of_eq_None_iff)
  ultimately show "map_keys (memory_set cap k v ttl now t2 m) = tl (map_keys m) @ [k]"
    by (simp add: map_set_new map_tl)
next
  show "\<forall>j \<in> set (map_keys m).
       map_keys (snd (memory_get j now m)) = filter (\<lambda>i. i \<noteq> j) (map_keys m) @ [j]"
  proof
    fix j assume "j \<in> set (map_keys m)"
    then obtain e where e: "map_get m j = Some e" by (auto simp: map_of_eq_None_iff dest: weak_map_of_SomeI)
    then have "now < expiresAt e" using assms(2) by (auto dest!: map_of_SomeD)
    then have "snd (memory_get j now m) = filter (\<lambda>p. fst p \<noteq> j) m @ [(j, e)]"
      using e by (simp add: memory_get_def map_set_delete)
    then show "map_keys (snd (memory_get j now m)) = filter (\<lambda>i. i \<noteq> j) (map_keys m) @ [j]"
      by (simp add: filter_map comp_def)
  qed
qed

definition demo_store :: "nat store" where
  "demo_store = [(''a'', \<lparr>entry_value = 1, expiresAt = 100\<rparr>), (''b'', \<lparr>entry_value = 2, expiresAt = 100\<rparr>)]"

lemma memory_lru_witness:
  "map_keys (memory_set 2 ''c'' 3 50 10 10 demo_store) = [''b'', ''c''] \<and>
   map_keys (snd (memory_get ''a'' 10 demo_store)) = [''b'', ''a'']"
  using memory_lru [of demo_store 10 "''c''" 2 3 50 10] by (simp add: demo_store_def)

text \<open>Overwriting is not recency, and evicts. Storing again under a key of a full cache throws out
  another key although no room is needed, and does not move the key to the recently used end: the
  cache ends up with one entry.\<close>

theorem memory_overwrite_evicts:
  "map_keys (memory_set 2 ''b'' 9 50 10 10 demo_store) = [''b''] \<and>
   map_keys (memory_set 3 ''a'' 9 50 10 10 demo_store) = [''a'', ''b'']"
  by code_simp

end
