(* ===== verification/Cache_Key.thy ===== *)
theory Cache_Key
  imports Memory_Cache JS_Text "HOL-Library.List_Lexorder" "HOL-Library.Char_ord"
begin

text \<open>
  Cache keys and entity tags: src/cache/cache-key.ts, the key of the \<open>@Cached\<close> decorator
  (cache.decorators.ts) and the conditional-request interceptor (cache.interceptor.ts).

  Arguments and bodies are the values \<open>jsval\<close>: finite numbers, valid dates (as their ISO text), no
  functions, symbols or big integers, no cycles. \<open>to_json\<close> is what \<open>JSON.stringify\<close> keeps of a
  value; the text it writes for a JSON value and the SHA-1 digest are parameters.
\<close>

section \<open>Values\<close>

datatype jsval =
    VUndefined
  | VNull
  | VBool bool
  | VNum rat
  | VStr string
  | VDate string
  | VArr "jsval list"
  | VObj "(string \<times> jsval) list"

definition typeof :: "jsval \<Rightarrow> string" where
  "typeof v = (case v of VUndefined \<Rightarrow> ''undefined'' | VBool _ \<Rightarrow> ''boolean'' | VNum _ \<Rightarrow> ''number''
     | VStr _ \<Rightarrow> ''string'' | _ \<Rightarrow> ''object'')"

text \<open>The order of an object's properties: array indices first, ascending, then the other keys in the
  order of their creation.\<close>

definition index_of :: "string \<Rightarrow> nat option" where
  "index_of k =
     (if k = [] then None
      else (case parse_digits 10 0 k of
          None \<Rightarrow> None
        | Some n \<Rightarrow> if n < 2 ^ 32 - 1 \<and> digits_of n = k then Some n else None))"

definition from_entries :: "(string \<times> 'v) list \<Rightarrow> (string \<times> 'v) list" where
  "from_entries es =
     sort_key (\<lambda>e. the (index_of (fst e))) (filter (\<lambda>e. index_of (fst e) \<noteq> None) es) @
     filter (\<lambda>e. index_of (fst e) = None) es"

text \<open>Tagging a scalar: \<open>{ __type, value }\<close>.\<close>

definition tagged :: "string \<Rightarrow> jsval \<Rightarrow> jsval" where
  "tagged t v = VObj [(''__type'', VStr t), (''value'', v)]"

fun normalizeForSerialization :: "jsval \<Rightarrow> jsval" where
  "normalizeForSerialization VNull = VNull"
| "normalizeForSerialization VUndefined = VUndefined"
| "normalizeForSerialization (VDate d) = tagged ''Date'' (VStr d)"
| "normalizeForSerialization (VArr xs) = VArr (map normalizeForSerialization xs)"
| "normalizeForSerialization (VObj es) =
     VObj (from_entries (map (\<lambda>(k, x). (k, normalizeForSerialization x)) (sort_key fst es)))"
| "normalizeForSerialization v = tagged (typeof v) v"

fun to_json :: "jsval \<Rightarrow> json option" where
  "to_json VUndefined = None"
| "to_json VNull = Some JNull"
| "to_json (VBool b) = Some (JBool b)"
| "to_json (VNum x) = Some (JNum x)"
| "to_json (VStr s) = Some (JStr s)"
| "to_json (VDate d) = Some (JStr d)"
| "to_json (VArr xs) = Some (JArr (map (\<lambda>x. case to_json x of Some j \<Rightarrow> j | None \<Rightarrow> JNull) xs))"
| "to_json (VObj es) = Some (JObj (concat (map (\<lambda>(k, x). case to_json x of Some j \<Rightarrow> [(k, j)] | None \<Rightarrow> []) es)))"

definition serializeArg :: "(json \<Rightarrow> string) \<Rightarrow> jsval \<Rightarrow> string option" where
  "serializeArg text v = map_option text (to_json (normalizeForSerialization v))"

definition cacheKey :: "(json \<Rightarrow> string) \<Rightarrow> string \<Rightarrow> string \<Rightarrow> jsval list \<Rightarrow> string option \<Rightarrow> string" where
  "cacheKey text className methodName args override =
     (case override of
        Some k \<Rightarrow> if k \<noteq> [] then ''cache:'' @ k else
          (let serialized = join '':'' (map (\<lambda>a. case serializeArg text a of Some t \<Rightarrow> t | None \<Rightarrow> []) args)
           in ''cache:'' @ className @ '':'' @ methodName @ (if serialized \<noteq> [] then '':'' @ serialized else []))
      | None \<Rightarrow>
          (let serialized = join '':'' (map (\<lambda>a. case serializeArg text a of Some t \<Rightarrow> t | None \<Rightarrow> []) args)
           in ''cache:'' @ className @ '':'' @ methodName @ (if serialized \<noteq> [] then '':'' @ serialized else [])))"

section \<open>Conditional requests\<close>

definition createETag :: "(json \<Rightarrow> string) \<Rightarrow> (string \<Rightarrow> string) \<Rightarrow> jsval \<Rightarrow> string" where
  "createETag text sha1 body =
     ''\"'' @ sha1 (case to_json (normalizeForSerialization body) of Some j \<Rightarrow> text j | None \<Rightarrow> []) @ ''\"''"

definition strip_weak :: "string \<Rightarrow> string" where
  "strip_weak s = (if starts_with s ''W/'' then drop 2 s else s)"

text \<open>The response of a decorated handler: whether the status becomes 304, the body and the headers.
  \<open>requested\<close> is the \<open>If-None-Match\<close> header, \<open>date\<close> the current date.\<close>

definition conditional_response ::
  "(json \<Rightarrow> string) \<Rightarrow> (string \<Rightarrow> string) \<Rightarrow> int option \<Rightarrow> string \<Rightarrow> string option \<Rightarrow> jsval \<Rightarrow> string jsmap \<Rightarrow>
   bool \<times> jsval \<times> string jsmap" where
  "conditional_response text sha1 maxAge date requested body headers =
     (if body = VUndefined \<or> body = VNull then (False, body, headers)
      else
        (let etag = createETag text sha1 body;
             h1 = map_set ''ETag'' etag headers;
             h2 = map_set ''Cache-Control''
               (case maxAge of
                  Some a \<Rightarrow> if a \<noteq> 0 then ''public, max-age='' @ string_of_int \<lfloor>fdiv (of_int a) 1000\<rfloor> else ''no-cache''
                | None \<Rightarrow> ''no-cache'') h1;
             h3 = (case map_get h2 ''Last-Modified'' of
                  Some t \<Rightarrow> if t = [] then map_set ''Last-Modified'' date h2 else h2
                | None \<Rightarrow> map_set ''Last-Modified'' date h2)
         in case requested of
              Some r \<Rightarrow> if strip_weak r = etag then (True, VUndefined, h3) else (False, body, h3)
            | None \<Rightarrow> (False, body, h3)))"

section \<open>Normal forms\<close>

text \<open>The value up to the order of object keys, and the values without \<open>undefined\<close> inside.\<close>

fun canon :: "jsval \<Rightarrow> jsval" where
  "canon (VArr xs) = VArr (map canon xs)"
| "canon (VObj es) = VObj (map (\<lambda>(k, x). (k, canon x)) (sort_key fst es))"
| "canon v = v"

fun defined :: "jsval \<Rightarrow> bool" where
  "defined VUndefined = False"
| "defined (VArr xs) = list_all defined xs"
| "defined (VObj es) = (distinct (map fst es) \<and> list_all (\<lambda>(_, x). defined x) es)"
| "defined _ = True"

definition json_norm :: "jsval \<Rightarrow> json" where
  "json_norm v = the (to_json (normalizeForSerialization v))"

lemma normal_defined: "defined v \<Longrightarrow> to_json (normalizeForSerialization v) = Some (json_norm v)"
  by (cases v) (auto simp: tagged_def json_norm_def)

lemma normal_not_str: "defined v \<Longrightarrow> json_norm v \<noteq> JStr s"
  by (cases v) (auto simp: tagged_def json_norm_def)

lemma insort_key_map: "insort_key f (g x) (map g xs) = map g (insort_key (f \<circ> g) x xs)"
  by (induction xs) auto

lemma sort_key_map: "sort_key f (map g xs) = map g (sort_key (f \<circ> g) xs)"
  by (induction xs) (simp_all add: insort_key_map [unfolded comp_def] comp_def)

lemma from_entries_map: "from_entries (map (\<lambda>(k, x). (k, f x)) es) = map (\<lambda>(k, x). (k, f x)) (from_entries es)"
  by (simp add: from_entries_def sort_key_map filter_map comp_def case_prod_beta)

lemma set_from_entries [simp]: "set (from_entries es) = set es"
  by (auto simp: from_entries_def)

lemma distinct_from_entries: "distinct (map fst es) \<Longrightarrow> distinct (map fst (from_entries es))"
  by (auto simp: from_entries_def distinct_map_filter distinct_map intro: inj_on_subset)

lemma sorted_entries_eq:
  assumes "sorted (map fst xs)" "distinct (map fst xs)" "sorted (map fst ys)" "distinct (map fst ys)"
    "set xs = set ys"
  shows "xs = ys"
proof (rule map_sorted_distinct_set_unique [OF _ assms(1-4)])
  show "inj_on fst (set xs \<union> set ys)" using assms(2,5) by (simp add: distinct_map)
qed (simp add: assms(5))

text \<open>What \<open>JSON.stringify\<close> sees of a normalised object.\<close>

lemma json_norm_obj:
  assumes "defined (VObj es)"
  shows "json_norm (VObj es) = JObj (from_entries (map (\<lambda>(k, x). (k, json_norm x)) (sort_key fst es)))"
proof -
  let ?es = "from_entries (sort_key fst es)"
  have "concat (map (\<lambda>(k, x). case to_json x of Some j \<Rightarrow> [(k, j)] | None \<Rightarrow> [])
       (map (\<lambda>(k, x). (k, normalizeForSerialization x)) xs)) = map (\<lambda>(k, x). (k, json_norm x)) xs"
    if "list_all (\<lambda>(_, x). defined x) xs" for xs
    using that by (induction xs) (auto simp: normal_defined split: option.splits)
  note eq = this [of ?es]
  have all: "list_all (\<lambda>(_, x). defined x) ?es"
    using assms by (auto simp: list_all_iff)
  have "to_json (normalizeForSerialization (VObj es)) =
      Some (JObj (map (\<lambda>(k, x). (k, json_norm x)) ?es))"
    unfolding normalizeForSerialization.simps to_json.simps from_entries_map eq [OF all] ..
  then show ?thesis by (simp add: from_entries_map json_norm_def)
qed

lemma json_norm_arr: "defined (VArr xs) \<Longrightarrow> json_norm (VArr xs) = JArr (map json_norm xs)"
  by (auto simp: list_all_iff normal_defined json_norm_def [of "VArr xs"])

lemma sorted_images_eq:
  assumes "distinct (map fst es)" "distinct (map fst es')"
    and "(\<lambda>(k, x). (k, f x)) ` set es = (\<lambda>(k, x). (k, f x)) ` set es'"
  shows "map (\<lambda>(k, x). (k, f x)) (sort_key fst es) = map (\<lambda>(k, x). (k, f x)) (sort_key fst es')"
proof -
  have keys: "map fst (map (\<lambda>(k, x). (k, f x)) xs) = map fst xs" for xs by (induction xs) auto
  have d: "distinct (map fst (sort_key fst xs))" if "distinct (map fst xs)" for xs :: "('a \<times> 'b) list"
    using that by (simp add: distinct_map)
  show ?thesis
    by (rule sorted_entries_eq, unfold keys) (simp_all add: d assms)
qed

lemma obj_eq_iff:
  assumes "distinct (map fst es)" "distinct (map fst es')"
  shows "from_entries (map (\<lambda>(k, x). (k, f x)) (sort_key fst es)) =
      from_entries (map (\<lambda>(k, x). (k, f x)) (sort_key fst es')) \<longleftrightarrow>
    (\<lambda>(k, x). (k, f x)) ` set es = (\<lambda>(k, x). (k, f x)) ` set es'" (is "?l = ?r \<longleftrightarrow> ?a = ?b")
proof
  assume "?l = ?r"
  then have "set ?l = set ?r" by simp
  then show "?a = ?b" by simp
next
  assume "?a = ?b"
  then show "?l = ?r" by (simp only: sorted_images_eq [OF assms])
qed

section \<open>Keys identify their arguments\<close>

lemma canon_obj_eq:
  assumes "distinct (map fst es)" "distinct (map fst es')"
  shows "canon (VObj es) = canon (VObj es') \<longleftrightarrow>
    (\<lambda>(k, x). (k, canon x)) ` set es = (\<lambda>(k, x). (k, canon x)) ` set es'"
proof
  assume "canon (VObj es) = canon (VObj es')"
  then have "set (map (\<lambda>(k, x). (k, canon x)) (sort_key fst es)) = set (map (\<lambda>(k, x). (k, canon x)) (sort_key fst es'))"
    by simp
  then show "(\<lambda>(k, x). (k, canon x)) ` set es = (\<lambda>(k, x). (k, canon x)) ` set es'" by simp
next
  assume *: "(\<lambda>(k, x). (k, canon x)) ` set es = (\<lambda>(k, x). (k, canon x)) ` set es'"
  show "canon (VObj es) = canon (VObj es')"
    using sorted_images_eq [OF assms *] by simp
qed

lemma image_pairs_subset:
  "(\<lambda>(k, x). (k, h x)) ` S \<subseteq> (\<lambda>(k, x). (k, h x)) ` T \<longleftrightarrow> (\<forall>(k, x) \<in> S. \<exists>y. (k, y) \<in> T \<and> h x = h y)"
  by force

text \<open>Images of two key-value sets agree as soon as the values are identified alike.\<close>

lemma image_pairs_eq:
  assumes "\<And>k x k' y. (k, x) \<in> A \<Longrightarrow> (k', y) \<in> B \<Longrightarrow> f x = f y \<longleftrightarrow> g x = g y"
  shows "(\<lambda>(k, x). (k, f x)) ` A = (\<lambda>(k, x). (k, f x)) ` B \<longleftrightarrow>
    (\<lambda>(k, x). (k, g x)) ` A = (\<lambda>(k, x). (k, g x)) ` B"
proof -
  have ab: "(\<exists>y. (k, y) \<in> B \<and> f x = f y) \<longleftrightarrow> (\<exists>y. (k, y) \<in> B \<and> g x = g y)" if "(k, x) \<in> A" for k x
    using assms [OF that] by blast
  have ba: "(\<exists>y. (k, y) \<in> A \<and> f x = f y) \<longleftrightarrow> (\<exists>y. (k, y) \<in> A \<and> g x = g y)" if "(k, x) \<in> B" for k x
    using assms [OF _ that] by (metis (no_types))
  show ?thesis
    unfolding set_eq_subset image_pairs_subset using ab ba by fastforce
qed

lemma json_norm_scalar:
  "json_norm VNull = JNull"
  "json_norm (VBool b) = JObj [(''__type'', JStr ''boolean''), (''value'', JBool b)]"
  "json_norm (VNum x) = JObj [(''__type'', JStr ''number''), (''value'', JNum x)]"
  "json_norm (VStr s) = JObj [(''__type'', JStr ''string''), (''value'', JStr s)]"
  "json_norm (VDate d) = JObj [(''__type'', JStr ''Date''), (''value'', JStr d)]"
  by (simp_all add: json_norm_def tagged_def typeof_def)

lemma json_norm_obj_values:
  assumes "defined (VObj es)" "json_norm (VObj es) = JObj ((k, j) # js)"
  shows "\<forall>s. j \<noteq> JStr s"
proof -
  have "(k, j) \<in> (\<lambda>(k, x). (k, json_norm x)) ` set es"
    using arg_cong [OF assms(2), of "\<lambda>v. case v of JObj xs \<Rightarrow> set xs | _ \<Rightarrow> {}"]
    by (simp add: json_norm_obj [OF assms(1)])
  then show ?thesis using assms(1) by (auto simp: list_all_iff dest!: normal_not_str)
qed

lemma json_norm_scalar_canon:
  assumes "defined v" "defined w" "\<forall>xs. v \<noteq> VArr xs" "\<forall>es. v \<noteq> VObj es"
  shows "json_norm v = json_norm w \<longleftrightarrow> canon v = canon w"
proof (cases w)
  case (VObj es)
  then obtain js where js: "json_norm (VObj es) = JObj js" using json_norm_obj assms(2) by blast
  then show ?thesis
    using assms VObj json_norm_obj_values [of es] by (cases v) (auto simp: json_norm_scalar)
qed (use assms in \<open>cases v; auto simp: json_norm_arr json_norm_scalar\<close>)+

lemma json_norm_canon:
  "defined v \<Longrightarrow> defined w \<Longrightarrow> json_norm v = json_norm w \<longleftrightarrow> canon v = canon w"
proof (induction v arbitrary: w)
  case (VArr xs)
  show ?case
  proof (cases w)
    case (VArr ys)
    have "map json_norm xs = map json_norm ys \<longleftrightarrow> map canon xs = map canon ys"
      using VArr.IH VArr.prems unfolding VArr
      by (auto simp: list_all2_conv_all_nth list_eq_iff_nth_eq list_all_length nth_mem)
    then show ?thesis using VArr.prems by (simp add: VArr json_norm_arr)
  qed (use VArr.prems in \<open>auto simp: json_norm_arr json_norm_scalar json_norm_obj\<close>)
next
  case (VObj es)
  obtain js where js: "json_norm (VObj es) = JObj js" using json_norm_obj [OF VObj.prems(1)] by blast
  show ?case
  proof (cases w)
    case w: (VObj es')
    have "(\<lambda>(k, x). (k, json_norm x)) ` set es = (\<lambda>(k, x). (k, json_norm x)) ` set es' \<longleftrightarrow>
      (\<lambda>(k, x). (k, canon x)) ` set es = (\<lambda>(k, x). (k, canon x)) ` set es'"
    proof (rule image_pairs_eq)
      fix k x k' y assume "(k, x) \<in> set es" "(k', y) \<in> set es'"
      then show "json_norm x = json_norm y \<longleftrightarrow> canon x = canon y"
        using VObj.IH [of "(k, x)" x y] VObj.prems unfolding w by (auto simp: list_all_iff)
    qed
    then show ?thesis
      using VObj.prems canon_obj_eq [of es es'] obj_eq_iff [of es es' json_norm]
      by (simp only: w json_norm_obj json.inject) simp
  qed (use VObj.prems json_norm_obj_values [of es] in \<open>auto simp: js json_norm_arr json_norm_scalar\<close>)
qed (rule json_norm_scalar_canon; simp)+

lemma serializeArg_defined: "defined v \<Longrightarrow> serializeArg text v = Some (text (json_norm v))"
  by (simp add: serializeArg_def normal_defined)


text \<open>A small writer for flat values, enough to run the functions.\<close>

fun brief :: "json \<Rightarrow> string" where
  "brief (JObj ((_, JStr t) # (_, JStr s) # _)) = t @ '':'' @ s"
| "brief (JObj ((_, JStr t) # (_, JNum x) # _)) = t @ '':'' @ string_of_int \<lfloor>x\<rfloor>"
| "brief _ = ''?''"


text \<open>Values that collide. \<open>undefined\<close> is not told apart from \<open>null\<close> in an array, nor from an absent
  key in an object, whatever the serialised text: such argument lists share a cache key.\<close>

theorem undefined_collides:
  "cacheKey text cls m [VArr [VUndefined]] None = cacheKey text cls m [VArr [VNull]] None \<and>
   cacheKey text cls m [VObj [(''page'', VUndefined)]] None = cacheKey text cls m [VObj []] None"
  by (simp add: cacheKey_def serializeArg_def from_entries_def)

section \<open>Invalidation\<close>

lemma cacheKey_prefix: "starts_with (cacheKey text cls m args None) (''cache:'' @ cls @ '':'')"
  by (auto simp: cacheKey_def Let_def starts_with_iff)

lemma cacheKey_other_class:
  assumes "cls \<noteq> cls'" "CHR '':'' \<notin> set cls" "CHR '':'' \<notin> set cls'"
  shows "\<not> starts_with (cacheKey text cls m args None) (''cache:'' @ cls' @ '':'')"
proof
  assume "starts_with (cacheKey text cls m args None) (''cache:'' @ cls' @ '':'')"
  then obtain t u where "cls @ CHR '':'' # t = cls' @ CHR '':'' # u"
    by (auto simp: cacheKey_def Let_def starts_with_iff split: if_splits)
  then have "hd (split_on CHR '':'' (cls @ CHR '':'' # t)) = hd (split_on CHR '':'' (cls' @ CHR '':'' # u))"
    by (rule arg_cong)
  then show False using assms by (simp add: hd_split_on_free)
qed

text \<open>Invalidation after a mutation. Clearing the prefix of a class removes every cached result of
  its methods from the memory level and keeps the results of any other class, even one whose name
  extends this one's.\<close>

theorem invalidate_class:
  assumes "wf_map m" "cls \<noteq> cls'" "CHR '':'' \<notin> set cls" "CHR '':'' \<notin> set cls'"
  shows "let m' = snd (memory_invalidateByPrefix (''cache:'' @ cls @ '':'') m)
    in map_get m' (cacheKey text cls meth args None) = None \<and>
       map_get m' (cacheKey text cls' meth' args' None) = map_get m (cacheKey text cls' meth' args' None)"
  using assms cacheKey_prefix cacheKey_other_class [OF assms(2) [symmetric] assms(4,3)]
  by (simp add: memory_invalidate_filter map_get_filter split: option.split)

definition demo_pools :: "nat store" where
  "demo_pools = [(''cache:Pools:list'', \<lparr>entry_value = 1, expiresAt = 9\<rparr>),
     (''cache:PoolsV2:list'', \<lparr>entry_value = 2, expiresAt = 9\<rparr>)]"

lemma invalidate_class_witness:
  "let m' = snd (memory_invalidateByPrefix (''cache:'' @ ''Pools'' @ '':'') demo_pools)
    in map_get m' (cacheKey brief ''Pools'' ''list'' [] None) = None \<and>
       map_get m' (cacheKey brief ''PoolsV2'' ''list'' [] None) =
         map_get demo_pools (cacheKey brief ''PoolsV2'' ''list'' [] None)"
  by (rule invalidate_class) (simp_all add: demo_pools_def)

section \<open>Conditional requests\<close>

lemma strip_weak_etag: "strip_weak (createETag text sha1 b) = createETag text sha1 b"
  "strip_weak (''W/'' @ createETag text sha1 b) = createETag text sha1 b"
  by (simp_all add: strip_weak_def createETag_def starts_with_def)

text \<open>Conditional requests. A client that sends back the tag of an earlier body, weak or strong, gets
  304 and no body exactly if the body is unchanged up to the order of its keys; otherwise it gets the
  body with the new tag. (The digests of the two bodies must tell them apart.)\<close>

theorem conditional_request:
  assumes "defined body" "defined old" "body \<noteq> VNull"
    "requested = createETag text sha1 old \<or> requested = ''W/'' @ createETag text sha1 old"
    "sha1 (text (json_norm body)) = sha1 (text (json_norm old)) \<longrightarrow> json_norm body = json_norm old"
  shows "case conditional_response text sha1 maxAge date (Some requested) body headers of (status304, b, h) \<Rightarrow>
    (if canon body = canon old then status304 \<and> b = VUndefined else \<not> status304 \<and> b = body) \<and>
    map_get h ''ETag'' = Some (createETag text sha1 body)"
proof -
  have "strip_weak requested = createETag text sha1 old" using assms(4) strip_weak_etag by metis
  then have "strip_weak requested = createETag text sha1 body \<longleftrightarrow> canon body = canon old"
    using assms(5) json_norm_canon [OF assms(1,2)]
    by (auto simp: createETag_def normal_defined [OF assms(1)] normal_defined [OF assms(2)])
  moreover have "body \<noteq> VUndefined" using assms(1) by auto
  ultimately show ?thesis
    using assms(3) by (auto simp: conditional_response_def Let_def split: option.split)
qed

lemma conditional_request_witness:
  "case conditional_response brief (\<lambda>s. s) (Some 60000) ''Thu'' (Some (''W/'' @ createETag brief (\<lambda>s. s) (VStr ''a'')))
      (VStr ''b'') [] of (status304, b, h) \<Rightarrow>
    (if canon (VStr ''b'') = canon (VStr ''a'') then status304 \<and> b = VUndefined else \<not> status304 \<and> b = VStr ''b'') \<and>
    map_get h ''ETag'' = Some (createETag brief (\<lambda>s. s) (VStr ''b''))"
  by (rule conditional_request) (simp_all add: json_norm_scalar)

end
