(* ===== verification/Redis_Cache.thy ===== *)
theory Redis_Cache
  imports JS_Text
begin

text \<open>
  The Redis cache level (src/cache/backends/redis-cache.ts).

  The Redis client is third-party code: it is the record \<open>redis_client\<close> of functions over the
  server's state \<open>'r\<close>, an argument of every operation; a call that rejects its promise is
  \<open>Inl\<close>. \<open>JSON.parse\<close> and \<open>JSON.stringify\<close> are the codec \<open>decode\<close> (\<open>None\<close> when it throws)
  and \<open>encode\<close>. The connection events of the client change \<open>online\<close> between operations.
  The scan loops run until Redis returns the cursor \<open>0\<close>: they are partial functions, \<open>None\<close> when
  Redis never does.
\<close>

section \<open>The client\<close>

text \<open>The reply of a \<open>GET\<close>/\<open>PTTL\<close> pipeline: the error flag and value of each of its commands.\<close>

record pipeline_reply =
  get_err :: bool
  get_raw :: "string option"
  pttl_err :: bool
  pttl_raw :: int

record 'r redis_client =
  c_connect :: "'r \<Rightarrow> (error + unit) \<times> 'r"
  c_quit :: "'r \<Rightarrow> (error + unit) \<times> 'r"
  c_get :: "string \<Rightarrow> 'r \<Rightarrow> (error + string option) \<times> 'r"
  c_get_pttl :: "string \<Rightarrow> 'r \<Rightarrow> (error + pipeline_reply option) \<times> 'r"
  c_set :: "string \<Rightarrow> string \<Rightarrow> int \<Rightarrow> 'r \<Rightarrow> (error + unit) \<times> 'r"
  c_del :: "string list \<Rightarrow> 'r \<Rightarrow> (error + unit) \<times> 'r"
  c_scan :: "string \<Rightarrow> string \<Rightarrow> 'r \<Rightarrow> (error + string \<times> string list) \<times> 'r"
  c_dbsize :: "'r \<Rightarrow> (error + int) \<times> 'r"

record codec =
  decode :: "string \<Rightarrow> json option"
  encode :: "json \<Rightarrow> string"

record 'r redis_cache =
  has_client :: bool
  r_prefix :: string
  online :: bool
  warned :: bool
  server :: 'r

definition new_redis :: "bool \<Rightarrow> string \<Rightarrow> 'r \<Rightarrow> 'r redis_cache" where
  "new_redis is_enabled pre srv =
     \<lparr>has_client = is_enabled, r_prefix = pre, online = False, warned = False, server = srv\<rparr>"

text \<open>The handlers of the client's events.\<close>

definition on_connect :: "'r redis_cache \<Rightarrow> 'r redis_cache" where
  "on_connect s = s\<lparr>online := True\<rparr>"

definition on_close :: "'r redis_cache \<Rightarrow> 'r redis_cache" where
  "on_close s = s\<lparr>online := False\<rparr>"

definition on_error :: "'r redis_cache \<Rightarrow> 'r redis_cache" where
  "on_error s = s\<lparr>online := False, warned := True\<rparr>"

section \<open>Operations\<close>

definition redis_connect :: "'r redis_client \<Rightarrow> 'r redis_cache \<Rightarrow> 'r redis_cache" where
  "redis_connect c s =
     (if \<not> has_client s \<or> online s then s else s\<lparr>server := snd (c_connect c (server s))\<rparr>)"

definition redis_disconnect :: "'r redis_client \<Rightarrow> 'r redis_cache \<Rightarrow> 'r redis_cache" where
  "redis_disconnect c s = (if \<not> has_client s then s else s\<lparr>server := snd (c_quit c (server s))\<rparr>)"

definition redis_get ::
  "'r redis_client \<Rightarrow> codec \<Rightarrow> string \<Rightarrow> 'r redis_cache \<Rightarrow> json option \<times> 'r redis_cache" where
  "redis_get c cd key s =
     (if \<not> has_client s \<or> \<not> online s then (None, s)
      else (case c_get c (r_prefix s @ key) (server s) of (reply, srv) \<Rightarrow>
        (case reply of
           Inr (Some raw) \<Rightarrow> decode cd raw
         | _ \<Rightarrow> None,
         s\<lparr>server := srv\<rparr>)))"

definition redis_getWithTtl ::
  "'r redis_client \<Rightarrow> codec \<Rightarrow> string \<Rightarrow> 'r redis_cache \<Rightarrow> (json \<times> int) option \<times> 'r redis_cache" where
  "redis_getWithTtl c cd key s =
     (if \<not> has_client s \<or> \<not> online s then (None, s)
      else (case c_get_pttl c (r_prefix s @ key) (server s) of (reply, srv) \<Rightarrow>
        (case reply of
           Inr (Some p) \<Rightarrow>
             if get_err p \<or> pttl_err p then None
             else (case get_raw p of
                 None \<Rightarrow> None
               | Some raw \<Rightarrow>
                   (case decode cd raw of
                      None \<Rightarrow> None
                    | Some v \<Rightarrow> Some (v, if 0 < pttl_raw p then pttl_raw p else 0)))
         | _ \<Rightarrow> None,
         s\<lparr>server := srv\<rparr>)))"

definition redis_set ::
  "'r redis_client \<Rightarrow> codec \<Rightarrow> string \<Rightarrow> json \<Rightarrow> int \<Rightarrow> 'r redis_cache \<Rightarrow> 'r redis_cache" where
  "redis_set c cd key v ttlMs s =
     (if \<not> has_client s \<or> \<not> online s then s
      else s\<lparr>server := snd (c_set c (r_prefix s @ key) (encode cd v) ttlMs (server s))\<rparr>)"

definition redis_del :: "'r redis_client \<Rightarrow> string \<Rightarrow> 'r redis_cache \<Rightarrow> 'r redis_cache" where
  "redis_del c key s =
     (if \<not> has_client s \<or> \<not> online s then s
      else s\<lparr>server := snd (c_del c [r_prefix s @ key] (server s))\<rparr>)"

text \<open>The scan loop: the number of keys deleted so far when it ends, or the first error.\<close>

partial_function (option) scan_loop ::
  "'r redis_client \<Rightarrow> string \<Rightarrow> string \<Rightarrow> int \<Rightarrow> 'r \<Rightarrow> ((error + int) \<times> 'r) option" where
  "scan_loop c pattern cursor count srv =
     (case c_scan c cursor pattern srv of (reply, srv1) \<Rightarrow>
        (case reply of
           Inl e \<Rightarrow> Some (Inl e, srv1)
         | Inr page \<Rightarrow>
             (case (if snd page = [] then (Inr (), srv1) else c_del c (snd page) srv1) of (d, srv2) \<Rightarrow>
                (case d of
                   Inl e \<Rightarrow> Some (Inl e, srv2)
                 | Inr _ \<Rightarrow>
                     (let n = count + int (length (snd page))
                      in if fst page = ''0'' then Some (Inr n, srv2)
                         else scan_loop c pattern (fst page) n srv2)))))"

definition redis_invalidateByPrefix ::
  "'r redis_client \<Rightarrow> string \<Rightarrow> 'r redis_cache \<Rightarrow> (int \<times> 'r redis_cache) option" where
  "redis_invalidateByPrefix c prefix s =
     (if \<not> has_client s \<or> \<not> online s then Some (0, s)
      else (case scan_loop c (r_prefix s @ prefix @ ''*'') ''0'' 0 (server s) of
          None \<Rightarrow> None
        | Some (res, srv) \<Rightarrow> Some (case res of Inl _ \<Rightarrow> 0 | Inr n \<Rightarrow> n, s\<lparr>server := srv\<rparr>)))"

definition redis_clear :: "'r redis_client \<Rightarrow> 'r redis_cache \<Rightarrow> 'r redis_cache option" where
  "redis_clear c s =
     (if \<not> has_client s \<or> \<not> online s then Some s
      else map_option (\<lambda>(_, srv). s\<lparr>server := srv\<rparr>) (scan_loop c (r_prefix s @ ''*'') ''0'' 0 (server s)))"

definition redis_size :: "'r redis_client \<Rightarrow> 'r redis_cache \<Rightarrow> int \<times> 'r redis_cache" where
  "redis_size c s =
     (if \<not> has_client s \<or> \<not> online s then (0, s)
      else (case c_dbsize c (server s) of (reply, srv) \<Rightarrow>
        (case reply of Inl _ \<Rightarrow> 0 | Inr n \<Rightarrow> n, s\<lparr>server := srv\<rparr>)))"

section \<open>What the code relies on\<close>

text \<open>Documented behaviour of Redis over the map \<open>data\<close> of unexpired keys (value and remaining time):
  reads report the map, writes and deletes change their keys only, and a \<open>SCAN\<close> from cursor \<open>0\<close>
  returns to \<open>0\<close> after finitely many pages (\<open>left\<close> bounds them), by which time every key present
  throughout has been returned; \<open>pending\<close> are the matching keys the iteration at a cursor still
  has to return.\<close>

type_synonym 'r redis_data = "'r \<Rightarrow> string \<rightharpoonup> string \<times> int"
type_synonym 'r redis_scan_set = "string \<Rightarrow> string \<Rightarrow> 'r \<Rightarrow> string set"
type_synonym 'r redis_scan_left = "string \<Rightarrow> string \<Rightarrow> 'r \<Rightarrow> nat"

definition read_law :: "'r redis_client \<Rightarrow> 'r redis_data \<Rightarrow> bool" where
  "read_law c data \<longleftrightarrow> (\<forall>k r. case c_get_pttl c k r of (reply, r') \<Rightarrow> data r' = data r \<and>
     (\<exists>p. reply = Inr (Some p) \<and> \<not> get_err p \<and> \<not> pttl_err p \<and>
       (case data r k of None \<Rightarrow> get_raw p = None
        | Some (v, t) \<Rightarrow> get_raw p = Some v \<and> pttl_raw p = t \<and> 0 < t)))"

definition write_law :: "'r redis_client \<Rightarrow> 'r redis_data \<Rightarrow> bool" where
  "write_law c data \<longleftrightarrow> (\<forall>k v t r. 0 < t \<longrightarrow> (case c_set c k v t r of (reply, r') \<Rightarrow>
     reply = Inr () \<and> data r' = (data r)(k \<mapsto> (v, t))))"

definition delete_law ::
  "'r redis_client \<Rightarrow> 'r redis_data \<Rightarrow> 'r redis_scan_set \<Rightarrow> 'r redis_scan_left \<Rightarrow> bool" where
  "delete_law c data pending left \<longleftrightarrow> (\<forall>ks r. case c_del c ks r of (reply, r') \<Rightarrow>
     reply = Inr () \<and> data r' = data r |` (- set ks) \<and>
     (\<forall>cur p. pending cur p r - set ks \<subseteq> pending cur p r' \<and> left cur p r' \<le> left cur p r))"

definition scan_law ::
  "'r redis_client \<Rightarrow> 'r redis_data \<Rightarrow> 'r redis_scan_set \<Rightarrow> 'r redis_scan_left \<Rightarrow>
   (string \<Rightarrow> string \<Rightarrow> bool) \<Rightarrow> bool" where
  "scan_law c data pending left matches \<longleftrightarrow>
     (\<forall>p r. {k \<in> dom (data r). matches p k} \<subseteq> pending ''0'' p r) \<and>
     (\<forall>cur p r. case c_scan c cur p r of (reply, r') \<Rightarrow> data r' = data r \<and>
        (\<exists>nxt ks. reply = Inr (nxt, ks) \<and> (\<forall>k \<in> set ks. matches p k) \<and>
          pending cur p r \<subseteq> set ks \<union> (if nxt = ''0'' then {} else pending nxt p r') \<and>
          (nxt \<noteq> ''0'' \<longrightarrow> left nxt p r' < left cur p r)))"

definition redis_laws ::
  "'r redis_client \<Rightarrow> 'r redis_data \<Rightarrow> 'r redis_scan_set \<Rightarrow> 'r redis_scan_left \<Rightarrow>
   (string \<Rightarrow> string \<Rightarrow> bool) \<Rightarrow> bool" where
  "redis_laws c data pending left matches \<longleftrightarrow> read_law c data \<and> write_law c data \<and>
     delete_law c data pending left \<and> scan_law c data pending left matches"

lemma scan_lawE:
  assumes "scan_law c data pending left matches"
  obtains nxt ks r' where "c_scan c cur p r = (Inr (nxt, ks), r')" "data r' = data r"
    "\<forall>k \<in> set ks. matches p k"
    "pending cur p r \<subseteq> set ks \<union> (if nxt = ''0'' then {} else pending nxt p r')"
    "nxt \<noteq> ''0'' \<Longrightarrow> left nxt p r' < left cur p r"
proof -
  obtain reply r' where sc: "c_scan c cur p r = (reply, r')" by fastforce
  from assms have "case c_scan c cur p r of (reply, r') \<Rightarrow> data r' = data r \<and>
        (\<exists>nxt ks. reply = Inr (nxt, ks) \<and> (\<forall>k \<in> set ks. matches p k) \<and>
          pending cur p r \<subseteq> set ks \<union> (if nxt = ''0'' then {} else pending nxt p r') \<and>
          (nxt \<noteq> ''0'' \<longrightarrow> left nxt p r' < left cur p r))"
    unfolding scan_law_def by (elim conjE allE)
  then show thesis using sc that by (simp del: split_paired_All) blast
qed

lemma delete_lawE:
  assumes "delete_law c data pending left"
  obtains r' where "c_del c ks r = (Inr (), r')" "data r' = data r |` (- set ks)"
    "\<And>cur p. pending cur p r - set ks \<subseteq> pending cur p r'" "\<And>cur p. left cur p r' \<le> left cur p r"
proof -
  obtain reply r' where sc: "c_del c ks r = (reply, r')" by fastforce
  from assms have "case c_del c ks r of (reply, r') \<Rightarrow>
        reply = Inr () \<and> data r' = data r |` (- set ks) \<and>
        (\<forall>cur p. pending cur p r - set ks \<subseteq> pending cur p r' \<and> left cur p r' \<le> left cur p r)"
    unfolding delete_law_def by (elim allE)
  then show thesis using sc that by simp
qed

text \<open>Given a server that keeps these laws, the loop ends, and has deleted matching keys only and all
  of those still pending.\<close>

lemma scan_loop_ends:
  assumes scan: "scan_law c data pending left matches" and del: "delete_law c data pending left"
  shows "\<exists>n srv'. scan_loop c p cur count srv = Some (Inr n, srv') \<and>
    (\<forall>k. data srv' k = (if data srv' k = None then None else data srv k)) \<and>
    (\<forall>k. \<not> matches p k \<longrightarrow> data srv' k = data srv k) \<and>
    (\<forall>k. k \<in> pending cur p srv \<longrightarrow> data srv' k = None)"
proof (induction "left cur p srv" arbitrary: cur count srv rule: less_induct)
  case less
  obtain nxt ks r1 where sc: "c_scan c cur p srv = (Inr (nxt, ks), r1)" "data r1 = data srv"
    "\<forall>k \<in> set ks. matches p k" "pending cur p srv \<subseteq> set ks \<union> (if nxt = ''0'' then {} else pending nxt p r1)"
    "nxt \<noteq> ''0'' \<Longrightarrow> left nxt p r1 < left cur p srv"
    by (rule scan_lawE [OF scan, of cur p srv]) blast
  obtain r2 where d: "(if ks = [] then (Inr (), r1) else c_del c ks r1) = (Inr (), r2)"
    "data r2 = data r1 |` (- set ks)"
    "pending nxt p r1 - set ks \<subseteq> pending nxt p r2" "left nxt p r2 \<le> left nxt p r1"
  proof (cases "ks = []")
    case True
    then show thesis using that [of r1] by (simp add: restrict_map_def)
  next
    case False
    show thesis by (rule delete_lawE [OF del, of ks r1]) (use False that in auto)
  qed
  let ?n = "count + int (length ks)"
  have eq: "scan_loop c p cur count srv =
      (if nxt = ''0'' then Some (Inr ?n, r2) else scan_loop c p nxt ?n r2)"
    by (subst scan_loop.simps) (simp only: sc(1) d(1) prod.case sum.case fst_conv snd_conv Let_def)
  show ?case
  proof (cases "nxt = ''0''")
    case True
    then show ?thesis using sc d(2) unfolding eq by (auto simp: restrict_map_def)
  next
    case False
    with sc(5) d(4) have "left nxt p r2 < left cur p srv" by (meson le_less_trans)
    from less [OF this, of ?n] obtain n r' where r': "scan_loop c p nxt ?n r2 = Some (Inr n, r')"
      "\<forall>k. data r' k = (if data r' k = None then None else data r2 k)"
      "\<forall>k. \<not> matches p k \<longrightarrow> data r' k = data r2 k" "\<forall>k. k \<in> pending nxt p r2 \<longrightarrow> data r' k = None"
      by blast
    show ?thesis
    proof (intro exI conjI allI impI)
      show "scan_loop c p cur count srv = Some (Inr n, r')" using False r'(1) by (simp add: eq)
      show "data r' k = (if data r' k = None then None else data srv k)" for k
        using r'(2) [rule_format, of k] d(2) sc(2) by (auto simp: restrict_map_def split: if_splits)
      show "data r' k = data srv k" if "\<not> matches p k" for k
        using r'(3) that d(2) sc(2,3) by (auto simp: restrict_map_def)
      show "data r' k = None" if "k \<in> pending cur p srv" for k
      proof (cases "k \<in> set ks")
        case True
        then show ?thesis using r'(2) [rule_format, of k] d(2) by (auto simp: restrict_map_def split: if_splits)
      next
        case k: False
        then have "k \<in> pending nxt p r2" using that sc(4) False d(3) by auto
        then show ?thesis using r'(4) by blast
      qed
    qed
  qed
qed

section \<open>Properties\<close>

text \<open>A concrete server: a list of keys with their values and remaining times, whose \<open>SCAN\<close> returns
  everything in one page and whose patterns end in \<open>*\<close>.\<close>

definition glob :: "string \<Rightarrow> string \<Rightarrow> bool" where
  "glob p k \<longleftrightarrow> (if ends_with p ''*'' then starts_with k (butlast p) else k = p)"

definition list_data :: "(string \<times> string \<times> int) list \<Rightarrow> string \<rightharpoonup> string \<times> int" where
  "list_data r k = (case map_get r k of Some (v, t) \<Rightarrow> if 0 < t then Some (v, t) else None | None \<Rightarrow> None)"

definition list_redis :: "(string \<times> string \<times> int) list redis_client" where
  "list_redis = \<lparr>c_connect = \<lambda>r. (Inr (), r), c_quit = \<lambda>r. (Inr (), r),
     c_get = \<lambda>k r. (Inr (map_option fst (map_get r k)), r),
     c_get_pttl = \<lambda>k r. (Inr (Some \<lparr>get_err = False, get_raw = map_option fst (list_data r k), pttl_err = False,
        pttl_raw = (case list_data r k of None \<Rightarrow> -2 | Some (v, t) \<Rightarrow> t)\<rparr>), r),
     c_set = \<lambda>k v t r. (Inr (), map_set k (v, t) r),
     c_del = \<lambda>ks r. (Inr (), filter (\<lambda>(k, _). k \<notin> set ks) r),
     c_scan = \<lambda>cur p r. (Inr (''0'', filter (glob p) (map_keys r)), r),
     c_dbsize = \<lambda>r. (Inr (int (length r)), r)\<rparr>"

definition list_pending :: "string \<Rightarrow> string \<Rightarrow> (string \<times> string \<times> int) list \<Rightarrow> string set" where
  "list_pending cur p r = {k \<in> set (map_keys r). glob p k}"

lemma list_redis_scan: "scan_law list_redis list_data list_pending (\<lambda>_ _ _. 0) glob"
  by (auto simp: scan_law_def list_redis_def list_pending_def list_data_def image_iff
      split: option.splits if_splits dest!: map_of_SomeD) force

lemma map_get_filter_keys: "map_get (filter (\<lambda>(k, _). P k) m) k = (if P k then map_get m k else None)"
  by (induction m) auto

lemma list_redis_delete: "delete_law list_redis list_data list_pending (\<lambda>_ _ _. 0)"
  by (auto simp: delete_law_def list_redis_def list_pending_def list_data_def restrict_map_def fun_eq_iff
      map_get_filter_keys split: option.splits)

lemma list_redis_write: "write_law list_redis list_data"
  by (auto simp: write_law_def list_redis_def list_data_def fun_eq_iff)

lemma redis_invalidate_ends:
  assumes "has_client s" "online s"
    and "scan_law c data pending left matches" "delete_law c data pending left"
  shows "\<exists>n s'. redis_invalidateByPrefix c prefix s = Some (n, s') \<and>
    s' = s\<lparr>server := server s'\<rparr> \<and>
    (\<forall>k. data (server s') k =
       (if matches (r_prefix s @ prefix @ ''*'') k then None else data (server s) k))"
proof -
  let ?p = "r_prefix s @ prefix @ ''*''"
  obtain n srv where l: "scan_loop c ?p ''0'' 0 (server s) = Some (Inr n, srv)"
    and unmatched: "\<forall>k. \<not> matches ?p k \<longrightarrow> data srv k = data (server s) k"
    and gone: "\<forall>k. k \<in> pending ''0'' ?p (server s) \<longrightarrow> data srv k = None"
    and kept: "\<forall>k. data srv k = (if data srv k = None then None else data (server s) k)"
    using scan_loop_ends [OF assms(3,4), of ?p "''0''" 0 "server s"] by blast
  have "data srv k = None" if "matches ?p k" for k
  proof (cases "data (server s) k")
    case None
    then show ?thesis using kept [rule_format, of k] by (auto split: if_splits)
  next
    case Some
    then have "k \<in> pending ''0'' ?p (server s)" using that assms(3) by (auto simp: scan_law_def)
    then show ?thesis using gone by blast
  qed
  then show ?thesis using assms(1,2) l unmatched by (simp add: redis_invalidateByPrefix_def)
qed

lemma list_redis_read: "read_law list_redis list_data"
  by (auto simp: read_law_def list_redis_def list_data_def split: option.splits)

text \<open>C8. Invalidation on Redis. With a connected client, invalidating a prefix returns (the scan loop
  ends), and afterwards no key of the cache that the pattern matched is left, while the keys it does
  not match keep their values.\<close>

theorem redis_invalidate_complete:
  assumes "has_client s" "online s"
    and "scan_law c data pending left matches" "delete_law c data pending left"
  shows "\<exists>n s'. redis_invalidateByPrefix c prefix s = Some (n, s') \<and>
    s' = s\<lparr>server := server s'\<rparr> \<and>
    (\<forall>k. data (server s') k =
       (if matches (r_prefix s @ prefix @ ''*'') k then None else data (server s) k))"
  using assms by (rule redis_invalidate_ends)

definition demo_redis :: "(string \<times> string \<times> int) list redis_cache" where
  "demo_redis = \<lparr>has_client = True, r_prefix = ''app:'', online = True, warned = False,
     server = [(''app:u:1'', ''1'', 50), (''app:v:1'', ''2'', 50), (''other'', ''3'', 50)]\<rparr>"

lemma redis_invalidate_complete_witness:
  "\<exists>n s'. redis_invalidateByPrefix list_redis ''u:'' demo_redis = Some (n, s') \<and>
    s' = demo_redis\<lparr>server := server s'\<rparr> \<and>
    (\<forall>k. list_data (server s') k =
       (if glob (r_prefix demo_redis @ ''u:'' @ ''*'') k then None else list_data (server demo_redis) k))"
  by (rule redis_invalidate_complete [OF _ _ list_redis_scan list_redis_delete]) (simp_all add: demo_redis_def)

end
