(* ===== verification/Cache_Service.thy ===== *)
theory Cache_Service
  imports Memory_Cache Redis_Cache Metrics Rate_Config
begin

text \<open>
  \<open>CacheService\<close> (src/cache/cache.service.ts), its configuration (cache.config.ts) and the warm-up.

  The service reads the in-process level first, then Redis, and copies a Redis hit into the first
  level for the time it has left in Redis. Cached values are JSON values, so \<open>undefined\<close> is
  \<open>None\<close>. \<open>clk\<close> gives the successive readings of the clock within an operation. What a producer
  (the wrapped method, a warm-up task) does is its outcome, an argument: \<open>Inl\<close> when it throws.
\<close>

section \<open>Configuration\<close>

record warm_task =
  w_key :: string
  w_ttl :: "int option"
  w_outcome :: "error + json option"

record cache_configuration =
  c_enabled :: bool
  defaultTtlMs :: int
  maxKeys :: int
  redis_enabled :: bool
  redis_host :: string
  redis_port :: int
  redis_password :: "string option"
  redis_db :: int
  redis_prefix :: string
  warm_enabled :: bool
  warm_onStartup :: bool
  warm_keys :: "warm_task list"

text \<open>\<open>positiveInteger(String(v), 0)\<close>: the text of an array is that of its elements joined by commas,
  so only a one-element array can be a number.\<close>

fun positive_of_text :: "json \<Rightarrow> int" where
  "positive_of_text (JNum x) = (if is_integer x \<and> 0 < x then \<lfloor>x\<rfloor> else 0)"
| "positive_of_text (JStr s) = positiveInteger (Some s) 0"
| "positive_of_text (JArr [x]) = positive_of_text x"
| "positive_of_text _ = 0"

definition parse_warm_key :: "string \<Rightarrow> json \<Rightarrow> warm_task option" where
  "parse_warm_key key value =
     (case value of
        JObj candidate \<Rightarrow>
          (case map_get candidate ''value'' of
             None \<Rightarrow> None
           | Some v \<Rightarrow>
               (let ttl = (case map_get candidate ''ttl'' of Some t \<Rightarrow> positive_of_text t | None \<Rightarrow> 0)
                in Some \<lparr>w_key = key, w_ttl = (if 0 < ttl then Some ttl else None), w_outcome = Inr (Some v)\<rparr>))
      | _ \<Rightarrow> None)"

definition parseWarmKeys :: "(string \<Rightarrow> json option) \<Rightarrow> string option \<Rightarrow> warm_task list" where
  "parseWarmKeys json_parse raw =
     (case raw of
        None \<Rightarrow> []
      | Some text \<Rightarrow>
          if text = [] then []
          else (case json_parse text of
              Some (JObj entries) \<Rightarrow> List.map_filter (\<lambda>(k, v). parse_warm_key k v) entries
            | _ \<Rightarrow> []))"

definition loadCacheConfiguration :: "(string \<Rightarrow> json option) \<Rightarrow> string jsmap \<Rightarrow> cache_configuration" where
  "loadCacheConfiguration json_parse env =
     \<lparr>c_enabled = booleanValue (map_get env ''CACHE_ENABLED'') True,
      defaultTtlMs = positiveInteger (map_get env ''CACHE_DEFAULT_TTL_MS'') 60000,
      maxKeys = positiveInteger (map_get env ''CACHE_MEMORY_MAX_KEYS'') 10000,
      redis_enabled = booleanValue (map_get env ''CACHE_REDIS_ENABLED'') True,
      redis_host = or_else (map_get env ''CACHE_REDIS_HOST'') ''127.0.0.1'',
      redis_port = positiveInteger (map_get env ''CACHE_REDIS_PORT'') 6379,
      redis_password = (case map_get env ''CACHE_REDIS_PASSWORD'' of
         Some p \<Rightarrow> if p = [] then None else Some p | None \<Rightarrow> None),
      redis_db = positiveInteger (map_get env ''CACHE_REDIS_DB'') 0,
      redis_prefix = or_else (map_get env ''CACHE_REDIS_PREFIX'') ''astraport:cache:'',
      warm_enabled = booleanValue (map_get env ''CACHE_WARM_ENABLED'') True,
      warm_onStartup = booleanValue (map_get env ''CACHE_WARM_ON_STARTUP'') True,
      warm_keys = parseWarmKeys json_parse (map_get env ''CACHE_WARM_KEYS_JSON'')\<rparr>"

section \<open>State\<close>

record cache_stats =
  hits :: int
  misses :: int
  sets :: int
  invalidations :: int
  warmups :: int

record 'r cache_service =
  cs_config :: cache_configuration
  memory :: "json store"
  redis :: "'r redis_cache"
  warmupTasks :: "warm_task jsmap"
  stats :: cache_stats
  cs_metrics :: metrics

definition cache_registerMetrics :: "metrics \<Rightarrow> metrics" where
  "cache_registerMetrics ms =
     registerMetric (new_metric ''cache_warmups_total'' ''Keys loaded by cache warming'' Counter)
    (registerMetric (new_metric ''cache_invalidations_total'' ''Cache invalidation operations'' Counter)
    (registerMetric (new_metric ''cache_sets_total'' ''Cache write operations'' Counter)
    (registerMetric (new_metric ''cache_misses_total'' ''Cache misses'' Counter)
    (registerMetric (new_metric ''cache_hits_total'' ''Cache hits by backend'' Counter) ms))))"

definition new_cache_service ::
  "(string \<Rightarrow> json option) \<Rightarrow> string jsmap \<Rightarrow> 'r \<Rightarrow> metrics \<Rightarrow> 'r cache_service" where
  "new_cache_service json_parse env srv ms =
     (let cfg = loadCacheConfiguration json_parse env
      in \<lparr>cs_config = cfg, memory = [], redis = new_redis (redis_enabled cfg) (redis_prefix cfg) srv,
          warmupTasks = [], stats = \<lparr>hits = 0, misses = 0, sets = 0, invalidations = 0, warmups = 0\<rparr>,
          cs_metrics = cache_registerMetrics ms\<rparr>)"

definition recordHit :: "string \<Rightarrow> 'r cache_service \<Rightarrow> 'r cache_service" where
  "recordHit backend s =
     s\<lparr>stats := (stats s)\<lparr>hits := hits (stats s) + 1\<rparr>,
       cs_metrics := incrementCounter ''cache_hits_total'' [(''backend'', backend)] 1 (cs_metrics s)\<rparr>"

definition recordMiss :: "'r cache_service \<Rightarrow> 'r cache_service" where
  "recordMiss s =
     s\<lparr>stats := (stats s)\<lparr>misses := misses (stats s) + 1\<rparr>,
       cs_metrics := incrementCounter ''cache_misses_total'' [] 1 (cs_metrics s)\<rparr>"

definition record_invalidation :: "'r cache_service \<Rightarrow> 'r cache_service" where
  "record_invalidation s =
     s\<lparr>stats := (stats s)\<lparr>invalidations := invalidations (stats s) + 1\<rparr>,
       cs_metrics := incrementCounter ''cache_invalidations_total'' [] 1 (cs_metrics s)\<rparr>"

section \<open>Operations\<close>

definition cache_get ::
  "'r redis_client \<Rightarrow> codec \<Rightarrow> string \<Rightarrow> (nat \<Rightarrow> int) \<Rightarrow> 'r cache_service \<Rightarrow> json option \<times> 'r cache_service" where
  "cache_get c cd key clk s =
     (if \<not> c_enabled (cs_config s) then (None, s)
      else (case memory_get key (clk 0) (memory s) of (mv, m) \<Rightarrow>
        (let s1 = s\<lparr>memory := m\<rparr>
         in case mv of
              Some v \<Rightarrow> (Some v, recordHit ''memory'' s1)
            | None \<Rightarrow>
                (case redis_getWithTtl c cd key (redis s1) of (rv, r) \<Rightarrow>
                  (let s2 = s1\<lparr>redis := r\<rparr>
                   in case rv of
                        Some (v, pttl) \<Rightarrow>
                          (let s3 = recordHit ''redis'' s2;
                               promoteTtl = max 1 pttl
                           in (Some v, s3\<lparr>memory := memory_set (nat (maxKeys (cs_config s3))) key v promoteTtl
                                 (clk 1) (clk 2) (memory s3)\<rparr>))
                      | None \<Rightarrow> (None, recordMiss s2))))))"

definition cache_set ::
  "'r redis_client \<Rightarrow> codec \<Rightarrow> string \<Rightarrow> json \<Rightarrow> int option \<Rightarrow> (nat \<Rightarrow> int) \<Rightarrow> 'r cache_service \<Rightarrow> 'r cache_service" where
  "cache_set c cd key v ttlMs clk s =
     (if \<not> c_enabled (cs_config s) then s
      else
        (let ttl = or_else ttlMs (defaultTtlMs (cs_config s));
             s1 = s\<lparr>stats := (stats s)\<lparr>sets := sets (stats s) + 1\<rparr>,
                    cs_metrics := incrementCounter ''cache_sets_total'' [] 1 (cs_metrics s)\<rparr>;
             s2 = s1\<lparr>memory := memory_set (nat (maxKeys (cs_config s1))) key v ttl (clk 0) (clk 1) (memory s1)\<rparr>
         in s2\<lparr>redis := redis_set c cd key v ttl (redis s2)\<rparr>))"

definition cache_del :: "'r redis_client \<Rightarrow> string \<Rightarrow> 'r cache_service \<Rightarrow> 'r cache_service" where
  "cache_del c key s =
     (if \<not> c_enabled (cs_config s) then s
      else s\<lparr>memory := memory_del key (memory s), redis := redis_del c key (redis s)\<rparr>)"

definition cache_wrap ::
  "'r redis_client \<Rightarrow> codec \<Rightarrow> string \<Rightarrow> error + json option \<Rightarrow> int option \<Rightarrow> (nat \<Rightarrow> int) \<Rightarrow> (nat \<Rightarrow> int) \<Rightarrow>
   'r cache_service \<Rightarrow> (error + json option) \<times> 'r cache_service" where
  "cache_wrap c cd key producer ttlMs clk clk' s =
     (case cache_get c cd key clk s of (cached, s1) \<Rightarrow>
        (case cached of
           Some v \<Rightarrow> (Inr (Some v), s1)
         | None \<Rightarrow>
             (case producer of
                Inl e \<Rightarrow> (Inl e, s1)
              | Inr value \<Rightarrow>
                  (Inr value,
                   case value of
                     None \<Rightarrow> s1
                   | Some v \<Rightarrow> if v = JNull then s1 else cache_set c cd key v ttlMs clk' s1))))"

definition cache_invalidateByPrefix ::
  "'r redis_client \<Rightarrow> string \<Rightarrow> 'r cache_service \<Rightarrow> (int \<times> 'r cache_service) option" where
  "cache_invalidateByPrefix c prefix s =
     (if \<not> c_enabled (cs_config s) then Some (0, s)
      else (case memory_invalidateByPrefix prefix (memory s) of (memoryCount, m) \<Rightarrow>
        map_option (\<lambda>(redisCount, r).
            (memoryCount + redisCount, record_invalidation (s\<lparr>memory := m, redis := r\<rparr>)))
          (redis_invalidateByPrefix c prefix (redis s))))"

definition cache_clear :: "'r redis_client \<Rightarrow> 'r cache_service \<Rightarrow> 'r cache_service option" where
  "cache_clear c s =
     (if \<not> c_enabled (cs_config s) then Some s
      else map_option (\<lambda>r. record_invalidation (s\<lparr>memory := memory_clear (memory s), redis := r\<rparr>))
        (redis_clear c (redis s)))"

definition registerWarmup ::
  "string \<Rightarrow> error + json option \<Rightarrow> int option \<Rightarrow> 'r cache_service \<Rightarrow> 'r cache_service" where
  "registerWarmup key producer ttl s =
     s\<lparr>warmupTasks := map_set key \<lparr>w_key = key, w_ttl = ttl, w_outcome = producer\<rparr> (warmupTasks s)\<rparr>"

definition warm_one ::
  "'r redis_client \<Rightarrow> codec \<Rightarrow> warm_task \<Rightarrow> (nat \<Rightarrow> int) \<Rightarrow> 'r cache_service \<Rightarrow> 'r cache_service" where
  "warm_one c cd task clk s =
     (case w_outcome task of
        Inl _ \<Rightarrow> s
      | Inr None \<Rightarrow> s
      | Inr (Some v) \<Rightarrow>
          if v = JNull then s
          else (let s1 = cache_set c cd (w_key task) v (w_ttl task) clk s
                in s1\<lparr>stats := (stats s1)\<lparr>warmups := warmups (stats s1) + 1\<rparr>,
                      cs_metrics := incrementCounter ''cache_warmups_total'' [] 1 (cs_metrics s1)\<rparr>))"

fun warm_all ::
  "'r redis_client \<Rightarrow> codec \<Rightarrow> warm_task list \<Rightarrow> (nat \<Rightarrow> nat \<Rightarrow> int) \<Rightarrow> 'r cache_service \<Rightarrow> 'r cache_service" where
  "warm_all c cd [] clk s = s"
| "warm_all c cd (t # ts) clk s = warm_all c cd ts (\<lambda>i. clk (Suc i)) (warm_one c cd t (clk 0) s)"

definition warmup ::
  "'r redis_client \<Rightarrow> codec \<Rightarrow> (nat \<Rightarrow> nat \<Rightarrow> int) \<Rightarrow> 'r cache_service \<Rightarrow> int \<times> 'r cache_service" where
  "warmup c cd clk s =
     (if \<not> warm_enabled (cs_config s) then (0, s)
      else (let s1 = warm_all c cd (warm_keys (cs_config s) @ map snd (warmupTasks s)) clk s
            in (warmups (stats s1), s1)))"

definition warmOnStartup ::
  "'r redis_client \<Rightarrow> codec \<Rightarrow> (nat \<Rightarrow> nat \<Rightarrow> int) \<Rightarrow> 'r cache_service \<Rightarrow> int \<times> 'r cache_service" where
  "warmOnStartup c cd clk s =
     (if \<not> warm_enabled (cs_config s) \<or> \<not> warm_onStartup (cs_config s) then (0, s) else warmup c cd clk s)"

definition hitRate :: "cache_stats \<Rightarrow> rat" where
  "hitRate st = (let total = hits st + misses st
     in if total = 0 then 0 else fdiv (of_int (hits st)) (of_int total))"

definition getStatistics ::
  "'r redis_client \<Rightarrow> 'r cache_service \<Rightarrow> (cache_stats \<times> rat \<times> (string \<times> bool \<times> int) list) \<times> 'r cache_service" where
  "getStatistics c s =
     (case redis_size c (redis s) of (n, r) \<Rightarrow>
        ((stats s, hitRate (stats s),
          [(''memory'', True, memory_size (memory s)), (''redis'', online (redis s), n)]),
         s\<lparr>redis := r\<rparr>))"

end
