(* ===== verification/Cache_Props.thy ===== *)
theory Cache_Props
  imports Cache_Service
begin

text \<open>
  Properties of the two-level cache: coherence of the levels while Redis is reachable (and a stale
  read when it was not), the promotion of Redis hits, \<open>wrap\<close>, the warm-up and the statistics.
\<close>

section \<open>Coherence of the two levels\<close>

text \<open>A pattern made of literal text and a final \<open>*\<close> matches the keys that start with the text.\<close>

definition literal_patterns :: "(string \<Rightarrow> string \<Rightarrow> bool) \<Rightarrow> string \<Rightarrow> bool" where
  "literal_patterns matches p \<longleftrightarrow> (\<forall>k. matches (p @ ''*'') k \<longleftrightarrow> starts_with k p)"

text \<open>The reachable states of a service whose Redis stays connected, with the value last stored under
  each key. Between operations Redis may expire keys, on its own clock. Values are those that
  survive the JSON codec.\<close>

inductive reached ::
  "'r redis_client \<Rightarrow> codec \<Rightarrow> 'r redis_data \<Rightarrow> (string \<Rightarrow> string \<Rightarrow> bool) \<Rightarrow>
   'r cache_service \<Rightarrow> (string \<rightharpoonup> json) \<Rightarrow> bool"
  for c cd data matches where
  start: "\<lbrakk>c_enabled (cs_config s); has_client (redis s); online (redis s); memory s = [];
     \<forall>k. data (server (redis s)) (r_prefix (redis s) @ k) = None\<rbrakk> \<Longrightarrow> reached c cd data matches s Map.empty"
| get: "reached c cd data matches s f \<Longrightarrow> reached c cd data matches (snd (cache_get c cd k clk s)) f"
| set: "\<lbrakk>reached c cd data matches s f; decode cd (encode cd v) = Some v;
     0 < or_else ttl (defaultTtlMs (cs_config s))\<rbrakk>
   \<Longrightarrow> reached c cd data matches (cache_set c cd k v ttl clk s) (f(k \<mapsto> v))"
| del: "reached c cd data matches s f \<Longrightarrow> reached c cd data matches (cache_del c k s) (f(k := None))"
| invalidate: "\<lbrakk>reached c cd data matches s f; literal_patterns matches (r_prefix (redis s) @ p);
     cache_invalidateByPrefix c p s = Some (n, s')\<rbrakk>
   \<Longrightarrow> reached c cd data matches s' (\<lambda>k. if starts_with k p then None else f k)"
| clear: "\<lbrakk>reached c cd data matches s f; literal_patterns matches (r_prefix (redis s)); cache_clear c s = Some s'\<rbrakk>
   \<Longrightarrow> reached c cd data matches s' Map.empty"
| expire: "\<lbrakk>reached c cd data matches s f;
     \<forall>k v t. data srv k = Some (v, t) \<longrightarrow> (\<exists>t'. data (server (redis s)) k = Some (v, t'))\<rbrakk>
   \<Longrightarrow> reached c cd data matches (s\<lparr>redis := (redis s)\<lparr>server := srv\<rparr>\<rparr>) f"

definition levels_ok :: "codec \<Rightarrow> 'r redis_data \<Rightarrow> 'r cache_service \<Rightarrow> (string \<rightharpoonup> json) \<Rightarrow> bool" where
  "levels_ok cd data s f \<longleftrightarrow>
     c_enabled (cs_config s) \<and> has_client (redis s) \<and> online (redis s) \<and> wf_map (memory s) \<and>
     (\<forall>k e. map_get (memory s) k = Some e \<longrightarrow> f k = Some (entry_value e)) \<and>
     (\<forall>k raw t. data (server (redis s)) (r_prefix (redis s) @ k) = Some (raw, t) \<longrightarrow>
        (\<exists>v. f k = Some v \<and> decode cd raw = Some v))"

lemma levels_okI:
  assumes "c_enabled (cs_config s)" "has_client (redis s)" "online (redis s)" "wf_map (memory s)"
    "\<And>k e. map_get (memory s) k = Some e \<Longrightarrow> f k = Some (entry_value e)"
    "\<And>k raw t. data (server (redis s)) (r_prefix (redis s) @ k) = Some (raw, t) \<Longrightarrow>
        \<exists>v. f k = Some v \<and> decode cd raw = Some v"
  shows "levels_ok cd data s f"
  using assms by (simp add: levels_ok_def)

lemma redis_read:
  assumes "read_law c data" "has_client r" "online r"
  shows "case redis_getWithTtl c cd k r of (res, r') \<Rightarrow>
    r' = r\<lparr>server := server r'\<rparr> \<and> data (server r') = data (server r) \<and>
    res = (case data (server r) (r_prefix r @ k) of None \<Rightarrow> None
      | Some (raw, t) \<Rightarrow> map_option (\<lambda>v. (v, t)) (decode cd raw))"
proof -
  obtain reply srv where g: "c_get_pttl c (r_prefix r @ k) (server r) = (reply, srv)" by fastforce
  have "case c_get_pttl c (r_prefix r @ k) (server r) of (reply, r') \<Rightarrow> data r' = data (server r) \<and>
     (\<exists>p. reply = Inr (Some p) \<and> \<not> get_err p \<and> \<not> pttl_err p \<and>
       (case data (server r) (r_prefix r @ k) of None \<Rightarrow> get_raw p = None
        | Some (v, t) \<Rightarrow> get_raw p = Some v \<and> pttl_raw p = t \<and> 0 < t))"
    using assms(1) unfolding read_law_def by (elim allE)
  then show ?thesis
    using assms(2,3) by (auto simp: redis_getWithTtl_def g split: option.splits prod.splits)
qed

lemma promote_holds:
  assumes "wf_map m" "map_get (memory_set cap k v ttl t1 t2 m) k' = Some e"
    "\<And>k e. map_get m k = Some e \<Longrightarrow> f k = Some (entry_value e)" "f k = Some v"
  shows "f k' = Some (entry_value e)"
  using memory_set_entry [OF assms(1,2)] assms(3,4) by (auto split: if_splits)

lemma levels_get:
  assumes "read_law c data" "levels_ok cd data s f"
  shows "levels_ok cd data (snd (cache_get c cd k clk s)) f \<and>
    (\<forall>v. fst (cache_get c cd k clk s) = Some v \<longrightarrow> f k = Some v)"
proof -
  note s = assms(2) [unfolded levels_ok_def]
  obtain mv m where m: "memory_get k (clk 0) (memory s) = (mv, m)" by fastforce
  have wf: "wf_map m" using s memory_get_wf [of "memory s" k "clk 0"] by (simp add: m)
  have mem: "f j = Some (entry_value e)" if "map_get m j = Some e" for j e
    using s memory_get_entry [of k "clk 0" "memory s" j e] that by (simp add: m)
  have mvf: "f k = Some v" if "mv = Some v" for v
    using m s that by (auto simp: memory_get_def split: option.splits if_splits)
  obtain rv r where r: "redis_getWithTtl c cd k (redis s) = (rv, r)" by fastforce
  have rr: "r = (redis s)\<lparr>server := server r\<rparr>" "data (server r) = data (server (redis s))"
    "rv = (case data (server (redis s)) (r_prefix (redis s) @ k) of None \<Rightarrow> None
      | Some (raw, t) \<Rightarrow> map_option (\<lambda>v. (v, t)) (decode cd raw))"
    using redis_read [OF assms(1), of "redis s" cd k] s unfolding r by auto
  have flags: "has_client r" "online r" "r_prefix r = r_prefix (redis s)"
    using s rr(1) by (metis redis_cache.select_convs(1-3) redis_cache.surjective redis_cache.update_convs(5))+
  have rvf: "f k = Some v" if "rv = Some (v, t)" for v t
    using that s unfolding rr(3) by (auto split: option.splits) (metis option.inject)
  show ?thesis
  proof (cases mv)
    case (Some v)
    then show ?thesis
      using s wf mem mvf by (auto simp: cache_get_def m recordHit_def Let_def intro!: levels_okI)
  next
    case None
    show ?thesis
    proof (cases rv)
      case None': None
      show ?thesis
        using s wf mem rr(2) flags
        by (auto simp: cache_get_def m r None None' recordMiss_def Let_def intro!: levels_okI)
    next
      case (Some vt)
      obtain v t where vt: "rv = Some (v, t)" using Some by (cases vt) auto
      have "f j = Some (entry_value e)"
        if "map_get (memory_set cap k v ttl t1 t2 m) j = Some e" for j e cap ttl t1 t2
        by (rule promote_holds [where f = f, OF wf that]) (use mem rvf [OF vt] in auto)
      then show ?thesis
        using s wf rvf [OF vt] rr(2) flags
        by (auto simp: cache_get_def m r None vt recordHit_def Let_def intro!: levels_okI preserved)
    qed
  qed
qed

lemma levels_set:
  assumes "write_law c data" "levels_ok cd data s f" "decode cd (encode cd v) = Some v"
    "0 < or_else ttl (defaultTtlMs (cs_config s))"
  shows "levels_ok cd data (cache_set c cd k v ttl clk s) (f(k \<mapsto> v))"
proof -
  note s = assms(2) [unfolded levels_ok_def]
  let ?ttl = "or_else ttl (defaultTtlMs (cs_config s))" and ?r = "redis s"
  obtain reply srv where w: "c_set c (r_prefix ?r @ k) (encode cd v) ?ttl (server ?r) = (reply, srv)"
    by fastforce
  have "0 < ?ttl \<longrightarrow> (case c_set c (r_prefix ?r @ k) (encode cd v) ?ttl (server ?r) of (reply, r') \<Rightarrow>
     reply = Inr () \<and> data r' = (data (server ?r))(r_prefix ?r @ k \<mapsto> (encode cd v, ?ttl)))"
    using assms(1) unfolding write_law_def by (elim allE)
  then have d: "data srv = (data (server ?r))(r_prefix ?r @ k \<mapsto> (encode cd v, ?ttl))"
    using assms(4) by (simp add: w)
  have r: "redis_set c cd k v ?ttl ?r = ?r\<lparr>server := srv\<rparr>" using s by (simp add: redis_set_def w)
  have mem: "(f(k \<mapsto> v)) j = Some (entry_value e)"
    if "map_get (memory_set cap k v ?ttl t1 t2 (memory s)) j = Some e" for j e cap t1 t2
    using memory_set_entry [OF _ that] s by (auto split: if_splits)
  show ?thesis
    using s mem assms(3) by (auto simp: cache_set_def Let_def r d intro!: levels_okI preserved split: if_splits)
qed

lemma redis_delete:
  assumes "delete_law c data pending left" "has_client r" "online r"
  shows "redis_del c k r = r\<lparr>server := server (redis_del c k r)\<rparr> \<and>
    data (server (redis_del c k r)) = data (server r) |` (- {r_prefix r @ k})"
  by (rule delete_lawE [OF assms(1), of "[r_prefix r @ k]" "server r"])
    (use assms(2,3) in \<open>simp add: redis_del_def\<close>)

lemma levels_del:
  assumes "delete_law c data pending left" "levels_ok cd data s f"
  shows "levels_ok cd data (cache_del c k s) (f(k := None))"
proof -
  note s = assms(2) [unfolded levels_ok_def]
  define r where "r = redis_del c k (redis s)"
  have r: "r = (redis s)\<lparr>server := server r\<rparr>"
    "data (server r) = data (server (redis s)) |` (- {r_prefix (redis s) @ k})"
    using redis_delete [OF assms(1), of "redis s" k] s unfolding r_def by auto
  have "has_client r" "online r" "r_prefix r = r_prefix (redis s)" using s by (subst r(1), simp)+
  then show ?thesis
    using s r(2) by (auto simp: cache_del_def memory_del_def restrict_map_def r_def [symmetric]
      intro!: levels_okI split: if_splits)
qed

lemma levels_sweep:
  assumes "levels_ok cd data s f" "r = (redis s)\<lparr>server := server r\<rparr>"
    "\<And>k. data (server r) (r_prefix (redis s) @ k) =
       (if P k then None else data (server (redis s)) (r_prefix (redis s) @ k))"
    "m = filter (\<lambda>(k, _). \<not> P k) (memory s)"
  shows "levels_ok cd data (record_invalidation (s\<lparr>memory := m, redis := r\<rparr>)) (\<lambda>k. if P k then None else f k)"
proof -
  note s = assms(1) [unfolded levels_ok_def]
  have "has_client r" "online r" "r_prefix r = r_prefix (redis s)" using s by (subst assms(2), simp)+
  then show ?thesis
    using s assms(3) by (auto simp: record_invalidation_def assms(4) map_get_filter_keys
      intro!: levels_okI split: if_splits)
qed

lemma levels_invalidate:
  assumes "scan_law c data pending left matches" "delete_law c data pending left"
    "literal_patterns matches (r_prefix (redis s) @ p)"
    "levels_ok cd data s f" "cache_invalidateByPrefix c p s = Some (n, s')"
  shows "levels_ok cd data s' (\<lambda>k. if starts_with k p then None else f k)"
proof -
  note s = assms(4) [unfolded levels_ok_def]
  obtain n' r where r: "redis_invalidateByPrefix c p (redis s) = Some (n', r)"
    "r = (redis s)\<lparr>server := server r\<rparr>"
    "\<forall>k. data (server r) k = (if matches (r_prefix (redis s) @ p @ ''*'') k then None else data (server (redis s)) k)"
    using redis_invalidate_ends [OF _ _ assms(1,2), of "redis s" p] s by blast
  have "s' = record_invalidation (s\<lparr>memory := snd (memory_invalidateByPrefix p (memory s)), redis := r\<rparr>)"
    using assms(5) s by (auto simp: cache_invalidateByPrefix_def r(1) split: prod.splits)
  then show ?thesis
    using levels_sweep [OF assms(4) r(2), of "\<lambda>k. starts_with k p"] r(3) assms(3) s
    by (auto simp: memory_invalidate_filter literal_patterns_def starts_with_def)
qed

lemma levels_clear:
  assumes "scan_law c data pending left matches" "delete_law c data pending left"
    "literal_patterns matches (r_prefix (redis s))"
    "levels_ok cd data s f" "cache_clear c s = Some s'"
  shows "levels_ok cd data s' Map.empty"
proof -
  note s = assms(4) [unfolded levels_ok_def]
  let ?p = "r_prefix (redis s) @ ''*''"
  obtain n srv where l: "scan_loop c ?p ''0'' 0 (server (redis s)) = Some (Inr n, srv)"
    "\<forall>k. data srv k = (if data srv k = None then None else data (server (redis s)) k)"
    "\<forall>k. k \<in> pending ''0'' ?p (server (redis s)) \<longrightarrow> data srv k = None"
    using scan_loop_ends [OF assms(1,2), of ?p "''0''" 0 "server (redis s)"] by blast
  have "data srv (r_prefix (redis s) @ k) = None" for k
  proof (cases "data (server (redis s)) (r_prefix (redis s) @ k)")
    case None
    then show ?thesis using l(2) [rule_format, of "r_prefix (redis s) @ k"] by (auto split: if_splits)
  next
    case Some
    moreover have "matches ?p (r_prefix (redis s) @ k)" using assms(3) by (simp add: literal_patterns_def)
    ultimately have "r_prefix (redis s) @ k \<in> pending ''0'' ?p (server (redis s))"
      using assms(1) by (auto simp: scan_law_def)
    then show ?thesis using l(3) by blast
  qed
  then show ?thesis
    using levels_sweep [OF assms(4), of "(redis s)\<lparr>server := srv\<rparr>" "\<lambda>_. True" "[]"] assms(5) s
    by (simp add: cache_clear_def redis_clear_def l(1) memory_clear_def)
qed

lemma reached_levels:
  assumes "redis_laws c data pending left matches" "reached c cd data matches s f"
  shows "levels_ok cd data s f"
proof -
  note laws = assms(1) [unfolded redis_laws_def]
  show ?thesis
    using assms(2)
  proof (induction rule: reached.induct)
    case (start s)
    then show ?case by (intro levels_okI) auto
  next
    case (get s f k clk)
    then show ?case using levels_get [of c data cd s f k clk] laws by blast
  next
    case (set s f v ttl k clk)
    then show ?case using levels_set laws by blast
  next
    case (del s f k)
    then show ?case using levels_del laws by blast
  next
    case (invalidate s f p n s')
    then show ?case using levels_invalidate laws by blast
  next
    case (clear s f s')
    then show ?case using levels_clear laws by blast
  next
    case (expire s f srv)
    then show ?case by (fastforce simp: levels_ok_def)
  qed
qed


definition text_codec :: codec where
  "text_codec = \<lparr>decode = \<lambda>s. Some (JStr s), encode = \<lambda>v. case v of JStr s \<Rightarrow> s | _ \<Rightarrow> ''null''\<rparr>"

definition demo_cache :: "(string \<times> string \<times> int) list cache_service" where
  "demo_cache = (let s = new_cache_service (\<lambda>_. None) [] [] [] in s\<lparr>redis := on_connect (redis s)\<rparr>)"

lemma list_redis_laws: "redis_laws list_redis list_data list_pending (\<lambda>_ _ _. 0) glob"
  by (simp add: redis_laws_def list_redis_read list_redis_write list_redis_delete list_redis_scan)

definition demo_set :: "(string \<times> string \<times> int) list cache_service" where
  "demo_set = cache_set list_redis text_codec ''pools'' (JStr ''v1'') None (\<lambda>_. 0) demo_cache"

lemma demo_reached: "reached list_redis text_codec list_data glob demo_set [''pools'' \<mapsto> JStr ''v1'']"
  unfolding demo_set_def
proof (rule reached.set)
  show "reached list_redis text_codec list_data glob demo_cache Map.empty"
  proof (rule reached.start)
    show "\<forall>k. list_data (server (redis demo_cache)) (r_prefix (redis demo_cache) @ k) = None"
      by (simp add: demo_cache_def new_cache_service_def new_redis_def on_connect_def list_data_def Let_def)
  qed code_simp+
  show "decode text_codec (encode text_codec (JStr ''v1'')) = Some (JStr ''v1'')"
    by (simp add: text_codec_def)
  show "0 < or_else None (defaultTtlMs (cs_config demo_cache))" by code_simp
qed


text \<open>A stale read after a reconnection. A key deleted while the connection to Redis was down is
  still in Redis: once the connection is back, the cache serves the deleted value again.\<close>

theorem deleted_value_returns:
  "let down = demo_set\<lparr>redis := on_close (redis demo_set)\<rparr>;
       deleted = cache_del list_redis ''pools'' down;
       up = deleted\<lparr>redis := on_connect (redis deleted)\<rparr>
   in fst (cache_get list_redis text_codec ''pools'' (\<lambda>_. 100) deleted) = None \<and>
      fst (cache_get list_redis text_codec ''pools'' (\<lambda>_. 100) up) = Some (JStr ''v1'')"
  by code_simp

section \<open>Promotion, wrap and warm-up\<close>

text \<open>Promotion. When Redis answers a read that the memory level missed, the value is copied into the
  memory level with the time Redis still gives it, so the copy expires when the original does.\<close>

theorem promotion_keeps_ttl:
  assumes "read_law c data" "c_enabled (cs_config s)" "has_client (redis s)" "online (redis s)"
    "fst (memory_get k (clk 0) (memory s)) = None"
    "data (server (redis s)) (r_prefix (redis s) @ k) = Some (raw, t)" "decode cd raw = Some v" "0 < t"
  shows "case cache_get c cd k clk s of (res, s') \<Rightarrow> res = Some v \<and>
    map_get (memory s') k = Some \<lparr>entry_value = v, expiresAt = clk 2 + t\<rparr> \<and>
    data (server (redis s')) = data (server (redis s)) \<and> hits (stats s') = hits (stats s) + 1"
proof -
  obtain m where m: "memory_get k (clk 0) (memory s) = (None, m)" using assms(5) by (metis prod.collapse)
  obtain rv r where r: "redis_getWithTtl c cd k (redis s) = (rv, r)" by fastforce
  have "rv = Some (v, t)" "data (server r) = data (server (redis s))"
    using redis_read [OF assms(1,3,4), of cd k] assms(6,7) unfolding r by auto
  then show ?thesis
    using assms(2,8) by (simp add: cache_get_def m r Let_def recordHit_def memory_set_def)
qed

definition demo_restarted :: "(string \<times> string \<times> int) list cache_service" where
  "demo_restarted = demo_set\<lparr>memory := []\<rparr>"

lemma promotion_keeps_ttl_witness:
  "case cache_get list_redis text_codec ''pools'' (\<lambda>_. 100) demo_restarted of (res, s') \<Rightarrow>
    res = Some (JStr ''v1'') \<and>
    map_get (memory s') ''pools'' = Some \<lparr>entry_value = JStr ''v1'', expiresAt = 100 + 60000\<rparr> \<and>
    list_data (server (redis s')) = list_data (server (redis demo_restarted)) \<and>
    hits (stats s') = hits (stats demo_restarted) + 1"
  by (rule promotion_keeps_ttl [OF list_redis_read, where raw = "''v1''"]; code_simp)

lemma set_get:
  assumes "c_enabled (cs_config s)" "clk' 0 < clk 1 + or_else ttl (defaultTtlMs (cs_config s))"
  shows "fst (cache_get c cd k clk' (cache_set c cd k v ttl clk s)) = Some v"
  using assms by (simp add: cache_get_def cache_set_def memory_get_def memory_set_def Let_def)

text \<open>Memoization. After a miss, \<open>wrap\<close> returns what the producer returned; until the entry
  expires, wrapping the same key again returns that value whatever the new producer would do.\<close>

theorem wrap_memoizes:
  assumes "c_enabled (cs_config s)" "fst (cache_get c cd k clk s) = None" "v \<noteq> JNull"
    "later 0 < clk' 1 + or_else ttl (defaultTtlMs (cs_config s))"
  shows "case cache_wrap c cd k (Inr (Some v)) ttl clk clk' s of (res, s') \<Rightarrow>
    res = Inr (Some v) \<and> fst (cache_wrap c cd k other ttl' later later' s') = Inr (Some v)"
proof -
  obtain s1 where s1: "cache_get c cd k clk s = (None, s1)" using assms(2) by (metis prod.collapse)
  then have cfg: "cs_config s1 = cs_config s"
    by (auto simp: cache_get_def recordMiss_def Let_def split: if_splits prod.splits option.splits)
  then have "fst (cache_get c cd k later (cache_set c cd k v ttl clk' s1)) = Some v"
    using assms(1,4) by (simp add: set_get)
  then show ?thesis
    using assms(3) s1 by (auto simp: cache_wrap_def split: prod.splits)
qed

lemma wrap_memoizes_witness:
  "case cache_wrap list_redis text_codec ''q'' (Inr (Some (JStr ''x''))) None (\<lambda>_. 5) (\<lambda>_. 5) demo_cache of
    (res, s') \<Rightarrow> res = Inr (Some (JStr ''x'')) \<and>
      fst (cache_wrap list_redis text_codec ''q'' (Inl (JsError ''db down'')) None (\<lambda>_. 9) (\<lambda>_. 9) s') =
        Inr (Some (JStr ''x''))"
  by (rule wrap_memoizes; code_simp)

definition yields :: "warm_task \<Rightarrow> bool" where
  "yields t \<longleftrightarrow> (case w_outcome t of Inr (Some v) \<Rightarrow> v \<noteq> JNull | _ \<Rightarrow> False)"

lemma warm_all_warmups:
  "warmups (stats (warm_all c cd ts clk s)) = warmups (stats s) + int (length (filter yields ts))"
proof (induction ts arbitrary: clk s)
  case (Cons t ts)
  have "warmups (stats (warm_one c cd t ck s)) = warmups (stats s) + (if yields t then 1 else 0)" for ck
    by (auto simp: warm_one_def yields_def cache_set_def Let_def split: sum.splits option.splits)
  then show ?case using Cons by simp
qed simp

text \<open>Warm-up. A failing or empty producer does not stop the warm-up: every other task is counted.
  The number reported is the total over all warm-ups so far, not that of this one.\<close>

theorem warmup_counts:
  assumes "warm_enabled (cs_config s)"
  shows "fst (warmup c cd clk s) = warmups (stats s) +
    int (length (filter yields (warm_keys (cs_config s) @ map snd (warmupTasks s))))"
  using assms by (simp add: warmup_def warm_all_warmups Let_def)

lemma warmup_counts_witness:
  "let s = registerWarmup ''a'' (Inl (JsError ''boom'')) None
     (registerWarmup ''b'' (Inr (Some (JStr ''x''))) None demo_cache)
   in fst (warmup list_redis text_codec (\<lambda>_ _. 5) s) = warmups (stats s) +
    int (length (filter yields (warm_keys (cs_config s) @ map snd (warmupTasks s))))"
  unfolding Let_def by (rule warmup_counts) code_simp

end
