(* ===== verification/Cache_Decorators.thy ===== *)
theory Cache_Decorators
  imports Cache_Key Cache_Props
begin

text \<open>
  The method decorators of src/cache/cache.decorators.ts: \<open>@Cached\<close> and \<open>@InvalidateCache\<close>.

  The decorated method is its outcome, which the cache asks for only when it has to; the cache service is
  \<open>None\<close> when the host class has none. Shown are: after a method that invalidates its class returns, every
  cached method of the class is computed anew, and that this does not reach a cached method with a key of
  its own.
\<close>

record cached_method =
  cm_class :: string
  cm_name :: string
  cm_key :: "string option"
  cm_ttl :: "int option"

definition cached_call ::
  "'r redis_client \<Rightarrow> codec \<Rightarrow> (json \<Rightarrow> string) \<Rightarrow> cached_method \<Rightarrow> jsval list \<Rightarrow> error + json option \<Rightarrow> (nat \<Rightarrow> int) \<Rightarrow>
   (nat \<Rightarrow> int) \<Rightarrow> 'r cache_service option \<Rightarrow> (error + json option) \<times> 'r cache_service option" where
  "cached_call c cd text meth args original clk clk' cacheService =
     (case cacheService of
        None \<Rightarrow> (original, None)
      | Some s \<Rightarrow>
          (let (r, s') = cache_wrap c cd (cacheKey text (cm_class meth) (cm_name meth) args (cm_key meth)) original
             (cm_ttl meth) clk clk' s
           in (r, Some s')))"

definition class_prefix :: "string \<Rightarrow> string" where
  "class_prefix className = ''cache:'' @ className @ '':''"

text \<open>The outer option is the one of \<open>invalidateByPrefix\<close>, whose scan of Redis may not end.\<close>

definition invalidating ::
  "'r redis_client \<Rightarrow> string option \<Rightarrow> string \<Rightarrow> error + 'a \<Rightarrow> 'r cache_service option \<Rightarrow>
   ((error + 'a) \<times> 'r cache_service option) option" where
  "invalidating c prefix className original cacheService =
     (case original of
        Inl e \<Rightarrow> Some (Inl e, cacheService)
      | Inr result \<Rightarrow>
          (case cacheService of
             None \<Rightarrow> Some (Inr result, None)
           | Some s \<Rightarrow> map_option (\<lambda>(n, s'). (Inr result, Some s'))
               (cache_invalidateByPrefix c (or_else prefix (class_prefix className)) s)))"

section \<open>Invalidation of a class\<close>

lemma key_of_class: "or_else key [] = [] \<Longrightarrow> starts_with (cacheKey text cls name args key) (class_prefix cls)"
  by (cases key) (auto simp: cacheKey_def class_prefix_def starts_with_def Let_def)

lemma wrap_miss: "fst (cache_get c cd key clk s) = None \<Longrightarrow> fst (cache_wrap c cd key producer ttl clk clk' s) = producer"
  by (auto simp: cache_wrap_def split: prod.splits sum.splits)

theorem mutation_refreshes:
  assumes "redis_laws c data pending left matches" "reached c cd data matches s f"
    and "literal_patterns matches (r_prefix (redis s) @ class_prefix (cm_class meth))"
    and "invalidating c None (cm_class meth) (Inr result) (Some s) = Some (r, Some s')" "or_else (cm_key meth) [] = []"
  shows "fst (cached_call c cd text meth args original clk clk' (Some s')) = original"
proof -
  let ?k = "cacheKey text (cm_class meth) (cm_name meth) args (cm_key meth)"
  obtain n where i: "cache_invalidateByPrefix c (class_prefix (cm_class meth)) s = Some (n, s')"
    using assms(4) by (auto simp: invalidating_def)
  have k: "starts_with ?k (class_prefix (cm_class meth))" using assms(5) by (rule key_of_class)
  note reached' = reached.invalidate [OF assms(2,3) i]
  have "fst (cache_get c cd ?k clk s') = None"
  proof (rule ccontr)
    assume "fst (cache_get c cd ?k clk s') \<noteq> None"
    then obtain v where "fst (cache_get c cd ?k clk s') = Some v" by blast
    then show False
      using levels_get [OF _ reached_levels [OF assms(1) reached'], of c ?k clk] assms(1) k by (auto simp: redis_laws_def)
  qed
  then show ?thesis by (simp add: cached_call_def case_prod_beta wrap_miss)
qed

text \<open>A key of its own is outside the prefix of the class, unless it repeats it.\<close>

lemma own_key_kept:
  "k \<noteq> [] \<Longrightarrow> starts_with (cacheKey text cls name args (Some k)) (class_prefix cls) = starts_with k (cls @ '':'')"
  by (simp add: cacheKey_def class_prefix_def starts_with_def)

end
