(* ===== verification/Cache_Transparency.thy ===== *)
theory Cache_Transparency
  imports Cache_Decorators
begin

text \<open>
  The two decorators of src/cache/cache.decorators.ts in use: what the callers of decorated methods see, against the
  specification without a cache.

  A world gives the outcome every cached method has at the moment. In a run, cached methods are called, methods
  decorated with \<open>@InvalidateCache\<close> change the outcomes of their own class and return, and Redis expires
  keys; Redis stays connected (Cache_Props has what happens otherwise). Shown is that a caller cannot tell the cache
  from none, a call returns the present outcome of the method, as long as no invalidation falls into the time a
  cached method takes; and what is served after one did.
\<close>

type_synonym world = "cached_method \<Rightarrow> jsval list \<Rightarrow> error + json option"

definition method_key :: "(json \<Rightarrow> string) \<Rightarrow> cached_method \<Rightarrow> jsval list \<Rightarrow> string" where
  "method_key str meth args = cacheKey str (cm_class meth) (cm_name meth) args (cm_key meth)"

text \<open>Calls that share a key have the same outcome. (By \<open>serialize_injective\<close> calls of one method with one argument do so
  exactly if the arguments are equal up to the order of keys.)\<close>

definition separated :: "(json \<Rightarrow> string) \<Rightarrow> cached_method set \<Rightarrow> world \<Rightarrow> bool" where
  "separated str Ms w \<longleftrightarrow>
     (\<forall>m \<in> Ms. \<forall>m' \<in> Ms. \<forall>args args'. method_key str m args = method_key str m' args' \<longrightarrow> w m args = w m' args')"

text \<open>The value of a call survives the codec.\<close>

definition storable :: "codec \<Rightarrow> error + json option \<Rightarrow> bool" where
  "storable cd outcome \<longleftrightarrow> (case outcome of Inr (Some v) \<Rightarrow> decode cd (encode cd v) = Some v | _ \<Rightarrow> True)"

inductive decorated_run ::
  "'r redis_client \<Rightarrow> codec \<Rightarrow> (json \<Rightarrow> string) \<Rightarrow> 'r redis_data \<Rightarrow> (string \<Rightarrow> string \<Rightarrow> bool) \<Rightarrow> cached_method set \<Rightarrow>
   'r cache_service \<Rightarrow> world \<Rightarrow> bool"
  for c cd str data matches Ms where
  start: "\<lbrakk>c_enabled (cs_config s); has_client (redis s); online (redis s); memory s = [];
     \<forall>k. data (server (redis s)) (r_prefix (redis s) @ k) = None; separated str Ms w\<rbrakk>
   \<Longrightarrow> decorated_run c cd str data matches Ms s w"
| call: "\<lbrakk>decorated_run c cd str data matches Ms s w; meth \<in> Ms; storable cd (w meth args);
     0 < or_else (cm_ttl meth) (defaultTtlMs (cs_config s));
     cached_call c cd str meth args (w meth args) clk clk' (Some s) = (r, Some s')\<rbrakk>
   \<Longrightarrow> decorated_run c cd str data matches Ms s' w"
| mutate: "\<lbrakk>decorated_run c cd str data matches Ms s w; \<forall>m \<in> Ms. cm_class m \<noteq> cls \<longrightarrow> w' m = w m; separated str Ms w';
     literal_patterns matches (r_prefix (redis s) @ class_prefix cls);
     invalidating c None cls (Inr (result :: json option)) (Some s) = Some (r, Some s')\<rbrakk>
   \<Longrightarrow> decorated_run c cd str data matches Ms s' w'"
| expire: "\<lbrakk>decorated_run c cd str data matches Ms s w;
     \<forall>k v t. data srv k = Some (v, t) \<longrightarrow> (\<exists>t'. data (server (redis s)) k = Some (v, t'))\<rbrakk>
   \<Longrightarrow> decorated_run c cd str data matches Ms (s\<lparr>redis := (redis s)\<lparr>server := srv\<rparr>\<rparr>) w"

definition explained :: "(json \<Rightarrow> string) \<Rightarrow> cached_method set \<Rightarrow> world \<Rightarrow> (string \<rightharpoonup> json) \<Rightarrow> bool" where
  "explained str Ms w f \<longleftrightarrow> (\<forall>m \<in> Ms. \<forall>args v. f (method_key str m args) = Some v \<longrightarrow> w m args = Inr (Some v))"

lemma cached_call_wrap:
  "cached_call c cd str meth args original clk clk' (Some s) =
     (let (r, s') = cache_wrap c cd (method_key str meth args) original (cm_ttl meth) clk clk' s in (r, Some s'))"
  by (simp add: cached_call_def method_key_def)

lemma wrap_cases:
  obtains (kept) "snd (cache_wrap c cd k original ttl clk clk' s) = snd (cache_get c cd k clk s)"
  | (stored) v where "original = Inr (Some v)"
      "snd (cache_wrap c cd k original ttl clk clk' s) = cache_set c cd k v ttl clk' (snd (cache_get c cd k clk s))"
proof -
  obtain hit s1 where get: "cache_get c cd k clk s = (hit, s1)" by fastforce
  show thesis
  proof (cases "\<exists>v. hit = None \<and> original = Inr (Some v) \<and> v \<noteq> JNull")
    case True
    then obtain v where v: "hit = None" "original = Inr (Some v)" "v \<noteq> JNull" by blast
    then show thesis by (intro stored [of v]) (simp_all add: cache_wrap_def get split: json.splits)
  next
    case False
    then show thesis by (intro kept) (auto simp: cache_wrap_def get split: option.splits sum.splits)
  qed
qed

lemma cache_get_config: "cs_config (snd (cache_get c cd k clk s)) = cs_config s"
  by (auto simp: cache_get_def recordHit_def recordMiss_def Let_def split: prod.splits option.splits)

lemma explained_call:
  assumes "reached c cd data matches s f" "explained str Ms w f" "separated str Ms w" "meth \<in> Ms"
    and "storable cd (w meth args)" "0 < or_else (cm_ttl meth) (defaultTtlMs (cs_config s))"
    and "cached_call c cd str meth args (w meth args) clk clk' (Some s) = (r, Some s')"
  shows "\<exists>f'. reached c cd data matches s' f' \<and> explained str Ms w f'"
proof -
  let ?k = "method_key str meth args"
  have s': "s' = snd (cache_wrap c cd ?k (w meth args) (cm_ttl meth) clk clk' s)"
    using assms(7) by (simp add: cached_call_wrap case_prod_beta)
  note got = reached.get [OF assms(1), of ?k clk]
  show ?thesis
  proof (rule wrap_cases [of c cd ?k "w meth args" "cm_ttl meth" clk clk' s])
    assume "snd (cache_wrap c cd ?k (w meth args) (cm_ttl meth) clk clk' s) = snd (cache_get c cd ?k clk s)"
    then show ?thesis using got assms(2) s' by auto
  next
    fix v assume v: "w meth args = Inr (Some v)"
      "snd (cache_wrap c cd ?k (w meth args) (cm_ttl meth) clk clk' s) = cache_set c cd ?k v (cm_ttl meth) clk' (snd (cache_get c cd ?k clk s))"
    have "reached c cd data matches s' (f(?k \<mapsto> v))"
      unfolding s' v(2) using assms(5,6) v(1) by (intro reached.set [OF got]) (simp_all add: storable_def cache_get_config)
    moreover have "w m a = Inr (Some v)" if "m \<in> Ms" "method_key str m a = ?k" for m a
      using assms(3,4) that v(1) by (metis separated_def)
    ultimately show ?thesis using assms(2) by (fastforce simp: explained_def)
  qed
qed

lemma run_explained:
  assumes "\<forall>m \<in> Ms. or_else (cm_key m) [] = []"
  shows "decorated_run c cd str data matches Ms s w \<Longrightarrow>
    separated str Ms w \<and> (\<exists>f. reached c cd data matches s f \<and> explained str Ms w f)"
proof (induction rule: decorated_run.induct)
  case (start s w)
  then show ?case by (auto simp: explained_def intro!: exI [of _ Map.empty] reached.start)
next
  case (call s w meth args clk clk' r s')
  then show ?case using explained_call by metis
next
  case (mutate s w cls w' result r s')
  then obtain f where f: "reached c cd data matches s f" "explained str Ms w f" by blast
  obtain n where "cache_invalidateByPrefix c (class_prefix cls) s = Some (n, s')"
    using mutate(5) by (auto simp: invalidating_def)
  from reached.invalidate [OF f(1) mutate(4) this]
  have "reached c cd data matches s' (\<lambda>k. if starts_with k (class_prefix cls) then None else f k)" .
  moreover have "explained str Ms w' (\<lambda>k. if starts_with k (class_prefix cls) then None else f k)"
    using f(2) mutate(2) key_of_class assms unfolding explained_def method_key_def by (metis option.distinct(1))
  ultimately show ?case using mutate(3) by blast
next
  case (expire s w srv)
  from expire(3) obtain f where f: "reached c cd data matches s f" "explained str Ms w f" by blast
  from reached.expire [OF f(1) expire(2)] f(2) expire(3) show ?case by blast
qed


definition pools :: cached_method where
  "pools = \<lparr>cm_class = ''Pools'', cm_name = ''list'', cm_key = None, cm_ttl = None\<rparr>"


section \<open>Overlapping calls\<close>

text \<open>\<open>wrap\<close> awaits the method between its two accesses to the cache. The first half is the lookup; the second stores the value
  that was computed, in whatever state the cache is by then.\<close>

definition wrap_stores ::
  "'r redis_client \<Rightarrow> codec \<Rightarrow> (json \<Rightarrow> string) \<Rightarrow> cached_method \<Rightarrow> jsval list \<Rightarrow> json \<Rightarrow> (nat \<Rightarrow> int) \<Rightarrow>
   'r cache_service \<Rightarrow> 'r cache_service" where
  "wrap_stores c cd str meth args value clk' s =
     (if value = JNull then s else cache_set c cd (method_key str meth args) value (cm_ttl meth) clk' s)"

lemma wrap_halves:
  assumes "cache_get c cd (method_key str meth args) clk s = (None, s1)"
  shows "cached_call c cd str meth args (Inr (Some value)) clk clk' (Some s) =
    (Inr (Some value), Some (wrap_stores c cd str meth args value clk' s1))"
  using assms by (simp add: cached_call_wrap cache_wrap_def wrap_stores_def)

text \<open>An invalidation that runs while the method does is lost: the value computed before it is stored after it, and
  every call returns it until it expires, whatever the method would return now.\<close>

theorem invalidation_lost:
  assumes "c_enabled (cs_config s)" "old \<noteq> JNull"
    and "invalidating c None (cm_class meth) (Inr result) (Some s) = Some (r, Some s')"
    and "later 0 < clk' 1 + or_else (cm_ttl meth) (defaultTtlMs (cs_config s))"
  shows "fst (cached_call c cd str meth args now later later (Some (wrap_stores c cd str meth args old clk' s'))) = Inr (Some old)"
proof -
  have cfg: "cs_config s' = cs_config s"
    using assms(3) by (auto simp: invalidating_def cache_invalidateByPrefix_def record_invalidation_def Let_def split: prod.splits if_splits)
  let ?k = "method_key str meth args" and ?s = "wrap_stores c cd str meth args old clk' s'"
  have "fst (cache_get c cd ?k later ?s) = Some old"
    using assms(1,2,4) cfg by (simp add: wrap_stores_def set_get)
  then obtain s1 where "cache_get c cd ?k later ?s = (Some old, s1)" by (metis prod.collapse)
  then show ?thesis by (simp add: cached_call_wrap cache_wrap_def)
qed

lemma list_invalidating_ends:
  obtains r s' where "invalidating list_redis None cls (Inr res) (Some s) = Some (r, Some s')"
proof -
  obtain x where "scan_loop list_redis (r_prefix (redis s) @ class_prefix cls @ ''*'') ''0'' 0 (server (redis s)) = Some x"
    using scan_loop_ends [OF list_redis_scan list_redis_delete] by blast
  then have "\<exists>x. redis_invalidateByPrefix list_redis (class_prefix cls) (redis s) = Some x"
    by (cases x) (simp add: redis_invalidateByPrefix_def)
  then have "\<exists>x. cache_invalidateByPrefix list_redis (class_prefix cls) s = Some x"
    by (auto simp: cache_invalidateByPrefix_def split: prod.splits)
  then show thesis by (auto simp: invalidating_def intro: that)
qed

lemma invalidation_lost_witness:
  "\<exists>r s. invalidating list_redis None ''Pools'' (Inr JNull) (Some demo_cache) = Some (r, Some s) \<and>
    fst (cached_call list_redis text_codec brief pools [] (Inr (Some (JStr ''v2''))) (\<lambda>_. 9) (\<lambda>_. 9)
      (Some (wrap_stores list_redis text_codec brief pools [] (JStr ''v1'') (\<lambda>_. 5) s))) = Inr (Some (JStr ''v1''))"
proof -
  obtain r s where s: "invalidating list_redis None (cm_class pools) (Inr JNull) (Some demo_cache) = Some (r, Some s)"
    by (rule list_invalidating_ends)
  have "fst (cached_call list_redis text_codec brief pools [] (Inr (Some (JStr ''v2''))) (\<lambda>_. 9) (\<lambda>_. 9)
      (Some (wrap_stores list_redis text_codec brief pools [] (JStr ''v1'') (\<lambda>_. 5) s))) = Inr (Some (JStr ''v1''))"
    by (rule invalidation_lost [OF _ _ s]) code_simp+
  moreover have "cm_class pools = ''Pools''" by (simp add: pools_def)
  ultimately show ?thesis using s by auto
qed

end
