(* ===== verification/Pagination.thy ===== *)
theory Pagination
  imports JS_Text "HOL-Library.Multiset" "HOL-Library.Product_Lexorder"
begin

text \<open>
  Offset and cursor pagination (src/pagination/helpers). The in-memory lists of the services are
  sorted with \<open>js_sort\<close> (\<open>Array.prototype.sort\<close> with a comparison function) and cut into pages;
  the lemmas show that the pages of a list are the list, that the flags of the metadata tell
  whether neighbours exist, and that following cursors visits every row once.
\<close>

section \<open>Offset pagination\<close>

record pagination_meta =
  pm_total :: int
  pm_page :: int
  pm_limit :: int
  totalPages :: int
  hasNext :: bool
  hasPrevious :: bool

definition buildPaginationMeta :: "int \<Rightarrow> int \<Rightarrow> int \<Rightarrow> pagination_meta" where
  "buildPaginationMeta n page limit =
     (let pages = \<lceil>fdiv (of_int n) (of_int limit)\<rceil>
      in \<lparr>pm_total = n, pm_page = page, pm_limit = limit, totalPages = pages,
          hasNext = (page < pages), hasPrevious = (1 < page)\<rparr>)"

definition createOffsetPaginatedResponse :: "'a list \<Rightarrow> int \<Rightarrow> int \<Rightarrow> int \<Rightarrow> 'a list \<times> pagination_meta" where
  "createOffsetPaginatedResponse d n page limit = (d, buildPaginationMeta n page limit)"

text \<open>\<open>xs.slice(start, end)\<close> for non-negative bounds.\<close>

definition slice :: "int \<Rightarrow> int \<Rightarrow> 'a list \<Rightarrow> 'a list" where
  "slice start stop xs = take (nat (stop - start)) (drop (nat start) xs)"

text \<open>The page of an in-memory list, as \<open>listSubscriptions\<close> and the database queries cut it.\<close>

definition page_of :: "int \<Rightarrow> int \<Rightarrow> 'a list \<Rightarrow> 'a list" where
  "page_of page limit xs = (let start = (page - 1) * limit in slice start (start + limit) xs)"

text \<open>A stable sort with a comparison function: each element goes before the first one it precedes.\<close>

fun insert_cmp :: "('a \<Rightarrow> 'a \<Rightarrow> int) \<Rightarrow> 'a \<Rightarrow> 'a list \<Rightarrow> 'a list" where
  "insert_cmp cmp x [] = [x]"
| "insert_cmp cmp x (y # ys) = (if cmp x y \<le> 0 then x # y # ys else y # insert_cmp cmp x ys)"

definition js_sort :: "('a \<Rightarrow> 'a \<Rightarrow> int) \<Rightarrow> 'a list \<Rightarrow> 'a list" where
  "js_sort cmp xs = foldr (insert_cmp cmp) xs []"

lemma set_insert_cmp [simp]: "set (insert_cmp cmp x xs) = insert x (set xs)"
  by (induction xs) auto

lemma length_insert_cmp [simp]: "length (insert_cmp cmp x xs) = Suc (length xs)"
  by (induction xs) auto

lemma mset_insert_cmp [simp]: "mset (insert_cmp cmp x xs) = add_mset x (mset xs)"
  by (induction xs) auto

lemma mset_js_sort [simp]: "mset (js_sort cmp xs) = mset xs"
  by (induction xs) (auto simp: js_sort_def)

lemma set_js_sort [simp]: "set (js_sort cmp xs) = set xs"
  by (metis mset_js_sort set_mset_mset)

lemma length_js_sort [simp]: "length (js_sort cmp xs) = length xs"
  by (metis mset_js_sort size_mset)

lemma sorted_insert_cmp:
  assumes "\<And>x y. cmp x y \<le> 0 \<or> cmp y x \<le> 0" "\<And>x y z. cmp x y \<le> 0 \<Longrightarrow> cmp y z \<le> 0 \<Longrightarrow> cmp x z \<le> 0"
  shows "sorted_wrt (\<lambda>x y. cmp x y \<le> 0) xs \<Longrightarrow> sorted_wrt (\<lambda>x y. cmp x y \<le> 0) (insert_cmp cmp a xs)"
  by (induction xs) (use assms in \<open>auto intro: assms(2)\<close>)

lemma sorted_js_sort:
  assumes "\<And>x y. cmp x y \<le> 0 \<or> cmp y x \<le> 0" "\<And>x y z. cmp x y \<le> 0 \<Longrightarrow> cmp y z \<le> 0 \<Longrightarrow> cmp x z \<le> 0"
  shows "sorted_wrt (\<lambda>x y. cmp x y \<le> 0) (js_sort cmp xs)"
  by (induction xs) (auto simp: js_sort_def intro!: sorted_insert_cmp assms(1) elim: assms(2))

lemma page_of_nat:
  "0 < limit \<Longrightarrow> page_of (int (Suc i)) (int limit) xs = take limit (drop (i * limit) xs)"
  by (simp add: page_of_def slice_def Let_def nat_mult_distrib flip: of_nat_mult)

lemma concat_pages:
  "0 < limit \<Longrightarrow> concat (map (\<lambda>i. take limit (drop (i * limit) xs)) [0..<n]) = take (n * limit) xs"
proof (induction n)
  case (Suc n)
  then show ?case using take_add [of "n * limit" limit xs] by (simp add: add.commute)
qed simp

lemma page_of_nonempty:
  "0 < limit \<Longrightarrow> 1 \<le> q \<Longrightarrow> page_of q limit xs \<noteq> [] \<longleftrightarrow> (q - 1) * limit < int (length xs)"
  by (simp add: page_of_def slice_def Let_def le_nat_iff not_le)

lemma totalPages_ceiling:
  assumes "0 < limit" "limit \<le> 2 ^ 52" "int n \<le> 2 ^ 52"
  shows "totalPages (buildPaginationMeta (int n) p limit) = (int n + limit - 1) div limit"
  using ceiling_fdiv [of "int n" limit] assms by (simp add: buildPaginationMeta_def Let_def)

text \<open>C12. Offset pages. The pages \<open>1\<close> to \<open>totalPages\<close> of a list, put together, are the list: no entry is
  lost or repeated, whatever the page size; \<open>hasNext\<close> holds exactly if the next page has an entry.\<close>

theorem pages_partition:
  assumes "0 < limit" "limit \<le> 2 ^ 52" "int (length xs) \<le> 2 ^ 52" "1 \<le> p"
  shows "let m = buildPaginationMeta (int (length xs)) p limit
    in concat (map (\<lambda>q. page_of q limit xs) [1..totalPages m]) = xs \<and>
      (hasNext m \<longleftrightarrow> page_of (p + 1) limit xs \<noteq> [])"
proof -
  let ?n = "(int (length xs) + limit - 1) div limit"
  define k where "k = nat ?n"
  have n: "?n = int k" using assms(1) by (simp add: k_def pos_imp_zdiv_nonneg_iff)
  have "limit * ?n + (int (length xs) + limit - 1) mod limit = int (length xs) + limit - 1"
    by (rule mult_div_mod_eq)
  then have bounds: "int (length xs) \<le> limit * ?n" "limit * ?n < int (length xs) + limit"
    using pos_mod_sign [OF assms(1)] pos_mod_bound [OF assms(1)] by (smt (verit))+
  have "[1..int k] = map (\<lambda>i. int (Suc i)) [0..<k]"
    by (rule nth_equalityI) (auto simp: nth_upto)
  then have "concat (map (\<lambda>q. page_of q limit xs) [1..?n]) =
      concat (map (\<lambda>i. take (nat limit) (drop (i * nat limit) xs)) [0..<k])"
    using page_of_nat [of "nat limit" _ xs] assms(1) by (simp add: n comp_def)
  also have "\<dots> = take (k * nat limit) xs" using assms(1) by (simp add: concat_pages)
  also have "length xs \<le> k * nat limit"
    using bounds(1) assms(1) by (simp add: n nat_le_iff mult.commute flip: of_nat_le_iff [where 'a = int])
  then have "take (k * nat limit) xs = xs" by simp
  finally have "concat (map (\<lambda>q. page_of q limit xs) [1..?n]) = xs" .
  moreover have "p < ?n \<longleftrightarrow> p * limit < int (length xs)"
  proof
    assume "p < ?n"
    then have "(p + 1) * limit \<le> ?n * limit" using assms(1) by (intro mult_right_mono) auto
    then show "p * limit < int (length xs)" using bounds(2) by (simp add: algebra_simps)
  next
    assume "p * limit < int (length xs)"
    then have "p * limit < ?n * limit" using bounds(1) by (simp add: mult.commute)
    then show "p < ?n" using assms(1) by (simp only: mult_less_cancel_right_pos)
  qed
  ultimately show ?thesis
    using totalPages_ceiling [OF assms(1-3)] page_of_nonempty [OF assms(1), of "p + 1" xs] assms(4)
    by (simp add: Let_def) (simp add: buildPaginationMeta_def Let_def)
qed

lemma pages_partition_witness:
  "let m = buildPaginationMeta (int (length [10, 20, 30, 40, 50 :: nat])) 2 2
    in concat (map (\<lambda>q. page_of q 2 [10, 20, 30, 40, 50 :: nat]) [1..totalPages m]) = [10, 20, 30, 40, 50] \<and>
      (hasNext m \<longleftrightarrow> page_of (2 + 1) 2 [10, 20, 30, 40, 50 :: nat] \<noteq> [])"
  by (rule pages_partition) simp_all

section \<open>Cursors\<close>

text \<open>\<open>b64\<close>/\<open>unb64\<close> are Node's \<open>base64url\<close> encoding of a text and its decoding; \<open>json_text\<close> and
  \<open>json_parse\<close> are \<open>JSON.stringify\<close> and \<open>JSON.parse\<close>.\<close>

record cursor_data =
  sortValue :: json
  cursor_id :: json

definition encodeCursor :: "(string \<Rightarrow> string) \<Rightarrow> (json \<Rightarrow> string) \<Rightarrow> cursor_data \<Rightarrow> string" where
  "encodeCursor b64 json_text d =
     ''v1'' @ ''.'' @ b64 (json_text (JObj [(''s'', sortValue d), (''i'', cursor_id d)]))"

definition decodeCursor ::
  "(string \<Rightarrow> string) \<Rightarrow> (string \<Rightarrow> json option) \<Rightarrow> string \<Rightarrow> error + cursor_data" where
  "decodeCursor unb64 json_parse cursor =
     (if cursor = [] then Inl (BadRequestException ''Invalid cursor: empty value'')
      else (case split_on CHR ''.'' cursor of
          [version, body] \<Rightarrow>
            if version \<noteq> ''v1'' then Inl (BadRequestException ''Invalid cursor format'')
            else (case json_parse (unb64 body) of
                None \<Rightarrow> Inl (BadRequestException ''Invalid cursor: failed to decode'')
              | Some JNull \<Rightarrow> Inl (BadRequestException ''Invalid cursor: failed to decode'')
              | Some (JObj payload) \<Rightarrow>
                  (case (map_get payload ''s'', map_get payload ''i'') of
                     (Some sv, Some i) \<Rightarrow> Inr \<lparr>sortValue = sv, cursor_id = i\<rparr>
                   | _ \<Rightarrow> Inl (BadRequestException ''Invalid cursor payload''))
              | Some _ \<Rightarrow> Inl (BadRequestException ''Invalid cursor payload''))
        | _ \<Rightarrow> Inl (BadRequestException ''Invalid cursor format'')))"

definition createCursorFromItem ::
  "(string \<Rightarrow> string) \<Rightarrow> (json \<Rightarrow> string) \<Rightarrow> json jsmap \<Rightarrow> string \<Rightarrow> string option" where
  "createCursorFromItem b64 json_text item sortField =
     (case (map_get item sortField, map_get item ''id'') of
        (Some sv, Some i) \<Rightarrow> Some (encodeCursor b64 json_text \<lparr>sortValue = sv, cursor_id = i\<rparr>)
      | _ \<Rightarrow> None)"

record cursor_meta =
  nextCursor :: "string option"
  cm_hasNext :: bool
  cm_limit :: int

definition buildCursorPaginationMeta ::
  "(string \<Rightarrow> string) \<Rightarrow> (json \<Rightarrow> string) \<Rightarrow> json jsmap list \<Rightarrow> int \<Rightarrow> string \<Rightarrow> bool \<Rightarrow> cursor_meta" where
  "buildCursorPaginationMeta b64 json_text items limit sortField hasMore =
     \<lparr>nextCursor = (if hasMore \<and> 0 < length items
        then createCursorFromItem b64 json_text (last items) sortField else None),
      cm_hasNext = hasMore, cm_limit = limit\<rparr>"


definition toy_text :: "json \<Rightarrow> string" where
  "toy_text j = (case j of JObj [(_, JStr a), (_, JStr b)] \<Rightarrow> a @ '','' @ b | _ \<Rightarrow> [])"

definition toy_parse :: "string \<Rightarrow> json option" where
  "toy_parse t = (case split_on CHR '','' t of
     [a, b] \<Rightarrow> Some (JObj [(''s'', JStr a), (''i'', JStr b)]) | _ \<Rightarrow> None)"


section \<open>Following cursors\<close>

text \<open>The query \<open>executeCursorQuery\<close> builds, on the rows of the table: those beyond the cursor in the
  order of (sort field, id), one more than the page holds.\<close>

definition beyond :: "bool \<Rightarrow> 'k::linorder \<Rightarrow> 'k \<Rightarrow> bool" where
  "beyond asc c k \<longleftrightarrow> (if asc then c < k else k < c)"

definition ordered :: "bool \<Rightarrow> ('a \<Rightarrow> 'k::linorder) \<Rightarrow> 'a list \<Rightarrow> 'a list" where
  "ordered asc key rows = (if asc then sort_key key rows else rev (sort_key key rows))"

definition applyCursorPagination ::
  "('a \<Rightarrow> 's::linorder \<times> 'i::linorder) \<Rightarrow> bool \<Rightarrow> 's \<times> 'i \<Rightarrow> nat \<Rightarrow> 'a list \<Rightarrow> 'a list" where
  "applyCursorPagination key asc cursor limit rows =
     take (limit + 1) (ordered asc key (filter (\<lambda>r. beyond asc cursor (key r)) rows))"

definition executeCursorQuery ::
  "('a \<Rightarrow> 's::linorder \<times> 'i::linorder) \<Rightarrow> bool \<Rightarrow> 's \<times> 'i \<Rightarrow> nat \<Rightarrow> 'a list \<Rightarrow> 'a list \<times> bool" where
  "executeCursorQuery key asc cursor limit rows =
     (let results = applyCursorPagination key asc cursor limit rows;
          hasMore = limit < length results
      in (if hasMore then butlast results else results, hasMore))"

text \<open>The client's loop: the pages reached from a cursor, at most \<open>n\<close> of them.\<close>

fun follow ::
  "('a \<Rightarrow> 's::linorder \<times> 'i::linorder) \<Rightarrow> bool \<Rightarrow> nat \<Rightarrow> 'a list \<Rightarrow> nat \<Rightarrow> 's \<times> 'i \<Rightarrow> 'a list" where
  "follow key asc limit rows 0 c = []"
| "follow key asc limit rows (Suc n) c =
     (case executeCursorQuery key asc c limit rows of
        (items, again) \<Rightarrow> items @ (if again then follow key asc limit rows n (key (last items)) else []))"

lemma ordered_filter: "filter P (ordered asc key rows) = ordered asc key (filter P rows)"
  by (simp add: ordered_def filter_sort rev_filter [symmetric])

lemma length_ordered [simp]: "length (ordered asc key rows) = length rows"
  by (simp add: ordered_def)

lemma sorted_ordered:
  assumes "distinct (map key rows)"
  shows "sorted_wrt (\<lambda>x y. beyond asc (key x) (key y)) (ordered asc key rows)"
proof -
  have "distinct (map key (sort_key key rows))" using assms by (simp add: distinct_map)
  moreover have "sorted (map key (sort_key key rows))" by simp
  ultimately have "sorted_wrt (<) (map key (sort_key key rows))" by (simp add: strict_sorted_iff)
  then show ?thesis
    by (auto simp: ordered_def beyond_def sorted_wrt_rev sorted_wrt_map)
qed

lemma filter_beyond_sorted:
  assumes "sorted_wrt (\<lambda>x y. beyond asc (key x) (key y)) xs" "n < length xs"
  shows "filter (\<lambda>r. beyond asc (key (xs ! n)) (key r)) xs = drop (Suc n) xs"
proof -
  have tk: "filter (\<lambda>r. beyond asc (key (xs ! n)) (key r)) (take (Suc n) xs) = []"
  proof -
    have "\<not> beyond asc (key (xs ! n)) (key (xs ! i))" if "i \<le> n" for i
      using sorted_wrt_nth_less [OF assms(1), of i n] assms(2) that
      by (cases "i = n") (auto simp: beyond_def split: if_splits)
    then show ?thesis using assms(2) by (auto simp: filter_empty_conv in_set_conv_nth)
  qed
  have dr: "filter (\<lambda>r. beyond asc (key (xs ! n)) (key r)) (drop (Suc n) xs) = drop (Suc n) xs"
    using assms by (intro filter_True) (auto simp: in_set_conv_nth intro!: sorted_wrt_nth_less [OF assms(1)])
  have "filter P xs = filter P (take (Suc n) xs) @ filter P (drop (Suc n) xs)" for P
    by (metis append_take_drop_id filter_append)
  then show ?thesis by (simp add: tk dr)
qed

lemma last_take: "0 < n \<Longrightarrow> n < length xs \<Longrightarrow> last (take n xs) = xs ! (n - 1)"
  by (subst last_conv_nth) auto

lemma follow_all:
  assumes "distinct (map key rows)" "0 < limit"
  shows "length (filter (\<lambda>r. beyond asc c (key r)) rows) < n \<Longrightarrow>
    follow key asc limit rows n c = ordered asc key (filter (\<lambda>r. beyond asc c (key r)) rows)"
proof (induction n arbitrary: c)
  case (Suc n)
  let ?S = "\<lambda>c. ordered asc key (filter (\<lambda>r. beyond asc c (key r)) rows)"
  have len: "length (?S c) < Suc n" using Suc.prems by simp
  show ?case
  proof (cases "limit < length (?S c)")
    case False
    then show ?thesis by (simp add: executeCursorQuery_def applyCursorPagination_def Let_def)
  next
    case True
    let ?c = "key (?S c ! (limit - 1))"
    have items: "butlast (take (limit + 1) (?S c)) = take limit (?S c)"
      using True by (simp add: butlast_take)
    have lst: "last (take limit (?S c)) = ?S c ! (limit - 1)" by (rule last_take [OF assms(2) True])
    have "?S c ! (limit - 1) \<in> set (?S c)" using True by simp
    then have c: "beyond asc c ?c" by (auto simp: ordered_def split: if_splits)
    have trans: "beyond asc ?c k \<Longrightarrow> beyond asc c k" for k
      using c by (auto simp: beyond_def split: if_splits)
    have "distinct (map key (filter (\<lambda>r. beyond asc c (key r)) rows))"
      using assms(1) by (rule distinct_map_filter)
    from filter_beyond_sorted [OF sorted_ordered [OF this, where asc = asc], of "limit - 1"]
    have "filter (\<lambda>r. beyond asc ?c (key r)) (?S c) = drop limit (?S c)"
      using True assms(2) by simp
    moreover have "filter (\<lambda>r. beyond asc ?c (key r)) (?S c) = ?S ?c"
    proof -
      have "(\<lambda>r. beyond asc c (key r) \<and> beyond asc ?c (key r)) = (\<lambda>r. beyond asc ?c (key r))"
        using trans by blast
      then show ?thesis unfolding ordered_filter filter_filter by (rule arg_cong)
    qed
    ultimately have rest: "?S ?c = drop limit (?S c)" by simp
    then have "length (?S ?c) < n" using len assms(2) True by simp
    then have walk: "follow key asc limit rows n ?c = drop limit (?S c)" using Suc.IH [of ?c] rest by simp
    have "limit < length (take (limit + 1) (?S c))" using True by simp
    then have "executeCursorQuery key asc c limit rows = (take limit (?S c), True)"
      unfolding executeCursorQuery_def applyCursorPagination_def Let_def items by simp
    then show ?thesis by (simp only: follow.simps prod.case lst walk if_True append_take_drop_id)
  qed
qed simp

text \<open>C14. Following cursors. With a positive page size, and a sort field and id that identify the rows,
  the pages reached by following the cursors are, put together, exactly the rows beyond the first
  cursor in order: none is skipped or repeated, in either direction, and the walk ends.\<close>

theorem cursor_pages_complete:
  assumes "distinct (map key rows)" "0 < limit" "length rows < n"
  shows "follow key asc limit rows n c = ordered asc key (filter (\<lambda>r. beyond asc c (key r)) rows)"
  using assms by (intro follow_all) (auto intro: le_less_trans [OF length_filter_le])

lemma cursor_pages_complete_witness:
  "follow id True 2 [(3, 1), (1, 2), (2, 3), (1, 4), (5, 5)] 6 (1, 2 :: nat) =
     [(1 :: nat, 4), (2, 3), (3, 1), (5, 5)]"
  using cursor_pages_complete [of id "[(3, 1), (1, 2), (2, 3), (1, 4), (5, 5)] :: (nat \<times> nat) list" 2 6 True "(1, 2)"]
  by (simp add: ordered_def beyond_def)

end
