(* ===== verification/Subscriptions.thy ===== *)
theory Subscriptions
  imports Pagination
begin

text \<open>
  Event subscriptions and their delivery records
  (src/subscriptions/subscription.service.ts, its DTOs and entities).

  The service keeps two maps: subscriptions by id and delivery records by
  \<open>subscriptionId:eventId\<close>. Dates are milliseconds since the epoch (the code keeps some of them as ISO
  strings, which order alike); fresh ids and clock readings are arguments. A filter comes from a
  request body that nothing has checked: its list of event types may be missing and its severity
  may be any text. Entities and the DTOs returned for them hold the same fields and are one record.
\<close>

section \<open>Data\<close>

datatype delivery_outcome = PENDING | DELIVERED | ACKNOWLEDGED | FAILED | RETRYING

datatype delivery_mode = IMMEDIATE | BATCH

record event_filter =
  eventTypes :: "string list option"
  minSeverity :: "string option"
  customPredicates :: "string jsmap option"

record subscription =
  s_id :: string
  s_userId :: string
  s_name :: string
  s_filter :: event_filter
  deliveryMode :: delivery_mode
  batchIntervalSeconds :: int
  callbackUrl :: "string option"
  active :: bool
  createdAt :: int
  updatedAt :: int

record delivery_record =
  dr_id :: string
  subscriptionId :: string
  eventId :: string
  outcome :: delivery_outcome
  firstAttemptAt :: int
  lastAttemptAt :: int
  attemptCount :: int
  nextRetryAt :: "int option"
  dr_createdAt :: int
  dr_updatedAt :: int

record subscription_service =
  subscriptions :: "subscription jsmap"
  deliveryRecords :: "delivery_record jsmap"

record create_subscription_dto =
  c_name :: string
  c_filter :: event_filter
  c_deliveryMode :: "delivery_mode option"
  c_batchIntervalSeconds :: "int option"
  c_callbackUrl :: "string option"

record update_subscription_dto =
  u_name :: "string option"
  u_filter :: "event_filter option"
  u_deliveryMode :: "delivery_mode option"
  u_batchIntervalSeconds :: "int option"
  u_callbackUrl :: "string option"
  u_active :: "bool option"

definition AVAILABLE_EVENT_TYPES :: "string list" where
  "AVAILABLE_EVENT_TYPES =
     [''portfolio.created'', ''portfolio.updated'', ''portfolio.deleted'', ''asset.price_change'',
      ''asset.added'', ''asset.removed'', ''risk.score_updated'', ''risk.threshold_breached'',
      ''contract.deployed'', ''contract.executed'', ''contract.failed'',
      ''transaction.confirmed'', ''transaction.failed'']"

definition severities :: "string list" where
  "severities = [''low'', ''medium'', ''high'', ''critical'']"

definition SEVERITY_RANK :: "string \<Rightarrow> int option" where
  "SEVERITY_RANK s = map_of [(''low'', 0), (''medium'', 1), (''high'', 2), (''critical'', 3)] s"

definition BASE_RETRY_DELAY_MS :: int where "BASE_RETRY_DELAY_MS = 1000"
definition MAX_RETRY_ATTEMPTS :: int where "MAX_RETRY_ATTEMPTS = 5"

section \<open>Subscriptions\<close>

definition createSubscription ::
  "string \<Rightarrow> int \<Rightarrow> string \<Rightarrow> create_subscription_dto \<Rightarrow> subscription_service \<Rightarrow>
   subscription \<times> subscription_service" where
  "createSubscription uuid now userId dto s =
     (let entity = \<lparr>s_id = uuid, s_userId = userId, s_name = c_name dto, s_filter = c_filter dto,
            deliveryMode = or_else (c_deliveryMode dto) IMMEDIATE,
            batchIntervalSeconds = or_else (c_batchIntervalSeconds dto) 0,
            callbackUrl = c_callbackUrl dto, active = True, createdAt = now, updatedAt = now\<rparr>
      in (entity, s\<lparr>subscriptions := map_set (s_id entity) entity (subscriptions s)\<rparr>))"

text \<open>\<open>field sortBy\<close> is the text of a field of a subscription and \<open>localeCompare\<close> the locale's order,
  both of the JavaScript runtime.\<close>

record pagination_query =
  q_page :: "int option"
  q_limit :: "int option"
  q_sortBy :: "string option"
  q_asc :: bool

definition listSubscriptions ::
  "(string \<Rightarrow> subscription \<Rightarrow> string) \<Rightarrow> (string \<Rightarrow> string \<Rightarrow> int) \<Rightarrow> string \<Rightarrow> pagination_query option \<Rightarrow>
   subscription_service \<Rightarrow> subscription list \<times> pagination_meta" where
  "listSubscriptions field localeCompare userId pagination s =
     (let allResults = filter (\<lambda>x. s_userId x = userId) (map snd (subscriptions s));
          count = int (length allResults)
      in case pagination of
           None \<Rightarrow> (allResults, \<lparr>pm_total = count, pm_page = 1, pm_limit = count, totalPages = 1,
                       hasNext = False, hasPrevious = False\<rparr>)
         | Some q \<Rightarrow>
             (let page = or_else (q_page q) 1;
                  limit = or_else (q_limit q) 10;
                  sortBy = or_else (q_sortBy q) ''createdAt'';
                  sorted = js_sort (\<lambda>a b.
                     let c = localeCompare (field sortBy a) (field sortBy b)
                     in if q_asc q then c else - c) allResults;
                  start = (page - 1) * limit
              in createOffsetPaginatedResponse (slice start (start + limit) sorted) count page limit))"

definition listAllSubscriptions :: "subscription_service \<Rightarrow> subscription list" where
  "listAllSubscriptions s = map snd (subscriptions s)"

definition listActiveSubscriptions :: "subscription_service \<Rightarrow> subscription list" where
  "listActiveSubscriptions s = filter active (listAllSubscriptions s)"

definition not_found :: "string \<Rightarrow> error" where
  "not_found subId = NotFoundException (''Subscription '' @ subId @ '' not found'')"

definition getSubscriptionById :: "string \<Rightarrow> subscription_service \<Rightarrow> error + subscription" where
  "getSubscriptionById subId s =
     (case map_get (subscriptions s) subId of Some e \<Rightarrow> Inr e | None \<Rightarrow> Inl (not_found subId))"

definition findOrThrow :: "string \<Rightarrow> string \<Rightarrow> subscription_service \<Rightarrow> error + subscription" where
  "findOrThrow userId subId s =
     (case map_get (subscriptions s) subId of
        Some e \<Rightarrow> if s_userId e \<noteq> userId then Inl (not_found subId) else Inr e
      | None \<Rightarrow> Inl (not_found subId))"

definition getSubscription :: "string \<Rightarrow> string \<Rightarrow> subscription_service \<Rightarrow> error + subscription" where
  "getSubscription userId subId s = findOrThrow userId subId s"

definition updateSubscription ::
  "int \<Rightarrow> string \<Rightarrow> string \<Rightarrow> update_subscription_dto \<Rightarrow> subscription_service \<Rightarrow>
   (error + subscription) \<times> subscription_service" where
  "updateSubscription now userId subId dto s =
     (case findOrThrow userId subId s of
        Inl e \<Rightarrow> (Inl e, s)
      | Inr entity \<Rightarrow>
          (let entity' = entity\<lparr>
                 s_name := or_else (u_name dto) (s_name entity),
                 s_filter := or_else (u_filter dto) (s_filter entity),
                 deliveryMode := or_else (u_deliveryMode dto) (deliveryMode entity),
                 batchIntervalSeconds := or_else (u_batchIntervalSeconds dto) (batchIntervalSeconds entity),
                 callbackUrl := (case u_callbackUrl dto of Some u \<Rightarrow> Some u | None \<Rightarrow> callbackUrl entity),
                 active := or_else (u_active dto) (active entity),
                 updatedAt := now\<rparr>
           in (Inr entity', s\<lparr>subscriptions := map_set (s_id entity) entity' (subscriptions s)\<rparr>)))"

definition deleteSubscription ::
  "string \<Rightarrow> string \<Rightarrow> subscription_service \<Rightarrow> (error + unit) \<times> subscription_service" where
  "deleteSubscription userId subId s =
     (case findOrThrow userId subId s of
        Inl e \<Rightarrow> (Inl e, s)
      | Inr _ \<Rightarrow>
          (Inr (), s\<lparr>subscriptions := map_delete subId (subscriptions s),
             deliveryRecords := map_delete_each (\<lambda>_ r. subscriptionId r = subId)
               (deliveryRecords s) (deliveryRecords s)\<rparr>))"

section \<open>Filters\<close>

definition compileFilterSummary :: "event_filter \<Rightarrow> string list \<Rightarrow> string" where
  "compileFilterSummary f types =
     join '' | ''
       ([''Event types: ['' @ join '', '' types @ '']''] @
        (case minSeverity f of Some m \<Rightarrow> if m \<noteq> [] then [''Minimum severity: '' @ m] else [] | None \<Rightarrow> []) @
        (case customPredicates f of
           Some ps \<Rightarrow> if 0 < length ps
             then [''Custom predicates: {'' @ join '', '' (map (\<lambda>(k, v). k @ ''='' @ v) ps) @ ''}''] else []
         | None \<Rightarrow> []))"

text \<open>\<open>Inl\<close>: not valid, with the errors; \<open>Inr\<close>: valid, with the summary.\<close>

definition validateFilter :: "event_filter \<Rightarrow> string list + string" where
  "validateFilter f =
     (let types = or_else (eventTypes f) [];
          e1 = (if length types = 0 then [''filter.eventTypes must contain at least one event type'']
                else (let unknown = filter (\<lambda>t. t \<notin> set AVAILABLE_EVENT_TYPES) types
                      in if 0 < length unknown then [''Unknown event types: '' @ join '', '' unknown] else []));
          e2 = (case minSeverity f of
                  Some m \<Rightarrow>
                    if m \<notin> set severities
                    then [''Invalid minSeverity \"'' @ m @ ''\". Must be one of: '' @ join '', '' severities]
                    else []
                | None \<Rightarrow> []);
          errors = e1 @ e2
      in if 0 < length errors then Inl errors else Inr (compileFilterSummary f types))"

text \<open>The filter of an event. A filter without a list of event types makes the code read a property of
  \<open>undefined\<close>.\<close>

definition severity_too_low :: "string option \<Rightarrow> string option \<Rightarrow> bool" where
  "severity_too_low minimum actual =
     (case (minimum, actual) of
        (Some m, Some a) \<Rightarrow>
          m \<noteq> [] \<and> a \<noteq> [] \<and>
          (case (SEVERITY_RANK m, SEVERITY_RANK a) of (Some mr, Some ar) \<Rightarrow> ar < mr | _ \<Rightarrow> False)
      | _ \<Rightarrow> False)"

definition predicates_hold :: "string jsmap option \<Rightarrow> string jsmap option \<Rightarrow> bool" where
  "predicates_hold predicates metadata =
     (case predicates of
        None \<Rightarrow> True
      | Some ps \<Rightarrow> list_all (\<lambda>(k, v). case metadata of Some md \<Rightarrow> map_get md k = Some v | None \<Rightarrow> False) ps)"

definition matchesFilter ::
  "event_filter \<Rightarrow> string \<Rightarrow> string option \<Rightarrow> string jsmap option \<Rightarrow> error + bool" where
  "matchesFilter f etype severity metadata =
     (case eventTypes f of
        None \<Rightarrow> Inl (JsError ''Cannot read properties of undefined'')
      | Some types \<Rightarrow>
          if etype \<notin> set types then Inr False
          else if severity_too_low (minSeverity f) severity then Inr False
          else Inr (predicates_hold (customPredicates f) metadata))"

section \<open>Delivery records\<close>

record delivery_status =
  st_pending :: int
  st_delivered :: int
  st_acknowledged :: int
  st_failed :: int
  st_retrying :: int
  st_records :: "delivery_record list"

definition count_of :: "delivery_outcome \<Rightarrow> delivery_record list \<Rightarrow> int" where
  "count_of x rs = int (length (filter (\<lambda>r. outcome r = x) rs))"

definition getDeliveryStatus :: "string \<Rightarrow> string \<Rightarrow> subscription_service \<Rightarrow> error + delivery_status" where
  "getDeliveryStatus userId subId s =
     (case findOrThrow userId subId s of
        Inl e \<Rightarrow> Inl e
      | Inr _ \<Rightarrow>
          (let records = filter (\<lambda>r. subscriptionId r = subId) (map snd (deliveryRecords s));
               recent = js_sort (\<lambda>a b. lastAttemptAt b - lastAttemptAt a) records
           in Inr \<lparr>st_pending = count_of PENDING recent, st_delivered = count_of DELIVERED recent,
                st_acknowledged = count_of ACKNOWLEDGED recent, st_failed = count_of FAILED recent,
                st_retrying = count_of RETRYING recent, st_records = recent\<rparr>))"

definition listDeliveryRecords :: "subscription_service \<Rightarrow> delivery_record list" where
  "listDeliveryRecords s = map snd (deliveryRecords s)"

definition record_key :: "string \<Rightarrow> string \<Rightarrow> string" where
  "record_key subId evId = subId @ '':'' @ evId"

text \<open>\<open>now\<close> is the reading for the attempt, \<open>now_retry\<close> the one the retry is scheduled from.\<close>

definition recordDeliveryAttempt ::
  "string \<Rightarrow> int \<Rightarrow> int \<Rightarrow> string \<Rightarrow> string \<Rightarrow> delivery_outcome \<Rightarrow> subscription_service \<Rightarrow>
   delivery_record \<times> subscription_service" where
  "recordDeliveryAttempt uuid now now_retry subId evId oc s =
     (let key = record_key subId evId;
          r1 = (case map_get (deliveryRecords s) key of
                  None \<Rightarrow> \<lparr>dr_id = uuid, subscriptionId = subId, eventId = evId, outcome = oc,
                    firstAttemptAt = now, lastAttemptAt = now, attemptCount = 1, nextRetryAt = None,
                    dr_createdAt = now, dr_updatedAt = now\<rparr>
                | Some r \<Rightarrow> r\<lparr>attemptCount := attemptCount r + 1, lastAttemptAt := now, outcome := oc,
                    dr_updatedAt := now\<rparr>);
          r2 = (if oc = RETRYING \<and> attemptCount r1 \<le> MAX_RETRY_ATTEMPTS
                then (let delayMs = BASE_RETRY_DELAY_MS * 2 ^ nat (attemptCount r1 - 1)
                      in r1\<lparr>nextRetryAt := Some (now_retry + delayMs)\<rparr>)
                else r1\<lparr>nextRetryAt := None\<rparr>);
          r3 = (if oc = RETRYING \<and> MAX_RETRY_ATTEMPTS < attemptCount r2 then r2\<lparr>outcome := FAILED\<rparr> else r2)
      in (r3, s\<lparr>deliveryRecords := map_set key r3 (deliveryRecords s)\<rparr>))"

fun acknowledge_loop ::
  "int \<Rightarrow> string \<Rightarrow> string list \<Rightarrow> int \<Rightarrow> string list \<Rightarrow> subscription_service \<Rightarrow>
   (int \<times> string list) \<times> subscription_service" where
  "acknowledge_loop now subId [] acked skipped s = ((acked, skipped), s)"
| "acknowledge_loop now subId (e # es) acked skipped s =
     (let key = record_key subId e
      in case map_get (deliveryRecords s) key of
           None \<Rightarrow> acknowledge_loop now subId es acked (skipped @ [e]) s
         | Some r \<Rightarrow>
             if outcome r = ACKNOWLEDGED then acknowledge_loop now subId es acked (skipped @ [e]) s
             else acknowledge_loop now subId es (acked + 1) skipped
                (s\<lparr>deliveryRecords := map_set key
                   (r\<lparr>outcome := ACKNOWLEDGED, nextRetryAt := None, dr_updatedAt := now\<rparr>) (deliveryRecords s)\<rparr>))"

definition acknowledgeEvents ::
  "int \<Rightarrow> string \<Rightarrow> string \<Rightarrow> string list \<Rightarrow> subscription_service \<Rightarrow>
   (error + int \<times> string list) \<times> subscription_service" where
  "acknowledgeEvents now userId subId eventIds s =
     (case findOrThrow userId subId s of
        Inl e \<Rightarrow> (Inl e, s)
      | Inr _ \<Rightarrow>
          (case acknowledge_loop now subId eventIds 0 [] s of (res, s') \<Rightarrow> (Inr res, s')))"

end
