(* ===== verification/Webhook.thy ===== *)
theory Webhook
  imports Subscriptions
begin

text \<open>
  The webhook service (src/webhook/webhook.service.ts): publishing events, delivering them to the
  matching subscriptions, retrying, signatures and the dashboard.

  The outside world is the record \<open>webhook_env\<close>: \<open>fetch\<close> (the outcome of a POST of a body with a
  signature to a URL, \<open>Inl\<close> when it rejects; \<open>None\<close> when the runtime has no \<open>fetch\<close>),
  \<open>JSON.stringify\<close> of an event, and HMAC-SHA-256 in hexadecimal. \<open>rids\<close> gives the fresh id drawn
  for the delivery record of a subscription. Deliveries are modelled one after the other, as the
  \<open>await\<close>s of the loop order them.
\<close>

section \<open>Data\<close>

record webhook_event =
  ev_id :: string
  ev_type :: string
  ev_severity :: string
  ev_data :: json
  ev_metadata :: "string jsmap"
  occurredAt :: int

record publish_event_input =
  in_type :: string
  in_severity :: "string option"
  in_data :: "json option"
  in_metadata :: "string jsmap option"

record webhook_delivery_result =
  d_eventId :: string
  d_subscriptionId :: string
  d_callbackUrl :: "string option"
  d_outcome :: delivery_outcome
  d_attemptCount :: int
  d_nextRetryAt :: "int option"
  d_signature :: string

record transport_result =
  ok :: bool
  statusCode :: "int option"
  t_error :: "string option"

record webhook_env =
  fetch :: "(string \<Rightarrow> string \<Rightarrow> string \<Rightarrow> string + bool \<times> int) option"
  stringify :: "webhook_event \<Rightarrow> string"
  hmac_sha256 :: "string \<Rightarrow> string \<Rightarrow> string"
  webhook_secret :: "string option"

record webhook_service =
  subs :: subscription_service
  eventHistory :: "webhook_event list"

definition DEFAULT_SECRET :: string where "DEFAULT_SECRET = ''development-webhook-secret''"

section \<open>Signatures\<close>

definition generateSignature :: "webhook_env \<Rightarrow> string \<Rightarrow> string" where
  "generateSignature env text = hmac_sha256 env (or_else (webhook_secret env) DEFAULT_SECRET) text"

definition signPayload :: "webhook_env \<Rightarrow> webhook_event \<Rightarrow> string" where
  "signPayload env event = generateSignature env (stringify env event)"

text \<open>\<open>Buffer.from\<close> writes two bytes for a character beyond ASCII; \<open>timingSafeEqual\<close> throws when the
  buffers differ in length.\<close>

definition buffer_length :: "string \<Rightarrow> nat" where
  "buffer_length s = (\<Sum>c \<leftarrow> s. if of_char c < (128 :: nat) then 1 else 2)"

definition verify_text :: "webhook_env \<Rightarrow> string \<Rightarrow> string \<Rightarrow> error + bool" where
  "verify_text env signature text =
     (let expected = generateSignature env text
      in if length signature \<noteq> length expected then Inr False
         else if buffer_length signature \<noteq> buffer_length expected
           then Inl (JsError ''Input buffers must have the same byte length'')
         else Inr (signature = expected))"

definition verifySignature :: "webhook_env \<Rightarrow> string \<Rightarrow> webhook_event \<Rightarrow> error + bool" where
  "verifySignature env signature payload = verify_text env signature (stringify env payload)"

section \<open>Delivery\<close>

definition publishEvent ::
  "string \<Rightarrow> int \<Rightarrow> publish_event_input \<Rightarrow> webhook_service \<Rightarrow> webhook_event \<times> webhook_service" where
  "publishEvent uuid now input s =
     (let event = \<lparr>ev_id = uuid, ev_type = in_type input, ev_severity = or_else (in_severity input) ''low'',
            ev_data = or_else (in_data input) (JObj []), ev_metadata = or_else (in_metadata input) [],
            occurredAt = now\<rparr>
      in (event, s\<lparr>eventHistory := event # eventHistory s\<rparr>))"

definition sendWebhook :: "webhook_env \<Rightarrow> string \<Rightarrow> webhook_event \<Rightarrow> transport_result" where
  "sendWebhook env url event =
     (let signature = signPayload env event
      in case fetch env of
           None \<Rightarrow> \<lparr>ok = True, statusCode = Some 202, t_error = None\<rparr>
         | Some post \<Rightarrow>
             (case post url (stringify env event) signature of
                Inl message \<Rightarrow> \<lparr>ok = False, statusCode = None, t_error = Some message\<rparr>
              | Inr (response_ok, status) \<Rightarrow> \<lparr>ok = response_ok, statusCode = Some status, t_error = None\<rparr>))"

definition deliverToSubscription ::
  "webhook_env \<Rightarrow> (string \<Rightarrow> string) \<Rightarrow> int \<Rightarrow> int \<Rightarrow> subscription \<Rightarrow> webhook_event \<Rightarrow> bool \<Rightarrow> webhook_service \<Rightarrow>
   webhook_delivery_result \<times> webhook_service" where
  "deliverToSubscription env rids now now_retry sub event forceSimulation s =
     (let oc = (case callbackUrl sub of
             Some url \<Rightarrow>
               if \<not> forceSimulation \<and> url \<noteq> []
               then (if ok (sendWebhook env url event) then DELIVERED else RETRYING) else DELIVERED
           | None \<Rightarrow> DELIVERED)
      in case recordDeliveryAttempt (rids (s_id sub)) now now_retry (s_id sub) (ev_id event) oc (subs s) of
           (r, ss) \<Rightarrow>
             (\<lparr>d_eventId = ev_id event, d_subscriptionId = s_id sub, d_callbackUrl = callbackUrl sub,
               d_outcome = outcome r, d_attemptCount = attemptCount r, d_nextRetryAt = nextRetryAt r,
               d_signature = signPayload env event\<rparr>, s\<lparr>subs := ss\<rparr>))"

text \<open>\<open>clock\<close> gives the two readings of the attempt for a subscription.\<close>

fun deliver_loop ::
  "webhook_env \<Rightarrow> (string \<Rightarrow> string) \<Rightarrow> (string \<Rightarrow> int \<times> int) \<Rightarrow> webhook_event \<Rightarrow> subscription list \<Rightarrow>
   webhook_service \<Rightarrow> (error + webhook_delivery_result list) \<times> webhook_service" where
  "deliver_loop env rids clock event [] s = (Inr [], s)"
| "deliver_loop env rids clock event (sub # rest) s =
     (case matchesFilter (s_filter sub) (ev_type event) (Some (ev_severity event)) (Some (ev_metadata event)) of
        Inl e \<Rightarrow> (Inl e, s)
      | Inr False \<Rightarrow> deliver_loop env rids clock event rest s
      | Inr True \<Rightarrow>
          (case clock (s_id sub) of (now, now_retry) \<Rightarrow>
            (case deliverToSubscription env rids now now_retry sub event False s of
               (d, s1) \<Rightarrow>
                 (case deliver_loop env rids clock event rest s1 of
                    (Inl e, s2) \<Rightarrow> (Inl e, s2)
                  | (Inr ds, s2) \<Rightarrow> (Inr (d # ds), s2)))))"

definition publishAndDeliver ::
  "webhook_env \<Rightarrow> (string \<Rightarrow> string) \<Rightarrow> (string \<Rightarrow> int \<times> int) \<Rightarrow> string \<Rightarrow> int \<Rightarrow> publish_event_input \<Rightarrow>
   webhook_service \<Rightarrow> (error + webhook_event \<times> webhook_delivery_result list) \<times> webhook_service" where
  "publishAndDeliver env rids clock uuid now input s =
     (case publishEvent uuid now input s of (event, s1) \<Rightarrow>
       (case deliver_loop env rids clock event (listActiveSubscriptions (subs s1)) s1 of
          (Inl e, s2) \<Rightarrow> (Inl e, s2)
        | (Inr ds, s2) \<Rightarrow> (Inr (event, ds), s2)))"

definition simulateDelivery ::
  "webhook_env \<Rightarrow> (string \<Rightarrow> string) \<Rightarrow> int \<Rightarrow> int \<Rightarrow> string \<Rightarrow> int \<Rightarrow> string \<Rightarrow> publish_event_input \<Rightarrow>
   webhook_service \<Rightarrow> (error + webhook_delivery_result) \<times> webhook_service" where
  "simulateDelivery env rids now_attempt now_retry uuid now subId input s =
     (case publishEvent uuid now input s of (event, s1) \<Rightarrow>
       (case getSubscriptionById subId (subs s1) of
          Inl e \<Rightarrow> (Inl e, s1)
        | Inr sub \<Rightarrow>
            (case deliverToSubscription env rids now_attempt now_retry sub event True s1 of
               (d, s2) \<Rightarrow> (Inr d, s2))))"

definition retry_due :: "int \<Rightarrow> delivery_record \<Rightarrow> bool" where
  "retry_due now r \<longleftrightarrow> outcome r = RETRYING \<and>
     (case nextRetryAt r of Some t \<Rightarrow> t \<le> now | None \<Rightarrow> False) \<and> subscriptionId r \<noteq> []"

fun retry_loop ::
  "webhook_env \<Rightarrow> (string \<Rightarrow> string) \<Rightarrow> (string \<Rightarrow> int \<times> int) \<Rightarrow> int \<Rightarrow> delivery_record list \<Rightarrow>
   webhook_service \<Rightarrow> (error + webhook_delivery_result list) \<times> webhook_service" where
  "retry_loop env rids clock now [] s = (Inr [], s)"
| "retry_loop env rids clock now (r # rest) s =
     (if \<not> retry_due now r then retry_loop env rids clock now rest s
      else (case List.find (\<lambda>e. ev_id e = eventId r) (eventHistory s) of
          None \<Rightarrow> retry_loop env rids clock now rest s
        | Some event \<Rightarrow>
            (case getSubscriptionById (subscriptionId r) (subs s) of
               Inl e \<Rightarrow> (Inl e, s)
             | Inr sub \<Rightarrow>
                 (case clock (record_key (subscriptionId r) (eventId r)) of (now1, now_retry) \<Rightarrow>
                   (case deliverToSubscription env rids now1 now_retry sub event False s of
                      (d, s1) \<Rightarrow>
                        (case retry_loop env rids clock now rest s1 of
                           (Inl e, s2) \<Rightarrow> (Inl e, s2)
                         | (Inr ds, s2) \<Rightarrow> (Inr (d # ds), s2)))))))"

definition retryDueDeliveries ::
  "webhook_env \<Rightarrow> (string \<Rightarrow> string) \<Rightarrow> (string \<Rightarrow> int \<times> int) \<Rightarrow> int \<Rightarrow> webhook_service \<Rightarrow>
   (error + webhook_delivery_result list) \<times> webhook_service" where
  "retryDueDeliveries env rids clock now s =
     retry_loop env rids clock now (listDeliveryRecords (subs s)) s"

section \<open>Dashboard\<close>

record dashboard =
  subscriptions_total :: int
  subscriptions_active :: int
  events_total :: int
  events_recent :: "webhook_event list"
  deliveries_total :: int
  deliveries_delivered :: int
  deliveries_retrying :: int
  deliveries_failed :: int
  retryQueue :: "(string \<times> string \<times> int \<times> int option) list"

definition getDashboard :: "webhook_service \<Rightarrow> dashboard" where
  "getDashboard s =
     (let ss = listAllSubscriptions (subs s); records = listDeliveryRecords (subs s)
      in \<lparr>subscriptions_total = int (length ss), subscriptions_active = int (length (filter active ss)),
          events_total = int (length (eventHistory s)), events_recent = take 10 (eventHistory s),
          deliveries_total = int (length records), deliveries_delivered = count_of DELIVERED records,
          deliveries_retrying = count_of RETRYING records, deliveries_failed = count_of FAILED records,
          retryQueue = map (\<lambda>r. (eventId r, subscriptionId r, attemptCount r, nextRetryAt r))
            (filter (\<lambda>r. outcome r = RETRYING) records)\<rparr>)"

end
