(* ===== verification/Subscription_Props.thy ===== *)
theory Subscription_Props
  imports Webhook
begin

text \<open>
  Properties of subscriptions and webhook delivery: the life of a delivery record over all reachable
  states, the retry schedule, the isolation of users, which subscriptions an event reaches, and
  signatures.
\<close>

section \<open>Well-formed states\<close>

definition record_ok :: "string \<Rightarrow> delivery_record \<Rightarrow> bool" where
  "record_ok k r \<longleftrightarrow> k = record_key (subscriptionId r) (eventId r) \<and> 1 \<le> attemptCount r \<and>
     attemptCount r \<le> MAX_RETRY_ATTEMPTS + 1 \<and>
     (outcome r = RETRYING \<longleftrightarrow> nextRetryAt r \<noteq> None) \<and>
     (outcome r = RETRYING \<longrightarrow> attemptCount r \<le> MAX_RETRY_ATTEMPTS)"

definition delivery_ok :: "webhook_service \<Rightarrow> bool" where
  "delivery_ok s \<longleftrightarrow>
     wf_map (subscriptions (subs s)) \<and> wf_map (deliveryRecords (subs s)) \<and>
     (\<forall>k x. map_get (subscriptions (subs s)) k = Some x \<longrightarrow> s_id x = k \<and> CHR '':'' \<notin> set k) \<and>
     (\<forall>k r. map_get (deliveryRecords (subs s)) k = Some r \<longrightarrow>
        record_ok k r \<and> map_get (subscriptions (subs s)) (subscriptionId r) \<noteq> None \<and>
        eventId r \<in> ev_id ` set (eventHistory s))"

lemma record_key_inject:
  "CHR '':'' \<notin> set a \<Longrightarrow> CHR '':'' \<notin> set b \<Longrightarrow> record_key a x = record_key b y \<longleftrightarrow> a = b \<and> x = y"
  unfolding record_key_def
proof
  assume *: "CHR '':'' \<notin> set a" "CHR '':'' \<notin> set b" "a @ '':'' @ x = b @ '':'' @ y"
  then have "split_on CHR '':'' (a @ CHR '':'' # x) = split_on CHR '':'' (b @ CHR '':'' # y)" by simp
  then have "a = b" using * by (simp add: split_on_append)
  then show "a = b \<and> x = y" using *(3) by simp
qed simp

lemma delivery_ok_sub:
  assumes "delivery_ok s" "map_get (subscriptions (subs s)) k = Some x"
  shows "s_id x = k" "CHR '':'' \<notin> set k"
  using assms by (auto simp: delivery_ok_def)

lemma delivery_ok_record:
  assumes "delivery_ok s" "map_get (deliveryRecords (subs s)) k = Some r"
  shows "record_ok k r" "map_get (subscriptions (subs s)) (subscriptionId r) \<noteq> None"
    "eventId r \<in> ev_id ` set (eventHistory s)" "CHR '':'' \<notin> set (subscriptionId r)"
proof -
  show ok: "record_ok k r" "map_get (subscriptions (subs s)) (subscriptionId r) \<noteq> None"
    "eventId r \<in> ev_id ` set (eventHistory s)"
    using assms unfolding delivery_ok_def by blast+
  from ok(2) show "CHR '':'' \<notin> set (subscriptionId r)"
    using delivery_ok_sub(2) [OF assms(1)] by blast
qed

text \<open>Of the records, only the one attempted changes.\<close>

lemma recordDeliveryAttempt_frame:
  assumes "recordDeliveryAttempt uuid now now' sub ev oc s = (r, s')"
  shows "subscriptions s' = subscriptions s"
    "deliveryRecords s' = map_set (record_key sub ev) r (deliveryRecords s)"
  using assms by (auto simp: recordDeliveryAttempt_def Let_def)

text \<open>An attempt that may be made: the first for this event, or one on a record waiting for its retry.\<close>

definition attempt_open :: "string \<Rightarrow> string \<Rightarrow> subscription_service \<Rightarrow> bool" where
  "attempt_open sub ev s \<longleftrightarrow>
     (case map_get (deliveryRecords s) (record_key sub ev) of
        None \<Rightarrow> True
      | Some r \<Rightarrow> outcome r = RETRYING \<and> subscriptionId r = sub \<and> eventId r = ev)"

lemma recordDeliveryAttempt_ok:
  assumes "recordDeliveryAttempt uuid now now' sub ev oc s = (r, s')"
    "attempt_open sub ev s" "\<forall>q. map_get (deliveryRecords s) (record_key sub ev) = Some q \<longrightarrow>
       record_ok (record_key sub ev) q"
    "oc = DELIVERED \<or> oc = RETRYING"
  shows "record_ok (record_key sub ev) r \<and> subscriptionId r = sub \<and> eventId r = ev"
  using assms
  by (auto simp: recordDeliveryAttempt_def attempt_open_def record_ok_def Let_def MAX_RETRY_ATTEMPTS_def
      split: option.splits if_splits)

lemma deliver_frame:
  assumes "deliverToSubscription env rids now now' sub event force s = (d, s')"
  obtains oc r where "oc = DELIVERED \<or> oc = RETRYING"
    "recordDeliveryAttempt (rids (s_id sub)) now now' (s_id sub) (ev_id event) oc (subs s) = (r, subs s')"
    "s' = s\<lparr>subs := subs s'\<rparr>" "d_subscriptionId d = s_id sub" "d_eventId d = ev_id event"
  using assms
  by (auto simp: deliverToSubscription_def Let_def split: prod.splits option.splits if_splits) fastforce+

lemma deliver_ok:
  assumes "deliverToSubscription env rids now now' sub event force s = (d, s')" "delivery_ok s"
    "attempt_open (s_id sub) (ev_id event) (subs s)"
    "map_get (subscriptions (subs s)) (s_id sub) \<noteq> None" "event \<in> set (eventHistory s)"
  shows "delivery_ok s'"
proof -
  obtain oc r where *: "oc = DELIVERED \<or> oc = RETRYING"
    "recordDeliveryAttempt (rids (s_id sub)) now now' (s_id sub) (ev_id event) oc (subs s) = (r, subs s')"
    "s' = s\<lparr>subs := subs s'\<rparr>"
    by (rule deliver_frame [OF assms(1)])
  have hist: "eventHistory s' = eventHistory s" using *(3) by (metis webhook_service.select_convs(2) webhook_service.surjective webhook_service.update_convs(1))
  have "record_ok (record_key (s_id sub) (ev_id event)) r \<and> subscriptionId r = s_id sub \<and> eventId r = ev_id event"
    using delivery_ok_record(1) [OF assms(2)] by (intro recordDeliveryAttempt_ok [OF *(2) assms(3)] *(1)) auto
  then show ?thesis
    using assms(2,4,5) recordDeliveryAttempt_frame [OF *(2)] unfolding delivery_ok_def hist by auto
qed

section \<open>Reachable states\<close>

text \<open>The requests the controllers serve, from an empty service. Fresh ids are unused and have no colon, as
  the uuids the code draws.\<close>

inductive reachable :: "webhook_env \<Rightarrow> webhook_service \<Rightarrow> bool" for env where
  start: "reachable env \<lparr>subs = \<lparr>subscriptions = [], deliveryRecords = []\<rparr>, eventHistory = []\<rparr>"
| create: "\<lbrakk>reachable env s; map_get (subscriptions (subs s)) uuid = None; CHR '':'' \<notin> set uuid\<rbrakk>
   \<Longrightarrow> reachable env (s\<lparr>subs := snd (createSubscription uuid now u dto (subs s))\<rparr>)"
| update: "reachable env s \<Longrightarrow> reachable env (s\<lparr>subs := snd (updateSubscription now u k udto (subs s))\<rparr>)"
| delete: "reachable env s \<Longrightarrow> reachable env (s\<lparr>subs := snd (deleteSubscription u k (subs s))\<rparr>)"
| acknowledge: "reachable env s \<Longrightarrow> reachable env (s\<lparr>subs := snd (acknowledgeEvents now u k evs (subs s))\<rparr>)"
| publish: "\<lbrakk>reachable env s; uuid \<notin> ev_id ` set (eventHistory s)\<rbrakk>
   \<Longrightarrow> reachable env (snd (publishAndDeliver env rids clock uuid now input s))"
| simulate: "\<lbrakk>reachable env s; uuid \<notin> ev_id ` set (eventHistory s)\<rbrakk>
   \<Longrightarrow> reachable env (snd (simulateDelivery env rids now1 now2 uuid now k input s))"
| retry: "reachable env s \<Longrightarrow> reachable env (snd (retryDueDeliveries env rids clock now s))"

lemma findOrThrow_Inr:
  "findOrThrow u k s = Inr x \<longleftrightarrow> map_get (subscriptions s) k = Some x \<and> s_userId x = u"
  by (auto simp: findOrThrow_def split: option.splits)

lemma ok_create:
  assumes "delivery_ok s" "CHR '':'' \<notin> set uuid"
  shows "delivery_ok (s\<lparr>subs := snd (createSubscription uuid now u dto (subs s))\<rparr>)"
  using assms unfolding delivery_ok_def createSubscription_def Let_def by auto

lemma ok_update:
  assumes "delivery_ok s" shows "delivery_ok (s\<lparr>subs := snd (updateSubscription now u k udto (subs s))\<rparr>)"
proof (cases "findOrThrow u k (subs s)")
  case (Inr x)
  then have x: "map_get (subscriptions (subs s)) k = Some x" by (simp add: findOrThrow_Inr)
  note id = delivery_ok_sub [OF assms x]
  show ?thesis
    using assms unfolding delivery_ok_def updateSubscription_def Inr Let_def id by (auto simp: id)
qed (use assms in \<open>simp add: updateSubscription_def\<close>)

lemma delete_records_get:
  "wf_map m \<Longrightarrow> map_get (map_delete_each (\<lambda>_ r. P r) m m) k =
     (case map_get m k of None \<Rightarrow> None | Some r \<Rightarrow> if P r then None else Some r)"
  by (subst map_delete_each_filter) (auto simp: map_get_filter split: option.splits)

lemma ok_delete:
  assumes "delivery_ok s" shows "delivery_ok (s\<lparr>subs := snd (deleteSubscription u k (subs s))\<rparr>)"
proof (cases "findOrThrow u k (subs s)")
  case (Inr x)
  then show ?thesis
    using assms unfolding delivery_ok_def deleteSubscription_def Inr
    by (auto simp: delete_records_get map_delete_each_filter split: option.splits if_splits)
qed (use assms in \<open>simp add: deleteSubscription_def\<close>)

lemma acknowledge_loop_ok:
  assumes "acknowledge_loop now k evs n sk ss = (res, ss')" "delivery_ok (s\<lparr>subs := ss\<rparr>)"
  shows "delivery_ok (s\<lparr>subs := ss'\<rparr>)"
  using assms
proof (induction now k evs n sk ss rule: acknowledge_loop.induct)
  case (2 now k e es n sk ss)
  show ?case
  proof (cases "map_get (deliveryRecords ss) (record_key k e)")
    case None
    then show ?thesis using 2 by (simp add: Let_def)
  next
    case (Some r)
    show ?thesis
    proof (cases "outcome r = ACKNOWLEDGED")
      case True
      then show ?thesis using 2 Some by (simp add: Let_def)
    next
      case False
      have "delivery_ok (s\<lparr>subs := ss\<lparr>deliveryRecords := map_set (record_key k e)
          (r\<lparr>outcome := ACKNOWLEDGED, nextRetryAt := None, dr_updatedAt := now\<rparr>) (deliveryRecords ss)\<rparr>\<rparr>)"
        using "2.prems"(2) delivery_ok_record [OF "2.prems"(2), of "record_key k e" r] Some
        unfolding delivery_ok_def by (auto simp: record_ok_def)
      then show ?thesis using 2(3) [OF refl Some False] "2.prems" Some False by (simp add: Let_def)
    qed
  qed
qed simp

lemma ok_acknowledge:
  assumes "delivery_ok s" shows "delivery_ok (s\<lparr>subs := snd (acknowledgeEvents now u k evs (subs s))\<rparr>)"
  using assms acknowledge_loop_ok [of now k evs 0 "[]" "subs s"]
  by (auto simp: acknowledgeEvents_def split: sum.split prod.split)

lemma ok_publishEvent:
  assumes "delivery_ok s" "publishEvent uuid now input s = (event, s1)"
  shows "delivery_ok s1 \<and> subs s1 = subs s \<and> event \<in> set (eventHistory s1) \<and> ev_id event = uuid"
  using assms unfolding delivery_ok_def publishEvent_def Let_def by auto

lemma attempt_open_other:
  assumes "recordDeliveryAttempt uuid now now' a x oc s = (r, s')" "record_key a x \<noteq> record_key b y"
  shows "attempt_open b y s' = attempt_open b y s"
  using recordDeliveryAttempt_frame(2) [OF assms(1)] assms(2) by (simp add: attempt_open_def)

lemma deliver_loop_ok:
  "\<lbrakk>delivery_ok s; event \<in> set (eventHistory s); distinct (map s_id xs);
    \<forall>x \<in> set xs. map_get (subscriptions (subs s)) (s_id x) \<noteq> None \<and> attempt_open (s_id x) (ev_id event) (subs s)\<rbrakk>
   \<Longrightarrow> delivery_ok (snd (deliver_loop env rids clock event xs s))"
proof (induction xs arbitrary: s)
  case (Cons x xs)
  show ?case
  proof (cases "matchesFilter (s_filter x) (ev_type event) (Some (ev_severity event)) (Some (ev_metadata event))")
    case (Inl e)
    then show ?thesis using Cons.prems by simp
  next
    case (Inr b)
    show ?thesis
    proof (cases b)
      case False
      then show ?thesis using Cons Inr by simp
    next
      case True
      obtain now now' where c: "clock (s_id x) = (now, now')" by fastforce
      obtain d s1 where d: "deliverToSubscription env rids now now' x event False s = (d, s1)" by fastforce
      obtain oc r where f: "recordDeliveryAttempt (rids (s_id x)) now now' (s_id x) (ev_id event) oc (subs s) = (r, subs s1)"
        "s1 = s\<lparr>subs := subs s1\<rparr>"
        by (rule deliver_frame [OF d])
      have h: "eventHistory s1 = eventHistory s" by (subst f(2)) simp
      have ok: "delivery_ok s1" using deliver_ok [OF d] Cons.prems by simp
      have free: "CHR '':'' \<notin> set (s_id y)" if "y \<in> set (x # xs)" for y
        using delivery_ok_sub [OF Cons.prems(1)] Cons.prems(4) that by blast
      have "attempt_open (s_id y) (ev_id event) (subs s1)" if "y \<in> set xs" for y
      proof -
        have "s_id x \<noteq> s_id y" using Cons.prems(3) that by auto
        then have "record_key (s_id x) (ev_id event) \<noteq> record_key (s_id y) (ev_id event)"
          using record_key_inject free that by (metis list.set_intros)
        then show ?thesis using attempt_open_other [OF f(1)] Cons.prems(4) that by simp
      qed
      then have "delivery_ok (snd (deliver_loop env rids clock event xs s1))"
        using Cons.prems recordDeliveryAttempt_frame(1) [OF f(1)] ok by (intro Cons.IH) (auto simp: h)
      then show ?thesis using Inr True by (auto simp: c d split: sum.split prod.split)
    qed
  qed
qed simp

lemma fresh_open:
  assumes "delivery_ok s" "uuid \<notin> ev_id ` set (eventHistory s)" "CHR '':'' \<notin> set k"
  shows "attempt_open k uuid (subs s)"
proof -
  have "map_get (deliveryRecords (subs s)) (record_key k uuid) = None"
  proof (rule ccontr)
    assume "map_get (deliveryRecords (subs s)) (record_key k uuid) \<noteq> None"
    then obtain r where r: "map_get (deliveryRecords (subs s)) (record_key k uuid) = Some r" by blast
    note ok = delivery_ok_record [OF assms(1) r]
    have "eventId r = uuid" using ok(1,4) assms(3) by (auto simp: record_ok_def record_key_inject)
    then show False using ok(3) assms(2) by simp
  qed
  then show ?thesis by (simp add: attempt_open_def)
qed

lemma active_subs:
  assumes "delivery_ok s"
  shows "distinct (map s_id (listActiveSubscriptions (subs s)))"
    "\<forall>x \<in> set (listActiveSubscriptions (subs s)). map_get (subscriptions (subs s)) (s_id x) = Some x \<and> CHR '':'' \<notin> set (s_id x)"
proof -
  have ids: "\<forall>(k, x) \<in> set (subscriptions (subs s)). s_id x = k \<and> CHR '':'' \<notin> set k"
    using assms unfolding delivery_ok_def by (auto simp: map_of_eq_Some_iff)
  have wf: "wf_map (subscriptions (subs s))" using assms by (simp add: delivery_ok_def)
  have "map s_id (listAllSubscriptions (subs s)) = map_keys (subscriptions (subs s))"
    using ids by (auto simp: listAllSubscriptions_def)
  then show "distinct (map s_id (listActiveSubscriptions (subs s)))"
    using wf unfolding listActiveSubscriptions_def by (metis distinct_map_filter)
  show "\<forall>x \<in> set (listActiveSubscriptions (subs s)). map_get (subscriptions (subs s)) (s_id x) = Some x \<and> CHR '':'' \<notin> set (s_id x)"
    using ids wf by (auto simp: listActiveSubscriptions_def listAllSubscriptions_def)
qed

lemma ok_publish:
  assumes "delivery_ok s" "uuid \<notin> ev_id ` set (eventHistory s)"
  shows "delivery_ok (snd (publishAndDeliver env rids clock uuid now input s))"
proof -
  obtain event s1 where p: "publishEvent uuid now input s = (event, s1)" by fastforce
  note e = ok_publishEvent [OF assms(1) p]
  have "attempt_open k (ev_id event) (subs s1)" if "CHR '':'' \<notin> set k" for k
    using fresh_open [OF assms that] e by simp
  then have "delivery_ok (snd (deliver_loop env rids clock event (listActiveSubscriptions (subs s1)) s1))"
    using e active_subs [of s1] by (intro deliver_loop_ok) auto
  then show ?thesis by (auto simp: publishAndDeliver_def p split: sum.split prod.split)
qed

lemma ok_simulate:
  assumes "delivery_ok s" "uuid \<notin> ev_id ` set (eventHistory s)"
  shows "delivery_ok (snd (simulateDelivery env rids now1 now2 uuid now k input s))"
proof -
  obtain event s1 where p: "publishEvent uuid now input s = (event, s1)" by fastforce
  note e = ok_publishEvent [OF assms(1) p]
  show ?thesis
  proof (cases "map_get (subscriptions (subs s1)) k")
    case None
    then show ?thesis using e by (simp add: simulateDelivery_def p getSubscriptionById_def)
  next
    case (Some x)
    obtain d s2 where d: "deliverToSubscription env rids now1 now2 x event True s1 = (d, s2)" by fastforce
    have "delivery_ok s2"
      using e delivery_ok_sub [of s1 k x] Some fresh_open [OF assms, of k]
      by (intro deliver_ok [OF d]) auto
    then show ?thesis by (simp add: simulateDelivery_def p getSubscriptionById_def Some d)
  qed
qed

text \<open>Retrying: every due record of the snapshot is attempted once, and nothing throws.\<close>

abbreviation rkey :: "delivery_record \<Rightarrow> string" where
  "rkey r \<equiv> record_key (subscriptionId r) (eventId r)"

lemma retry_loop_ok:
  "\<lbrakk>delivery_ok s; distinct (map rkey rs); \<forall>r \<in> set rs. map_get (deliveryRecords (subs s)) (rkey r) = Some r\<rbrakk>
   \<Longrightarrow> \<exists>ds s'. retry_loop env rids clock now rs s = (Inr ds, s') \<and> delivery_ok s' \<and>
     map (\<lambda>d. (d_subscriptionId d, d_eventId d)) ds = map (\<lambda>r. (subscriptionId r, eventId r)) (filter (retry_due now) rs)"
proof (induction rs arbitrary: s)
  case (Cons r rs)
  show ?case
  proof (cases "retry_due now r")
    case False
    then show ?thesis using Cons by simp
  next
    case True
    have r: "map_get (deliveryRecords (subs s)) (rkey r) = Some r" using Cons.prems by simp
    note ok = delivery_ok_record [OF Cons.prems(1) r]
    obtain e where e: "List.find (\<lambda>e. ev_id e = eventId r) (eventHistory s) = Some e"
      using ok(3) by (cases "List.find (\<lambda>e. ev_id e = eventId r) (eventHistory s)") (auto simp: find_None_iff)
    then have ev: "ev_id e = eventId r" "e \<in> set (eventHistory s)"
      by (auto simp: find_Some_iff)
    obtain x where x: "map_get (subscriptions (subs s)) (subscriptionId r) = Some x" using ok(2) by blast
    then have sx: "s_id x = subscriptionId r" using delivery_ok_sub(1) [OF Cons.prems(1)] by blast
    obtain now1 now2 where c: "clock (rkey r) = (now1, now2)" by fastforce
    obtain d s1 where d: "deliverToSubscription env rids now1 now2 x e False s = (d, s1)" by fastforce
    obtain oc q where f: "recordDeliveryAttempt (rids (s_id x)) now1 now2 (s_id x) (ev_id e) oc (subs s) = (q, subs s1)"
      "d_subscriptionId d = s_id x" "d_eventId d = ev_id e"
      by (rule deliver_frame [OF d])
    have "attempt_open (s_id x) (ev_id e) (subs s)"
      using True by (simp add: attempt_open_def sx ev(1) r retry_due_def)
    then have ok1: "delivery_ok s1" using deliver_ok [OF d Cons.prems(1)] x ev(2) by (simp add: sx)
    have "\<forall>t \<in> set rs. map_get (deliveryRecords (subs s1)) (rkey t) = Some t"
      using recordDeliveryAttempt_frame(2) [OF f(1)] Cons.prems(2,3) by (auto simp: sx ev(1) image_iff)
    then obtain ds s' where rest: "retry_loop env rids clock now rs s1 = (Inr ds, s')" "delivery_ok s'"
      "map (\<lambda>d. (d_subscriptionId d, d_eventId d)) ds = map (\<lambda>r. (subscriptionId r, eventId r)) (filter (retry_due now) rs)"
      using Cons.IH [OF ok1] Cons.prems(2) by auto
    have "retry_loop env rids clock now (r # rs) s = (Inr (d # ds), s')"
      using True by (simp add: e getSubscriptionById_def x c d rest(1))
    then show ?thesis using True rest(2,3) f(2,3) by (simp add: sx ev(1))
  qed
qed simp

lemma record_snapshot:
  assumes "delivery_ok s"
  shows "distinct (map rkey (listDeliveryRecords (subs s)))"
    "\<forall>r \<in> set (listDeliveryRecords (subs s)). map_get (deliveryRecords (subs s)) (rkey r) = Some r"
proof -
  have wf: "wf_map (deliveryRecords (subs s))" using assms by (simp add: delivery_ok_def)
  then have keys: "\<forall>(k, r) \<in> set (deliveryRecords (subs s)). k = rkey r"
    using delivery_ok_record(1) [OF assms] by (auto simp: record_ok_def)
  then have "map rkey (listDeliveryRecords (subs s)) = map_keys (deliveryRecords (subs s))"
    by (auto simp: listDeliveryRecords_def)
  then show "distinct (map rkey (listDeliveryRecords (subs s)))" using wf by simp
  show "\<forall>r \<in> set (listDeliveryRecords (subs s)). map_get (deliveryRecords (subs s)) (rkey r) = Some r"
    using keys wf by (auto simp: listDeliveryRecords_def)
qed

lemma reachable_ok: "reachable env s \<Longrightarrow> delivery_ok s"
proof (induction rule: reachable.induct)
  case start
  then show ?case by (simp add: delivery_ok_def)
next
  case (retry s rids clock now)
  then show ?case
    using retry_loop_ok [OF retry.IH record_snapshot [OF retry.IH], of env rids clock now]
    by (auto simp: retryDueDeliveries_def)
qed (auto intro: ok_create ok_update ok_delete ok_acknowledge ok_publish ok_simulate)

section \<open>Properties\<close>


definition demo_env :: webhook_env where
  "demo_env = \<lparr>fetch = Some (\<lambda>url body sig. Inr (False, 500)), stringify = ev_id,
     hmac_sha256 = (\<lambda>k t. take 2 (t @ k)), webhook_secret = Some ''k''\<rparr>"

definition demo_dto :: create_subscription_dto where
  "demo_dto = \<lparr>c_name = ''n'', c_filter = \<lparr>eventTypes = Some [''asset.added''], minSeverity = Some ''medium'',
     customPredicates = Some [(''assetId'', ''XLM'')]\<rparr>, c_deliveryMode = None, c_batchIntervalSeconds = None,
     c_callbackUrl = Some ''http://h''\<rparr>"

definition demo_input :: publish_event_input where
  "demo_input = \<lparr>in_type = ''asset.added'', in_severity = Some ''high'', in_data = None,
     in_metadata = Some [(''assetId'', ''XLM'')]\<rparr>"

definition demo_created :: webhook_service where
  "demo_created = \<lparr>subs = snd (createSubscription ''s1'' 5 ''u1'' demo_dto
     \<lparr>subscriptions = [], deliveryRecords = []\<rparr>), eventHistory = []\<rparr>"

definition demo_published :: webhook_service where
  "demo_published = snd (publishAndDeliver demo_env id (\<lambda>_. (10, 10)) ''e1'' 9 demo_input demo_created)"

lemma demo_created_reachable: "reachable demo_env demo_created"
  using reachable.create [OF reachable.start, of "''s1''" demo_env 5 "''u1''" demo_dto]
  by (simp add: demo_created_def)

lemma demo_published_reachable: "reachable demo_env demo_published"
  unfolding demo_published_def
  by (rule reachable.publish [OF demo_created_reachable]) (simp add: demo_created_def)


text \<open>Retrying is total. In every reachable state, retrying the due deliveries throws nothing, and
  attempts exactly the records that are due, each once, in their order.\<close>

theorem retry_attempts_due:
  assumes "reachable env s"
  shows "\<exists>ds s'. retryDueDeliveries env rids clock now s = (Inr ds, s') \<and>
    map (\<lambda>d. (d_subscriptionId d, d_eventId d)) ds =
      map (\<lambda>r. (subscriptionId r, eventId r)) (filter (retry_due now) (listDeliveryRecords (subs s)))"
  using retry_loop_ok [OF reachable_ok [OF assms] record_snapshot [OF reachable_ok [OF assms]], of env rids clock now]
  by (auto simp: retryDueDeliveries_def)

lemma retry_attempts_due_witness:
  "\<exists>ds s'. retryDueDeliveries demo_env id (\<lambda>_. (2000, 2000)) 2000 demo_published = (Inr ds, s') \<and>
    map (\<lambda>d. (d_subscriptionId d, d_eventId d)) ds = [(''s1'', ''e1'')]"
proof -
  have "map (\<lambda>r. (subscriptionId r, eventId r)) (filter (retry_due 2000) (listDeliveryRecords (subs demo_published))) =
      [(''s1'', ''e1'')]" by code_simp
  then show ?thesis using retry_attempts_due [OF demo_published_reachable, of id "\<lambda>_. (2000, 2000)" 2000] by simp
qed

text \<open>Backoff. The failed attempt number \<open>n\<close> of a delivery schedules the next one \<open>2 ^ (n - 1)\<close> seconds
  later, up to the fifth; the sixth makes the delivery fail for good, with no further retry.\<close>

theorem retry_backoff:
  assumes "map_get (deliveryRecords s) (record_key sub ev) = Some r0" "attemptCount r0 = int n" "1 \<le> n"
  shows "case recordDeliveryAttempt uuid now now_retry sub ev RETRYING s of (r, s') \<Rightarrow>
    attemptCount r = int (Suc n) \<and>
    (if n < 5 then outcome r = RETRYING \<and> nextRetryAt r = Some (now_retry + 1000 * 2 ^ n)
     else outcome r = FAILED \<and> nextRetryAt r = None)"
  using assms
  by (auto simp: recordDeliveryAttempt_def Let_def MAX_RETRY_ATTEMPTS_def BASE_RETRY_DELAY_MS_def)

lemma retry_backoff_witness:
  "case recordDeliveryAttempt ''x'' 100 100 ''s1'' ''e1'' RETRYING (subs demo_published) of (r, s') \<Rightarrow>
    attemptCount r = int (Suc 1) \<and>
    (if (1 :: nat) < 5 then outcome r = RETRYING \<and> nextRetryAt r = Some (100 + 1000 * 2 ^ 1)
     else outcome r = FAILED \<and> nextRetryAt r = None)"
proof (rule retry_backoff)
  show "map_get (deliveryRecords (subs demo_published)) (record_key ''s1'' ''e1'') =
      Some (snd (hd (deliveryRecords (subs demo_published))))" by code_simp
  show "attemptCount (snd (hd (deliveryRecords (subs demo_published)))) = int 1" by code_simp
qed simp

section \<open>Isolation of users\<close>

text \<open>What one subscription's owner sees of it: the subscription and its delivery records.\<close>

definition view :: "string \<Rightarrow> subscription_service \<Rightarrow> subscription option \<times> (string \<Rightarrow> delivery_record option)" where
  "view k ss = (map_get (subscriptions ss) k, \<lambda>e. map_get (deliveryRecords ss) (record_key k e))"

lemma view_acknowledge:
  assumes "CHR '':'' \<notin> set k" "CHR '':'' \<notin> set j" "k \<noteq> j"
  shows "view k (snd (acknowledge_loop now j evs n sk ss)) = view k ss"
  using assms
proof (induction now j evs n sk ss rule: acknowledge_loop.induct)
  case (2 now j e es n sk ss)
  have "view k (ss\<lparr>deliveryRecords := map_set (record_key j e) r (deliveryRecords ss)\<rparr>) = view k ss" for r
    using "2.prems" by (auto simp: view_def fun_eq_iff record_key_inject)
  then show ?case using 2 by (auto simp: Let_def split: option.split)
qed simp

lemma findOrThrow_other:
  assumes "map_get (subscriptions ss) k = Some x" "s_userId x \<noteq> u"
  shows "findOrThrow u k ss = Inl (not_found k)"
  using assms by (simp add: findOrThrow_def)


definition rename_dto :: update_subscription_dto where
  "rename_dto = \<lparr>u_name = Some ''x'', u_filter = None, u_deliveryMode = None, u_batchIntervalSeconds = None,
     u_callbackUrl = None, u_active = Some False\<rparr>"


section \<open>Who receives an event\<close>

text \<open>What a valid filter promises: the event's type is listed, its severity is at least the minimum, and its
  metadata carries every predicate.\<close>

definition wants :: "event_filter \<Rightarrow> string \<Rightarrow> string \<Rightarrow> string jsmap \<Rightarrow> bool" where
  "wants f etype severity metadata \<longleftrightarrow>
     etype \<in> set (or_else (eventTypes f) []) \<and>
     the (SEVERITY_RANK (or_else (minSeverity f) ''low'')) \<le> the (SEVERITY_RANK severity) \<and>
     (\<forall>(k, v) \<in> set (or_else (customPredicates f) []). map_get metadata k = Some v)"

lemma severity_cases:
  "s \<in> set severities \<Longrightarrow> s = ''low'' \<or> s = ''medium'' \<or> s = ''high'' \<or> s = ''critical''"
  by (simp add: severities_def)

lemma matches_valid:
  assumes "validateFilter f = Inr summary" "severity \<in> set severities"
  shows "matchesFilter f etype (Some severity) (Some metadata) = Inr (wants f etype severity metadata)"
proof -
  obtain types where types: "eventTypes f = Some types"
    using assms(1) by (auto simp: validateFilter_def Let_def or_else_def split: option.splits if_splits)
  have min: "m \<in> set severities" if "minSeverity f = Some m" for m
    using assms(1) that by (auto simp: validateFilter_def Let_def split: if_splits)
  have "severity_too_low (Some m) (Some severity) \<longleftrightarrow>
      the (SEVERITY_RANK severity) < the (SEVERITY_RANK m)" if "m \<in> set severities" for m
    using severity_cases [OF that] severity_cases [OF assms(2)]
    by (auto simp: severity_too_low_def SEVERITY_RANK_def)
  moreover have "0 \<le> the (SEVERITY_RANK severity)" "SEVERITY_RANK ''low'' = Some 0"
    using severity_cases [OF assms(2)] by (auto simp: SEVERITY_RANK_def)
  ultimately have sev: "severity_too_low (minSeverity f) (Some severity) \<longleftrightarrow>
      \<not> the (SEVERITY_RANK (or_else (minSeverity f) ''low'')) \<le> the (SEVERITY_RANK severity)"
    using min by (cases "minSeverity f") (auto simp: severity_too_low_def or_else_def)
  have "predicates_hold (customPredicates f) (Some metadata) \<longleftrightarrow>
      (\<forall>(k, v) \<in> set (or_else (customPredicates f) []). map_get metadata k = Some v)"
    by (auto simp: predicates_hold_def or_else_def list_all_iff split: option.split)
  then show ?thesis
    unfolding matchesFilter_def wants_def types option.case sev or_else_def by simp
qed

lemma deliver_loop_targets:
  assumes "\<forall>x \<in> set xs. matchesFilter (s_filter x) (ev_type event) (Some (ev_severity event)) (Some (ev_metadata event)) = Inr (P x)"
  shows "\<exists>ds s'. deliver_loop env rids clock event xs s = (Inr ds, s') \<and>
    map (\<lambda>d. (d_subscriptionId d, d_eventId d)) ds = map (\<lambda>x. (s_id x, ev_id event)) (filter P xs)"
  using assms
proof (induction xs arbitrary: s)
  case (Cons x xs)
  show ?case
  proof (cases "P x")
    case False
    then show ?thesis using Cons by simp
  next
    case True
    obtain now now' where c: "clock (s_id x) = (now, now')" by fastforce
    obtain d s1 where d: "deliverToSubscription env rids now now' x event False s = (d, s1)" by fastforce
    have "d_subscriptionId d = s_id x" "d_eventId d = ev_id event" using deliver_frame [OF d] by blast+
    moreover obtain ds s' where "deliver_loop env rids clock event xs s1 = (Inr ds, s')"
      "map (\<lambda>d. (d_subscriptionId d, d_eventId d)) ds = map (\<lambda>x. (s_id x, ev_id event)) (filter P xs)"
      using Cons.IH [of s1] Cons.prems by auto
    ultimately show ?thesis using True Cons.prems by (simp add: c d)
  qed
qed simp



definition broken_dto :: create_subscription_dto where
  "broken_dto = demo_dto\<lparr>c_filter := \<lparr>eventTypes = None, minSeverity = None, customPredicates = None\<rparr>\<rparr>"

definition demo_broken :: webhook_service where
  "demo_broken = (let ss = snd (createSubscription ''s0'' 4 ''u0'' broken_dto
       \<lparr>subscriptions = [], deliveryRecords = []\<rparr>)
     in \<lparr>subs = snd (createSubscription ''s1'' 5 ''u1'' demo_dto ss), eventHistory = []\<rparr>)"

text \<open>One malformed filter blocks the others. Nothing checks a filter when a subscription is created; one
  without event types makes every later publication fail, and the subscriptions after it, though they
  want the event, are not reached.\<close>

theorem malformed_filter_blocks:
  "case publishAndDeliver demo_env id (\<lambda>_. (10, 10)) ''e1'' 9 demo_input demo_broken of (res, s') \<Rightarrow>
    res = Inl (JsError ''Cannot read properties of undefined'') \<and> listDeliveryRecords (subs s') = [] \<and>
    length (listActiveSubscriptions (subs s')) = 2"
  by code_simp

section \<open>Signatures\<close>

text \<open>Signatures. The signature the service computes for an event verifies; any other text is refused,
  with an exception instead of \<open>false\<close> when it has the right number of characters but not of bytes.\<close>

theorem signature_verifies:
  "verifySignature env signature event =
     (if signature = signPayload env event then Inr True
      else if length signature = length (signPayload env event) \<and>
          buffer_length signature \<noteq> buffer_length (signPayload env event)
        then Inl (JsError ''Input buffers must have the same byte length'')
      else Inr False)"
  by (simp add: verifySignature_def verify_text_def signPayload_def Let_def)

end
