(* ===== verification/Health.thy ===== *)
theory Health
  imports JS_Text
begin

text \<open>
  Health probes (src/monitoring/health.service.ts).

  The TypeORM data source is a value describing what it would answer; memory, processor and clock
  readings are arguments. The lemmas show how the overall status follows from the components', and
  that liveness, readiness and the full report agree with each other.
\<close>

section \<open>Component health\<close>

datatype health_status = Up | Degraded | Down

text \<open>Ordered by how bad it is.\<close>

definition badness :: "health_status \<Rightarrow> nat" where
  "badness st = (case st of Up \<Rightarrow> 0 | Degraded \<Rightarrow> 1 | Down \<Rightarrow> 2)"

lemma badness_simps [simp]: "badness Up = 0" "badness Degraded = 1" "badness Down = 2"
  by (simp_all add: badness_def)

instantiation health_status :: linorder
begin

definition less_eq_health_status :: "health_status \<Rightarrow> health_status \<Rightarrow> bool" where
  "less_eq_health_status a b \<longleftrightarrow> badness a \<le> badness b"

definition less_health_status :: "health_status \<Rightarrow> health_status \<Rightarrow> bool" where
  "less_health_status a b \<longleftrightarrow> badness a < badness b"

instance
proof
  fix a b :: health_status
  show "a \<le> b \<Longrightarrow> b \<le> a \<Longrightarrow> a = b"
    by (cases a; cases b) (simp_all add: less_eq_health_status_def)
qed (auto simp: less_eq_health_status_def less_health_status_def)

end

record component_health =
  ch_status :: health_status
  ch_details :: "json option"
  ch_error :: "string option"

definition healthy :: "json \<Rightarrow> component_health" where
  "healthy d = \<lparr>ch_status = Up, ch_details = Some d, ch_error = None\<rparr>"

text \<open>A data source: whether it is initialised, its driver, and the error message its probe query
  fails with, if it fails.\<close>

record data_source =
  isInitialized :: bool
  ds_driver :: string
  ds_failure :: "string option"

definition checkDatabase :: "data_source option \<Rightarrow> component_health" where
  "checkDatabase dataSource =
     (case dataSource of
        None \<Rightarrow> healthy (JObj [(''message'', JStr ''TypeORM DataSource not injected or mock mode active'')])
      | Some ds \<Rightarrow>
          if isInitialized ds then
            (case ds_failure ds of
               None \<Rightarrow> healthy (JObj [(''connected'', JBool True), (''driver'', JStr (ds_driver ds))])
             | Some message \<Rightarrow> \<lparr>ch_status = Down, ch_details = None,
                 ch_error = Some (if message \<noteq> [] then message else ''Database connection query failed'')\<rparr>)
          else \<lparr>ch_status = Down, ch_details = None,
                 ch_error = Some ''Database connection is not initialized''\<rparr>)"

record memory_usage =
  mu_heapUsed :: int
  mu_heapTotal :: int
  mu_rss :: int

definition json_int :: "int \<Rightarrow> json" where "json_int n = JNum (of_int n)"

text \<open>\<open>toFixed(1)\<close> as text, for a value that is not negative.\<close>

definition fixed1_text :: "rat \<Rightarrow> string" where
  "fixed1_text x = (let n = math_round (x * 10) in string_of_int (n div 10) @ ''.'' @ string_of_int (n mod 10))"

definition heap_ratio :: "memory_usage \<Rightarrow> rat" where
  "heap_ratio m = fdiv (of_int (mu_heapUsed m)) (of_int (if mu_heapTotal m = 0 then 1 else mu_heapTotal m))"

definition checkMemory :: "memory_usage \<Rightarrow> component_health" where
  "checkMemory m =
     (let heapUsedRatio = heap_ratio m in
      if f64 (95/100) < heapUsedRatio then
        \<lparr>ch_status = Down,
         ch_details = Some (JObj [(''heapUsed'', json_int (mu_heapUsed m)), (''heapTotal'', json_int (mu_heapTotal m)),
           (''rss'', json_int (mu_rss m))]),
         ch_error = Some (''Heap memory usage critical: '' @ fixed1_text (fmul heapUsedRatio 100) @ ''%'')\<rparr>
      else if f64 (85/100) < heapUsedRatio then
        \<lparr>ch_status = Degraded,
         ch_details = Some (JObj [(''warning'', JStr ''High heap memory usage''),
           (''heapUsedRatio'', JNum (to_fixed 3 heapUsedRatio)), (''rss'', json_int (mu_rss m))]),
         ch_error = None\<rparr>
      else healthy (JObj [(''heapUsedBytes'', json_int (mu_heapUsed m)), (''heapTotalBytes'', json_int (mu_heapTotal m)),
           (''rssBytes'', json_int (mu_rss m)), (''heapUsedRatio'', JNum (to_fixed 3 heapUsedRatio))]))"

definition checkDisk :: "int \<Rightarrow> int \<Rightarrow> component_health" where
  "checkDisk totalMem freeMem =
     healthy (JObj [(''systemMemoryTotalMb'', json_int (math_round (fdiv (of_int totalMem) (1024 * 1024)))),
       (''systemMemoryFreeMb'', json_int (math_round (fdiv (of_int freeMem) (1024 * 1024))))])"

text \<open>\<open>loadAvg\<close> holds the three load averages; an empty processor list would divide by zero, and the
  comparison of the resulting infinity or NaN is spelt out.\<close>

definition checkCpu :: "rat \<times> rat \<times> rat \<Rightarrow> int \<Rightarrow> component_health" where
  "checkCpu loadAvg cpuCount =
     (let (l1, l5, l15) = loadAvg; avgs = JArr [JNum l1, JNum l5, JNum l15];
          high = (if cpuCount = 0 then 0 < l1 else 2 < fdiv l1 (of_int cpuCount))
      in if high then
           \<lparr>ch_status = Degraded,
            ch_details = Some (JObj [(''warning'', JStr ''High CPU load ratio''), (''loadAvg'', avgs),
              (''cpuCount'', json_int cpuCount)]),
            ch_error = None\<rparr>
         else healthy (JObj [(''cpuCount'', json_int cpuCount), (''loadAverage'', avgs)]))"

section \<open>Probes\<close>

text \<open>What a probe reads from the process and the machine.\<close>

record probe =
  pr_now :: int
  pr_database :: "data_source option"
  pr_memory :: memory_usage
  pr_totalmem :: int
  pr_freemem :: int
  pr_loadavg :: "rat \<times> rat \<times> rat"
  pr_cpus :: int
  pr_uptime :: rat

definition getLiveness :: "probe \<Rightarrow> health_status \<times> int" where
  "getLiveness p = (Up, pr_now p)"

record readiness =
  rd_status :: health_status
  rd_components :: "component_health jsmap"
  rd_timestamp :: int

definition getReadiness :: "probe \<Rightarrow> readiness" where
  "getReadiness p =
     (let dbHealth = checkDatabase (pr_database p);
          memoryHealth = checkMemory (pr_memory p);
          diskHealth = checkDisk (pr_totalmem p) (pr_freemem p);
          isReady = (ch_status dbHealth \<noteq> Down \<and> ch_status memoryHealth \<noteq> Down \<and> ch_status diskHealth \<noteq> Down)
      in \<lparr>rd_status = (if isReady then Up else Down),
          rd_components = [(''database'', dbHealth), (''memory'', memoryHealth), (''disk'', diskHealth)],
          rd_timestamp = pr_now p\<rparr>)"

datatype overall_status = AllOk | SomeDegraded | SomeDown

record health_report =
  hr_status :: overall_status
  hr_timestamp :: int
  hr_uptimeSeconds :: int
  hr_components :: "component_health jsmap"

definition getFullHealth :: "probe \<Rightarrow> health_report" where
  "getFullHealth p =
     (let dbHealth = checkDatabase (pr_database p);
          memoryHealth = checkMemory (pr_memory p);
          diskHealth = checkDisk (pr_totalmem p) (pr_freemem p);
          cpuHealth = checkCpu (pr_loadavg p) (pr_cpus p);
          statuses = [ch_status dbHealth, ch_status memoryHealth, ch_status diskHealth, ch_status cpuHealth]
      in \<lparr>hr_status = (if Down \<in> set statuses then SomeDown
            else if Degraded \<in> set statuses then SomeDegraded else AllOk),
          hr_timestamp = pr_now p, hr_uptimeSeconds = \<lfloor>pr_uptime p\<rfloor>,
          hr_components = [(''database'', dbHealth), (''memory'', memoryHealth), (''disk'', diskHealth),
            (''cpu'', cpuHealth)]\<rparr>)"

section \<open>Agreement of the probes\<close>

text \<open>The status of the report is that of its worst component.\<close>

definition overall_of :: "health_status \<Rightarrow> overall_status" where
  "overall_of st = (case st of Up \<Rightarrow> AllOk | Degraded \<Rightarrow> SomeDegraded | Down \<Rightarrow> SomeDown)"

lemma worst_of:
  fixes S :: "health_status set"
  assumes "finite S" "S \<noteq> {}"
  shows "overall_of (Max S) = (if Down \<in> S then SomeDown else if Degraded \<in> S then SomeDegraded else AllOk)"
proof -
  have m: "Max S \<in> S" "\<And>x. x \<in> S \<Longrightarrow> x \<le> Max S" using assms by auto
  have "Down \<in> S \<Longrightarrow> Max S = Down" using m(2) [of Down] by (cases "Max S") (simp_all add: less_eq_health_status_def)
  moreover have "Degraded \<in> S \<Longrightarrow> Max S \<noteq> Up" using m(2) [of Degraded] by (auto simp: less_eq_health_status_def)
  ultimately show ?thesis using m(1) by (cases "Max S") (auto simp: overall_of_def)
qed

theorem full_health_worst:
  "hr_status (getFullHealth p) = overall_of (Max (set (map (ch_status \<circ> snd) (hr_components (getFullHealth p)))))"
  by (subst worst_of) (simp_all add: getFullHealth_def Let_def)

lemma checkDisk_up [simp]: "ch_status (checkDisk t f) = Up"
  by (simp add: checkDisk_def healthy_def)

lemma checkCpu_not_down [simp]: "ch_status (checkCpu l n) \<noteq> Down"
  by (simp add: checkCpu_def healthy_def Let_def split: prod.split)

lemma checkDatabase_status:
  "ch_status (checkDatabase d) \<noteq> Degraded"
  "ch_status (checkDatabase d) = Down \<longleftrightarrow> (\<exists>ds. d = Some ds \<and> (isInitialized ds \<longrightarrow> ds_failure ds \<noteq> None))"
  by (auto simp: checkDatabase_def healthy_def split: option.split)

lemma checkMemory_status:
  "ch_status (checkMemory m) = Down \<longleftrightarrow> f64 (95/100) < heap_ratio m"
  "ch_status (checkMemory m) = Up \<longleftrightarrow> heap_ratio m \<le> f64 (85/100)"
proof -
  have "f64 (85/100) \<le> f64 (95/100)" by (rule f64_mono) simp
  then show "ch_status (checkMemory m) = Down \<longleftrightarrow> f64 (95/100) < heap_ratio m"
    "ch_status (checkMemory m) = Up \<longleftrightarrow> heap_ratio m \<le> f64 (85/100)"
    by (auto simp: checkMemory_def healthy_def Let_def)
qed

definition report_db_status :: "health_report \<Rightarrow> health_status option" where
  "report_db_status r = map_option ch_status (map_get (hr_components r) ''database'')"

lemma getFullHealth_database:
  "map_get (hr_components (getFullHealth p)) ''database'' = Some (checkDatabase (pr_database p))"
  by (simp add: getFullHealth_def Let_def)

text \<open>The full report is down exactly if readiness is, which happens exactly if the database cannot be
  queried or the heap is more than 95 percent full.\<close>

lemma readiness_down_iff:
  "rd_status (getReadiness p) = Down \<longleftrightarrow>
     ch_status (checkDatabase (pr_database p)) = Down \<or> ch_status (checkMemory (pr_memory p)) = Down"
  by (simp add: getReadiness_def Let_def)

theorem full_health_down_iff:
  "hr_status (getFullHealth p) = SomeDown \<longleftrightarrow> rd_status (getReadiness p) = Down"
  unfolding readiness_down_iff
  using checkCpu_not_down [of "pr_loadavg p" "pr_cpus p", THEN not_sym]
  by (auto simp: getFullHealth_def Let_def)

theorem readiness_down:
  "rd_status (getReadiness p) = Down \<longleftrightarrow>
     (\<exists>ds. pr_database p = Some ds \<and> (isInitialized ds \<longrightarrow> ds_failure ds \<noteq> None)) \<or>
     f64 (95/100) < heap_ratio (pr_memory p)"
  unfolding readiness_down_iff by (simp add: checkDatabase_status checkMemory_status)

end
