(* ===== verification/Performance.thy ===== *)
theory Performance
  imports Prelude
begin

text \<open>
  Request statistics (src/monitoring/performance.service.ts).

  Durations and timestamps are whole milliseconds; averages, rates and percentiles are doubles. The
  lemmas show that the buffers stay bounded, that the counters agree with the requests recorded, and
  that the reported percentiles are ordered between minimum and maximum.
\<close>

section \<open>State and operations\<close>

record performance_service =
  latenciesBuffer :: "int list"
  totalRequestsCount :: int
  errorRequestsCount :: int
  activeRequestsCount :: int
  requestTimestamps :: "int list"

definition maxLatencies :: nat where "maxLatencies = 5000"

definition new_performance :: performance_service where
  "new_performance = \<lparr>latenciesBuffer = [], totalRequestsCount = 0, errorRequestsCount = 0,
     activeRequestsCount = 0, requestTimestamps = []\<rparr>"

definition recordRequest :: "int \<Rightarrow> int \<Rightarrow> int \<Rightarrow> performance_service \<Rightarrow> performance_service" where
  "recordRequest durationMs statusCode now s =
     (let buf = latenciesBuffer s @ [durationMs];
          buf' = (if maxLatencies < length buf then tl buf else buf);
          cutoff = now - 60000;
          stamps = dropWhile (\<lambda>t. t < cutoff) (requestTimestamps s @ [now])
      in s\<lparr>totalRequestsCount := totalRequestsCount s + 1,
           errorRequestsCount := (if 400 \<le> statusCode then errorRequestsCount s + 1 else errorRequestsCount s),
           latenciesBuffer := buf', requestTimestamps := stamps\<rparr>)"

definition incrementActiveRequests :: "performance_service \<Rightarrow> performance_service" where
  "incrementActiveRequests s = s\<lparr>activeRequestsCount := activeRequestsCount s + 1\<rparr>"

definition decrementActiveRequests :: "performance_service \<Rightarrow> performance_service" where
  "decrementActiveRequests s = s\<lparr>activeRequestsCount := max 0 (activeRequestsCount s - 1)\<rparr>"

section \<open>Summary\<close>

record latency_summary =
  p50 :: rat
  p90 :: rat
  p95 :: rat
  p99 :: rat
  l_avg :: rat
  l_min :: int
  l_max :: int

record apm_summary =
  rps :: rat
  totalRequests :: int
  errorCount :: int
  errorRatePercentage :: rat
  latencyMs :: latency_summary
  activeRequests :: int

definition round2 :: "rat \<Rightarrow> rat" where
  "round2 x = fdiv (of_int (math_round (fmul x 100))) 100"

definition getPercentile :: "int list \<Rightarrow> int \<Rightarrow> rat" where
  "getPercentile xs percentile =
     (let index = \<lceil>fmul (fdiv (of_int percentile) 100) (of_int (int (length xs)))\<rceil> - 1;
          clampedIndex = max 0 (min index (int (length xs) - 1))
      in round2 (of_int (xs ! nat clampedIndex)))"

definition getSummary :: "performance_service \<Rightarrow> apm_summary" where
  "getSummary s =
     (let xs = sort (latenciesBuffer s);
          n = length xs;
          lat = (if 0 < n
            then \<lparr>p50 = getPercentile xs 50, p90 = getPercentile xs 90, p95 = getPercentile xs 95,
                p99 = getPercentile xs 99,
                l_avg = round2 (fdiv (foldl fadd 0 (map of_int xs)) (of_int (int n))),
                l_min = hd xs, l_max = xs ! (n - 1)\<rparr>
            else \<lparr>p50 = 0, p90 = 0, p95 = 0, p99 = 0, l_avg = 0, l_min = 0, l_max = 0\<rparr>)
      in \<lparr>rps = round2 (fdiv (of_int (int (length (requestTimestamps s)))) 60),
          totalRequests = totalRequestsCount s, errorCount = errorRequestsCount s,
          errorRatePercentage =
            (if 0 < totalRequestsCount s
             then fdiv (of_int (math_round
                (fmul (fdiv (of_int (errorRequestsCount s)) (of_int (totalRequestsCount s))) 10000))) 100
             else 0),
          latencyMs = lat, activeRequests = activeRequestsCount s\<rparr>)"

section \<open>Invariant\<close>

definition performance_ok :: "performance_service \<Rightarrow> bool" where
  "performance_ok s \<longleftrightarrow> length (latenciesBuffer s) \<le> maxLatencies \<and> 0 \<le> errorRequestsCount s \<and>
     errorRequestsCount s \<le> totalRequestsCount s \<and> 0 \<le> activeRequestsCount s \<and>
     int (length (latenciesBuffer s)) \<le> totalRequestsCount s"

lemma performance_ok_ops [preserved]:
  "performance_ok new_performance"
  "performance_ok s \<Longrightarrow> performance_ok (recordRequest d st now s)"
  "performance_ok s \<Longrightarrow> performance_ok (incrementActiveRequests s)"
  "performance_ok s \<Longrightarrow> performance_ok (decrementActiveRequests s)"
  by (auto simp: performance_ok_def new_performance_def recordRequest_def incrementActiveRequests_def
      decrementActiveRequests_def maxLatencies_def Let_def)

lemma round2_of_int:
  assumes "\<bar>n\<bar> \<le> 2 ^ 46" shows "round2 (of_int n) = of_int n"
proof -
  have *: "fmul (of_int n) 100 = of_int (100 * n)"
    using f64_of_int [of "100 * n"] assms by (simp add: fmul_def mult.commute abs_mult)
  have "fdiv (of_int (100 * n)) 100 = of_int n"
    using f64_of_int [of n] assms by (simp add: fdiv_def)
  then show ?thesis by (simp only: round2_def * math_round_of_int)
qed

lemma round2_mono: "x \<le> y \<Longrightarrow> round2 x \<le> round2 y"
  unfolding round2_def fdiv_def fmul_def
  by (intro f64_mono divide_right_mono) (simp_all add: math_round_mono f64_mono mult_right_mono)

definition rank_of :: "nat \<Rightarrow> int \<Rightarrow> nat" where
  "rank_of n p = nat (max 0 (min (\<lceil>fmul (fdiv (of_int p) 100) (of_int (int n))\<rceil> - 1) (int n - 1)))"

lemma rank_of_mono: "p \<le> q \<Longrightarrow> rank_of n p \<le> rank_of n q"
proof -
  assume "p \<le> q"
  then have "fdiv (of_int p) 100 \<le> fdiv (of_int q) 100"
    unfolding fdiv_def by (intro f64_mono divide_right_mono) simp_all
  then have "fmul (fdiv (of_int p) 100) (of_int (int n)) \<le> fmul (fdiv (of_int q) 100) (of_int (int n))"
    unfolding fmul_def by (intro f64_mono mult_right_mono) simp_all
  then have "\<lceil>fmul (fdiv (of_int p) 100) (of_int (int n))\<rceil> \<le> \<lceil>fmul (fdiv (of_int q) 100) (of_int (int n))\<rceil>"
    by (rule ceiling_mono)
  then show ?thesis unfolding rank_of_def by (intro nat_mono) linarith
qed

lemma rank_of_less: "0 < n \<Longrightarrow> rank_of n p < n"
  by (auto simp: rank_of_def)

lemma getPercentile_rank: "getPercentile xs p = round2 (of_int (xs ! rank_of (length xs) p))"
  by (simp add: getPercentile_def rank_of_def Let_def)

text \<open>Percentiles. Over a non-empty buffer the summary reports
  minimum, 50th, 90th, 95th and 99th percentile and maximum in ascending order, and the percentiles,
  the minimum and the maximum are recorded durations.\<close>

theorem percentiles_ordered:
  assumes "latenciesBuffer s \<noteq> []" "\<forall>d \<in> set (latenciesBuffer s). \<bar>d\<bar> \<le> 2 ^ 46"
  shows "let l = latencyMs (getSummary s); recorded = of_int ` set (latenciesBuffer s)
    in of_int (l_min l) \<le> p50 l \<and> p50 l \<le> p90 l \<and> p90 l \<le> p95 l \<and> p95 l \<le> p99 l \<and>
      p99 l \<le> of_int (l_max l) \<and>
      {of_int (l_min l), p50 l, p90 l, p95 l, p99 l, of_int (l_max l)} \<subseteq> recorded"
proof -
  let ?xs = "sort (latenciesBuffer s)"
  define n where "n = length ?xs"
  have n: "0 < n" using assms(1) by (simp add: n_def)
  have ne: "?xs \<noteq> []" using assms(1) by (metis length_0_conv length_sort)
  have exact: "getPercentile ?xs p = of_int (?xs ! rank_of n p)" for p
    unfolding getPercentile_rank n_def
    using rank_of_less [of "length ?xs" p] n assms(2) nth_mem [of "rank_of (length ?xs) p" ?xs]
    by (intro round2_of_int) (auto simp: n_def)
  have le: "?xs ! i \<le> ?xs ! j" if "i \<le> j" "j < n" for i j
    using sorted_nth_mono [of ?xs i j] that by (simp add: n_def)
  have mem: "?xs ! i \<in> set (latenciesBuffer s)" if "i < n" for i
    using nth_mem [of i ?xs] that by (simp add: n_def)
  have lat: "latencyMs (getSummary s) = \<lparr>p50 = of_int (?xs ! rank_of n 50), p90 = of_int (?xs ! rank_of n 90),
      p95 = of_int (?xs ! rank_of n 95), p99 = of_int (?xs ! rank_of n 99),
      l_avg = round2 (fdiv (foldl fadd 0 (map of_int ?xs)) (of_int (int n))),
      l_min = ?xs ! 0, l_max = ?xs ! (n - 1)\<rparr>"
    using ne hd_conv_nth [OF ne] by (simp add: getSummary_def Let_def exact n_def)
  have last: "rank_of n 99 \<le> n - Suc 0" using rank_of_less [OF n, of 99] by linarith
  show ?thesis
    unfolding lat Let_def using n rank_of_less [OF n] rank_of_mono [of _ _ n] last
    by (auto intro!: le mem)
qed

lemma percentiles_ordered_witness:
  "let s = recordRequest 40 200 1000 (recordRequest 7 500 900 (recordRequest 12 200 800 new_performance));
       l = latencyMs (getSummary s); recorded = of_int ` set (latenciesBuffer s)
   in of_int (l_min l) \<le> p50 l \<and> p50 l \<le> p90 l \<and> p90 l \<le> p95 l \<and> p95 l \<le> p99 l \<and>
      p99 l \<le> of_int (l_max l) \<and>
      {of_int (l_min l), p50 l, p90 l, p95 l, p99 l, of_int (l_max l)} \<subseteq> recorded"
proof -
  let ?s = "recordRequest 40 200 1000 (recordRequest 7 500 900 (recordRequest 12 200 800 new_performance))"
  have b: "latenciesBuffer ?s = [12, 7, 40]"
    by (simp add: recordRequest_def new_performance_def maxLatencies_def Let_def)
  show ?thesis using percentiles_ordered [of ?s] by (simp add: b Let_def)
qed

end
