(* ===== verification/Alerting.thy ===== *)
theory Alerting
  imports Metrics Health Performance
begin

text \<open>
  Alert rules and their history (src/monitoring/alerting.service.ts).

  The rules are records in a map, the history is newest first, and every notification emitted is
  appended to a list. An evaluation is given the health report, the request summary, the metrics and
  the heap readings it asks for; \<open>clk\<close> gives, per rule, the clock readings of \<open>fireAlert\<close> and
  the random number of the alert id. A history entry is shared with nothing that is mutated later
  but itself, so lists of values are enough.
\<close>

section \<open>State\<close>

datatype alert_severity = Critical | Warning | Info

datatype alert_state = StOk | StPending | StFiring

record alert_rule =
  ar_id :: string
  ar_name :: string
  ar_expression :: string
  ar_severity :: alert_severity
  ar_threshold :: rat
  ar_windowMinutes :: int
  ar_enabled :: bool
  ar_state :: alert_state
  ar_lastEvaluatedAt :: "int option"
  ar_lastFiredAt :: "int option"

record fired_alert =
  fa_id :: string
  fa_ruleId :: string
  fa_ruleName :: string
  fa_severity :: alert_severity
  fa_message :: string
  fa_firedAt :: int
  fa_resolvedAt :: "int option"
  fa_value :: rat
  fa_threshold :: rat

record alerting =
  rules :: "alert_rule jsmap"
  firedAlertsHistory :: "fired_alert list"
  notifications :: "fired_alert list"

definition maxAlertHistory :: nat where "maxAlertHistory = 500"

definition new_rule ::
  "string \<Rightarrow> string \<Rightarrow> string \<Rightarrow> alert_severity \<Rightarrow> rat \<Rightarrow> int \<Rightarrow> alert_rule" where
  "new_rule i name expr severity threshold minutes =
     \<lparr>ar_id = i, ar_name = name, ar_expression = expr, ar_severity = severity, ar_threshold = threshold,
      ar_windowMinutes = minutes, ar_enabled = True, ar_state = StOk, ar_lastEvaluatedAt = None,
      ar_lastFiredAt = None\<rparr>"

definition default_rules :: "alert_rule list" where
  "default_rules =
     [new_rule ''high-error-rate'' ''HighErrorRate'' ''http_errors_total / http_requests_total * 100 > 5%'' Critical 5 5,
      new_rule ''high-latency-p95'' ''HighLatencyP95'' ''http_request_duration_p95 > 1000ms'' Warning 1000 5,
      new_rule ''high-memory-usage'' ''HighMemoryUsage''
        ''process_memory_heap_used_bytes / process_memory_heap_total_bytes > 85%'' Warning 85 3,
      new_rule ''database-disconnected'' ''DatabaseDisconnected'' ''health_database_status == 0'' Critical 0 1,
      new_rule ''rebalancing-failure-spike'' ''RebalancingFailureSpike''
        ''astraport_rebalancing_executions_total{status=\"failed\"} > 3'' Critical 3 10]"

definition new_alerting :: alerting where
  "new_alerting = \<lparr>rules = foldl (\<lambda>m r. map_set (ar_id r) r m) [] default_rules,
     firedAlertsHistory = [], notifications = []\<rparr>"

section \<open>Firing and resolving\<close>

definition dispatchOpsNotification :: "fired_alert \<Rightarrow> alerting \<Rightarrow> alerting" where
  "dispatchOpsNotification alert s = s\<lparr>notifications := notifications s @ [alert]\<rparr>"

text \<open>The clock when the rule fires and again for the alert id, and \<open>Math.floor(random * 1000)\<close>.\<close>

type_synonym fire_readings = "int \<times> int \<times> int"

definition fired_of :: "fire_readings \<Rightarrow> alert_rule \<Rightarrow> rat \<Rightarrow> string \<Rightarrow> fired_alert" where
  "fired_of c rule currentVal message =
     (let (ts, now, rnd) = c in
      \<lparr>fa_id = ''alert-'' @ string_of_int now @ ''-'' @ string_of_int rnd, fa_ruleId = ar_id rule,
       fa_ruleName = ar_name rule, fa_severity = ar_severity rule, fa_message = message, fa_firedAt = ts,
       fa_resolvedAt = None, fa_value = currentVal, fa_threshold = ar_threshold rule\<rparr>)"

definition fireAlert :: "fire_readings \<Rightarrow> alert_rule \<Rightarrow> rat \<Rightarrow> string \<Rightarrow> alerting \<Rightarrow> alerting" where
  "fireAlert c rule currentVal message s =
     (let rule' = rule\<lparr>ar_state := StFiring, ar_lastFiredAt := Some (fst c)\<rparr>;
          firedAlert = fired_of c rule' currentVal message;
          hist = firedAlert # firedAlertsHistory s;
          s' = s\<lparr>rules := map_set (ar_id rule) rule' (rules s),
                 firedAlertsHistory := (if maxAlertHistory < length hist then butlast hist else hist)\<rparr>
      in dispatchOpsNotification firedAlert s')"

fun resolve_first :: "int \<Rightarrow> string \<Rightarrow> fired_alert list \<Rightarrow> fired_alert option \<times> fired_alert list" where
  "resolve_first now rid [] = (None, [])"
| "resolve_first now rid (a # as) =
     (if fa_ruleId a = rid \<and> fa_resolvedAt a = None
      then (let a' = a\<lparr>fa_resolvedAt := Some now\<rparr> in (Some a', a' # as))
      else (let (r, as') = resolve_first now rid as in (r, a # as')))"

definition resolveAlert :: "int \<Rightarrow> alert_rule \<Rightarrow> alerting \<Rightarrow> alerting" where
  "resolveAlert now rule s =
     (let (active, hist) = resolve_first now (ar_id rule) (firedAlertsHistory s);
          s' = s\<lparr>rules := map_set (ar_id rule) (rule\<lparr>ar_state := StOk\<rparr>) (rules s), firedAlertsHistory := hist\<rparr>
      in (case active of
            None \<Rightarrow> s'
          | Some a \<Rightarrow> dispatchOpsNotification (a\<lparr>fa_message := ''RESOLVED: '' @ ar_name rule\<rparr>) s'))"

definition triggerTestAlert :: "int \<Rightarrow> int \<Rightarrow> string option \<Rightarrow> alerting \<Rightarrow> fired_alert \<times> alerting" where
  "triggerTestAlert ts now customMessage s =
     (let firedAlert = \<lparr>fa_id = ''test-alert-'' @ string_of_int now, fa_ruleId = ''test-ops-alert'',
            fa_ruleName = ''TestOpsAlert'', fa_severity = Warning,
            fa_message = (case customMessage of Some m \<Rightarrow> if m \<noteq> [] then m
                else ''Manual verification test alert triggered for Ops Team notification testing''
              | None \<Rightarrow> ''Manual verification test alert triggered for Ops Team notification testing''),
            fa_firedAt = ts, fa_resolvedAt = None, fa_value = 1, fa_threshold = 1\<rparr>
      in (firedAlert, dispatchOpsNotification firedAlert
            (s\<lparr>firedAlertsHistory := firedAlert # firedAlertsHistory s\<rparr>)))"

definition getRules :: "alerting \<Rightarrow> alert_rule list" where
  "getRules s = map snd (rules s)"

definition getFiredAlerts :: "alerting \<Rightarrow> fired_alert list" where
  "getFiredAlerts s = firedAlertsHistory s"

section \<open>Evaluation\<close>

text \<open>The block the five rules share: look the rule up, stamp it, then fire, resolve or do nothing.
  \<open>fires\<close> gives the value and message when the condition holds; \<open>resolves\<close> is the condition of
  the second branch beside the state test.\<close>

definition evaluate_rule ::
  "int \<Rightarrow> fire_readings \<Rightarrow> int \<Rightarrow> string \<Rightarrow> (alert_rule \<Rightarrow> (rat \<times> string) option) \<Rightarrow> (alert_rule \<Rightarrow> bool) \<Rightarrow>
   alerting \<Rightarrow> alerting" where
  "evaluate_rule now c done_at rid fires resolves s =
     (case map_get (rules s) rid of
        None \<Rightarrow> s
      | Some rule \<Rightarrow>
          if ar_enabled rule then
            (let rule' = rule\<lparr>ar_lastEvaluatedAt := Some now\<rparr>;
                 s' = s\<lparr>rules := map_set rid rule' (rules s)\<rparr>
             in (case fires rule' of
                   Some (v, message) \<Rightarrow> fireAlert c rule' v message s'
                 | None \<Rightarrow> if ar_state rule' = StFiring \<and> resolves rule' then resolveAlert done_at rule' s' else s'))
          else s)"

text \<open>What an evaluation reads; \<open>num\<close> prints a number.\<close>

record alert_inputs =
  in_now :: int
  in_apm :: apm_summary
  in_health :: health_report
  in_memory :: memory_usage
  in_metrics :: metrics
  in_clk :: "string \<Rightarrow> fire_readings"
  in_resolve :: "string \<Rightarrow> int"
  in_num :: "rat \<Rightarrow> string"

definition evaluate_error_rate :: "alert_inputs \<Rightarrow> alerting \<Rightarrow> alerting" where
  "evaluate_error_rate i =
     (let apm = in_apm i; rate = errorRatePercentage apm; rid = ''high-error-rate''
      in evaluate_rule (in_now i) (in_clk i rid) (in_resolve i rid) rid
           (\<lambda>r. if 10 \<le> totalRequests apm \<and> ar_threshold r < rate
              then Some (rate, ''HTTP error rate is '' @ in_num i rate @ ''% exceeding threshold '' @
                in_num i (ar_threshold r) @ ''%'') else None)
           (\<lambda>r. rate \<le> ar_threshold r))"

definition evaluate_latency :: "alert_inputs \<Rightarrow> alerting \<Rightarrow> alerting" where
  "evaluate_latency i =
     (let v = p95 (latencyMs (in_apm i)); rid = ''high-latency-p95''
      in evaluate_rule (in_now i) (in_clk i rid) (in_resolve i rid) rid
           (\<lambda>r. if ar_threshold r < v
              then Some (v, ''HTTP p95 latency is '' @ in_num i v @ ''ms exceeding threshold '' @
                in_num i (ar_threshold r) @ ''ms'') else None)
           (\<lambda>r. v \<le> ar_threshold r))"

definition heap_percent :: "memory_usage \<Rightarrow> int" where
  "heap_percent m = math_round (fmul (heap_ratio m) 100)"

definition evaluate_memory :: "alert_inputs \<Rightarrow> alerting \<Rightarrow> alerting" where
  "evaluate_memory i =
     (let v = of_int (heap_percent (in_memory i)); rid = ''high-memory-usage''
      in evaluate_rule (in_now i) (in_clk i rid) (in_resolve i rid) rid
           (\<lambda>r. if ar_threshold r < v
              then Some (v, ''Process heap usage is '' @ in_num i v @ ''% exceeding threshold '' @
                in_num i (ar_threshold r) @ ''%'') else None)
           (\<lambda>r. v \<le> ar_threshold r))"

definition evaluate_database :: "alert_inputs \<Rightarrow> alerting \<Rightarrow> alerting" where
  "evaluate_database i =
     (let db = map_get (hr_components (in_health i)) ''database''; rid = ''database-disconnected'';
          message = (case Option.bind db ch_error of Some e \<Rightarrow> if e \<noteq> [] then e else ''Connection error''
            | None \<Rightarrow> ''Connection error'')
      in evaluate_rule (in_now i) (in_clk i rid) (in_resolve i rid) rid
           (\<lambda>r. if map_option ch_status db = Some Down
              then Some (0, ''Database connection status is DOWN: '' @ message) else None)
           (\<lambda>r. True))"

definition evaluate_rebalancing :: "alert_inputs \<Rightarrow> alerting \<Rightarrow> alerting" where
  "evaluate_rebalancing i =
     (let v = getMetricValue ''astraport_rebalancing_executions_total'' [(''status'', ''failed'')] (in_metrics i);
          rid = ''rebalancing-failure-spike''
      in evaluate_rule (in_now i) (in_clk i rid) (in_resolve i rid) rid
           (\<lambda>r. if ar_threshold r \<le> v
              then Some (v, ''Rebalancing failed executions count reached '' @ in_num i v @ '' (threshold: '' @
                in_num i (ar_threshold r) @ '')'') else None)
           (\<lambda>r. v < ar_threshold r))"

definition evaluateRules :: "alert_inputs \<Rightarrow> alerting \<Rightarrow> alerting" where
  "evaluateRules i s =
     evaluate_rebalancing i (evaluate_database i (evaluate_memory i (evaluate_latency i (evaluate_error_rate i s))))"

section \<open>Rules\<close>

text \<open>What no operation changes of a rule.\<close>

definition static :: "alert_rule \<Rightarrow> alert_rule" where
  "static r = r\<lparr>ar_state := StOk, ar_lastEvaluatedAt := None, ar_lastFiredAt := None\<rparr>"

lemma static_simps [simp]:
  "static (r\<lparr>ar_state := st\<rparr>) = static r" "static (r\<lparr>ar_lastEvaluatedAt := t\<rparr>) = static r"
  "static (r\<lparr>ar_lastFiredAt := t\<rparr>) = static r"
  "ar_id (static r) = ar_id r" "ar_threshold (static r) = ar_threshold r" "ar_enabled (static r) = ar_enabled r"
  by (simp_all add: static_def)

definition rules_ok :: "alerting \<Rightarrow> bool" where
  "rules_ok s \<longleftrightarrow> map (\<lambda>(k, r). (k, static r)) (rules s) = map (\<lambda>r. (ar_id r, r)) default_rules"

lemma map_get_map_snd: "map_get (map (\<lambda>(k, r). (k, f r)) m) k = map_option f (map_get m k)"
  by (induction m) auto

lemma map_set_same_image:
  "map_get m k = Some r \<Longrightarrow> f r' = f r \<Longrightarrow>
   map (\<lambda>(k, r). (k, f r)) (map_set k r' m) = map (\<lambda>(k, r). (k, f r)) m"
  by (induction m) auto

lemma rules_okD:
  assumes "rules_ok s" "map_get (rules s) k = Some r"
  shows "ar_id r = k" "ar_enabled r"
proof -
  have "map_get (map (\<lambda>r. (ar_id r, r)) default_rules) k = Some (static r)"
    using assms map_get_map_snd [of static "rules s" k] by (simp add: rules_ok_def)
  then have "static r \<in> set default_rules" "ar_id (static r) = k" by (auto dest!: map_of_SomeD)
  moreover have "ar_enabled d" if "d \<in> set default_rules" for d
    using that by (auto simp: default_rules_def new_rule_def)
  ultimately show "ar_id r = k" "ar_enabled r" by auto (metis static_simps(6))
qed

lemma distinct_rule_ids: "distinct (map ar_id default_rules)"
  by (simp add: default_rules_def new_rule_def)

lemma rules_ok_get:
  assumes "rules_ok s" "d \<in> set default_rules"
  shows "\<exists>r. map_get (rules s) (ar_id d) = Some r \<and> static r = d"
proof -
  have "map_get (map (\<lambda>r. (ar_id r, r)) default_rules) (ar_id d) = Some d"
    using assms(2) distinct_rule_ids by (intro map_of_is_SomeI) (auto simp: comp_def)
  then have "map_option static (map_get (rules s) (ar_id d)) = Some d"
    using assms(1) map_get_map_snd [of static "rules s" "ar_id d"] by (simp add: rules_ok_def)
  then show ?thesis by (simp add: map_option_eq_Some)
qed

lemma foldl_map_set_distinct:
  "distinct (map_keys m @ map f rs) \<Longrightarrow>
   foldl (\<lambda>m r. map_set (f r) r m) m rs = m @ map (\<lambda>r. (f r, r)) rs"
  by (induction rs arbitrary: m) (auto simp: map_set_new map_get_None_iff)

lemma default_rule_ok: "d \<in> set default_rules \<Longrightarrow> static d = d \<and> ar_state d = StOk"
  by (auto simp: default_rules_def new_rule_def static_def)

lemma rules_new_alerting: "rules new_alerting = map (\<lambda>r. (ar_id r, r)) default_rules"
  using foldl_map_set_distinct [of "[]" ar_id default_rules] distinct_rule_ids
  by (simp add: new_alerting_def)

lemma rules_ok_new [preserved]: "rules_ok new_alerting"
  by (simp add: rules_ok_def rules_new_alerting default_rule_ok)

lemma dispatch_simps [simp]:
  "rules (dispatchOpsNotification a s) = rules s"
  "firedAlertsHistory (dispatchOpsNotification a s) = firedAlertsHistory s"
  by (simp_all add: dispatchOpsNotification_def)

lemma rules_fireAlert [simp]:
  "rules (fireAlert c r v m s) =
     map_set (ar_id r) (r\<lparr>ar_state := StFiring, ar_lastFiredAt := Some (fst c)\<rparr>) (rules s)"
  by (simp add: fireAlert_def Let_def)

lemma rules_resolveAlert [simp]:
  "rules (resolveAlert t r s) = map_set (ar_id r) (r\<lparr>ar_state := StOk\<rparr>) (rules s)"
  by (auto simp: resolveAlert_def Let_def split: prod.split option.split)

lemma rules_triggerTestAlert [simp]: "rules (snd (triggerTestAlert ts n m s)) = rules s"
  by (simp add: triggerTestAlert_def Let_def)

lemma rules_evaluate_rule:
  assumes "rules_ok s" "map_get (rules s) rid = Some r"
  shows "rules (evaluate_rule now c t rid fires resolves s) =
    (let r' = r\<lparr>ar_lastEvaluatedAt := Some now\<rparr>
     in map_set rid (if fires r' \<noteq> None then r'\<lparr>ar_state := StFiring, ar_lastFiredAt := Some (fst c)\<rparr>
          else if ar_state r = StFiring \<and> resolves r' then r'\<lparr>ar_state := StOk\<rparr> else r') (rules s))"
  using assms(2) rules_okD [OF assms]
  by (auto simp: evaluate_rule_def Let_def split: option.split)

lemma rules_ok_evaluate_rule:
  assumes "rules_ok s" shows "rules_ok (evaluate_rule now c t rid fires resolves s)"
proof (cases "map_get (rules s) rid")
  case None
  then show ?thesis using assms by (simp add: evaluate_rule_def)
next
  case (Some r)
  show ?thesis
    unfolding rules_ok_def rules_evaluate_rule [OF assms Some] Let_def
    by (rule trans [OF map_set_same_image [where f = static, OF Some]])
      (use assms in \<open>auto simp: rules_ok_def\<close>)
qed

lemma rules_ok_evaluateRules [preserved]: "rules_ok s \<Longrightarrow> rules_ok (evaluateRules i s)"
  by (simp add: evaluateRules_def evaluate_error_rate_def evaluate_latency_def evaluate_memory_def
      evaluate_database_def evaluate_rebalancing_def Let_def rules_ok_evaluate_rule)

lemma rules_ok_triggerTestAlert [preserved]: "rules_ok s \<Longrightarrow> rules_ok (snd (triggerTestAlert ts n m s))"
  by (simp add: rules_ok_def)

section \<open>States of the rules\<close>

definition state_of :: "alerting \<Rightarrow> string \<Rightarrow> alert_state option" where
  "state_of s rid = map_option ar_state (map_get (rules s) rid)"

definition next_state :: "bool \<Rightarrow> bool \<Rightarrow> alert_state option \<Rightarrow> alert_state option" where
  "next_state fire clear st =
     (if fire then Some StFiring else if clear \<and> st = Some StFiring then Some StOk else st)"

lemma state_of_evaluate_rule:
  assumes "rules_ok s" "d \<in> set default_rules" "ar_id d = rid"
    and f: "\<And>r. static r = d \<Longrightarrow> (fires r \<noteq> None) = f" and g: "\<And>r. static r = d \<Longrightarrow> resolves r = g"
  shows "state_of (evaluate_rule now c t rid fires resolves s) k =
    (if k = rid then next_state f g (state_of s rid) else state_of s k)"
proof -
  obtain r where r: "map_get (rules s) rid = Some r" "static r = d"
    using rules_ok_get [OF assms(1,2)] assms(3) by auto
  have "(fires (r\<lparr>ar_lastEvaluatedAt := Some now\<rparr>) \<noteq> None) = f"
    "resolves (r\<lparr>ar_lastEvaluatedAt := Some now\<rparr>) = g" using r(2) f [of "r\<lparr>ar_lastEvaluatedAt := Some now\<rparr>"] g [of "r\<lparr>ar_lastEvaluatedAt := Some now\<rparr>"]
    by simp_all
  then show ?thesis
    unfolding state_of_def rules_evaluate_rule [OF assms(1) r(1)] Let_def
    by (simp add: r next_state_def)
qed

lemma threshold_static: "static r = d \<Longrightarrow> ar_threshold r = ar_threshold d"
  by (metis static_simps(5))

lemma default_rule_facts:
  "\<exists>d \<in> set default_rules. ar_id d = ''high-error-rate'' \<and> ar_threshold d = 5"
  "\<exists>d \<in> set default_rules. ar_id d = ''high-latency-p95'' \<and> ar_threshold d = 1000"
  "\<exists>d \<in> set default_rules. ar_id d = ''high-memory-usage'' \<and> ar_threshold d = 85"
  "\<exists>d \<in> set default_rules. ar_id d = ''database-disconnected''"
  "\<exists>d \<in> set default_rules. ar_id d = ''rebalancing-failure-spike'' \<and> ar_threshold d = 3"
  by (simp_all add: default_rules_def new_rule_def)

text \<open>One instance per rule: which readings fire it and which clear it.\<close>

lemma state_of_threshold_rule:
  assumes "rules_ok s" "\<exists>d \<in> set default_rules. ar_id d = rid \<and> ar_threshold d = th"
    and "\<And>r. ar_threshold r = th \<Longrightarrow> (fires r \<noteq> None) = f" "\<And>r. ar_threshold r = th \<Longrightarrow> resolves r = g"
  shows "state_of (evaluate_rule now c t rid fires resolves s) k =
    (if k = rid then next_state f g (state_of s rid) else state_of s k)"
proof -
  obtain d where d: "d \<in> set default_rules" "ar_id d = rid" "ar_threshold d = th" using assms(2) by blast
  show ?thesis
    by (rule state_of_evaluate_rule [OF assms(1) d(1,2)])
      (rule assms(3,4), use threshold_static d(3) in fastforce)+
qed

definition error_rate_fires :: "alert_inputs \<Rightarrow> bool" where
  "error_rate_fires i \<longleftrightarrow> 10 \<le> totalRequests (in_apm i) \<and> 5 < errorRatePercentage (in_apm i)"

definition latency_fires :: "alert_inputs \<Rightarrow> bool" where
  "latency_fires i \<longleftrightarrow> 1000 < p95 (latencyMs (in_apm i))"

definition memory_fires :: "alert_inputs \<Rightarrow> bool" where
  "memory_fires i \<longleftrightarrow> 85 < heap_percent (in_memory i)"

definition database_fires :: "alert_inputs \<Rightarrow> bool" where
  "database_fires i \<longleftrightarrow> report_db_status (in_health i) = Some Down"

definition rebalancing_fires :: "alert_inputs \<Rightarrow> bool" where
  "rebalancing_fires i \<longleftrightarrow>
     3 \<le> getMetricValue ''astraport_rebalancing_executions_total'' [(''status'', ''failed'')] (in_metrics i)"

lemma state_of_evaluations:
  assumes "rules_ok s"
  shows "state_of (evaluate_error_rate i s) k = (if k = ''high-error-rate''
      then next_state (error_rate_fires i) (errorRatePercentage (in_apm i) \<le> 5) (state_of s k) else state_of s k)"
    and "state_of (evaluate_latency i s) k = (if k = ''high-latency-p95''
      then next_state (latency_fires i) (\<not> latency_fires i) (state_of s k) else state_of s k)"
    and "state_of (evaluate_memory i s) k = (if k = ''high-memory-usage''
      then next_state (memory_fires i) (\<not> memory_fires i) (state_of s k) else state_of s k)"
    and "state_of (evaluate_database i s) k = (if k = ''database-disconnected''
      then next_state (database_fires i) True (state_of s k) else state_of s k)"
    and "state_of (evaluate_rebalancing i s) k = (if k = ''rebalancing-failure-spike''
      then next_state (rebalancing_fires i) (\<not> rebalancing_fires i) (state_of s k) else state_of s k)"
  unfolding evaluate_error_rate_def evaluate_latency_def evaluate_memory_def evaluate_database_def
    evaluate_rebalancing_def Let_def
  subgoal by (subst state_of_threshold_rule [OF assms default_rule_facts(1), where f = "error_rate_fires i"])
      (auto simp: error_rate_fires_def)
  subgoal by (subst state_of_threshold_rule [OF assms default_rule_facts(2),
        where g = "\<not> latency_fires i"]) (auto simp: latency_fires_def)
  subgoal
    apply (subst state_of_threshold_rule [OF assms default_rule_facts(3),
          where f = "memory_fires i" and g = "\<not> memory_fires i"])
    using of_int_less_iff [of 85 "heap_percent (in_memory i)", where ?'a = rat]
      of_int_le_iff [of "heap_percent (in_memory i)" 85, where ?'a = rat]
    by (auto simp: memory_fires_def)
  subgoal
  proof -
    obtain d where d: "d \<in> set default_rules" "ar_id d = ''database-disconnected''"
      using default_rule_facts(4) by blast
    show ?thesis
      by (subst state_of_evaluate_rule [OF assms d, where f = "database_fires i" and g = True])
        (auto simp: database_fires_def report_db_status_def)
  qed
  subgoal by (subst state_of_threshold_rule [OF assms default_rule_facts(5),
        where g = "\<not> rebalancing_fires i"]) (auto simp: rebalancing_fires_def)
  done

text \<open>The states the service can be in: any evaluations and test alerts from the start.\<close>

datatype alert_event = Evaluate alert_inputs | TestAlert int int "string option"

fun alert_step :: "alert_event \<Rightarrow> alerting \<Rightarrow> alerting" where
  "alert_step (Evaluate i) s = evaluateRules i s"
| "alert_step (TestAlert ts n m) s = snd (triggerTestAlert ts n m s)"

definition alert_run :: "alert_event list \<Rightarrow> alerting" where
  "alert_run es = foldl (\<lambda>s e. alert_step e s) new_alerting es"

lemma rules_ok_run [preserved]: "rules_ok (alert_run es)"
proof (induction es rule: rev_induct)
  case Nil
  then show ?case by (simp add: alert_run_def preserved)
next
  case (snoc e es)
  then show ?case by (cases e) (simp_all add: alert_run_def preserved)
qed

lemma alert_run_snoc: "alert_run (es @ [e]) = alert_step e (alert_run es)"
  by (simp add: alert_run_def)

lemma rules_ok_parts:
  assumes "rules_ok s"
  shows "rules_ok (evaluate_error_rate i s)" "rules_ok (evaluate_latency i s)" "rules_ok (evaluate_memory i s)"
    "rules_ok (evaluate_database i s)" "rules_ok (evaluate_rebalancing i s)"
  using assms by (simp_all add: evaluate_error_rate_def evaluate_latency_def evaluate_memory_def
      evaluate_database_def evaluate_rebalancing_def Let_def rules_ok_evaluate_rule)

definition settled :: "alerting \<Rightarrow> bool" where
  "settled s \<longleftrightarrow> (\<forall>d \<in> set default_rules. state_of s (ar_id d) \<in> {Some StOk, Some StFiring})"

lemma settled_new [preserved]: "settled new_alerting"
proof -
  have "state_of new_alerting (ar_id d) = Some StOk" if "d \<in> set default_rules" for d
    using rules_ok_get [OF rules_ok_new that] map_of_SomeD [of "rules new_alerting" "ar_id d"]
    by (auto simp: state_of_def rules_new_alerting default_rule_ok)
  then show ?thesis by (simp add: settled_def)
qed

lemma next_state_settled: "st \<in> {Some StOk, Some StFiring} \<Longrightarrow> next_state f g st \<in> {Some StOk, Some StFiring}"
  by (simp add: next_state_def)

lemma settled_parts:
  assumes "rules_ok s" "settled s"
  shows "settled (evaluate_error_rate i s)" "settled (evaluate_latency i s)" "settled (evaluate_memory i s)"
    "settled (evaluate_database i s)" "settled (evaluate_rebalancing i s)"
  using assms(2) unfolding settled_def state_of_evaluations [OF assms(1)]
  by (auto simp: next_state_def)

lemma settled_evaluateRules [preserved]: "rules_ok s \<Longrightarrow> settled s \<Longrightarrow> settled (evaluateRules i s)"
  by (simp add: evaluateRules_def settled_parts rules_ok_parts)

lemma settled_run [preserved]: "settled (alert_run es)"
proof (induction es rule: rev_induct)
  case Nil
  then show ?case by (simp add: alert_run_def preserved)
next
  case (snoc e es)
  then show ?case
    by (cases e) (simp_all add: alert_run_snoc preserved, simp add: settled_def state_of_def)
qed

section \<open>History\<close>

interpretation fired: bounded_log firedAlertsHistory "\<lambda>(c, r, v, m). fireAlert c r v m"
  "\<lambda>(c, r, v, m) s. fired_of c r v m" maxAlertHistory
  by unfold_locales
    (auto simp: fireAlert_def fired_of_def unshift_bounded_def dispatchOpsNotification_def Let_def split: prod.split)

lemma hist_fireAlert_take:
  "length (firedAlertsHistory s) \<le> maxAlertHistory \<Longrightarrow>
   firedAlertsHistory (fireAlert c r v m s) = take maxAlertHistory (fired_of c r v m # firedAlertsHistory s)"
  using fired.add_take [of s "(c, r, v, m)"] by simp

lemma hist_fireAlert_length:
  "length (firedAlertsHistory (fireAlert c r v m s)) \<le> max maxAlertHistory (length (firedAlertsHistory s))"
  by (simp add: fireAlert_def dispatchOpsNotification_def Let_def)

lemma resolve_first_length: "length (snd (resolve_first t rid as)) = length as"
  by (induction as) (auto simp: Let_def split: prod.split)

lemma hist_resolveAlert: "firedAlertsHistory (resolveAlert t r s) = snd (resolve_first t (ar_id r) (firedAlertsHistory s))"
  by (auto simp: resolveAlert_def Let_def split: prod.split option.split)

lemma hist_evaluate_rule:
  "firedAlertsHistory (evaluate_rule now c t rid fires resolves s) =
    (case map_get (rules s) rid of
       None \<Rightarrow> firedAlertsHistory s
     | Some r \<Rightarrow> (let r' = r\<lparr>ar_lastEvaluatedAt := Some now\<rparr>; s' = s\<lparr>rules := map_set rid r' (rules s)\<rparr>
         in if ar_enabled r then (case fires r' of
              Some (v, m) \<Rightarrow> firedAlertsHistory (fireAlert c r' v m s')
            | None \<Rightarrow> if ar_state r = StFiring \<and> resolves r'
                then snd (resolve_first t (ar_id r) (firedAlertsHistory s)) else firedAlertsHistory s)
          else firedAlertsHistory s))"
  by (auto simp: evaluate_rule_def Let_def hist_resolveAlert split: option.split)

lemma hist_fireAlert_length':
  "length (firedAlertsHistory (fireAlert c r v m (s\<lparr>rules := x\<rparr>))) \<le>
     max maxAlertHistory (length (firedAlertsHistory s))"
  using hist_fireAlert_length [of c r v m "s\<lparr>rules := x\<rparr>"] by simp

lemma hist_evaluate_rule_length:
  "length (firedAlertsHistory (evaluate_rule now c t rid fires resolves s)) \<le>
     max maxAlertHistory (length (firedAlertsHistory s))"
  unfolding hist_evaluate_rule Let_def
  by (auto simp: resolve_first_length split: option.split intro: hist_fireAlert_length')

lemma hist_evaluateRules_length:
  "length (firedAlertsHistory (evaluateRules i s)) \<le> max maxAlertHistory (length (firedAlertsHistory s))"
proof -
  have *: "length x \<le> max n (length y) \<Longrightarrow> length y \<le> max n (length z) \<Longrightarrow> length x \<le> max n (length z)"
    for x y z :: "fired_alert list" and n by linarith
  show ?thesis
    unfolding evaluateRules_def evaluate_error_rate_def evaluate_latency_def evaluate_memory_def
      evaluate_database_def evaluate_rebalancing_def Let_def
    by (rule * [OF hist_evaluate_rule_length])+ simp
qed

definition is_test :: "alert_event \<Rightarrow> bool" where
  "is_test e = (case e of TestAlert _ _ _ \<Rightarrow> True | Evaluate _ \<Rightarrow> False)"

lemma hist_run_length:
  "length (firedAlertsHistory (alert_run es)) \<le> maxAlertHistory + length (filter is_test es)"
proof (induction es rule: rev_induct)
  case Nil
  then show ?case by (simp add: alert_run_def new_alerting_def)
next
  case (snoc e es)
  show ?case
  proof (cases e)
    case (Evaluate i)
    then show ?thesis
      using snoc hist_evaluateRules_length [of i "alert_run es"] by (simp add: alert_run_snoc is_test_def)
  next
    case (TestAlert ts n m)
    then show ?thesis using snoc by (simp add: alert_run_snoc is_test_def triggerTestAlert_def Let_def)
  qed
qed

definition unresolved :: "string \<Rightarrow> alerting \<Rightarrow> nat" where
  "unresolved rid s = length (filter (\<lambda>a. fa_ruleId a = rid \<and> fa_resolvedAt a = None) (firedAlertsHistory s))"

lemma unresolved_resolve_first:
  "length (filter (\<lambda>a. fa_ruleId a = rid \<and> fa_resolvedAt a = None) (snd (resolve_first t rid as))) =
   length (filter (\<lambda>a. fa_ruleId a = rid \<and> fa_resolvedAt a = None) as) - 1"
  by (induction as) (auto simp: Let_def split: prod.split)

text \<open>An evaluation in which only the database rule can have something to do.\<close>

definition quiet :: "alert_inputs \<Rightarrow> bool" where
  "quiet i \<longleftrightarrow> \<not> error_rate_fires i \<and> \<not> latency_fires i \<and> \<not> memory_fires i \<and> \<not> rebalancing_fires i"

definition only_database :: "alerting \<Rightarrow> bool" where
  "only_database s \<longleftrightarrow> rules_ok s \<and>
     (\<forall>k \<in> {''high-error-rate'', ''high-latency-p95'', ''high-memory-usage'', ''rebalancing-failure-spike''}.
        state_of s k = Some StOk)"

lemma hist_evaluate_rule_idle:
  assumes "rules_ok s" "\<exists>d \<in> set default_rules. ar_id d = rid \<and> ar_threshold d = th"
    "\<And>r. ar_threshold r = th \<Longrightarrow> fires r = None" "state_of s rid = Some StOk"
  shows "firedAlertsHistory (evaluate_rule now c t rid fires resolves s) = firedAlertsHistory s"
proof -
  obtain d where d: "d \<in> set default_rules" "ar_id d = rid" "ar_threshold d = th" using assms(2) by blast
  obtain r where r: "map_get (rules s) rid = Some r" "static r = d"
    using rules_ok_get [OF assms(1) d(1)] d(2) by auto
  have "fires (r\<lparr>ar_lastEvaluatedAt := Some now\<rparr>) = None"
    using threshold_static [OF r(2)] by (intro assms(3)) (simp add: d(3))
  then show ?thesis using assms(4) r(1) by (simp add: hist_evaluate_rule state_of_def Let_def)
qed

lemma hist_idle:
  assumes "rules_ok s"
  shows "\<not> error_rate_fires i \<Longrightarrow> state_of s ''high-error-rate'' = Some StOk \<Longrightarrow>
      firedAlertsHistory (evaluate_error_rate i s) = firedAlertsHistory s"
    and "\<not> latency_fires i \<Longrightarrow> state_of s ''high-latency-p95'' = Some StOk \<Longrightarrow>
      firedAlertsHistory (evaluate_latency i s) = firedAlertsHistory s"
    and "\<not> memory_fires i \<Longrightarrow> state_of s ''high-memory-usage'' = Some StOk \<Longrightarrow>
      firedAlertsHistory (evaluate_memory i s) = firedAlertsHistory s"
    and "\<not> rebalancing_fires i \<Longrightarrow> state_of s ''rebalancing-failure-spike'' = Some StOk \<Longrightarrow>
      firedAlertsHistory (evaluate_rebalancing i s) = firedAlertsHistory s"
  unfolding evaluate_error_rate_def evaluate_latency_def evaluate_memory_def evaluate_rebalancing_def Let_def
  subgoal by (rule hist_evaluate_rule_idle [OF assms default_rule_facts(1)]) (auto simp: error_rate_fires_def)
  subgoal by (rule hist_evaluate_rule_idle [OF assms default_rule_facts(2)]) (auto simp: latency_fires_def)
  subgoal
    using of_int_less_iff [of 85 "heap_percent (in_memory i)", where ?'a = rat]
    by (intro hist_evaluate_rule_idle [OF assms default_rule_facts(3)]) (auto simp: memory_fires_def)
  subgoal by (rule hist_evaluate_rule_idle [OF assms default_rule_facts(5)]) (auto simp: rebalancing_fires_def)
  done

lemma hist_database:
  assumes "rules_ok s" "length (firedAlertsHistory s) < maxAlertHistory"
  shows "unresolved ''database-disconnected'' (evaluate_database i s) =
     (if database_fires i then unresolved ''database-disconnected'' s + 1
      else if state_of s ''database-disconnected'' = Some StFiring
        then unresolved ''database-disconnected'' s - 1
      else unresolved ''database-disconnected'' s) \<and>
    length (firedAlertsHistory (evaluate_database i s)) =
     (if database_fires i then length (firedAlertsHistory s) + 1 else length (firedAlertsHistory s))"
proof -
  obtain d where d: "d \<in> set default_rules" "ar_id d = ''database-disconnected''"
    using default_rule_facts(4) by blast
  obtain r where r: "map_get (rules s) ''database-disconnected'' = Some r" "static r = d"
    using rules_ok_get [OF assms(1) d(1)] d(2) by auto
  note ok = rules_okD [OF assms(1) r(1)]
  show ?thesis
    using assms(2) ok
    by (simp add: evaluate_database_def Let_def unresolved_def hist_evaluate_rule r database_fires_def
        report_db_status_def hist_fireAlert_take fired_of_def state_of_def unresolved_resolve_first
        resolve_first_length split: prod.split)
qed

lemma quiet_step:
  assumes "only_database s" "quiet i" "length (firedAlertsHistory s) < maxAlertHistory"
  shows "only_database (evaluateRules i s)"
    and "state_of (evaluateRules i s) ''database-disconnected'' =
      next_state (database_fires i) True (state_of s ''database-disconnected'')"
    and "unresolved ''database-disconnected'' (evaluateRules i s) =
      (if database_fires i then unresolved ''database-disconnected'' s + 1
       else if state_of s ''database-disconnected'' = Some StFiring
         then unresolved ''database-disconnected'' s - 1
       else unresolved ''database-disconnected'' s)"
    and "length (firedAlertsHistory (evaluateRules i s)) =
      (if database_fires i then length (firedAlertsHistory s) + 1 else length (firedAlertsHistory s))"
proof -
  have ok: "rules_ok s" using assms(1) by (simp add: only_database_def)
  define s1 where "s1 = evaluate_memory i (evaluate_latency i (evaluate_error_rate i s))"
  have q: "\<not> error_rate_fires i" "\<not> latency_fires i" "\<not> memory_fires i" "\<not> rebalancing_fires i"
    using assms(2) by (simp_all add: quiet_def)
  have ok1: "rules_ok s1" using ok by (simp add: s1_def rules_ok_parts)
  have st1: "state_of s1 k = state_of s k" for k
    using assms(1) q by (auto simp: s1_def only_database_def state_of_evaluations ok rules_ok_parts next_state_def)
  have h1: "firedAlertsHistory s1 = firedAlertsHistory s"
    using assms(1) q unfolding s1_def only_database_def
    by (simp add: hist_idle state_of_evaluations rules_ok_parts)
  have fin: "evaluateRules i s = evaluate_rebalancing i (evaluate_database i s1)"
    by (simp add: evaluateRules_def s1_def)
  have h2: "firedAlertsHistory (evaluateRules i s) = firedAlertsHistory (evaluate_database i s1)"
    using assms(1) q unfolding fin
    by (intro hist_idle(4)) (simp_all add: ok1 rules_ok_parts state_of_evaluations st1 only_database_def)
  note db = hist_database [of s1 i, OF ok1]
  show "only_database (evaluateRules i s)"
    using assms(1) q unfolding fin
    by (simp add: only_database_def rules_ok_parts ok1 state_of_evaluations st1 next_state_def)
  show "state_of (evaluateRules i s) ''database-disconnected'' =
      next_state (database_fires i) True (state_of s ''database-disconnected'')"
    unfolding fin by (simp add: rules_ok_parts ok1 state_of_evaluations st1)
  show "unresolved ''database-disconnected'' (evaluateRules i s) =
      (if database_fires i then unresolved ''database-disconnected'' s + 1
       else if state_of s ''database-disconnected'' = Some StFiring
         then unresolved ''database-disconnected'' s - 1
       else unresolved ''database-disconnected'' s)"
    "length (firedAlertsHistory (evaluateRules i s)) =
      (if database_fires i then length (firedAlertsHistory s) + 1 else length (firedAlertsHistory s))"
    using db assms(3) by (simp_all add: h1 h2 unresolved_def st1)
qed

lemma only_database_new: "only_database new_alerting"
proof -
  have "state_of new_alerting (ar_id d) = Some StOk" if "d \<in> set default_rules" for d
    using rules_ok_get [OF rules_ok_new that] map_of_SomeD [of "rules new_alerting" "ar_id d"]
    by (auto simp: state_of_def rules_new_alerting default_rule_ok)
  with default_rule_facts show ?thesis by (fastforce simp: only_database_def rules_ok_new)
qed

lemma outage:
  assumes "\<forall>i \<in> set ds. quiet i \<and> database_fires i" "length ds < maxAlertHistory"
  defines "s \<equiv> alert_run (map Evaluate ds)"
  shows "only_database s \<and> length (firedAlertsHistory s) = length ds \<and>
    unresolved ''database-disconnected'' s = length ds \<and>
    (ds \<noteq> [] \<longrightarrow> state_of s ''database-disconnected'' = Some StFiring)"
  using assms(1,2) unfolding s_def
proof (induction ds rule: rev_induct)
  case Nil
  then show ?case by (simp add: alert_run_def only_database_new unresolved_def) (simp add: new_alerting_def)
next
  case (snoc i ds)
  then show ?case by (simp add: alert_run_snoc quiet_step next_state_def)
qed

lemma recovery:
  assumes "only_database s" "length (firedAlertsHistory s) < maxAlertHistory"
    "\<forall>i \<in> set us. quiet i \<and> \<not> database_fires i" "us \<noteq> []"
    "state_of s ''database-disconnected'' = Some StFiring"
  defines "s' \<equiv> foldl (\<lambda>s e. alert_step e s) s (map Evaluate us)"
  shows "only_database s' \<and> length (firedAlertsHistory s') = length (firedAlertsHistory s) \<and>
    state_of s' ''database-disconnected'' = Some StOk \<and>
    unresolved ''database-disconnected'' s' = unresolved ''database-disconnected'' s - 1"
  using assms(3,4) unfolding s'_def
proof (induction us rule: rev_induct)
  case (snoc i us)
  then show ?case using assms(1,2,5)
    by (cases "us = []") (simp_all add: quiet_step next_state_def)
qed simp


text \<open>Outages stay open. An outage seen by several evaluations adds an alert at each of them, and the
  evaluation that finds the database back resolves the newest only: the rule is ok again while all the
  earlier alerts of the outage stay unresolved for good.\<close>

theorem outage_alerts_unresolved:
  assumes "\<forall>i \<in> set ds. quiet i \<and> database_fires i" "\<forall>i \<in> set us. quiet i \<and> \<not> database_fires i"
    "ds \<noteq> []" "us \<noteq> []" "length ds < maxAlertHistory"
  shows "let s = alert_run (map Evaluate (ds @ us))
    in state_of s ''database-disconnected'' = Some StOk \<and>
       unresolved ''database-disconnected'' s = length ds - 1"
proof -
  note o = outage [OF assms(1,5)]
  have "alert_run (map Evaluate (ds @ us)) =
      foldl (\<lambda>s e. alert_step e s) (alert_run (map Evaluate ds)) (map Evaluate us)"
    by (simp add: alert_run_def)
  then show ?thesis using o assms recovery [of "alert_run (map Evaluate ds)" us] by (simp add: Let_def)
qed

definition sample_inputs :: "data_source \<Rightarrow> alert_inputs" where
  "sample_inputs db =
     (let mem = \<lparr>mu_heapUsed = 40, mu_heapTotal = 100, mu_rss = 120\<rparr>
      in \<lparr>in_now = 0, in_apm = getSummary new_performance,
          in_health = getFullHealth \<lparr>pr_now = 0, pr_database = Some db, pr_memory = mem, pr_totalmem = 1,
            pr_freemem = 1, pr_loadavg = (0, 0, 0), pr_cpus = 4, pr_uptime = 10\<rparr>,
          in_memory = mem, in_metrics = [], in_clk = (\<lambda>_. (0, 0, 0)), in_resolve = (\<lambda>_. 0), in_num = (\<lambda>_. [])\<rparr>)"

lemma sample_inputs_quiet: "quiet (sample_inputs db)"
proof -
  have half: "is_f64 (1 / 2)"
    unfolding is_f64_def by (rule exI [of _ 1], rule exI [of _ "- 1"]) (simp add: power_int_minus)
  have "heap_ratio \<lparr>mu_heapUsed = 40, mu_heapTotal = 100, mu_rss = 120\<rparr> \<le> 1 / 2"
    using f64_le_is_f64 [OF half, of "40 / 100"] by (simp add: heap_ratio_def fdiv_def)
  then have "heap_percent \<lparr>mu_heapUsed = 40, mu_heapTotal = 100, mu_rss = 120\<rparr> \<le> 50"
    using math_round_mono [of "fmul (heap_ratio \<lparr>mu_heapUsed = 40, mu_heapTotal = 100, mu_rss = 120\<rparr>) 100" "of_int 50"]
      f64_le_is_f64 [of "of_int 50" "heap_ratio \<lparr>mu_heapUsed = 40, mu_heapTotal = 100, mu_rss = 120\<rparr> * 100"]
      is_f64_of_int [of 50] math_round_of_int [of 50]
    by (simp add: heap_percent_def fmul_def)
  then show ?thesis
    by (simp add: quiet_def sample_inputs_def Let_def error_rate_fires_def latency_fires_def memory_fires_def
        rebalancing_fires_def getSummary_def new_performance_def getMetricValue_def)
qed

lemma outage_alerts_unresolved_witness:
  "let up = sample_inputs \<lparr>isInitialized = True, ds_driver = ''postgres'', ds_failure = None\<rparr>;
       down = sample_inputs \<lparr>isInitialized = True, ds_driver = ''postgres'', ds_failure = Some ''refused''\<rparr>;
       s = alert_run (map Evaluate ([down, down, down] @ [up, up]))
   in state_of s ''database-disconnected'' = Some StOk \<and> unresolved ''database-disconnected'' s = 3 - 1"
proof -
  have "database_fires (sample_inputs db) \<longleftrightarrow> ch_status (checkDatabase (Some db)) = Down" for db
    by (simp add: database_fires_def report_db_status_def sample_inputs_def Let_def getFullHealth_database)
  then show ?thesis
    unfolding Let_def
    using outage_alerts_unresolved [of
        "replicate 3 (sample_inputs \<lparr>isInitialized = True, ds_driver = ''postgres'', ds_failure = Some ''refused''\<rparr>)"
        "replicate 2 (sample_inputs \<lparr>isInitialized = True, ds_driver = ''postgres'', ds_failure = None\<rparr>)"]
    by (simp add: sample_inputs_quiet checkDatabase_status maxAlertHistory_def Let_def numeral_eq_Suc)
qed

end
