(* ===== verification/Observability.thy ===== *)
theory Observability
  imports JS_Text
begin

text \<open>
  The log buffer (src/monitoring/log-aggregation.service.ts), the structured logger that feeds it
  (logger.service.ts) and the trace buffer (tracing.service.ts).

  Both services interpret \<open>bounded_log\<close>: entries go to the front and the buffer never outgrows its
  capacity. Timestamps are milliseconds; random ids and clock readings are arguments; the extra keys
  a log entry may carry are left out.
\<close>

section \<open>Logs\<close>

datatype log_level = LInfo | LWarn | LError | LDebug

record log_entry =
  le_timestamp :: int
  le_level :: log_level
  le_message :: string
  le_context :: "string option"
  le_traceId :: "string option"
  le_spanId :: "string option"
  le_route :: "string option"
  le_statusCode :: "int option"
  le_durationMs :: "int option"
  le_stack :: "string option"

definition maxLogBuffer :: nat where "maxLogBuffer = 5000"

definition addLog :: "log_entry \<Rightarrow> log_entry list \<Rightarrow> log_entry list" where
  "addLog entry logBuffer =
     (let ys = entry # logBuffer in if maxLogBuffer < length ys then butlast ys else ys)"

record log_query =
  lq_level :: "log_level option"
  lq_context :: "string option"
  lq_traceId :: "string option"
  lq_search :: "string option"
  lq_limit :: "int option"
  lq_startTime :: "int option"
  lq_endTime :: "int option"

text \<open>A filter string counts only when it is not empty.\<close>

definition holds_lower :: "string option \<Rightarrow> string \<Rightarrow> bool" where
  "holds_lower x needle =
     (case x of Some s \<Rightarrow> s \<noteq> [] \<and> str_includes (to_lower s) needle | None \<Rightarrow> False)"

definition queryLogs :: "log_query \<Rightarrow> log_entry list \<Rightarrow> int \<times> log_entry list" where
  "queryLogs f logBuffer =
     (let r1 = (case lq_level f of Some v \<Rightarrow> filter (\<lambda>l. le_level l = v) logBuffer | None \<Rightarrow> logBuffer);
          r2 = (if given (lq_context f)
                then filter (\<lambda>l. holds_lower (le_context l) (to_lower (the (lq_context f)))) r1 else r1);
          r3 = (if given (lq_traceId f) then filter (\<lambda>l. le_traceId l = lq_traceId f) r2 else r2);
          r4 = (if given (lq_search f)
                then (let needle = to_lower (the (lq_search f))
                      in filter (\<lambda>l. str_includes (to_lower (le_message l)) needle \<or>
                           holds_lower (le_context l) needle \<or> holds_lower (le_stack l) needle) r3)
                else r3);
          r5 = (case lq_startTime f of Some t \<Rightarrow> filter (\<lambda>l. t \<le> le_timestamp l) r4 | None \<Rightarrow> r4);
          r6 = (case lq_endTime f of Some t \<Rightarrow> filter (\<lambda>l. le_timestamp l \<le> t) r5 | None \<Rightarrow> r5);
          limit = (case lq_limit f of Some n \<Rightarrow> if 0 < n then n else 100 | None \<Rightarrow> 100)
      in (int (length r6), take (nat limit) r6))"

text \<open>A Loki stream: its labels, the timestamp in nanoseconds and the entry as JSON text.\<close>

record loki_stream =
  lk_level :: log_level
  lk_context :: string
  lk_traceId :: string
  lk_timestamp :: string
  lk_line :: string

definition non_empty_or :: "string option \<Rightarrow> string \<Rightarrow> string" where
  "non_empty_or x d = (case x of Some s \<Rightarrow> if s \<noteq> [] then s else d | None \<Rightarrow> d)"

definition getLokiFormattedLogs :: "(log_entry \<Rightarrow> string) \<Rightarrow> int \<Rightarrow> log_entry list \<Rightarrow> loki_stream list" where
  "getLokiFormattedLogs json limit logBuffer =
     map (\<lambda>l. \<lparr>lk_level = le_level l, lk_context = non_empty_or (le_context l) ''Application'',
           lk_traceId = non_empty_or (le_traceId l) ''none'',
           lk_timestamp = string_of_int (le_timestamp l) @ ''000000'', lk_line = json l\<rparr>)
       (slice_to limit logBuffer)"

section \<open>The structured logger\<close>

record log_meta =
  m_traceId :: "string option"
  m_spanId :: "string option"
  m_route :: "string option"
  m_statusCode :: "int option"
  m_durationMs :: "int option"
  m_stack :: "string option"

definition no_meta :: log_meta where
  "no_meta = \<lparr>m_traceId = None, m_spanId = None, m_route = None, m_statusCode = None,
     m_durationMs = None, m_stack = None\<rparr>"

definition writeLog ::
  "int \<Rightarrow> log_level \<Rightarrow> string \<Rightarrow> string option \<Rightarrow> log_meta \<Rightarrow> log_entry list \<Rightarrow> log_entry list" where
  "writeLog now level message ctx meta logBuffer =
     addLog \<lparr>le_timestamp = now, le_level = level, le_message = message,
        le_context = Some (non_empty_or ctx ''Application''), le_traceId = m_traceId meta,
        le_spanId = m_spanId meta, le_route = m_route meta, le_statusCode = m_statusCode meta,
        le_durationMs = m_durationMs meta, le_stack = m_stack meta\<rparr> logBuffer"

definition log_info :: "int \<Rightarrow> string \<Rightarrow> string option \<Rightarrow> log_meta \<Rightarrow> log_entry list \<Rightarrow> log_entry list" where
  "log_info now message ctx meta = writeLog now LInfo message ctx meta"

definition log_warn :: "int \<Rightarrow> string \<Rightarrow> string option \<Rightarrow> log_meta \<Rightarrow> log_entry list \<Rightarrow> log_entry list" where
  "log_warn now message ctx meta = writeLog now LWarn message ctx meta"

definition log_debug :: "int \<Rightarrow> string \<Rightarrow> string option \<Rightarrow> log_meta \<Rightarrow> log_entry list \<Rightarrow> log_entry list" where
  "log_debug now message ctx meta = writeLog now LDebug message ctx meta"

definition log_verbose :: "int \<Rightarrow> string \<Rightarrow> string option \<Rightarrow> log_meta \<Rightarrow> log_entry list \<Rightarrow> log_entry list" where
  "log_verbose now message ctx meta = writeLog now LDebug message ctx meta"

text \<open>The third argument of \<open>error\<close> is a context or a metadata object.\<close>

definition log_error ::
  "int \<Rightarrow> string \<Rightarrow> string option \<Rightarrow> string option + log_meta \<Rightarrow> log_meta \<Rightarrow> log_entry list \<Rightarrow> log_entry list" where
  "log_error now message traceOrContext contextOrMeta meta logBuffer =
     (case contextOrMeta of
        Inr obj \<Rightarrow> writeLog now LError message traceOrContext obj logBuffer
      | Inl ctx \<Rightarrow> writeLog now LError message ctx (meta\<lparr>m_stack := traceOrContext\<rparr>) logBuffer)"

section \<open>Traces\<close>

datatype span_kind = SERVER | CLIENT | INTERNAL

datatype span_status = OK | ERROR | UNSET

record trace_span =
  ts_traceId :: string
  ts_spanId :: string
  ts_parentSpanId :: "string option"
  ts_name :: string
  ts_kind :: span_kind
  startTimeMs :: int
  endTimeMs :: "int option"
  durationMs :: "int option"
  ts_status :: span_status
  attributes :: "json jsmap"
  events :: "(string \<times> int) list"

definition maxSpanBuffer :: nat where "maxSpanBuffer = 1000"

definition parseTraceparent :: "string option \<Rightarrow> (string \<times> string) option" where
  "parseTraceparent header =
     (case header of
        None \<Rightarrow> None
      | Some h \<Rightarrow>
          if h = [] then None
          else (case split_on CHR ''-'' (js_trim h) of
              version # trace # parent # _ # _ \<Rightarrow>
                if version = ''00'' \<and> length trace = 32 \<and> length parent = 16 then Some (trace, parent) else None
            | _ \<Rightarrow> None))"

definition formatTraceparent :: "string \<Rightarrow> string \<Rightarrow> string" where
  "formatTraceparent traceId spanId = ''00-'' @ traceId @ ''-'' @ spanId @ ''-01''"

text \<open>\<open>new_trace\<close> and \<open>new_span\<close> are the random ids.\<close>

definition startSpan ::
  "string \<Rightarrow> string \<Rightarrow> int \<Rightarrow> string \<Rightarrow> string option \<Rightarrow> string option \<Rightarrow> span_kind option \<Rightarrow> json jsmap \<Rightarrow> trace_span" where
  "startSpan new_trace new_span now name traceId parentSpanId kind attrs =
     \<lparr>ts_traceId = non_empty_or traceId new_trace, ts_spanId = new_span, ts_parentSpanId = parentSpanId,
      ts_name = name, ts_kind = or_else kind SERVER, startTimeMs = now, endTimeMs = None, durationMs = None,
      ts_status = UNSET, attributes = attrs, events = []\<rparr>"

definition recordSpan :: "trace_span \<Rightarrow> trace_span list \<Rightarrow> trace_span list" where
  "recordSpan sp spansBuffer =
     (let ys = sp # spansBuffer in if maxSpanBuffer < length ys then butlast ys else ys)"

definition finishSpan ::
  "int \<Rightarrow> span_status \<Rightarrow> json jsmap \<Rightarrow> trace_span \<Rightarrow> trace_span list \<Rightarrow> trace_span \<times> trace_span list" where
  "finishSpan now status extra sp spansBuffer =
     (let sp' = sp\<lparr>endTimeMs := Some now, durationMs := Some (now - startTimeMs sp), ts_status := status,
            attributes := foldl (\<lambda>m (k, v). map_set k v m) (attributes sp) extra\<rparr>
      in (sp', recordSpan sp' spansBuffer))"

definition addSpanEvent :: "int \<Rightarrow> string \<Rightarrow> trace_span \<Rightarrow> trace_span" where
  "addSpanEvent now name sp = sp\<lparr>events := events sp @ [(name, now)]\<rparr>"

definition setSpanAttribute :: "string \<Rightarrow> json \<Rightarrow> trace_span \<Rightarrow> trace_span" where
  "setSpanAttribute key v sp = sp\<lparr>attributes := map_set key v (attributes sp)\<rparr>"

definition getRecentTraces :: "int \<Rightarrow> string option \<Rightarrow> trace_span list \<Rightarrow> trace_span list" where
  "getRecentTraces limit traceId spansBuffer =
     slice_to limit (if given traceId then filter (\<lambda>s. Some (ts_traceId s) = traceId) spansBuffer else spansBuffer)"

text \<open>A span in the OpenTelemetry format. An attribute value is a double when it is a number and text
  otherwise; \<open>text\<close> is \<open>String(v)\<close>.\<close>

record otel_span =
  ot_traceId :: string
  ot_spanId :: string
  ot_parentSpanId :: "string option"
  ot_name :: string
  ot_kind :: span_kind
  ot_start :: string
  ot_end :: string
  ot_attributes :: "(string \<times> (rat + string)) list"
  ot_status :: span_status

definition getOpenTelemetryFormattedTraces ::
  "(json \<Rightarrow> string) \<Rightarrow> int \<Rightarrow> trace_span list \<Rightarrow> otel_span list" where
  "getOpenTelemetryFormattedTraces text limit spansBuffer =
     map (\<lambda>s. \<lparr>ot_traceId = ts_traceId s, ot_spanId = ts_spanId s, ot_parentSpanId = ts_parentSpanId s,
           ot_name = ts_name s, ot_kind = ts_kind s, ot_start = string_of_int (startTimeMs s) @ ''000000'',
           ot_end = string_of_int (case endTimeMs s of Some t \<Rightarrow> if t \<noteq> 0 then t else startTimeMs s
             | None \<Rightarrow> startTimeMs s) @ ''000000'',
           ot_attributes = map (\<lambda>(k, v). (k, case v of JNum n \<Rightarrow> Inl n | _ \<Rightarrow> Inr (text v))) (attributes s),
           ot_status = ts_status s\<rparr>)
       (getRecentTraces limit None spansBuffer)"

section \<open>Bounded buffers\<close>

interpretation logs: bounded_log "\<lambda>b. b" addLog "\<lambda>e _. e" maxLogBuffer
  by unfold_locales (simp add: addLog_def unshift_bounded_def)

interpretation spans: bounded_log "\<lambda>b. b" recordSpan "\<lambda>e _. e" maxSpanBuffer
  by unfold_locales (simp add: recordSpan_def unshift_bounded_def)

lemma log_run_bounded: "length (foldl (\<lambda>b e. addLog e b) [] es) \<le> maxLogBuffer"
  by (rule logs.length_run) simp

lemma addLog_newest:
  "length b \<le> maxLogBuffer \<Longrightarrow> addLog e b = take maxLogBuffer (e # b)"
  by (rule logs.add_take)

text \<open>The chained filters select the entries that meet every given condition.\<close>

definition selected :: "log_query \<Rightarrow> log_entry \<Rightarrow> bool" where
  "selected f l \<longleftrightarrow>
     (lq_level f \<noteq> None \<longrightarrow> Some (le_level l) = lq_level f) \<and>
     (given (lq_context f) \<longrightarrow> holds_lower (le_context l) (to_lower (the (lq_context f)))) \<and>
     (given (lq_traceId f) \<longrightarrow> le_traceId l = lq_traceId f) \<and>
     (given (lq_search f) \<longrightarrow>
        (let needle = to_lower (the (lq_search f))
         in str_includes (to_lower (le_message l)) needle \<or> holds_lower (le_context l) needle \<or>
            holds_lower (le_stack l) needle)) \<and>
     (case lq_startTime f of Some t \<Rightarrow> t \<le> le_timestamp l | None \<Rightarrow> True) \<and>
     (case lq_endTime f of Some t \<Rightarrow> le_timestamp l \<le> t | None \<Rightarrow> True)"

lemma filter_given:
  "(case x of Some v \<Rightarrow> filter (P v) xs | None \<Rightarrow> xs) =
   filter (\<lambda>l. case x of Some v \<Rightarrow> P v l | None \<Rightarrow> True) xs"
  "(if c then filter Q xs else xs) = filter (\<lambda>l. c \<longrightarrow> Q l) xs"
  by (simp_all split: option.split)

lemma queryLogs_selected:
  "queryLogs f b = (let r = filter (selected f) b
     in (int (length r), take (nat (case lq_limit f of Some n \<Rightarrow> if 0 < n then n else 100 | None \<Rightarrow> 100)) r))"
proof -
  have level: "(case lq_level f of Some v \<Rightarrow> le_level l = v | None \<Rightarrow> True) \<longleftrightarrow>
      (lq_level f \<noteq> None \<longrightarrow> Some (le_level l) = lq_level f)" for l
    by (simp split: option.split)
  show ?thesis
    unfolding queryLogs_def Let_def filter_given filter_filter level
    by (simp add: selected_def [abs_def] Let_def conj_ac)
qed

text \<open>Trace context. The header written for a span is read back as the same trace and span by the next
  service, whatever white space surrounds it.\<close>

theorem traceparent_roundtrip:
  assumes "length t = 32" "length s = 16" "CHR ''-'' \<notin> set t" "CHR ''-'' \<notin> set s"
    "\<forall>c \<in> set a. is_js_space c" "\<forall>c \<in> set b. is_js_space c"
  shows "parseTraceparent (Some (a @ formatTraceparent t s @ b)) = Some (t, s)"
proof -
  have dash: "\<not> is_js_space CHR ''-''" by (simp add: is_js_space_def)
  have "js_trim (a @ formatTraceparent t s @ b) = formatTraceparent t s"
    using assms(5,6) by (simp add: js_trim_def formatTraceparent_def dropWhile_append is_js_space_def dropWhile_eq_Nil_conv)
  moreover have "split_on CHR ''-'' (formatTraceparent t s) = [''00'', t, s, ''01'']"
    using assms(3,4) by (simp add: formatTraceparent_def split_on_append [of _ t] split_on_append [of _ s])
  moreover have "a @ formatTraceparent t s @ b \<noteq> []" by (simp add: formatTraceparent_def)
  ultimately show ?thesis using assms(1,2) by (simp add: parseTraceparent_def)
qed

lemma traceparent_roundtrip_witness:
  "parseTraceparent (Some (''  '' @ formatTraceparent ''4bf92f3577b34da6a3ce929d0e0e4736'' ''00f067aa0ba902b7'' @ [])) =
     Some (''4bf92f3577b34da6a3ce929d0e0e4736'', ''00f067aa0ba902b7'')"
  by (rule traceparent_roundtrip) (simp_all add: is_js_space_def)

end
