(* ===== verification/Request_Monitor.thy ===== *)
theory Request_Monitor
  imports Metrics Performance Observability
begin

text \<open>
  The metrics interceptor (src/monitoring/interceptors/metrics.interceptor.ts): what the monitoring
  services record when a request arrives and when it completes.

  The four services are one state; requests overlap, so the requests that have arrived and not yet
  completed are kept in a list and complete in any order. Clock readings and random ids are arguments.
  The theorems account for every request under any interleaving.
\<close>

section \<open>State\<close>

record monitoring =
  mo_metrics :: metrics
  mo_spans :: "trace_span list"
  mo_perf :: performance_service
  mo_logs :: "log_entry list"

record http_request =
  rq_method :: "string option"
  rq_route :: "string option"
  rq_url :: "string option"
  rq_traceparent :: "string option"
  rq_xtrace :: "string option"
  rq_userAgent :: "string option"

text \<open>What the closure of \<open>intercept\<close> keeps until the handler returns.\<close>

record open_request =
  or_span :: trace_span
  or_method :: string
  or_path :: string
  or_startTime :: int

definition request_path :: "http_request \<Rightarrow> string" where
  "request_path r = non_empty_or (rq_route r) (non_empty_or (rq_url r) ''/'')"

definition text_json :: "string option \<Rightarrow> json" where
  "text_json x = (case x of Some s \<Rightarrow> JStr s | None \<Rightarrow> JNull)"

definition route_labels :: "open_request \<Rightarrow> string jsmap" where
  "route_labels r = [(''method'', or_method r), (''path'', or_path r)]"

definition status_labels :: "open_request \<Rightarrow> int \<Rightarrow> string jsmap" where
  "status_labels r status =
     [(''method'', or_method r), (''path'', or_path r), (''status'', string_of_int status)]"

section \<open>Handlers\<close>

text \<open>The part of \<open>intercept\<close> before \<open>next.handle()\<close>: the response headers, what is kept, and the
  new state. \<open>t0\<close> and \<open>t1\<close> are the clock when the span starts and when the timing starts.\<close>

definition begin_request ::
  "string \<Rightarrow> string \<Rightarrow> int \<Rightarrow> int \<Rightarrow> http_request \<Rightarrow> monitoring \<Rightarrow>
   string jsmap \<times> open_request \<times> monitoring" where
  "begin_request new_trace new_span t0 t1 request m =
     (let path = request_path request;
          meth = non_empty_or (rq_method request) ''GET'';
          traceparentHeader = (if given (rq_traceparent request) then rq_traceparent request else rq_xtrace request);
          incoming = parseTraceparent traceparentHeader;
          sp = startSpan new_trace new_span t0 (meth @ '' '' @ path) (map_option fst incoming)
            (map_option snd incoming) (Some SERVER)
            [(''http.method'', JStr meth), (''http.url'', text_json (rq_url request)), (''http.target'', JStr path),
             (''user_agent'', JStr (non_empty_or (rq_userAgent request) ''unknown''))];
          opened = \<lparr>or_span = sp, or_method = meth, or_path = path, or_startTime = t1\<rparr>
      in ([(''x-trace-id'', ts_traceId sp), (''x-span-id'', ts_spanId sp),
           (''traceparent'', formatTraceparent (ts_traceId sp) (ts_spanId sp))],
          opened,
          m\<lparr>mo_metrics := setGauge ''http_requests_in_flight'' 1 (route_labels opened) (mo_metrics m),
            mo_perf := incrementActiveRequests (mo_perf m)\<rparr>))"

text \<open>The clock readings of a completion, in the order taken: the duration, the span's end, the
  statistics and the log line.\<close>

type_synonym completion_clock = "int \<times> int \<times> int \<times> int"

definition log_meta_of :: "open_request \<Rightarrow> int \<Rightarrow> int \<Rightarrow> log_meta" where
  "log_meta_of r status duration = no_meta\<lparr>m_traceId := Some (ts_traceId (or_span r)),
     m_spanId := Some (ts_spanId (or_span r)), m_route := Some (or_path r), m_statusCode := Some status,
     m_durationMs := Some duration\<rparr>"

definition http_line :: "open_request \<Rightarrow> int \<Rightarrow> string" where
  "http_line r status = ''HTTP '' @ or_method r @ '' '' @ or_path r @ '' '' @ string_of_int status"

text \<open>The \<open>tap\<close> handler. \<open>responseStatus\<close> is 0 when the response has none.\<close>

definition complete_ok :: "completion_clock \<Rightarrow> int \<Rightarrow> open_request \<Rightarrow> monitoring \<Rightarrow> monitoring" where
  "complete_ok clk responseStatus r m =
     (let (td, ts, tp, tl) = clk;
          duration = td - or_startTime r;
          seconds = fdiv (of_int duration) 1000;
          status = (if responseStatus \<noteq> 0 then responseStatus else 200);
          (sp, spans) = finishSpan ts OK [(''http.status_code'', JNum (of_int status))] (or_span r) (mo_spans m);
          m1 = incrementCounter ''http_requests_total'' (status_labels r status) 1 (mo_metrics m);
          m2 = recordObserveHistogram ''http_request_duration_seconds'' seconds (route_labels r) m1;
          m3 = setGauge ''http_requests_in_flight'' 0 (route_labels r) m2;
          p1 = decrementActiveRequests (mo_perf m);
          m4 = (if 400 \<le> status then incrementCounter ''http_errors_total'' (status_labels r status) 1 m3 else m3);
          p2 = recordRequest duration status tp p1
      in \<lparr>mo_metrics = m4, mo_spans = spans, mo_perf = p2,
          mo_logs = log_info tl (http_line r status @ '' - '' @ string_of_int duration @ ''ms'') (Some ''HTTP'')
            (log_meta_of r status duration) (mo_logs m)\<rparr>)"

text \<open>What a handler can throw: the status of an \<open>HttpException\<close>, the name, message and stack.\<close>

record thrown_error =
  te_status :: "int option"
  te_name :: "string option"
  te_message :: "string option"
  te_stack :: "string option"

text \<open>The \<open>catchError\<close> handler. A missing message prints as the word \<open>undefined\<close> in the log line.\<close>

definition complete_error :: "completion_clock \<Rightarrow> thrown_error \<Rightarrow> open_request \<Rightarrow> monitoring \<Rightarrow> monitoring" where
  "complete_error clk e r m =
     (let (td, ts, tp, tl) = clk;
          duration = td - or_startTime r;
          seconds = fdiv (of_int duration) 1000;
          status = or_else (te_status e) 500;
          (sp, spans) = finishSpan ts ERROR
            [(''http.status_code'', JNum (of_int status)), (''error.name'', JStr (non_empty_or (te_name e) ''Error'')),
             (''error.message'', JStr (non_empty_or (te_message e) ''Request failed''))] (or_span r) (mo_spans m);
          m1 = incrementCounter ''http_requests_total'' (status_labels r status) 1 (mo_metrics m);
          m2 = incrementCounter ''http_errors_total'' (status_labels r status) 1 m1;
          m3 = recordObserveHistogram ''http_request_duration_seconds'' seconds (route_labels r) m2;
          m4 = setGauge ''http_requests_in_flight'' 0 (route_labels r) m3;
          p1 = decrementActiveRequests (mo_perf m);
          p2 = recordRequest duration status tp p1
      in \<lparr>mo_metrics = m4, mo_spans = spans, mo_perf = p2,
          mo_logs = log_error tl (http_line r status @ '' failed: '' @ or_else (te_message e) ''undefined'')
            (te_stack e) (Inl (Some ''HTTP'')) (log_meta_of r status duration) (mo_logs m)\<rparr>)"

section \<open>What the other metrics see\<close>

lemma map_get_increment: "name' \<noteq> name \<Longrightarrow> map_get (incrementCounter name ls a ms) name' = map_get ms name'"
  by (simp add: incrementCounter_def split: option.split)

lemma map_get_gauge: "name' \<noteq> name \<Longrightarrow> map_get (setGauge name x ls ms) name' = map_get ms name'"
  by (simp add: setGauge_def split: option.split)

lemma map_get_histogram:
  "name' \<noteq> name \<Longrightarrow> name' \<noteq> name @ ''_count'' \<Longrightarrow>
   map_get (recordObserveHistogram name x ls ms) name' = map_get ms name'"
  by (auto simp: recordObserveHistogram_def Let_def map_get_increment split: option.split)

definition registered :: "string \<Rightarrow> metrics \<Rightarrow> bool" where
  "registered k ms \<longleftrightarrow> map_get ms k \<noteq> None"

lemma registered_writes [preserved]:
  "registered k ms \<Longrightarrow> registered k (incrementCounter name ls a ms)"
  "registered k ms \<Longrightarrow> registered k (setGauge name x ls ms)"
  "registered k ms \<Longrightarrow> registered k (recordObserveHistogram name x ls ms)"
  by (auto simp: registered_def incrementCounter_def setGauge_def recordObserveHistogram_def Let_def
      split: option.split)

lemma get_same_metric:
  "map_get ms' name = map_get ms name \<Longrightarrow> getMetricValue name ls ms' = getMetricValue name ls ms"
  by (simp add: getMetricValue_def)

lemma wf_request_labels [simp]: "wf_map (route_labels r)" "wf_map (status_labels r st)"
  by (simp_all add: route_labels_def status_labels_def)

lemma status_labels_eq:
  "map_of (status_labels r st) = map_of (status_labels r' st') \<longleftrightarrow> status_labels r st = status_labels r' st'"
proof
  assume eq: "map_of (status_labels r st) = map_of (status_labels r' st')"
  have "map_of (status_labels r st) k = map_of (status_labels r' st') k" for k by (simp add: eq)
  from this [of "''method''"] this [of "''path''"] this [of "''status''"]
  show "status_labels r st = status_labels r' st'" by (simp add: status_labels_def)
qed simp

section \<open>Overlapping requests\<close>

datatype http_event =
    Arrive string string int int http_request
  | Succeed nat completion_clock int
  | Fail nat completion_clock thrown_error

text \<open>A completed request: what was kept of it, the status recorded, and whether the handler threw.\<close>

type_synonym completed = "open_request \<times> int \<times> bool"

record traffic =
  tf_mon :: monitoring
  tf_open :: "open_request list"
  tf_done :: "completed list"

definition remove_nth :: "nat \<Rightarrow> 'a list \<Rightarrow> 'a list" where
  "remove_nth k xs = take k xs @ drop (Suc k) xs"

fun http_step :: "http_event \<Rightarrow> traffic \<Rightarrow> traffic" where
  "http_step (Arrive nt ns t0 t1 rq) s =
     (let (_, opened, m) = begin_request nt ns t0 t1 rq (tf_mon s)
      in s\<lparr>tf_mon := m, tf_open := tf_open s @ [opened]\<rparr>)"
| "http_step (Succeed k clk st) s =
     (if k < length (tf_open s)
      then \<lparr>tf_mon = complete_ok clk st (tf_open s ! k) (tf_mon s), tf_open = remove_nth k (tf_open s),
        tf_done = tf_done s @ [(tf_open s ! k, if st \<noteq> 0 then st else 200, False)]\<rparr>
      else s)"
| "http_step (Fail k clk e) s =
     (if k < length (tf_open s)
      then \<lparr>tf_mon = complete_error clk e (tf_open s ! k) (tf_mon s), tf_open = remove_nth k (tf_open s),
        tf_done = tf_done s @ [(tf_open s ! k, or_else (te_status e) 500, True)]\<rparr>
      else s)"

definition new_traffic :: traffic where
  "new_traffic = \<lparr>tf_mon = \<lparr>mo_metrics = initializeDefaultMetrics [], mo_spans = [], mo_perf = new_performance,
     mo_logs = []\<rparr>, tf_open = [], tf_done = []\<rparr>"

definition traffic_run :: "http_event list \<Rightarrow> traffic" where
  "traffic_run es = foldl (\<lambda>s e. http_step e s) new_traffic es"

definition served :: "(completed \<Rightarrow> bool) \<Rightarrow> open_request \<Rightarrow> int \<Rightarrow> traffic \<Rightarrow> nat" where
  "served P r st s =
     length (filter (\<lambda>c. P c \<and> status_labels (fst c) (fst (snd c)) = status_labels r st) (tf_done s))"

definition is_failure :: "completed \<Rightarrow> bool" where
  "is_failure c \<longleftrightarrow> snd (snd c) \<or> 400 \<le> fst (snd c)"

definition traffic_ok :: "traffic \<Rightarrow> bool" where
  "traffic_ok s \<longleftrightarrow>
     metrics_ok (mo_metrics (tf_mon s)) \<and>
     registered ''http_requests_total'' (mo_metrics (tf_mon s)) \<and>
     registered ''http_errors_total'' (mo_metrics (tf_mon s)) \<and>
     registered ''http_requests_in_flight'' (mo_metrics (tf_mon s)) \<and>
     activeRequestsCount (mo_perf (tf_mon s)) = int (length (tf_open s)) \<and>
     totalRequestsCount (mo_perf (tf_mon s)) = int (length (tf_done s)) \<and>
     errorRequestsCount (mo_perf (tf_mon s)) = int (length (filter (\<lambda>c. 400 \<le> fst (snd c)) (tf_done s)))"

definition counters_ok :: "traffic \<Rightarrow> bool" where
  "counters_ok s \<longleftrightarrow> (\<forall>r st.
     getMetricValue ''http_requests_total'' (status_labels r st) (mo_metrics (tf_mon s)) =
       of_nat (served (\<lambda>_. True) r st s) \<and>
     getMetricValue ''http_errors_total'' (status_labels r st) (mo_metrics (tf_mon s)) =
       of_nat (served is_failure r st s))"

lemma length_remove_nth: "k < length xs \<Longrightarrow> length (remove_nth k xs) = length xs - 1"
  by (simp add: remove_nth_def)

lemma perf_simps [simp]:
  "activeRequestsCount (incrementActiveRequests p) = activeRequestsCount p + 1"
  "totalRequestsCount (incrementActiveRequests p) = totalRequestsCount p"
  "errorRequestsCount (incrementActiveRequests p) = errorRequestsCount p"
  "activeRequestsCount (decrementActiveRequests p) = max 0 (activeRequestsCount p - 1)"
  "totalRequestsCount (decrementActiveRequests p) = totalRequestsCount p"
  "errorRequestsCount (decrementActiveRequests p) = errorRequestsCount p"
  "activeRequestsCount (recordRequest d st now p) = activeRequestsCount p"
  "totalRequestsCount (recordRequest d st now p) = totalRequestsCount p + 1"
  "errorRequestsCount (recordRequest d st now p) =
     (if 400 \<le> st then errorRequestsCount p + 1 else errorRequestsCount p)"
  by (simp_all add: incrementActiveRequests_def decrementActiveRequests_def recordRequest_def Let_def)

lemma traffic_ok_step [preserved]: "traffic_ok s \<Longrightarrow> traffic_ok (http_step e s)"
  by (cases e)
    (auto simp: traffic_ok_def begin_request_def complete_ok_def complete_error_def Let_def preserved
      length_remove_nth finishSpan_def split: prod.split)

lemma get_increment_status:
  assumes "metrics_ok ms" "registered name ms"
  shows "getMetricValue name' (status_labels r' st') (incrementCounter name (status_labels r st) 1 ms) =
    (if name' = name \<and> status_labels r st = status_labels r' st'
     then fadd (getMetricValue name (status_labels r st) ms) 1
     else getMetricValue name' (status_labels r' st') ms)"
  using get_increment [of ms "status_labels r st" "status_labels r' st'" 1 name name'] assms
    is_f64_of_int [of 1] by (auto simp: registered_def status_labels_eq)

lemma get_other:
  "name' \<noteq> name \<Longrightarrow> getMetricValue name' ls' (setGauge name x ls ms) = getMetricValue name' ls' ms"
  "name' \<noteq> name \<Longrightarrow> name' \<noteq> name @ ''_count'' \<Longrightarrow>
   getMetricValue name' ls' (recordObserveHistogram name x ls ms) = getMetricValue name' ls' ms"
  by (rule get_same_metric, rule map_get_gauge map_get_histogram, assumption+)+

lemma fadd_1_exact: "n < 2 ^ 53 \<Longrightarrow> fadd (of_nat n) 1 = of_nat (Suc n)"
  using f64_of_int [of "int (Suc n)"] by (simp add: fadd_def add.commute)

lemma served_bound: "served P r st s \<le> length (tf_done s)"
  by (simp add: served_def)

lemma served_add:
  "served P r' st' \<lparr>tf_mon = m, tf_open = os, tf_done = tf_done s @ [(r, st, f)]\<rparr> =
     (if P (r, st, f) \<and> status_labels r st = status_labels r' st' then Suc (served P r' st' s)
      else served P r' st' s)"
  by (simp add: served_def)

lemma counters_ok_step:
  assumes "traffic_ok s" "counters_ok s" "length (tf_done s) < 2 ^ 53"
  shows "counters_ok (http_step e s)"
proof -
  have *: "fadd (of_nat (served P r st s)) 1 = of_nat (Suc (served P r st s))" for P r st
    using served_bound [of P r st s] assms(3) by (intro fadd_1_exact) linarith
  note reg = assms(1) [unfolded traffic_ok_def]
  show ?thesis
  proof (cases e)
    case (Arrive nt ns t0 t1 rq)
    then show ?thesis using assms(2) by (simp add: counters_ok_def begin_request_def Let_def get_other served_def)
  next
    case (Succeed k clk st)
    show ?thesis
    proof (cases "k < length (tf_open s)")
      case True
      obtain a b c d where "clk = (a, b, c, d)" by (cases clk)
      then show ?thesis using assms(2) reg * True unfolding Succeed counters_ok_def
        by (auto simp: complete_ok_def Let_def get_other get_increment_status preserved finishSpan_def
            served_add is_failure_def split: prod.split)
    qed (use assms(2) Succeed in simp)
  next
    case (Fail k clk err)
    show ?thesis
    proof (cases "k < length (tf_open s)")
      case True
      obtain a b c d where "clk = (a, b, c, d)" by (cases clk)
      then show ?thesis using assms(2) reg * True unfolding Fail counters_ok_def
        by (auto simp: complete_error_def Let_def get_other get_increment_status preserved finishSpan_def
            served_add is_failure_def split: prod.split)
    qed (use assms(2) Fail in simp)
  qed
qed

lemma registrations_facts:
  assumes "\<forall>m \<in> set mets. mvalues m = []" "\<forall>k m. map_get ms k = Some m \<longrightarrow> mvalues m = []"
  defines "ms' \<equiv> foldl (\<lambda>ms m. registerMetric m ms) ms mets"
  shows "(\<forall>k m. map_get ms' k = Some m \<longrightarrow> mvalues m = []) \<and>
    (\<forall>k. registered k ms \<or> k \<in> mname ` set mets \<longrightarrow> registered k ms')"
  using assms(1,2) unfolding ms'_def
proof (induction mets arbitrary: ms)
  case (Cons m mets)
  have "\<forall>k m'. map_get (registerMetric m ms) k = Some m' \<longrightarrow> mvalues m' = []"
    using Cons.prems by (auto simp: registerMetric_def)
  from Cons.IH [OF _ this] Cons.prems(1) show ?case
    by (auto simp: registered_def registerMetric_def)
qed (simp add: registered_def)

lemma traffic_new: "traffic_ok new_traffic" "counters_ok new_traffic"
proof -
  have none: "\<forall>m \<in> set default_metrics. mvalues m = []"
    by (simp add: default_metrics_def new_metric_def)
  note facts = registrations_facts [OF none, of "[]", simplified, folded initializeDefaultMetrics_def]
  have v: "map_get (initializeDefaultMetrics []) k = Some m \<Longrightarrow> mvalues m = []" for k m
    using facts by blast
  have "k \<in> mname ` set default_metrics \<Longrightarrow> registered k (initializeDefaultMetrics [])" for k
    using facts by blast
  moreover have "metrics_ok (initializeDefaultMetrics [])"
    by (rule metrics_ok_initialize) (simp add: metrics_ok_def)
  ultimately show "traffic_ok new_traffic"
    unfolding traffic_ok_def new_traffic_def new_performance_def
    by (simp add: default_metrics_def new_metric_def)
  show "counters_ok new_traffic"
    using v by (auto simp: counters_ok_def new_traffic_def served_def getMetricValue_def findMetricValue_def
        split: option.split)
qed

lemma length_done_step: "length (tf_done (http_step e s)) \<le> Suc (length (tf_done s))"
  by (cases e) (auto simp: Let_def split: prod.split)

lemma traffic_run_snoc: "traffic_run (es @ [e]) = http_step e (traffic_run es)"
  by (simp add: traffic_run_def)

lemma traffic_run_ok:
  "length es \<le> 2 ^ 53 \<Longrightarrow>
   traffic_ok (traffic_run es) \<and> counters_ok (traffic_run es) \<and> length (tf_done (traffic_run es)) \<le> length es"
proof (induction es rule: rev_induct)
  case Nil
  then show ?case using traffic_new by (simp add: traffic_run_def) (simp add: new_traffic_def)
next
  case (snoc e es)
  then show ?case
    using length_done_step [of e "traffic_run es"]
    by (auto simp: traffic_run_snoc preserved intro!: counters_ok_step)
qed

text \<open>C18. Accounting. However requests overlap, the statistics count exactly the requests in progress, those
  completed and those completed with a status of at least 400, and the counters
  \<open>http_requests_total\<close> and \<open>http_errors_total\<close> hold, per method, route and status, the number of
  completed requests and of failed ones.\<close>

theorem requests_accounted:
  assumes "length es \<le> 2 ^ 53"
  shows "let s = traffic_run es; p = mo_perf (tf_mon s); ms = mo_metrics (tf_mon s)
    in activeRequestsCount p = int (length (tf_open s)) \<and>
       totalRequestsCount p = int (length (tf_done s)) \<and>
       errorRequestsCount p = int (length (filter (\<lambda>c. 400 \<le> fst (snd c)) (tf_done s))) \<and>
       (\<forall>r st. getMetricValue ''http_requests_total'' (status_labels r st) ms = of_nat (served (\<lambda>_. True) r st s) \<and>
         getMetricValue ''http_errors_total'' (status_labels r st) ms = of_nat (served is_failure r st s))"
  using traffic_run_ok [OF assms] by (simp add: Let_def traffic_ok_def counters_ok_def)

definition sample_request :: http_request where
  "sample_request = \<lparr>rq_method = Some ''GET'', rq_route = Some ''/health'', rq_url = Some ''/health'',
     rq_traceparent = None, rq_xtrace = None, rq_userAgent = None\<rparr>"

definition sample_traffic :: "http_event list" where
  "sample_traffic = [Arrive ''t1'' ''s1'' 0 0 sample_request, Arrive ''t2'' ''s2'' 1 1 sample_request,
     Succeed 1 (5, 5, 5, 5) 0]"

lemma requests_accounted_witness:
  "let s = traffic_run sample_traffic; p = mo_perf (tf_mon s); ms = mo_metrics (tf_mon s)
    in activeRequestsCount p = int (length (tf_open s)) \<and>
       totalRequestsCount p = int (length (tf_done s)) \<and>
       errorRequestsCount p = int (length (filter (\<lambda>c. 400 \<le> fst (snd c)) (tf_done s))) \<and>
       (\<forall>r st. getMetricValue ''http_requests_total'' (status_labels r st) ms = of_nat (served (\<lambda>_. True) r st s) \<and>
         getMetricValue ''http_errors_total'' (status_labels r st) ms = of_nat (served is_failure r st s))"
  by (rule requests_accounted) (simp add: sample_traffic_def)

text \<open>The in-flight gauge is set, not counted: after any completion the gauge of its route reads zero,
  also while other requests to the route are in progress.\<close>

lemma get_gauge_same:
  "metrics_ok ms \<Longrightarrow> wf_map ls \<Longrightarrow> registered name ms \<Longrightarrow> getMetricValue name ls (setGauge name x ls ms) = x"
  by (simp add: get_gauge registered_def)

lemma in_flight_reset:
  assumes "traffic_ok s" "k < length (tf_open s)"
  shows "getMetricValue ''http_requests_in_flight'' (route_labels (tf_open s ! k))
    (mo_metrics (tf_mon (http_step (Succeed k clk st) s))) = 0"
proof -
  obtain a b c d where "clk = (a, b, c, d)" by (cases clk)
  then show ?thesis
    using assms by (auto simp: complete_ok_def Let_def finishSpan_def traffic_ok_def get_gauge_same preserved
        get_same_metric [OF map_get_increment])
qed

lemma in_flight_wrong:
  "let s = traffic_run sample_traffic
   in length (tf_open s) = 1 \<and> getMetricValue ''http_requests_in_flight'' [(''method'', ''GET''), (''path'', ''/health'')]
        (mo_metrics (tf_mon s)) = 0"
proof -
  let ?s = "traffic_run [Arrive ''t1'' ''s1'' 0 0 sample_request, Arrive ''t2'' ''s2'' 1 1 sample_request]"
  have s: "traffic_run sample_traffic = http_step (Succeed 1 (5, 5, 5, 5) 0) ?s"
    by (simp add: sample_traffic_def traffic_run_def)
  have o: "length (tf_open ?s) = 2" "route_labels (tf_open ?s ! 1) = [(''method'', ''GET''), (''path'', ''/health'')]"
    by (simp_all add: traffic_run_def new_traffic_def begin_request_def Let_def sample_request_def
        request_path_def non_empty_or_def route_labels_def)
  have "traffic_ok ?s" by (simp add: traffic_run_ok)
  from in_flight_reset [OF this, of 1] show ?thesis
    using o by (simp add: Let_def s length_remove_nth)
qed

end
