(* ===== verification/Auth.thy ===== *)
theory Auth
  imports Prelude
begin

text \<open>
  Accounts, sessions and API keys (src/auth/).

  The two TypeORM repositories are lists of rows: \<open>findOne\<close> and \<open>getOne\<close> take the first row that
  matches, \<open>update\<close> changes every row with the id, \<open>save\<close> appends; the unique index on the jti of a
  revoked token makes a second insertion fail, and that the unique indices on users are never
  violated is an invariant. bcrypt, the JWT library and Google's client are the fields of
  \<open>auth_env\<close>; random values and the clock (milliseconds) are arguments.
\<close>

section \<open>Rows\<close>

datatype user_role = ADMIN | USER | READONLY

datatype user_status = ACTIVE | INACTIVE | SUSPENDED

record user_row =
  u_id :: string
  u_email :: string
  u_passwordHash :: string
  u_socialProvider :: "string option"
  u_socialProviderId :: "string option"
  u_role :: user_role
  u_status :: user_status
  u_refreshTokenHash :: "string option"
  u_apiKeyHash :: "string option"
  u_apiKeyPrefix :: "string option"

record auth_user =
  au_id :: string
  au_email :: string
  au_role :: user_role

record revoked_token =
  rv_jti :: string
  rv_expiresAt :: int

record auth_state =
  auth_users :: "user_row list"
  revoked :: "revoked_token list"

text \<open>The claims of a token; \<open>jti\<close>, \<open>iat\<close> and \<open>exp\<close> may be missing from a foreign one.\<close>

record jwt_payload =
  jp_sub :: string
  jp_email :: string
  jp_role :: user_role
  jp_jti :: "string option"
  jp_iat :: "int option"
  jp_exp :: "int option"

record google_payload =
  gp_sub :: "string option"
  gp_email :: "string option"
  gp_email_verified :: bool

text \<open>Third-party code: bcrypt (with the salt as an argument), \<open>JwtService\<close> (\<open>verify\<close> with the time
  of the check), and Google's token check for an audience.\<close>

record auth_env =
  env_hash :: "string \<Rightarrow> string \<Rightarrow> string"
  env_compare :: "string \<Rightarrow> string \<Rightarrow> bool"
  env_sign :: "jwt_payload \<Rightarrow> string"
  env_verify :: "int \<Rightarrow> string \<Rightarrow> jwt_payload option"
  env_decode :: "string \<Rightarrow> jwt_payload option"
  env_googleVerify :: "string \<Rightarrow> string \<Rightarrow> google_payload option option"
  env_googleClientId :: "string option"

definition findUser :: "(user_row \<Rightarrow> bool) \<Rightarrow> auth_state \<Rightarrow> user_row option" where
  "findUser P s = List.find P (auth_users s)"

definition updateUser :: "string \<Rightarrow> (user_row \<Rightarrow> user_row) \<Rightarrow> auth_state \<Rightarrow> auth_state" where
  "updateUser i f s = s\<lparr>auth_users := map (\<lambda>u. if u_id u = i then f u else u) (auth_users s)\<rparr>"

definition saveUser :: "user_row \<Rightarrow> auth_state \<Rightarrow> auth_state" where
  "saveUser u s = s\<lparr>auth_users := auth_users s @ [u]\<rparr>"

definition toAuthUser :: "user_row \<Rightarrow> auth_user" where
  "toAuthUser u = \<lparr>au_id = u_id u, au_email = u_email u, au_role = u_role u\<rparr>"

text \<open>A row as \<open>create\<close> and the column defaults make it.\<close>

definition new_user :: "string \<Rightarrow> string \<Rightarrow> string \<Rightarrow> user_role \<Rightarrow> user_row" where
  "new_user i email pw role = \<lparr>u_id = i, u_email = email, u_passwordHash = pw, u_socialProvider = None,
     u_socialProviderId = None, u_role = role, u_status = ACTIVE, u_refreshTokenHash = None,
     u_apiKeyHash = None, u_apiKeyPrefix = None\<rparr>"

section \<open>Revoked tokens\<close>

text \<open>The unique index refuses a second row with the same jti.\<close>

definition revoke :: "string \<Rightarrow> int \<Rightarrow> auth_state \<Rightarrow> error + auth_state" where
  "revoke jti expiresAt s =
     (if jti \<in> rv_jti ` set (revoked s) then Inl (JsError ''QueryFailedError'')
      else Inr (s\<lparr>revoked := revoked s @ [\<lparr>rv_jti = jti, rv_expiresAt = expiresAt\<rparr>]\<rparr>))"

definition isRevoked :: "string \<Rightarrow> auth_state \<Rightarrow> bool" where
  "isRevoked jti s = (0 < length (filter (\<lambda>r. rv_jti r = jti) (revoked s)))"

definition purgeExpired :: "int \<Rightarrow> auth_state \<Rightarrow> auth_state" where
  "purgeExpired now s = s\<lparr>revoked := filter (\<lambda>r. \<not> rv_expiresAt r < now) (revoked s)\<rparr>"

section \<open>The service\<close>

record register_dto =
  rg_email :: string
  rg_password :: string
  rg_role :: "user_role option"

definition register ::
  "auth_env \<Rightarrow> string \<Rightarrow> string \<Rightarrow> register_dto \<Rightarrow> auth_state \<Rightarrow> error + (auth_user \<times> auth_state)" where
  "register env new_id salt dto s =
     (case findUser (\<lambda>u. u_email u = rg_email dto) s of
        Some _ \<Rightarrow> Inl (ConflictException ''Email already in use'')
      | None \<Rightarrow>
          (let passwordHash = env_hash env salt (rg_password dto);
               u = new_user new_id (rg_email dto) passwordHash (or_else (rg_role dto) USER)
           in Inr (toAuthUser u, saveUser u s)))"

definition validateCredentials :: "auth_env \<Rightarrow> string \<Rightarrow> string \<Rightarrow> auth_state \<Rightarrow> auth_user option" where
  "validateCredentials env email password s =
     (case findUser (\<lambda>u. u_email u = email) s of
        None \<Rightarrow> None
      | Some u \<Rightarrow>
          if u_status u \<noteq> ACTIVE then None
          else if env_compare env password (u_passwordHash u) then Some (toAuthUser u) else None)"

definition ACCESS_TOKEN_TTL :: int where "ACCESS_TOKEN_TTL = 15 * 60"

record token_pair =
  accessToken :: string
  refreshToken :: string

text \<open>The random values of a login: the jti, the refresh token and its salt.\<close>

type_synonym login_randoms = "string \<times> string \<times> string"

text \<open>\<open>sign\<close> stamps the claims with the time in seconds and adds the expiry.\<close>

definition access_claims :: "int \<Rightarrow> string \<Rightarrow> auth_user \<Rightarrow> jwt_payload" where
  "access_claims now jti user =
     \<lparr>jp_sub = au_id user, jp_email = au_email user, jp_role = au_role user, jp_jti = Some jti,
      jp_iat = Some (now div 1000), jp_exp = Some (now div 1000 + ACCESS_TOKEN_TTL)\<rparr>"

definition generateAccessToken :: "auth_env \<Rightarrow> int \<Rightarrow> string \<Rightarrow> auth_user \<Rightarrow> string" where
  "generateAccessToken env now jti user = env_sign env (access_claims now jti user)"

definition generateRefreshToken ::
  "auth_env \<Rightarrow> string \<Rightarrow> string \<Rightarrow> auth_user \<Rightarrow> auth_state \<Rightarrow> string \<times> auth_state" where
  "generateRefreshToken env token salt user s =
     (token, updateUser (au_id user) (\<lambda>u. u\<lparr>u_refreshTokenHash := Some (env_hash env salt token)\<rparr>) s)"

definition login ::
  "auth_env \<Rightarrow> int \<Rightarrow> login_randoms \<Rightarrow> auth_user \<Rightarrow> auth_state \<Rightarrow> token_pair \<times> auth_state" where
  "login env now rnd user s =
     (let (jti, token, salt) = rnd;
          access = generateAccessToken env now jti user;
          (refresh, s') = generateRefreshToken env token salt user s
      in (\<lparr>accessToken = access, refreshToken = refresh\<rparr>, s'))"

text \<open>The account of a verified Google identity: found by the identity, found by email and linked, or
  created with a random password. \<open>new_id\<close>, \<open>pw\<close> and \<open>salt\<close> are used in the last case.\<close>

definition link_identity :: "string \<Rightarrow> string \<Rightarrow> user_row \<Rightarrow> user_row" where
  "link_identity provider sub u = u\<lparr>u_socialProvider := Some provider, u_socialProviderId := Some sub\<rparr>"

definition social_account ::
  "auth_env \<Rightarrow> string \<Rightarrow> string \<Rightarrow> string \<Rightarrow> string \<Rightarrow> string \<Rightarrow> string \<Rightarrow> auth_state \<Rightarrow>
   error + (user_row \<times> auth_state)" where
  "social_account env new_id pw salt provider sub email s =
     (case findUser (\<lambda>u. u_socialProvider u = Some provider \<and> u_socialProviderId u = Some sub) s of
        Some u \<Rightarrow> Inr (u, s)
      | None \<Rightarrow>
          (case findUser (\<lambda>u. u_email u = email) s of
             Some u \<Rightarrow>
               if u_status u \<noteq> ACTIVE then Inl (UnauthorizedException ''User account is not active'')
               else Inr (u, updateUser (u_id u) (link_identity provider sub) s)
           | None \<Rightarrow>
               (let u = link_identity provider sub (new_user new_id email (env_hash env salt pw) USER)
                in Inr (u, saveUser u s))))"

text \<open>The only provider is \<open>google\<close>.\<close>

definition socialLogin ::
  "auth_env \<Rightarrow> int \<Rightarrow> login_randoms \<Rightarrow> string \<Rightarrow> string \<Rightarrow> string \<Rightarrow> string \<Rightarrow> string \<Rightarrow> auth_state \<Rightarrow>
   error + (token_pair \<times> auth_state)" where
  "socialLogin env now rnd new_id pw salt provider idToken s =
     (if provider \<noteq> ''google'' then Inl (UnauthorizedException ''Unsupported social login provider'')
      else if or_else (env_googleClientId env) [] = []
        then Inl (UnauthorizedException ''Google login is not configured'')
      else (case env_googleVerify env (the (env_googleClientId env)) idToken of
          None \<Rightarrow> Inl (UnauthorizedException ''Invalid Google ID token'')
        | Some payload \<Rightarrow>
        (case (Option.bind payload gp_sub, Option.bind payload gp_email) of
          (Some sub, Some email) \<Rightarrow>
            if sub = [] \<or> email = [] \<or> \<not> gp_email_verified (the payload)
            then Inl (UnauthorizedException ''Google account email is not verified'')
            else (case social_account env new_id pw salt provider sub email s of
                Inl e \<Rightarrow> Inl e
              | Inr (u, s') \<Rightarrow>
                  if u_status u \<noteq> ACTIVE then Inl (UnauthorizedException ''User account is not active'')
                  else Inr (login env now rnd (toAuthUser u) s'))
        | _ \<Rightarrow> Inl (UnauthorizedException ''Google account email is not verified''))))"

definition refreshTokens ::
  "auth_env \<Rightarrow> int \<Rightarrow> login_randoms \<Rightarrow> string \<Rightarrow> string \<Rightarrow> auth_state \<Rightarrow> error + (token_pair \<times> auth_state)" where
  "refreshTokens env now rnd userId token s =
     (case findUser (\<lambda>u. u_id u = userId) s of
        None \<Rightarrow> Inl (UnauthorizedException ''Refresh token invalid or expired'')
      | Some u \<Rightarrow>
          (case u_refreshTokenHash u of
             None \<Rightarrow> Inl (UnauthorizedException ''Refresh token invalid or expired'')
           | Some h \<Rightarrow>
               if h = [] \<or> \<not> env_compare env token h
               then Inl (UnauthorizedException ''Refresh token invalid or expired'')
               else Inr (login env now rnd (toAuthUser u)
                      (updateUser (u_id u) (\<lambda>u. u\<lparr>u_refreshTokenHash := None\<rparr>) s))))"

text \<open>What \<open>logout\<close> and \<open>revokeToken\<close> do with a decoded token.\<close>

definition revoke_decoded :: "auth_env \<Rightarrow> string \<Rightarrow> auth_state \<Rightarrow> error + auth_state" where
  "revoke_decoded env token s =
     (case env_decode env token of
        None \<Rightarrow> Inr s
      | Some decoded \<Rightarrow>
          (case (jp_jti decoded, jp_exp decoded) of
             (Some jti, Some e) \<Rightarrow> if jti \<noteq> [] \<and> e \<noteq> 0 then revoke jti (e * 1000) s else Inr s
           | _ \<Rightarrow> Inr s))"

definition logout :: "auth_env \<Rightarrow> string \<Rightarrow> string \<Rightarrow> auth_state \<Rightarrow> auth_state" where
  "logout env userId token s =
     updateUser userId (\<lambda>u. u\<lparr>u_refreshTokenHash := None\<rparr>)
       (case revoke_decoded env token s of Inl _ \<Rightarrow> s | Inr s' \<Rightarrow> s')"

definition revokeToken :: "auth_env \<Rightarrow> string \<Rightarrow> auth_state \<Rightarrow> error + auth_state" where
  "revokeToken env token s =
     (case revoke_decoded env token s of
        Inl _ \<Rightarrow> Inl (UnauthorizedException ''Invalid token'') | Inr s' \<Rightarrow> Inr s')"

definition key_prefix :: "string \<Rightarrow> string" where "key_prefix apiKey = take 10 apiKey"

text \<open>\<open>rnd\<close> is the hexadecimal text of 32 random bytes.\<close>

definition generateApiKey ::
  "auth_env \<Rightarrow> string \<Rightarrow> string \<Rightarrow> string \<Rightarrow> auth_state \<Rightarrow> error + ((string \<times> string) \<times> auth_state)" where
  "generateApiKey env rnd salt userId s =
     (case findUser (\<lambda>u. u_id u = userId) s of
        None \<Rightarrow> Inl (NotFoundException ''User not found'')
      | Some _ \<Rightarrow>
          (let rawKey = ''ak_'' @ rnd; prefix = key_prefix rawKey; hashed = env_hash env salt rawKey
           in Inr ((rawKey, prefix),
                updateUser userId (\<lambda>u. u\<lparr>u_apiKeyHash := Some hashed, u_apiKeyPrefix := Some prefix\<rparr>) s)))"

definition validateApiKey :: "auth_env \<Rightarrow> string \<Rightarrow> auth_state \<Rightarrow> auth_user option" where
  "validateApiKey env apiKey s =
     (case findUser (\<lambda>u. u_apiKeyPrefix u = Some (key_prefix apiKey) \<and> u_status u = ACTIVE) s of
        None \<Rightarrow> None
      | Some u \<Rightarrow>
          (case u_apiKeyHash u of
             None \<Rightarrow> None
           | Some h \<Rightarrow> if h \<noteq> [] \<and> env_compare env apiKey h then Some (toAuthUser u) else None))"

definition findById :: "string \<Rightarrow> auth_state \<Rightarrow> auth_user option" where
  "findById i s = map_option toAuthUser (findUser (\<lambda>u. u_id u = i) s)"

section \<open>Strategies and guards\<close>

definition local_validate :: "auth_env \<Rightarrow> string \<Rightarrow> string \<Rightarrow> auth_state \<Rightarrow> error + auth_user" where
  "local_validate env email password s =
     (case validateCredentials env email password s of
        None \<Rightarrow> Inl (UnauthorizedException ''Invalid credentials'') | Some u \<Rightarrow> Inr u)"

definition api_key_verify :: "auth_env \<Rightarrow> string \<Rightarrow> auth_state \<Rightarrow> error + auth_user" where
  "api_key_verify env apiKey s =
     (case validateApiKey env apiKey s of
        None \<Rightarrow> Inl (UnauthorizedException ''Invalid API key'') | Some u \<Rightarrow> Inr u)"

definition jwt_validate :: "jwt_payload \<Rightarrow> auth_state \<Rightarrow> error + auth_user" where
  "jwt_validate payload s =
     (if (case jp_jti payload of Some j \<Rightarrow> j \<noteq> [] \<and> isRevoked j s | None \<Rightarrow> False)
      then Inl (UnauthorizedException ''Token has been revoked'')
      else Inr \<lparr>au_id = jp_sub payload, au_email = jp_email payload, au_role = jp_role payload\<rparr>)"

text \<open>\<open>JwtAuthGuard\<close>: a public route passes without a user; otherwise the bearer token is verified, the
  strategy validates its claims, and \<open>handleRequest\<close> throws when either failed.\<close>

definition jwt_guard :: "auth_env \<Rightarrow> bool \<Rightarrow> int \<Rightarrow> string \<Rightarrow> auth_state \<Rightarrow> error + auth_user option" where
  "jwt_guard env isPublic now token s =
     (if isPublic then Inr None
      else (case env_verify env now token of
          None \<Rightarrow> Inl (UnauthorizedException ''Unauthorized'')
        | Some payload \<Rightarrow>
            (case jwt_validate payload s of Inl e \<Rightarrow> Inl e | Inr u \<Rightarrow> Inr (Some u))))"

definition role_text :: "user_role \<Rightarrow> string" where
  "role_text r = (case r of ADMIN \<Rightarrow> ''admin'' | USER \<Rightarrow> ''user'' | READONLY \<Rightarrow> ''readonly'')"

definition roles_guard :: "user_role list \<Rightarrow> auth_user option \<Rightarrow> error + unit" where
  "roles_guard requiredRoles user =
     (if requiredRoles = [] then Inr ()
      else (case user of
          None \<Rightarrow> Inl (ForbiddenException ''No authenticated user found'')
        | Some u \<Rightarrow>
            if au_role u \<in> set requiredRoles then Inr ()
            else Inl (ForbiddenException (''Requires one of: ['' @ join '', '' (map role_text requiredRoles) @ '']''))))"

section \<open>Routes\<close>

text \<open>\<open>header.replace(/^Bearer\s+/i, '')\<close>.\<close>

definition strip_bearer :: "string \<Rightarrow> string" where
  "strip_bearer h =
     (if to_lower (take 6 h) = ''bearer'' \<and> drop 6 h \<noteq> [] \<and> is_js_space (hd (drop 6 h))
      then dropWhile is_js_space (drop 6 h) else h)"

definition login_route ::
  "auth_env \<Rightarrow> int \<Rightarrow> login_randoms \<Rightarrow> string \<Rightarrow> string \<Rightarrow> auth_state \<Rightarrow> error + (token_pair \<times> auth_state)" where
  "login_route env now rnd email password s =
     (case local_validate env email password s of Inl e \<Rightarrow> Inl e | Inr u \<Rightarrow> Inr (login env now rnd u s))"

definition logout_route :: "auth_env \<Rightarrow> auth_user \<Rightarrow> string option \<Rightarrow> auth_state \<Rightarrow> auth_state" where
  "logout_route env user authorization s = logout env (au_id user) (strip_bearer (or_else authorization [])) s"

definition revokeApiKey_route ::
  "auth_env \<Rightarrow> string \<Rightarrow> string \<Rightarrow> auth_user \<Rightarrow> auth_state \<Rightarrow> error + auth_state" where
  "revokeApiKey_route env rnd salt user s =
     (case generateApiKey env rnd salt (au_id user) s of Inl e \<Rightarrow> Inl e | Inr (_, s') \<Rightarrow> Inr s')"

end
