(* ===== verification/Auth_Props.thy ===== *)
theory Auth_Props
  imports Auth
begin

text \<open>
  What the authentication model guarantees: accounts stay unique in every reachable state, a login is
  good for fifteen minutes and no longer, refresh tokens and API keys are replaced on use, and a
  revoked token is never accepted again. What is relied on of bcrypt and the JWT library is stated by
  \<open>bcrypt_law\<close> and \<open>jwt_laws\<close>.
\<close>

section \<open>Third-party laws\<close>

text \<open>bcrypt compares the first 72 bytes; a hash is never the empty text.\<close>

definition bcrypt_law :: "auth_env \<Rightarrow> bool" where
  "bcrypt_law env \<longleftrightarrow> (\<forall>p q salt. env_compare env p (env_hash env salt q) \<longleftrightarrow> take 72 p = take 72 q) \<and>
     (\<forall>p salt. env_hash env salt p \<noteq> [])"

text \<open>A verified token decodes to the same claims and has not expired (in whole seconds); a signed
  token verifies until then.\<close>

definition jwt_laws :: "auth_env \<Rightarrow> bool" where
  "jwt_laws env \<longleftrightarrow>
     (\<forall>now t c. env_verify env now t = Some c \<longrightarrow>
        env_decode env t = Some c \<and> (\<forall>e. jp_exp c = Some e \<longrightarrow> now div 1000 < e)) \<and>
     (\<forall>c. env_decode env (env_sign env c) = Some c) \<and>
     (\<forall>now c e. jp_exp c = Some e \<and> now div 1000 < e \<longrightarrow> env_verify env now (env_sign env c) = Some c)"

section \<open>Rows\<close>

lemma find_map: "List.find P (map f xs) = map_option f (List.find (\<lambda>x. P (f x)) xs)"
  by (induction xs) auto

lemma find_cong: "(\<And>x. x \<in> set xs \<Longrightarrow> P x = Q x) \<Longrightarrow> List.find P xs = List.find Q xs"
  by (induction xs) auto

lemma find_Some: "List.find P xs = Some x \<Longrightarrow> x \<in> set xs \<and> P x"
  by (induction xs) (auto split: if_splits)

lemma find_None: "List.find P xs = None \<longleftrightarrow> (\<forall>x \<in> set xs. \<not> P x)"
  by (induction xs) auto

lemma findUser_update:
  "findUser P (updateUser i f s) =
    map_option (\<lambda>u. if u_id u = i then f u else u) (findUser (\<lambda>u. P (if u_id u = i then f u else u)) s)"
  by (simp add: findUser_def updateUser_def find_map)

lemma findUser_id_update:
  assumes "\<And>u. u_id (f u) = u_id u"
  shows "findUser (\<lambda>u. u_id u = i) (updateUser i f s) = map_option f (findUser (\<lambda>u. u_id u = i) s)"
proof -
  have *: "(\<lambda>u. u_id (if u_id u = i then f u else u) = i) = (\<lambda>u. u_id u = i)" by (auto simp: assms)
  show ?thesis
    unfolding findUser_update * by (cases "findUser (\<lambda>u. u_id u = i) s") (auto simp: findUser_def dest: find_Some)
qed

lemma revoked_updateUser [simp]: "revoked (updateUser i f s) = revoked s"
  by (simp add: updateUser_def)

lemma revoked_saveUser [simp]: "revoked (saveUser u s) = revoked s"
  by (simp add: saveUser_def)

lemma revoked_login [simp]: "revoked (snd (login env now rnd u s)) = revoked s"
  by (simp add: login_def generateRefreshToken_def Let_def split: prod.split)

section \<open>Sessions\<close>

lemma login_tokens [simp]:
  "refreshToken (fst (login env now (jti, token, salt) u s)) = token"
  "accessToken (fst (login env now (jti, token, salt) u s)) = env_sign env (access_claims now jti u)"
  by (simp_all add: login_def generateRefreshToken_def generateAccessToken_def)

lemma guard_access_token:
  assumes "jwt_laws env" "jti \<noteq> []" "\<not> isRevoked jti s"
  shows "jwt_guard env False now (env_sign env (access_claims t jti u)) s =
    (if now div 1000 < t div 1000 + ACCESS_TOKEN_TTL then Inr (Some u)
     else Inl (UnauthorizedException ''Unauthorized''))"
proof -
  let ?c = "access_claims t jti u"
  have e: "jp_exp ?c = Some (t div 1000 + ACCESS_TOKEN_TTL)" "jp_jti ?c = Some jti" by (simp_all add: access_claims_def)
  show ?thesis
  proof (cases "now div 1000 < t div 1000 + ACCESS_TOKEN_TTL")
    case True
    then have "env_verify env now (env_sign env ?c) = Some ?c"
      using assms(1) e unfolding jwt_laws_def by blast
    with True e assms show ?thesis by (simp add: jwt_guard_def jwt_validate_def) (simp add: access_claims_def)
  next
    case False
    have "env_verify env now (env_sign env ?c) = None"
    proof (rule ccontr)
      assume "env_verify env now (env_sign env ?c) \<noteq> None"
      then obtain c where c: "env_verify env now (env_sign env ?c) = Some c" by blast
      then have "c = ?c" using assms(1) unfolding jwt_laws_def by (metis option.inject)
      then show False using c False e assms(1) unfolding jwt_laws_def by blast
    qed
    with False show ?thesis by (simp add: jwt_guard_def)
  qed
qed


text \<open>Rotation. A successful refresh replaces the refresh token: from then on the new token (its first
  72 bytes) refreshes the session and no other, in particular not the one just used.\<close>

theorem refresh_rotation:
  assumes "bcrypt_law env" "refreshTokens env t (jti, new, salt) uid old s = Inr (pair, s')"
  shows "refreshToken pair = new \<and>
    (\<forall>now rnd r. (\<exists>x. refreshTokens env now rnd uid r s' = Inr x) \<longleftrightarrow> take 72 r = take 72 new)"
proof -
  obtain u where u: "findUser (\<lambda>u. u_id u = uid) s = Some u"
    using assms(2) by (auto simp: refreshTokens_def split: option.splits)
  then have id: "u_id u = uid" by (auto simp: findUser_def dest: find_Some)
  let ?s1 = "updateUser uid (\<lambda>u. u\<lparr>u_refreshTokenHash := None\<rparr>) s"
  have l: "(pair, s') = login env t (jti, new, salt) (toAuthUser u) ?s1"
    using assms(2) u id by (auto simp: refreshTokens_def split: option.splits if_splits)
  have s': "s' = updateUser uid (\<lambda>u. u\<lparr>u_refreshTokenHash := Some (env_hash env salt new)\<rparr>) ?s1"
    using l id by (simp add: login_def generateRefreshToken_def toAuthUser_def)
  have "findUser (\<lambda>u. u_id u = uid) s' = Some (u\<lparr>u_refreshTokenHash := Some (env_hash env salt new)\<rparr>)"
    unfolding s' by (simp add: findUser_id_update u)
  moreover have "refreshToken pair = new" using l login_tokens(1) [of env t jti new salt "toAuthUser u" ?s1] by (metis fst_conv)
  ultimately show ?thesis using assms(1) by (simp add: refreshTokens_def bcrypt_law_def)
qed

text \<open>Suspension. An account that is not active can no longer log in with its password, but its refresh
  token keeps working: the outcome of a refresh does not depend on the status at all.\<close>

theorem suspended_refresh:
  "let s' = updateUser uid (\<lambda>u. u\<lparr>u_status := st\<rparr>) s
   in (\<exists>x. refreshTokens env t rnd uid r s' = Inr x) = (\<exists>x. refreshTokens env t rnd uid r s = Inr x) \<and>
      (\<forall>email p a. validateCredentials env email p s' = Some a \<and> st \<noteq> ACTIVE \<longrightarrow> au_id a \<noteq> uid)"
proof -
  let ?s' = "updateUser uid (\<lambda>u. u\<lparr>u_status := st\<rparr>) s"
  have "(\<exists>x. refreshTokens env t rnd uid r ?s' = Inr x) = (\<exists>x. refreshTokens env t rnd uid r s = Inr x)"
    by (simp add: refreshTokens_def findUser_id_update split: option.split)
  moreover have "au_id a \<noteq> uid" if "validateCredentials env email p ?s' = Some a" "st \<noteq> ACTIVE" for email p a
    using that by (auto simp: validateCredentials_def findUser_update toAuthUser_def split: option.splits if_splits)
  ultimately show ?thesis by (simp add: Let_def) blast
qed

section \<open>API keys\<close>

text \<open>API keys. A new key is accepted as its owner when the owner is active and no other account has a
  key with the same ten-character prefix; every key accepted as that owner agrees with it in the
  first 72 bytes, so the previous key is refused.\<close>

theorem api_key_rotation:
  assumes "bcrypt_law env" "generateApiKey env rnd salt uid s = Inr ((key, prefix), s')"
    "findUser (\<lambda>u. u_id u = uid) s = Some u" "u_status u = ACTIVE"
    "\<forall>v \<in> set (auth_users s). u_apiKeyPrefix v = Some (take 10 key) \<longrightarrow> u_id v = uid"
    "distinct (map u_id (auth_users s))"
  shows "validateApiKey env key s' = Some (toAuthUser u) \<and>
    (\<forall>k a. validateApiKey env k s' = Some a \<and> au_id a = uid \<longrightarrow> take 72 k = take 72 key)"
proof
  define f where "f = (\<lambda>v :: user_row. v\<lparr>u_apiKeyHash := Some (env_hash env salt key), u_apiKeyPrefix := Some (take 10 key)\<rparr>)"
  have s': "s' = updateUser uid f s"
    using assms(2,3) by (auto simp: generateApiKey_def f_def key_prefix_def Let_def)
  have u: "u \<in> set (auth_users s)" "u_id u = uid" using assms(3) by (auto simp: findUser_def dest: find_Some)
  have only: "v = u" if "v \<in> set (auth_users s)" "u_id v = uid" for v
    using assms(6) that u by (auto simp: distinct_map dest: inj_onD)
  let ?P = "\<lambda>v. u_apiKeyPrefix v = Some (take 10 key) \<and> u_status v = ACTIVE"
  have "List.find (\<lambda>v. ?P (if u_id v = uid then f v else v)) (auth_users s) =
      List.find (\<lambda>v. u_id v = uid) (auth_users s)"
  proof (rule find_cong)
    fix v assume v: "v \<in> set (auth_users s)"
    show "?P (if u_id v = uid then f v else v) = (u_id v = uid)"
      using only [OF v] assms(4,5) v by (auto simp: f_def)
  qed
  then have "findUser ?P s' = map_option (\<lambda>v. if u_id v = uid then f v else v) (findUser (\<lambda>v. u_id v = uid) s)"
    unfolding s' findUser_update by (simp add: findUser_def)
  also have "\<dots> = Some (f u)" using u(2) by (simp add: assms(3))
  finally show "validateApiKey env key s' = Some (toAuthUser u)"
    using assms(1) by (simp add: validateApiKey_def key_prefix_def f_def bcrypt_law_def toAuthUser_def)
  show "\<forall>k a. validateApiKey env k s' = Some a \<and> au_id a = uid \<longrightarrow> take 72 k = take 72 key"
    using assms(1)
    by (auto simp: validateApiKey_def s' findUser_update f_def toAuthUser_def bcrypt_law_def
        split: option.splits if_splits)
qed

section \<open>Revocation\<close>

text \<open>The operations of the service, at a time; \<open>Status\<close> is an operator changing an account in the
  database.\<close>

inductive auth_step :: "auth_env \<Rightarrow> int \<Rightarrow> auth_state \<Rightarrow> auth_state \<Rightarrow> bool" for env now where
  Register: "register env i salt dto s = Inr (u, s') \<Longrightarrow> i \<notin> u_id ` set (auth_users s) \<Longrightarrow> auth_step env now s s'"
| Login: "login_route env now rnd email p s = Inr (pair, s') \<Longrightarrow> auth_step env now s s'"
| Social: "socialLogin env now rnd i pw salt provider tok s = Inr (pair, s') \<Longrightarrow>
    i \<notin> u_id ` set (auth_users s) \<Longrightarrow> auth_step env now s s'"
| Refresh: "refreshTokens env now rnd uid tok s = Inr (pair, s') \<Longrightarrow> auth_step env now s s'"
| Logout: "auth_step env now s (logout_route env user authorization s)"
| Revoke: "revokeToken env tok s = Inr s' \<Longrightarrow> auth_step env now s s'"
| Key: "generateApiKey env rnd salt uid s = Inr (key, s') \<Longrightarrow> auth_step env now s s'"
| Purge: "auth_step env now s (purgeExpired now s)"
| Status: "auth_step env now s (updateUser uid (\<lambda>u. u\<lparr>u_status := st\<rparr>) s)"

inductive later :: "auth_env \<Rightarrow> int \<Rightarrow> auth_state \<Rightarrow> int \<Rightarrow> auth_state \<Rightarrow> bool" for env t0 s0 where
  Now: "later env t0 s0 t0 s0"
| Step: "later env t0 s0 t s \<Longrightarrow> t \<le> t' \<Longrightarrow> auth_step env t' s s' \<Longrightarrow> later env t0 s0 t' s'"

lemma revoke_decoded_mono:
  "revoke_decoded env tok s = Inr s' \<Longrightarrow> set (revoked s) \<subseteq> set (revoked s')"
  by (auto simp: revoke_decoded_def revoke_def split: option.splits if_splits)

lemma revoked_register: "register env i salt dto s = Inr (u, s') \<Longrightarrow> revoked s' = revoked s"
  by (auto simp: register_def Let_def split: option.splits)

lemma revoked_login_route: "login_route env now rnd email p s = Inr (pair, s') \<Longrightarrow> revoked s' = revoked s"
  by (auto simp: login_route_def split: sum.splits) (metis revoked_login snd_conv)

lemma revoked_refresh: "refreshTokens env now rnd uid tok s = Inr (pair, s') \<Longrightarrow> revoked s' = revoked s"
  by (auto simp: refreshTokens_def split: option.splits if_splits) (metis revoked_login revoked_updateUser snd_conv)

lemma revoked_key: "generateApiKey env rnd salt uid s = Inr (key, s') \<Longrightarrow> revoked s' = revoked s"
  by (auto simp: generateApiKey_def Let_def split: option.splits)

lemma socialLogin_account:
  assumes "socialLogin env now rnd i pw salt provider tok s = Inr (pair, s')"
  obtains u s1 sub email where "social_account env i pw salt provider sub email s = Inr (u, s1)"
    "(pair, s') = login env now rnd (toAuthUser u) s1"
  using assms unfolding socialLogin_def by (auto split: if_splits option.splits sum.splits)

lemma revoked_account: "social_account env i pw salt provider sub email s = Inr (u, s') \<Longrightarrow> revoked s' = revoked s"
  by (auto simp: social_account_def Let_def split: option.splits if_splits)

lemma revoked_social: "socialLogin env now rnd i pw salt provider tok s = Inr (pair, s') \<Longrightarrow> revoked s' = revoked s"
  by (elim socialLogin_account) (metis revoked_account revoked_login snd_conv)

text \<open>What keeps a token out at time \<open>t\<close>: a row with its jti that outlives it, or its expiry.\<close>

definition shut_out :: "string \<Rightarrow> int \<Rightarrow> int \<Rightarrow> auth_state \<Rightarrow> bool" where
  "shut_out j e t s \<longleftrightarrow> (\<exists>r \<in> set (revoked s). rv_jti r = j \<and> e * 1000 \<le> rv_expiresAt r) \<or> e * 1000 < t"

lemma shut_out_subset:
  "set (revoked s) \<subseteq> set (revoked s') \<Longrightarrow> t \<le> t' \<Longrightarrow> shut_out j e t s \<Longrightarrow> shut_out j e t' s'"
  unfolding shut_out_def by (elim disjE) (blast, linarith)

lemma shut_out_same: "revoked s' = revoked s \<Longrightarrow> shut_out j e t s \<Longrightarrow> t \<le> t' \<Longrightarrow> shut_out j e t' s'"
  by (auto simp: shut_out_def)

lemma shut_out_step:
  assumes "auth_step env t' s s'" "shut_out j e t s" "t \<le> t'" shows "shut_out j e t' s'"
  using assms(1)
proof cases
  case Logout
  have "set (revoked s) \<subseteq> set (revoked (logout env i tok s))" for i tok
    by (auto simp: logout_def dest: revoke_decoded_mono split: sum.split)
  then show ?thesis using assms(2,3) shut_out_subset unfolding Logout logout_route_def by blast
next
  case (Revoke tok)
  then have "set (revoked s) \<subseteq> set (revoked s')"
    by (auto simp: revokeToken_def dest: revoke_decoded_mono split: sum.splits)
  then show ?thesis using assms(2,3) shut_out_subset by blast
next
  case Purge
  then show ?thesis using assms(2,3) by (fastforce simp: shut_out_def purgeExpired_def not_less)
qed (use assms(2,3) in \<open>auto intro: shut_out_same dest: revoked_register revoked_login_route revoked_social
  revoked_refresh revoked_key\<close>)

lemma shut_out_later:
  assumes "later env t0 s0 t s" "shut_out j e t0 s0" shows "shut_out j e t s \<and> t0 \<le> t"
  using assms by induction (auto intro: shut_out_step)

text \<open>C20. Revocation. A token presented at logout is refused for ever after, whatever operations follow at
  whatever times, also when the revocation table is purged: its row is removed only once the token has
  expired. (A row entered earlier under the same jti must not expire before the token.)\<close>

theorem revoked_token_rejected:
  assumes "jwt_laws env" "env_decode env tok = Some c" "jp_jti c = Some j" "j \<noteq> []" "jp_exp c = Some e" "e \<noteq> 0"
    "\<forall>r \<in> set (revoked s). rv_jti r = j \<longrightarrow> e * 1000 \<le> rv_expiresAt r"
    "later env t (logout env uid tok s) t' s'" "t' \<le> now"
  shows "\<exists>message. jwt_guard env False now tok s' = Inl (UnauthorizedException message)"
proof -
  have "shut_out j e t (logout env uid tok s)"
    using assms(2-7) by (auto simp: shut_out_def logout_def revoke_decoded_def revoke_def)
  with shut_out_later [OF assms(8)] have out: "shut_out j e t' s'" by blast
  show ?thesis
  proof (cases "env_verify env now tok")
    case (Some c')
    then have c: "c' = c" "now div 1000 < e" using assms(1,2,5) unfolding jwt_laws_def by (metis option.inject)+
    then have "\<not> e * 1000 < t'" using assms(9) by linarith
    then have "isRevoked j s'" using out by (auto simp: shut_out_def isRevoked_def filter_empty_conv)
    then show ?thesis using Some c assms(3,4) by (simp add: jwt_guard_def jwt_validate_def)
  qed (simp add: jwt_guard_def)
qed

section \<open>Unique accounts\<close>

definition identity :: "user_row \<Rightarrow> (string \<times> string) option" where
  "identity u = (case (u_socialProvider u, u_socialProviderId u) of (Some p, Some i) \<Rightarrow> Some (p, i) | _ \<Rightarrow> None)"

definition users_ok :: "user_row list \<Rightarrow> bool" where
  "users_ok us \<longleftrightarrow> distinct (map u_id us) \<and> distinct (map u_email us) \<and>
     (\<forall>u \<in> set us. \<forall>v \<in> set us. identity u = identity v \<longrightarrow> identity u = None \<or> u = v)"

definition auth_ok :: "auth_state \<Rightarrow> bool" where
  "auth_ok s \<longleftrightarrow> users_ok (auth_users s) \<and> distinct (map rv_jti (revoked s))"

lemma users_ok_map:
  assumes "users_ok us" "\<And>u. u_id (f u) = u_id u" "\<And>u. u_email (f u) = u_email u"
    "\<And>v w. v \<in> set us \<Longrightarrow> w \<in> set us \<Longrightarrow> identity (f v) = identity (f w) \<Longrightarrow>
       identity (f v) = None \<or> f v = f w"
  shows "users_ok (map f us)"
proof -
  have "map u_id (map f us) = map u_id us" "map u_email (map f us) = map u_email us"
    by (simp_all add: assms)
  moreover have "\<forall>u \<in> set (map f us). \<forall>v \<in> set (map f us). identity u = identity v \<longrightarrow> identity u = None \<or> u = v"
    using assms(4) unfolding set_map ball_simps by blast
  ultimately show ?thesis using assms(1) unfolding users_ok_def by metis
qed

lemma auth_ok_update [preserved]:
  assumes "auth_ok s" "\<And>u. u_id (f u) = u_id u" "\<And>u. u_email (f u) = u_email u" "\<And>u. identity (f u) = identity u"
  shows "auth_ok (updateUser i f s)"
proof -
  let ?f = "\<lambda>u. if u_id u = i then f u else u"
  have *: "identity (?f v) = None \<or> ?f v = ?f w"
    if "v \<in> set (auth_users s)" "w \<in> set (auth_users s)" "identity (?f v) = identity (?f w)" for v w
  proof -
    have "identity v = identity w" using that(3) assms(4) by (simp split: if_splits)
    then have "identity v = None \<or> v = w"
      using assms(1) that(1,2) unfolding auth_ok_def users_ok_def by blast
    then show ?thesis using assms(4) by auto
  qed
  have "users_ok (map ?f (auth_users s))"
    by (rule users_ok_map [OF _ _ _ *]) (use assms(1) in \<open>simp_all add: assms(2,3) auth_ok_def\<close>)
  then show ?thesis using assms(1) by (simp add: auth_ok_def updateUser_def)
qed

lemma identity_simps [simp]:
  "identity (u\<lparr>u_refreshTokenHash := h\<rparr>) = identity u" "identity (u\<lparr>u_status := st\<rparr>) = identity u"
  "identity (u\<lparr>u_apiKeyHash := h\<rparr>) = identity u" "identity (u\<lparr>u_apiKeyPrefix := h\<rparr>) = identity u"
  "identity (new_user i email pw role) = None" "identity (link_identity p sub u) = Some (p, sub)"
  "u_id (link_identity p sub u) = u_id u" "u_email (link_identity p sub u) = u_email u"
  "u_id (new_user i email pw role) = i" "u_email (new_user i email pw role) = email"
  by (simp_all add: identity_def new_user_def link_identity_def)

lemma auth_ok_save:
  assumes "auth_ok s" "u_id u \<notin> u_id ` set (auth_users s)" "findUser (\<lambda>v. u_email v = u_email u) s = None"
    "\<And>p sub. identity u = Some (p, sub) \<Longrightarrow> findUser (\<lambda>u. u_socialProvider u = Some p \<and> u_socialProviderId u = Some sub) s = None"
  shows "auth_ok (saveUser u s)"
proof -
  have "identity v \<noteq> identity u" if "v \<in> set (auth_users s)" "identity u \<noteq> None" for v
  proof -
    obtain p sub where u: "identity u = Some (p, sub)" using \<open>identity u \<noteq> None\<close> by auto
    show ?thesis using assms(4) [OF u] \<open>v \<in> set (auth_users s)\<close>
      by (auto simp: u findUser_def find_None) (auto simp: identity_def split: option.splits)
  qed
  then show ?thesis using assms(1-3)
    by (auto simp: auth_ok_def users_ok_def saveUser_def findUser_def find_None)
qed

lemma auth_ok_login [preserved]: "auth_ok s \<Longrightarrow> auth_ok (snd (login env now rnd u s))"
  by (simp add: login_def generateRefreshToken_def Let_def auth_ok_update split: prod.split)

lemma auth_ok_login_pair: "(pair, s') = login env now rnd u s \<Longrightarrow> auth_ok s \<Longrightarrow> auth_ok s'"
  using auth_ok_login [of s env now rnd u] by (metis snd_conv)

lemma auth_ok_revoke_decoded: "revoke_decoded env tok s = Inr s' \<Longrightarrow> auth_ok s \<Longrightarrow> auth_ok s'"
  by (auto simp: revoke_decoded_def revoke_def auth_ok_def split: option.splits if_splits)

lemma auth_ok_link:
  assumes "auth_ok s" "findUser (\<lambda>u. u_email u = email) s = Some u"
    "findUser (\<lambda>u. u_socialProvider u = Some p \<and> u_socialProviderId u = Some sub) s = None"
  shows "auth_ok (updateUser (u_id u) (link_identity p sub) s)"
proof -
  let ?f = "\<lambda>v. if u_id v = u_id u then link_identity p sub v else v"
  have none: "identity v \<noteq> Some (p, sub)" if "v \<in> set (auth_users s)" for v
    using assms(3) that by (auto simp: findUser_def find_None identity_def split: option.splits)
  have ids: "v = w" if "v \<in> set (auth_users s)" "w \<in> set (auth_users s)" "u_id v = u_id w" for v w
    using assms(1) that by (auto simp: auth_ok_def users_ok_def distinct_map dest: inj_onD)
  have *: "identity (?f v) = None \<or> ?f v = ?f w"
    if "v \<in> set (auth_users s)" "w \<in> set (auth_users s)" "identity (?f v) = identity (?f w)" for v w
  proof -
    have orig: "identity v = identity w \<Longrightarrow> identity v = None \<or> v = w"
      using assms(1) that(1,2) unfolding auth_ok_def users_ok_def by blast
    show ?thesis
      using orig none [OF that(1)] none [OF that(2)] ids [OF that(1,2)] that(3)
      by (cases "u_id v = u_id u"; cases "u_id w = u_id u") simp_all
  qed
  have "users_ok (map ?f (auth_users s))"
    by (rule users_ok_map [OF _ _ _ *]) (use assms(1) in \<open>simp_all add: auth_ok_def\<close>)
  then show ?thesis using assms(1) by (simp add: auth_ok_def updateUser_def)
qed

lemma auth_ok_account:
  assumes "social_account env i pw salt provider sub email s = Inr (u, s')" "auth_ok s"
    "i \<notin> u_id ` set (auth_users s)"
  shows "auth_ok s'"
  using assms
  by (auto simp: social_account_def Let_def intro!: auth_ok_save auth_ok_link split: option.splits if_splits)

lemma auth_ok_step [preserved]: "auth_step env now s s' \<Longrightarrow> auth_ok s \<Longrightarrow> auth_ok s'"
proof (induction rule: auth_step.induct)
  case (Register i salt dto s u s')
  then show ?case
    by (auto simp: register_def Let_def intro!: auth_ok_save split: option.splits)
next
  case (Login rnd email p s pair s')
  then show ?case by (auto simp: login_route_def split: sum.splits intro: auth_ok_login_pair [OF sym])
next
  case (Social rnd i pw salt provider tok s pair s')
  then show ?case
    by (elim socialLogin_account) (blast intro: auth_ok_account auth_ok_login_pair)
next
  case (Refresh rnd uid tok s pair s')
  then show ?case
    by (auto simp: refreshTokens_def auth_ok_update split: option.splits if_splits
        intro: auth_ok_login_pair [OF sym])
next
  case (Logout s user authorization)
  then show ?case
    by (auto simp: logout_route_def logout_def auth_ok_update dest: auth_ok_revoke_decoded split: sum.split)
next
  case (Revoke tok s s')
  then show ?case by (auto simp: revokeToken_def dest: auth_ok_revoke_decoded split: sum.splits)
next
  case (Key rnd salt uid s key s')
  then show ?case by (auto simp: generateApiKey_def Let_def intro!: auth_ok_update split: option.splits)
next
  case (Purge s)
  then show ?case by (auto simp: auth_ok_def purgeExpired_def distinct_map_filter)
next
  case (Status s uid st)
  then show ?case by (simp add: auth_ok_update)
qed

definition empty_database :: auth_state where
  "empty_database = \<lparr>auth_users = [], revoked = []\<rparr>"

text \<open>C22. Uniqueness. In every state the service can reach, accounts have pairwise distinct ids, emails and
  social identities, and revocations distinct token ids: no operation runs into a unique index of the
  user table.\<close>

theorem accounts_unique:
  assumes "later env t0 empty_database t s"
  shows "distinct (map u_id (auth_users s)) \<and> distinct (map u_email (auth_users s)) \<and>
    (\<forall>u \<in> set (auth_users s). \<forall>v \<in> set (auth_users s). identity u = identity v \<longrightarrow> identity u = None \<or> u = v) \<and>
    distinct (map rv_jti (revoked s))"
proof -
  have "auth_ok empty_database" by (simp add: empty_database_def auth_ok_def users_ok_def)
  with assms have "auth_ok s" by induction (auto intro: auth_ok_step)
  then show ?thesis by (simp add: auth_ok_def users_ok_def)
qed

section \<open>An instance of the third-party laws\<close>

text \<open>A library that signs by writing the claims out, field by field, and a hash that keeps the first 72
  bytes: the laws hold of it.\<close>

fun frame :: "string \<Rightarrow> string" where
  "frame [] = ''.''"
| "frame (c # s) = CHR ''x'' # c # frame s"

fun unframe :: "string \<Rightarrow> string \<times> string" where
  "unframe (m # c # s) =
     (if m = CHR ''x'' then (let (t, rest) = unframe s in (c # t, rest)) else ([], c # s))"
| "unframe s = ([], [])"

lemma unframe_frame [simp]: "unframe (frame s @ rest) = (s, rest)"
  by (induction s) (simp_all, cases rest, simp_all)

definition write_opt :: "('a \<Rightarrow> string) \<Rightarrow> 'a option \<Rightarrow> string" where
  "write_opt w x = (case x of None \<Rightarrow> [] | Some y \<Rightarrow> CHR ''s'' # w y)"

definition read_opt :: "(string \<Rightarrow> 'a) \<Rightarrow> string \<Rightarrow> 'a option" where
  "read_opt r s = (case s of [] \<Rightarrow> None | _ # t \<Rightarrow> Some (r t))"

definition write_int :: "int \<Rightarrow> string" where
  "write_int i = (if i < 0 then CHR ''m'' else CHR ''p'') # replicate (nat \<bar>i\<bar>) CHR ''1''"

definition read_int :: "string \<Rightarrow> int" where
  "read_int s = (if take 1 s = ''m'' then - 1 else 1) * (int (length s) - 1)"

definition read_role :: "string \<Rightarrow> user_role" where
  "read_role s = (if s = ''admin'' then ADMIN else if s = ''user'' then USER else READONLY)"

definition demo_sign :: "jwt_payload \<Rightarrow> string" where
  "demo_sign c = frame (jp_sub c) @ frame (jp_email c) @ frame (role_text (jp_role c)) @
     frame (write_opt (\<lambda>s. s) (jp_jti c)) @ frame (write_opt write_int (jp_iat c)) @
     frame (write_opt write_int (jp_exp c))"

definition demo_decode :: "string \<Rightarrow> jwt_payload option" where
  "demo_decode t =
     (let (sub, t) = unframe t; (email, t) = unframe t; (role, t) = unframe t; (jti, t) = unframe t;
          (iat, t) = unframe t; (ex, t) = unframe t
      in Some \<lparr>jp_sub = sub, jp_email = email, jp_role = read_role role, jp_jti = read_opt (\<lambda>s. s) jti,
           jp_iat = read_opt read_int iat, jp_exp = read_opt read_int ex\<rparr>)"

definition demo_env :: auth_env where
  "demo_env = \<lparr>env_hash = (\<lambda>salt p. CHR ''h'' # take 72 p),
     env_compare = (\<lambda>p h. h = CHR ''h'' # take 72 p), env_sign = demo_sign,
     env_verify = (\<lambda>now t. case demo_decode t of None \<Rightarrow> None
       | Some c \<Rightarrow> if (case jp_exp c of Some e \<Rightarrow> now div 1000 < e | None \<Rightarrow> True) then Some c else None),
     env_decode = demo_decode, env_googleVerify = (\<lambda>_ _. None), env_googleClientId = None\<rparr>"

lemma demo_fields [simp]:
  "read_opt r (write_opt w x) = map_option (\<lambda>y. r (w y)) x" "read_int (write_int i) = i"
  "read_role (role_text role) = role"
  by (cases x; simp add: read_opt_def write_opt_def) (auto simp: read_int_def write_int_def read_role_def
      role_text_def split: user_role.split)

lemma demo_decode_sign [simp]: "demo_decode (demo_sign c) = Some c"
proof -
  have "unframe (frame s) = (s, [])" for s using unframe_frame [of s "[]"] by simp
  then show ?thesis by (cases c) (simp add: demo_decode_def demo_sign_def option.map_ident)
qed

lemma demo_laws: "bcrypt_law demo_env" "jwt_laws demo_env"
  by (auto simp: bcrypt_law_def jwt_laws_def demo_env_def split: option.splits if_splits)

definition demo_dto :: register_dto where
  "demo_dto = \<lparr>rg_email = ''ann@x'', rg_password = ''secret88'', rg_role = Some ADMIN\<rparr>"

definition demo_user :: user_row where
  "demo_user = new_user ''u1'' ''ann@x'' ''hsecret88'' ADMIN"

definition demo_database :: auth_state where
  "demo_database = \<lparr>auth_users = [demo_user], revoked = []\<rparr>"

lemma demo_register:
  "register demo_env ''u1'' salt demo_dto empty_database = Inr (toAuthUser demo_user, demo_database)"
  by (simp add: register_def demo_dto_def empty_database_def findUser_def demo_env_def demo_user_def
      demo_database_def saveUser_def Let_def)


definition demo_login :: auth_state where
  "demo_login = snd (login demo_env 0 (''j'', ''tok'', ''x'') (toAuthUser demo_user) demo_database)"

lemma demo_login_rows:
  "demo_login = \<lparr>auth_users = [demo_user\<lparr>u_refreshTokenHash := Some ''htok''\<rparr>], revoked = []\<rparr>"
  by (simp add: demo_login_def login_def generateRefreshToken_def updateUser_def demo_database_def
      toAuthUser_def demo_env_def demo_user_def new_user_def)

lemma refresh_rotation_witness:
  "\<exists>pair s'. refreshTokens demo_env 9 (''k'', ''new'', ''x'') ''u1'' ''tok'' demo_login = Inr (pair, s') \<and>
    refreshToken pair = ''new'' \<and>
    (\<forall>now rnd r. (\<exists>x. refreshTokens demo_env now rnd ''u1'' r s' = Inr x) \<longleftrightarrow> take 72 r = take 72 ''new'')"
proof -
  have "\<exists>pair s'. refreshTokens demo_env 9 (''k'', ''new'', ''x'') ''u1'' ''tok'' demo_login = Inr (pair, s')"
    by (auto simp: refreshTokens_def findUser_def demo_login_rows demo_user_def new_user_def demo_env_def)
  then show ?thesis using refresh_rotation [OF demo_laws(1)] by blast
qed

lemma api_key_rotation_witness:
  "\<exists>key prefix s'. generateApiKey demo_env ''0123456789'' ''x'' ''u1'' demo_database = Inr ((key, prefix), s') \<and>
    validateApiKey demo_env key s' = Some (toAuthUser demo_user) \<and>
    (\<forall>k a. validateApiKey demo_env k s' = Some a \<and> au_id a = ''u1'' \<longrightarrow> take 72 k = take 72 key)"
proof -
  have u: "findUser (\<lambda>u. u_id u = ''u1'') demo_database = Some demo_user"
    by (simp add: findUser_def demo_database_def demo_user_def new_user_def)
  then obtain key prefix s' where g:
    "generateApiKey demo_env ''0123456789'' ''x'' ''u1'' demo_database = Inr ((key, prefix), s')"
    by (auto simp: generateApiKey_def Let_def)
  have "u_status demo_user = ACTIVE" by (simp add: demo_user_def new_user_def)
  from api_key_rotation [OF demo_laws(1) g u this] g show ?thesis
    by (auto simp: demo_database_def demo_user_def new_user_def)
qed

lemma revoked_token_rejected_witness:
  "let tok = demo_sign (access_claims 0 ''j'' (toAuthUser demo_user));
       s' = purgeExpired 5000 (logout demo_env ''u1'' tok demo_login)
   in \<exists>message. jwt_guard demo_env False 6000 tok s' = Inl (UnauthorizedException message)"
proof -
  let ?c = "access_claims 0 ''j'' (toAuthUser demo_user)"
  let ?s = "logout demo_env ''u1'' (demo_sign ?c) demo_login"
  have l: "later demo_env 0 ?s 5000 (purgeExpired 5000 ?s)"
    by (rule later.Step [OF later.Now]) (auto intro: auth_step.Purge)
  have d: "env_decode demo_env (demo_sign ?c) = Some ?c" by (simp add: demo_env_def)
  show ?thesis
    unfolding Let_def
    by (rule revoked_token_rejected [OF demo_laws(2) d _ _ _ _ _ l, where j = "''j''" and e = 900])
      (simp_all add: access_claims_def demo_login_rows ACCESS_TOKEN_TTL_def)
qed

lemma accounts_unique_witness:
  "distinct (map u_id (auth_users demo_database)) \<and> distinct (map u_email (auth_users demo_database)) \<and>
    distinct (map rv_jti (revoked demo_database))"
proof -
  have "later demo_env 0 empty_database 0 demo_database"
    by (rule later.Step [OF later.Now _ auth_step.Register [OF demo_register]]) (simp_all add: empty_database_def)
  from accounts_unique [OF this] show ?thesis by simp
qed

lemma suspended_refresh_witness:
  "let s' = updateUser ''u1'' (\<lambda>u. u\<lparr>u_status := SUSPENDED\<rparr>) demo_login
   in (\<exists>x. refreshTokens demo_env 9 (''k'', ''new'', ''x'') ''u1'' ''tok'' s' = Inr x) \<and>
      \<not> (\<exists>email p a. validateCredentials demo_env email p s' = Some a \<and> au_id a = ''u1'')"
proof -
  have "\<exists>x. refreshTokens demo_env 9 (''k'', ''new'', ''x'') ''u1'' ''tok'' demo_login = Inr x"
    by (auto simp: refreshTokens_def findUser_def demo_login_rows demo_user_def new_user_def demo_env_def)
  then show ?thesis
    using suspended_refresh [of "''u1''" SUSPENDED demo_login demo_env 9 "(''k'', ''new'', ''x'')" "''tok''"]
    by (simp add: Let_def)
qed

end
