(* ===== verification/Drift.thy ===== *)
theory Drift
  imports Prelude
begin

text \<open>
  Drift detection (src/rebalancing/drift-calculator.service.ts and its dto).

  Weights, values and thresholds are doubles. The clock, the random ids and the text of
  \<open>toFixed(2)\<close> are arguments; \<open>aid i\<close> is the id of the alert for the i-th asset. Webhook calls are
  appended to \<open>d_sent\<close>; the model does not wait for them, nor does the code.
\<close>

section \<open>Data\<close>

datatype asset_status = OnTarget | AWarning | ACritical

datatype drift_event = EvWarning | EvCritical | EvResolved

datatype portfolio_status = Healthy | PWarning | PCritical

record asset_allocation =
  aa_symbol :: string
  aa_currentWeight :: rat
  aa_targetWeight :: rat
  aa_currentValue :: rat

record asset_drift =
  ad_symbol :: string
  ad_currentWeight :: rat
  ad_targetWeight :: rat
  ad_absoluteDrift :: rat
  ad_relativeDrift :: rat
  ad_driftValue :: rat
  ad_status :: asset_status

record drift_status =
  ds_portfolioId :: string
  ds_timestamp :: int
  ds_overallDrift :: rat
  ds_maxDrift :: rat
  ds_status :: portfolio_status
  ds_assets :: "asset_drift list"
  ds_thresholds :: "(rat \<times> rat) option"
  ds_rebalancingRecommended :: bool

record drift_config =
  dc_portfolioId :: string
  dc_warningThreshold :: rat
  dc_criticalThreshold :: rat
  dc_webhookUrl :: "string option"
  dc_enabled :: bool
  dc_createdAt :: int
  dc_updatedAt :: int

record drift_config_request =
  dr_portfolioId :: string
  dr_warningThreshold :: rat
  dr_criticalThreshold :: rat
  dr_webhookUrl :: "string option"
  dr_enabled :: bool

record drift_config_update =
  du_warningThreshold :: "rat option"
  du_criticalThreshold :: "rat option"
  du_webhookUrl :: "string option"
  du_enabled :: "bool option"

record drift_alert =
  da_alertId :: string
  da_portfolioId :: string
  da_severity :: drift_event
  da_affectedAsset :: string
  da_currentDrift :: rat
  da_threshold :: rat
  da_message :: string
  da_triggeredAt :: int
  da_acknowledged :: bool
  da_acknowledgedAt :: "int option"
  da_acknowledgedBy :: "string option"

record drift_history_entry =
  dh_snapshotId :: string
  dh_portfolioId :: string
  dh_timestamp :: int
  dh_overallDrift :: rat
  dh_maxDrift :: rat
  dh_status :: portfolio_status
  dh_assetCount :: nat
  dh_assetsInBreach :: nat

record webhook_subscription =
  dw_webhookId :: string
  dw_portfolioId :: string
  dw_webhookUrl :: string
  dw_events :: "drift_event list"
  dw_secret :: "string option"
  dw_registeredAt :: int

record drift_service =
  d_configs :: "drift_config jsmap"
  d_history :: "drift_history_entry list jsmap"
  d_alerts :: "drift_alert jsmap"
  d_webhooks :: "webhook_subscription list jsmap"
  d_sent :: "(string \<times> drift_event \<times> drift_alert) list"

section \<open>Drift of a snapshot\<close>

definition threshold_status :: "'s \<Rightarrow> 's \<Rightarrow> 's \<Rightarrow> rat \<Rightarrow> rat \<Rightarrow> rat \<Rightarrow> 's" where
  "threshold_status none warn crit warning critical x =
     (if critical \<le> x then crit else if warning \<le> x then warn else none)"

definition asset_drift_of :: "rat \<Rightarrow> rat \<Rightarrow> rat \<Rightarrow> asset_allocation \<Rightarrow> asset_drift" where
  "asset_drift_of warning critical totalValue a =
     (let absoluteDrift = \<bar>fsub (aa_currentWeight a) (aa_targetWeight a)\<bar>;
          relativeDrift = (if 0 < aa_targetWeight a then to_fixed 4 (fdiv absoluteDrift (aa_targetWeight a)) else 0);
          driftValue = to_fixed 4 (fmul absoluteDrift totalValue)
      in \<lparr>ad_symbol = aa_symbol a, ad_currentWeight = aa_currentWeight a, ad_targetWeight = aa_targetWeight a,
          ad_absoluteDrift = to_fixed 4 absoluteDrift, ad_relativeDrift = relativeDrift, ad_driftValue = driftValue,
          ad_status = threshold_status OnTarget AWarning ACritical warning critical absoluteDrift\<rparr>)"

definition fmax :: "rat list \<Rightarrow> rat" where "fmax xs = (case xs of [] \<Rightarrow> 0 | y # ys \<Rightarrow> foldl max y ys)"

definition average4 :: "rat list \<Rightarrow> rat" where
  "average4 xs = to_fixed 4 (fdiv (fsum xs) (of_nat (length xs)))"

definition DEFAULT_WARNING :: rat where "DEFAULT_WARNING = f64 (5/100)"
definition DEFAULT_CRITICAL :: rat where "DEFAULT_CRITICAL = f64 (10/100)"

definition snapshot_of :: "int \<Rightarrow> string \<Rightarrow> drift_config option \<Rightarrow> asset_allocation list \<Rightarrow> drift_status" where
  "snapshot_of now portfolioId config assets =
     (let warning = (case config of Some c \<Rightarrow> dc_warningThreshold c | None \<Rightarrow> DEFAULT_WARNING);
          critical = (case config of Some c \<Rightarrow> dc_criticalThreshold c | None \<Rightarrow> DEFAULT_CRITICAL);
          totalValue = fsum (map aa_currentValue assets);
          assetDrifts = map (asset_drift_of warning critical totalValue) assets;
          driftValues = map ad_absoluteDrift assetDrifts;
          overallDrift = (if driftValues \<noteq> [] then average4 driftValues else 0);
          maxDrift = (if driftValues \<noteq> [] then fmax driftValues else 0);
          status = threshold_status Healthy PWarning PCritical warning critical maxDrift
      in \<lparr>ds_portfolioId = portfolioId, ds_timestamp = now, ds_overallDrift = overallDrift,
          ds_maxDrift = to_fixed 4 maxDrift, ds_status = status, ds_assets = assetDrifts,
          ds_thresholds = (if config = None then None else Some (warning, critical)),
          ds_rebalancingRecommended = (status \<noteq> Healthy)\<rparr>)"

section \<open>History, alerts and notifications\<close>

definition persistSnapshot :: "string \<Rightarrow> string \<Rightarrow> drift_status \<Rightarrow> drift_service \<Rightarrow> drift_service" where
  "persistSnapshot snapshotId portfolioId snapshot s =
     (let entry = \<lparr>dh_snapshotId = snapshotId, dh_portfolioId = portfolioId, dh_timestamp = ds_timestamp snapshot,
            dh_overallDrift = ds_overallDrift snapshot, dh_maxDrift = ds_maxDrift snapshot,
            dh_status = ds_status snapshot, dh_assetCount = length (ds_assets snapshot),
            dh_assetsInBreach = length (filter (\<lambda>a. ad_status a \<noteq> OnTarget) (ds_assets snapshot))\<rparr>;
          existing = or_else (map_get (d_history s) portfolioId) []
      in s\<lparr>d_history := map_set portfolioId (slice_from (- 1000) (existing @ [entry])) (d_history s)\<rparr>)"

definition dispatchWebhookNotifications ::
  "string \<Rightarrow> drift_event \<Rightarrow> drift_alert \<Rightarrow> drift_service \<Rightarrow> drift_service" where
  "dispatchWebhookNotifications portfolioId event alert s =
     (let subscriptions = or_else (map_get (d_webhooks s) portfolioId) []
      in s\<lparr>d_sent := d_sent s @ map (\<lambda>w. (dw_webhookUrl w, event, alert))
             (filter (\<lambda>w. event \<in> set (dw_events w)) subscriptions)\<rparr>)"

definition severity_of :: "asset_status \<Rightarrow> drift_event" where
  "severity_of st = (if st = ACritical then EvCritical else EvWarning)"

definition alert_for ::
  "(rat \<Rightarrow> string) \<Rightarrow> string \<Rightarrow> string \<Rightarrow> int \<Rightarrow> rat \<Rightarrow> rat \<Rightarrow> asset_drift \<Rightarrow> drift_alert" where
  "alert_for fixed2 alertId portfolioId timestamp warning critical asset =
     (let severity = severity_of (ad_status asset);
          threshold = (if severity = EvCritical then critical else warning)
      in \<lparr>da_alertId = alertId, da_portfolioId = portfolioId, da_severity = severity,
          da_affectedAsset = ad_symbol asset, da_currentDrift = ad_absoluteDrift asset, da_threshold = threshold,
          da_message = ad_symbol asset @ '' has drifted '' @ fixed2 (fmul (ad_absoluteDrift asset) 100) @
            ''% from its target (threshold: '' @ fixed2 (fmul threshold 100) @ ''%)'',
          da_triggeredAt = timestamp, da_acknowledged = False, da_acknowledgedAt = None, da_acknowledgedBy = None\<rparr>)"

definition same_open :: "drift_alert \<Rightarrow> drift_alert \<Rightarrow> bool" where
  "same_open a b \<longleftrightarrow> da_portfolioId a = da_portfolioId b \<and> da_affectedAsset a = da_affectedAsset b \<and>
     da_severity a = da_severity b \<and> \<not> da_acknowledged a"

definition raise_alert ::
  "(rat \<Rightarrow> string) \<Rightarrow> string \<Rightarrow> string \<Rightarrow> int \<Rightarrow> rat \<Rightarrow> rat \<Rightarrow> asset_drift \<Rightarrow> drift_service \<Rightarrow> drift_service" where
  "raise_alert fixed2 alertId portfolioId timestamp warning critical asset s =
     (if ad_status asset = OnTarget then s
      else (let alert = alert_for fixed2 alertId portfolioId timestamp warning critical asset
            in if list_ex (\<lambda>(_, a). same_open a alert) (d_alerts s) then s
               else dispatchWebhookNotifications portfolioId (da_severity alert) alert
                 (s\<lparr>d_alerts := map_set alertId alert (d_alerts s)\<rparr>)))"

fun generateAlerts ::
  "(rat \<Rightarrow> string) \<Rightarrow> (nat \<Rightarrow> string) \<Rightarrow> string \<Rightarrow> int \<Rightarrow> rat \<Rightarrow> rat \<Rightarrow> asset_drift list \<Rightarrow> drift_service \<Rightarrow> drift_service" where
  "generateAlerts fixed2 aid portfolioId timestamp warning critical [] s = s"
| "generateAlerts fixed2 aid portfolioId timestamp warning critical (a # as) s =
     generateAlerts fixed2 (\<lambda>i. aid (Suc i)) portfolioId timestamp warning critical as
       (raise_alert fixed2 (aid 0) portfolioId timestamp warning critical a s)"

text \<open>The ids of a calculation: the snapshot's and the alerts'.\<close>

definition calculateDrift ::
  "(rat \<Rightarrow> string) \<Rightarrow> int \<Rightarrow> string \<Rightarrow> (nat \<Rightarrow> string) \<Rightarrow> string \<Rightarrow> asset_allocation list \<Rightarrow> drift_service \<Rightarrow>
   drift_status \<times> drift_service" where
  "calculateDrift fixed2 now sid aid portfolioId assets s =
     (let config = map_get (d_configs s) portfolioId;
          warning = (case config of Some c \<Rightarrow> dc_warningThreshold c | None \<Rightarrow> DEFAULT_WARNING);
          critical = (case config of Some c \<Rightarrow> dc_criticalThreshold c | None \<Rightarrow> DEFAULT_CRITICAL);
          snapshot = snapshot_of now portfolioId config assets
      in (snapshot, generateAlerts fixed2 aid portfolioId (ds_timestamp snapshot) warning critical
            (ds_assets snapshot) (persistSnapshot sid portfolioId snapshot s)))"

section \<open>Configuration\<close>

definition createConfig :: "int \<Rightarrow> drift_config_request \<Rightarrow> drift_service \<Rightarrow> drift_config \<times> drift_service" where
  "createConfig now dto s =
     (let entry = \<lparr>dc_portfolioId = dr_portfolioId dto, dc_warningThreshold = dr_warningThreshold dto,
            dc_criticalThreshold = dr_criticalThreshold dto, dc_webhookUrl = dr_webhookUrl dto,
            dc_enabled = dr_enabled dto, dc_createdAt = now, dc_updatedAt = now\<rparr>
      in (entry, s\<lparr>d_configs := map_set (dr_portfolioId dto) entry (d_configs s)\<rparr>))"

definition updateConfig ::
  "int \<Rightarrow> string \<Rightarrow> drift_config_update \<Rightarrow> drift_service \<Rightarrow> error + (drift_config \<times> drift_service)" where
  "updateConfig now portfolioId dto s =
     (case map_get (d_configs s) portfolioId of
        None \<Rightarrow> Inl (NotFoundException (''Drift config not found for portfolio '' @ portfolioId))
      | Some existing \<Rightarrow>
          (let updated = existing\<lparr>
                 dc_warningThreshold := or_else (du_warningThreshold dto) (dc_warningThreshold existing),
                 dc_criticalThreshold := or_else (du_criticalThreshold dto) (dc_criticalThreshold existing),
                 dc_webhookUrl := (if du_webhookUrl dto = None then dc_webhookUrl existing else du_webhookUrl dto),
                 dc_enabled := or_else (du_enabled dto) (dc_enabled existing),
                 dc_updatedAt := now\<rparr>
           in Inr (updated, s\<lparr>d_configs := map_set portfolioId updated (d_configs s)\<rparr>)))"

definition getHistory :: "string \<Rightarrow> int \<Rightarrow> drift_service \<Rightarrow> drift_history_entry list" where
  "getHistory portfolioId limit s = rev (slice_from (- limit) (or_else (map_get (d_history s) portfolioId) []))"

definition getActiveAlerts :: "string option \<Rightarrow> drift_service \<Rightarrow> drift_alert list" where
  "getActiveAlerts portfolioId s =
     (let open_alerts = filter (\<lambda>a. \<not> da_acknowledged a) (map snd (d_alerts s))
      in (case portfolioId of
            Some p \<Rightarrow> if p \<noteq> [] then filter (\<lambda>a. da_portfolioId a = p) open_alerts else open_alerts
          | None \<Rightarrow> open_alerts))"

definition acknowledgeAlert ::
  "int \<Rightarrow> string \<Rightarrow> string option \<Rightarrow> drift_service \<Rightarrow> error + (drift_alert \<times> drift_service)" where
  "acknowledgeAlert now alertId acknowledgedBy s =
     (case map_get (d_alerts s) alertId of
        None \<Rightarrow> Inl (NotFoundException (''Alert '' @ alertId @ '' not found''))
      | Some alert \<Rightarrow>
          (let alert' = alert\<lparr>da_acknowledged := True, da_acknowledgedAt := Some now,
                 da_acknowledgedBy := Some (or_else acknowledgedBy ''system'')\<rparr>
           in Inr (alert', s\<lparr>d_alerts := map_set alertId alert' (d_alerts s)\<rparr>)))"

definition registerWebhook ::
  "string \<Rightarrow> int \<Rightarrow> string \<Rightarrow> string \<Rightarrow> drift_event list \<Rightarrow> string option \<Rightarrow> drift_service \<Rightarrow>
   webhook_subscription \<times> drift_service" where
  "registerWebhook webhookId now portfolioId url evs secret s =
     (let subscription = \<lparr>dw_webhookId = webhookId, dw_portfolioId = portfolioId, dw_webhookUrl = url,
            dw_events = evs, dw_secret = secret, dw_registeredAt = now\<rparr>;
          existing = or_else (map_get (d_webhooks s) portfolioId) []
      in (subscription, s\<lparr>d_webhooks := map_set portfolioId (existing @ [subscription]) (d_webhooks s)\<rparr>))"

section \<open>Analysis\<close>

definition calculateTrend :: "rat list \<Rightarrow> rat" where
  "calculateTrend values =
     (if length values < 4 then 0
      else (let half = length values div 2;
                firstHalfAvg = fdiv (fsum (take half values)) (of_nat half);
                secondHalfAvg = fdiv (fsum (drop half values)) (of_nat (length values - half))
            in fsub secondHalfAvg firstHalfAvg))"

definition projectBreachDays :: "rat \<Rightarrow> rat \<Rightarrow> rat \<Rightarrow> int option" where
  "projectBreachDays currentDrift trendPerSnapshot criticalThreshold =
     (if criticalThreshold \<le> currentDrift then None
      else if trendPerSnapshot \<le> 0 then None
      else (let remaining = fsub criticalThreshold currentDrift;
                snapshots = \<lceil>fdiv remaining trendPerSnapshot\<rceil>
            in Some (max 1 (math_round (fdiv (of_int snapshots) 24)))))"

text \<open>The texts of \<open>buildRecommendation\<close>, which contain characters outside the model's strings.\<close>

datatype recommendation = Immediate | SoonInDays int | Soon | Increasing | WithinBounds

definition buildRecommendation :: "portfolio_status \<Rightarrow> rat \<Rightarrow> int option \<Rightarrow> recommendation" where
  "buildRecommendation status trend projectedBreachDays =
     (if status = PCritical then Immediate
      else if status = PWarning then (case projectedBreachDays of Some d \<Rightarrow> SoonInDays d | None \<Rightarrow> Soon)
      else if f64 (5/1000) < trend then Increasing else WithinBounds)"

record drift_analysis =
  dy_portfolioId :: string
  dy_analysisTimestamp :: int
  dy_analysisPeriodDays :: int
  dy_currentStatus :: drift_status
  dy_averageDrift :: rat
  dy_peakDrift :: rat
  dy_driftTrend :: rat
  dy_mostDriftedAsset :: "string option"
  dy_projectedBreachDays :: "int option"
  dy_recommendation :: recommendation
  dy_history :: "drift_history_entry list"

definition most_drifted :: "asset_drift list \<Rightarrow> string option" where
  "most_drifted as = (case as of [] \<Rightarrow> None
     | b # bs \<Rightarrow> Some (ad_symbol (foldl (\<lambda>prev curr. if ad_absoluteDrift prev < ad_absoluteDrift curr then curr else prev) b bs)))"

definition analysePortfolio ::
  "(rat \<Rightarrow> string) \<Rightarrow> int \<Rightarrow> string \<Rightarrow> (nat \<Rightarrow> string) \<Rightarrow> string \<Rightarrow> asset_allocation list \<Rightarrow> int \<Rightarrow> drift_service \<Rightarrow>
   drift_analysis \<times> drift_service" where
  "analysePortfolio fixed2 now sid aid portfolioId assets periodDays s =
     (let (currentStatus, s') = calculateDrift fixed2 now sid aid portfolioId assets s;
          hist = getHistory portfolioId (periodDays * 24) s';
          driftValues = map dh_overallDrift hist;
          averageDrift = (if driftValues \<noteq> [] then average4 driftValues else ds_overallDrift currentStatus);
          peakDrift = (if driftValues \<noteq> [] then fmax driftValues else ds_maxDrift currentStatus);
          driftTrend = calculateTrend driftValues;
          critical = (case map_get (d_configs s') portfolioId of Some c \<Rightarrow> dc_criticalThreshold c | None \<Rightarrow> DEFAULT_CRITICAL);
          projected = projectBreachDays (ds_overallDrift currentStatus) driftTrend critical
      in (\<lparr>dy_portfolioId = portfolioId, dy_analysisTimestamp = now, dy_analysisPeriodDays = periodDays,
           dy_currentStatus = currentStatus, dy_averageDrift = averageDrift, dy_peakDrift = to_fixed 4 peakDrift,
           dy_driftTrend = to_fixed 4 driftTrend, dy_mostDriftedAsset = most_drifted (ds_assets currentStatus),
           dy_projectedBreachDays = projected,
           dy_recommendation = buildRecommendation (ds_status currentStatus) driftTrend projected,
           dy_history = hist\<rparr>, s'))"

end
