(* ===== verification/Drift_Props.thy ===== *)
theory Drift_Props
  imports Drift
begin

text \<open>
  What drift detection guarantees: at most one open alert per portfolio, asset and severity in every
  reachable state, and after a calculation exactly one for each asset in breach; the portfolio's status
  follows its assets' as long as the thresholds have four decimals; the reported trend has the wrong
  sign.
\<close>

section \<open>Open alerts\<close>

definition alert_key :: "drift_alert \<Rightarrow> string \<times> string \<times> drift_event" where
  "alert_key a = (da_portfolioId a, da_affectedAsset a, da_severity a)"

definition one_open :: "drift_alert jsmap \<Rightarrow> bool" where
  "one_open m \<longleftrightarrow> wf_map m \<and> (\<forall>(k, a) \<in> set m. \<forall>(k', b) \<in> set m.
     \<not> da_acknowledged a \<and> \<not> da_acknowledged b \<and> alert_key a = alert_key b \<longrightarrow> k = k')"

lemma same_open_key: "same_open a b \<longleftrightarrow> alert_key a = alert_key b \<and> \<not> da_acknowledged a"
  by (auto simp: same_open_def alert_key_def)

lemma one_open_distinct:
  "one_open m \<Longrightarrow> distinct (map alert_key (filter (\<lambda>a. \<not> da_acknowledged a) (map snd m)))"
proof (induction m)
  case (Cons p m)
  obtain k a where p: "p = (k, a)" by (cases p)
  have "one_open m" using Cons.prems by (auto simp: one_open_def)
  moreover have "alert_key b \<noteq> alert_key a" if "\<not> da_acknowledged a" "(k', b) \<in> set m" "\<not> da_acknowledged b" for k' b
    using Cons.prems that unfolding one_open_def p by (fastforce simp: image_iff)
  ultimately show ?case using Cons.IH by (auto simp: p) metis
qed simp

lemma one_open_set:
  assumes "one_open m" "\<not> da_acknowledged a \<Longrightarrow> \<forall>(k', b) \<in> set m. k' \<noteq> k \<longrightarrow> \<not> same_open b a"
  shows "one_open (map_set k a m)"
proof -
  have "wf_map m" using assms(1) by (simp add: one_open_def)
  then show ?thesis
    using assms unfolding one_open_def set_map_set [OF \<open>wf_map m\<close>] same_open_key
    by (auto simp: wf_map_set)
qed

lemma alerts_persist [simp]: "d_alerts (persistSnapshot i p sn s) = d_alerts s"
  by (simp add: persistSnapshot_def Let_def)

lemma alerts_dispatch [simp]: "d_alerts (dispatchWebhookNotifications p e a s) = d_alerts s"
  by (simp add: dispatchWebhookNotifications_def Let_def)

lemma alert_for_simps [simp]:
  "\<not> da_acknowledged (alert_for f i p t w c a)"
  "alert_key (alert_for f i p t w c a) = (p, ad_symbol a, severity_of (ad_status a))"
  by (simp_all add: alert_for_def alert_key_def Let_def)

lemma raise_alert_alerts:
  "d_alerts (raise_alert f i p t w c a s) =
    (if ad_status a = OnTarget \<or> list_ex (\<lambda>(_, b). same_open b (alert_for f i p t w c a)) (d_alerts s)
     then d_alerts s else map_set i (alert_for f i p t w c a) (d_alerts s))"
  by (simp add: raise_alert_def Let_def)

lemma one_open_raise: "one_open (d_alerts s) \<Longrightarrow> one_open (d_alerts (raise_alert f i p t w c a s))"
  by (auto simp: raise_alert_alerts list_ex_iff intro!: one_open_set)

lemma one_open_generate: "one_open (d_alerts s) \<Longrightarrow> one_open (d_alerts (generateAlerts f aid p t w c as s))"
  by (induction as arbitrary: aid s) (auto simp: one_open_raise)

lemma one_open_calculate:
  "one_open (d_alerts s) \<Longrightarrow> one_open (d_alerts (snd (calculateDrift f now sid aid p assets s)))"
  by (simp add: calculateDrift_def Let_def one_open_generate)

lemma one_open_acknowledge:
  assumes "one_open (d_alerts s)" "acknowledgeAlert now k by_whom s = Inr (a, s')"
  shows "one_open (d_alerts s')"
  using assms by (auto simp: acknowledgeAlert_def Let_def intro!: one_open_set split: option.splits)

inductive drift_reachable :: "drift_service \<Rightarrow> bool" where
  Start: "drift_reachable \<lparr>d_configs = [], d_history = [], d_alerts = [], d_webhooks = [], d_sent = []\<rparr>"
| Calculate: "drift_reachable s \<Longrightarrow> drift_reachable (snd (calculateDrift f now sid aid p assets s))"
| Analyse: "drift_reachable s \<Longrightarrow> drift_reachable (snd (analysePortfolio f now sid aid p assets days s))"
| Create: "drift_reachable s \<Longrightarrow> drift_reachable (snd (createConfig now dto s))"
| Update: "drift_reachable s \<Longrightarrow> updateConfig now p dto' s = Inr (c, s') \<Longrightarrow> drift_reachable s'"
| Acknowledge: "drift_reachable s \<Longrightarrow> acknowledgeAlert now i by_whom s = Inr (a, s') \<Longrightarrow> drift_reachable s'"
| Webhook: "drift_reachable s \<Longrightarrow> drift_reachable (snd (registerWebhook i now p url evs secret s))"

lemma reachable_one_open: "drift_reachable s \<Longrightarrow> one_open (d_alerts s)"
proof (induction rule: drift_reachable.induct)
  case (Analyse s f now sid aid p assets days)
  then show ?case
    using one_open_calculate by (simp add: analysePortfolio_def Let_def case_prod_beta)
next
  case (Update s now p dto' c s')
  then show ?case by (auto simp: updateConfig_def Let_def split: option.splits)
qed (simp_all add: one_open_calculate one_open_acknowledge createConfig_def registerWebhook_def Let_def one_open_def [of "[]"])

text \<open>With fresh ids every asset in breach ends up with an open alert.\<close>

definition has_open :: "string \<times> string \<times> drift_event \<Rightarrow> drift_alert jsmap \<Rightarrow> bool" where
  "has_open x m \<longleftrightarrow> (\<exists>(k, b) \<in> set m. alert_key b = x \<and> \<not> da_acknowledged b)"

lemma has_open_set:
  "wf_map m \<Longrightarrow> map_get m k = None \<Longrightarrow> has_open x m \<Longrightarrow> has_open x (map_set k a m)"
  by (fastforce simp: has_open_def set_map_set map_get_None_iff image_iff)

lemma has_open_raise:
  assumes "wf_map (d_alerts s)" "map_get (d_alerts s) i = None"
  shows "has_open x (d_alerts s) \<Longrightarrow> has_open x (d_alerts (raise_alert f i p t w c a s))"
    and "ad_status a \<noteq> OnTarget \<Longrightarrow>
      has_open (p, ad_symbol a, severity_of (ad_status a)) (d_alerts (raise_alert f i p t w c a s))"
proof -
  show "has_open x (d_alerts s) \<Longrightarrow> has_open x (d_alerts (raise_alert f i p t w c a s))"
    using assms by (simp add: raise_alert_alerts has_open_set)
  assume breach: "ad_status a \<noteq> OnTarget"
  show "has_open (p, ad_symbol a, severity_of (ad_status a)) (d_alerts (raise_alert f i p t w c a s))"
  proof (cases "list_ex (\<lambda>(_, b). same_open b (alert_for f i p t w c a)) (d_alerts s)")
    case True
    then show ?thesis by (fastforce simp: raise_alert_alerts has_open_def list_ex_iff same_open_key)
  next
    case False
    then show ?thesis
      using breach assms by (auto simp: raise_alert_alerts has_open_def set_map_set intro!: bexI [of _ "(i, alert_for f i p t w c a)"])
  qed
qed

lemma generate_has_open:
  assumes "wf_map (d_alerts s)" "inj aid" "\<forall>i. map_get (d_alerts s) (aid i) = None"
  shows "(has_open x (d_alerts s) \<longrightarrow> has_open x (d_alerts (generateAlerts f aid p t w c as s))) \<and>
    (\<forall>a \<in> set as. ad_status a \<noteq> OnTarget \<longrightarrow>
       has_open (p, ad_symbol a, severity_of (ad_status a)) (d_alerts (generateAlerts f aid p t w c as s)))"
  using assms
proof (induction as arbitrary: aid s x)
  case (Cons a as)
  let ?s = "raise_alert f (aid 0) p t w c a s"
  have "wf_map (d_alerts ?s)" using Cons.prems(1) by (simp add: raise_alert_alerts)
  moreover have "inj (\<lambda>i. aid (Suc i))" using Cons.prems(2) by (auto simp: inj_def)
  moreover have "\<forall>i. map_get (d_alerts ?s) (aid (Suc i)) = None"
    using Cons.prems(2,3) by (auto simp: raise_alert_alerts inj_def)
  ultimately have IH: "\<And>x. (has_open x (d_alerts ?s) \<longrightarrow>
        has_open x (d_alerts (generateAlerts f (\<lambda>i. aid (Suc i)) p t w c as ?s))) \<and>
      (\<forall>a \<in> set as. ad_status a \<noteq> OnTarget \<longrightarrow> has_open (p, ad_symbol a, severity_of (ad_status a))
         (d_alerts (generateAlerts f (\<lambda>i. aid (Suc i)) p t w c as ?s)))"
    by (rule Cons.IH)
  have none: "map_get (d_alerts s) (aid 0) = None" using Cons.prems(3) by blast
  note r = has_open_raise [OF Cons.prems(1) none]
  show ?case using IH r by auto
qed simp

lemma distinct_filter_one:
  "distinct (map g xs) \<Longrightarrow> \<exists>y \<in> set xs. g y = k \<Longrightarrow> length (filter (\<lambda>y. g y = k) xs) = 1"
  by (induction xs) (auto simp: filter_empty_conv image_iff)

text \<open>C23. Alerts. In every reachable state the open alerts differ in portfolio, asset or severity; and after
  a calculation whose alert ids are fresh, each asset in breach has exactly one open alert of its
  severity, however often the portfolio was calculated before.\<close>

theorem one_alert_per_breach:
  assumes "drift_reachable s" "inj aid" "\<forall>i. map_get (d_alerts s) (aid i) = None"
  shows "let (snapshot, s') = calculateDrift f now sid aid p assets s
    in distinct (map alert_key (getActiveAlerts None s')) \<and>
       (\<forall>a \<in> set (ds_assets snapshot). ad_status a \<noteq> OnTarget \<longrightarrow>
          length (filter (\<lambda>b. alert_key b = (p, ad_symbol a, severity_of (ad_status a))) (getActiveAlerts None s')) = 1)"
proof -
  obtain sn s' where c: "calculateDrift f now sid aid p assets s = (sn, s')" by (metis surj_pair)
  have one: "one_open (d_alerts s')"
    using one_open_calculate [OF reachable_one_open [OF assms(1)], of f now sid aid p assets] c by simp
  have d: "distinct (map alert_key (getActiveAlerts None s'))"
    using one_open_distinct [OF one] by (simp add: getActiveAlerts_def Let_def)
  have wf: "wf_map (d_alerts s)" using reachable_one_open [OF assms(1)] by (simp add: one_open_def)
  have "has_open (p, ad_symbol a, severity_of (ad_status a)) (d_alerts s')"
    if "a \<in> set (ds_assets sn)" "ad_status a \<noteq> OnTarget" for a
    using generate_has_open [of "persistSnapshot sid p sn s"] assms(2,3) wf that c
    by (auto simp: calculateDrift_def Let_def)
  note opened = this
  have "\<exists>b \<in> set (getActiveAlerts None s'). alert_key b = (p, ad_symbol a, severity_of (ad_status a))"
    if "a \<in> set (ds_assets sn)" "ad_status a \<noteq> OnTarget" for a
  proof -
    note h = that
    obtain k b where "(k, b) \<in> set (d_alerts s')" "\<not> da_acknowledged b"
      "alert_key b = (p, ad_symbol a, severity_of (ad_status a))"
      using opened [OF h] by (auto simp: has_open_def)
    then show ?thesis by (force simp: getActiveAlerts_def Let_def)
  qed
  then show ?thesis unfolding c Let_def prod.case using d by (blast intro: distinct_filter_one)
qed

section \<open>Portfolio and asset status\<close>

lemma fmax_ge: "x \<in> set xs \<Longrightarrow> x \<le> fmax xs"
proof -
  have *: "y \<le> foldl max y ys \<and> (\<forall>x \<in> set ys. x \<le> foldl max y ys)" for y :: rat and ys
  proof (induction ys arbitrary: y)
    case (Cons z zs)
    show ?case using Cons.IH [of "max y z"] by auto
  qed simp
  assume "x \<in> set xs"
  then show ?thesis using * by (cases xs) (auto simp: fmax_def)
qed

definition decimal4 :: "rat \<Rightarrow> bool" where
  "decimal4 t \<longleftrightarrow> 0 \<le> t \<and> to_fixed 4 t = t"

lemma decimal4_le: "decimal4 t \<Longrightarrow> t \<le> x \<Longrightarrow> t \<le> to_fixed 4 x"
  using to_fixed_mono [of t x 4] by (simp add: decimal4_def)

lemma default_thresholds: "decimal4 DEFAULT_WARNING" "decimal4 DEFAULT_CRITICAL"
  unfolding decimal4_def DEFAULT_WARNING_def DEFAULT_CRITICAL_def by code_simp+

definition warning_of :: "drift_config option \<Rightarrow> rat" where
  "warning_of config = (case config of Some c \<Rightarrow> dc_warningThreshold c | None \<Rightarrow> DEFAULT_WARNING)"

definition critical_of :: "drift_config option \<Rightarrow> rat" where
  "critical_of config = (case config of Some c \<Rightarrow> dc_criticalThreshold c | None \<Rightarrow> DEFAULT_CRITICAL)"

lemma snapshot_max_ge:
  assumes "a \<in> set assets" "decimal4 t" "t \<le> \<bar>fsub (aa_currentWeight a) (aa_targetWeight a)\<bar>"
  shows "t \<le> fmax (map (\<lambda>a. ad_absoluteDrift (asset_drift_of w c v a)) assets)"
proof -
  have "t \<le> ad_absoluteDrift (asset_drift_of w c v a)"
    using decimal4_le [OF assms(2,3)] by (simp add: asset_drift_of_def Let_def)
  also have "\<dots> \<le> fmax (map (\<lambda>a. ad_absoluteDrift (asset_drift_of w c v a)) assets)"
    using assms(1) by (intro fmax_ge) auto
  finally show ?thesis .
qed

text \<open>Status. As long as the thresholds have at most four decimals, as the defaults have, a portfolio with a
  critical asset is critical, and one with any asset in breach is not healthy and is recommended for
  rebalancing.\<close>

theorem breach_reported:
  assumes "decimal4 (warning_of (map_get (d_configs s) p))" "decimal4 (critical_of (map_get (d_configs s) p))"
  shows "let sn = fst (calculateDrift f now sid aid p assets s)
    in ((\<exists>a \<in> set (ds_assets sn). ad_status a = ACritical) \<longrightarrow> ds_status sn = PCritical) \<and>
       ((\<exists>a \<in> set (ds_assets sn). ad_status a \<noteq> OnTarget) \<longrightarrow>
          ds_status sn \<noteq> Healthy \<and> ds_rebalancingRecommended sn)"
proof -
  define w where "w = warning_of (map_get (d_configs s) p)"
  define c where "c = critical_of (map_get (d_configs s) p)"
  define v where "v = fsum (map aa_currentValue assets)"
  define M where "M = fmax (map (\<lambda>a. ad_absoluteDrift (asset_drift_of w c v a)) assets)"
  have sn: "ds_assets (fst (calculateDrift f now sid aid p assets s)) = map (asset_drift_of w c v) assets"
    by (simp add: calculateDrift_def snapshot_of_def Let_def w_def c_def v_def warning_of_def critical_of_def)
  have st: "ds_status (fst (calculateDrift f now sid aid p assets s)) =
        threshold_status Healthy PWarning PCritical w c (if assets \<noteq> [] then M else 0)"
    "ds_rebalancingRecommended (fst (calculateDrift f now sid aid p assets s)) =
       (ds_status (fst (calculateDrift f now sid aid p assets s)) \<noteq> Healthy)"
    by (simp_all add: calculateDrift_def snapshot_of_def Let_def w_def c_def v_def warning_of_def critical_of_def
        M_def comp_def)
  have d: "ad_status (asset_drift_of w c v a) =
      threshold_status OnTarget AWarning ACritical w c \<bar>fsub (aa_currentWeight a) (aa_targetWeight a)\<bar>" for a
    by (simp add: asset_drift_of_def Let_def)
  have ge: "t \<le> M" if "a \<in> set assets" "t \<le> \<bar>fsub (aa_currentWeight a) (aa_targetWeight a)\<bar>" "t = w \<or> t = c" for a t
    using snapshot_max_ge [OF that(1) _ that(2), of w c v] that(3) assms by (auto simp: M_def w_def c_def)
  show ?thesis
    unfolding Let_def sn st(2) st(1)
    using ge by (auto simp: d threshold_status_def split: if_splits)
qed

definition level :: "asset_allocation list" where
  "level = [\<lparr>aa_symbol = ''BTC'', aa_currentWeight = 9/16, aa_targetWeight = 1/2, aa_currentValue = 100\<rparr>]"

definition empty_drift :: drift_service where
  "empty_drift = \<lparr>d_configs = [], d_history = [], d_alerts = [], d_webhooks = [], d_sent = []\<rparr>"

lemma breach_reported_witness:
  "let sn = fst (calculateDrift (\<lambda>_. []) 0 ''s'' (\<lambda>_. []) ''p'' level empty_drift)
    in (\<exists>a \<in> set (ds_assets sn). ad_status a \<noteq> OnTarget) \<and> ds_status sn \<noteq> Healthy \<and> ds_rebalancingRecommended sn"
proof -
  have "\<exists>a \<in> set (ds_assets (snapshot_of 0 ''p'' None level)). ad_status a \<noteq> OnTarget"
    by code_simp
  then have "\<exists>a \<in> set (ds_assets (fst (calculateDrift (\<lambda>_. []) 0 ''s'' (\<lambda>_. []) ''p'' level empty_drift))). ad_status a \<noteq> OnTarget"
    by (simp add: calculateDrift_def Let_def empty_drift_def)
  then show ?thesis
    using breach_reported [of empty_drift "''p''" "\<lambda>_. []" 0 "''s''" "\<lambda>_. []" level] default_thresholds
    by (simp add: Let_def empty_drift_def warning_of_def critical_of_def)
qed

text \<open>With a threshold of more decimals the rounding hides a breach: the asset is in warning and alerted,
  the portfolio healthy.\<close>

lemma skewed_numbers:
  "f64 (50045/1000000) \<le> \<bar>fsub (f64 (35005/100000)) (f64 (3/10))\<bar>"
  "\<bar>fsub (f64 (35005/100000)) (f64 (3/10))\<bar> < f64 (1/10)"
  "to_fixed 4 \<bar>fsub (f64 (35005/100000)) (f64 (3/10))\<bar> < f64 (50045/1000000)"
  by code_simp+

lemma breach_unreported:
  "let s = snd (createConfig 0 \<lparr>dr_portfolioId = ''p'', dr_warningThreshold = f64 (50045/1000000),
         dr_criticalThreshold = f64 (1/10), dr_webhookUrl = None, dr_enabled = True\<rparr> empty_drift);
       sn = fst (calculateDrift f 0 sid aid ''p'' [\<lparr>aa_symbol = ''BTC'', aa_currentWeight = f64 (35005/100000),
         aa_targetWeight = f64 (3/10), aa_currentValue = 35005\<rparr>] s)
   in map ad_status (ds_assets sn) = [AWarning] \<and> ds_status sn = Healthy"
  using skewed_numbers
  by (simp add: createConfig_def calculateDrift_def snapshot_of_def asset_drift_of_def threshold_status_def
      empty_drift_def fmax_def Let_def)

lemma one_alert_per_breach_witness:
  "let aid = (\<lambda>i. replicate i CHR ''x'');
       (snapshot, s') = calculateDrift (\<lambda>_. []) 0 ''s'' aid ''p'' level empty_drift
    in distinct (map alert_key (getActiveAlerts None s')) \<and>
       list_all (\<lambda>a. ad_status a = OnTarget \<or>
          length (filter (\<lambda>b. alert_key b = (''p'', ad_symbol a, severity_of (ad_status a))) (getActiveAlerts None s')) = 1)
         (ds_assets snapshot)"
proof -
  have "drift_reachable empty_drift" "inj (\<lambda>i. replicate i CHR ''x'')" "\<forall>i. map_get (d_alerts empty_drift) (replicate i CHR ''x'') = None"
    by (auto simp: empty_drift_def inj_def intro: drift_reachable.Start dest: arg_cong [where f = length])
  from one_alert_per_breach [OF this, of "\<lambda>_. []" 0 "''s''" "''p''" level]
  show ?thesis by (auto simp: Let_def list_all_iff)
qed

section \<open>Trend\<close>

lemma fsum_mono:
  "list_all2 (\<le>) xs ys \<Longrightarrow> x \<le> y \<Longrightarrow> foldl fadd x xs \<le> foldl fadd y ys"
proof (induction xs ys arbitrary: x y rule: list_all2_induct)
  case (Cons a xs b ys)
  have "fadd x a \<le> fadd y b" unfolding fadd_def using Cons by (intro f64_mono add_mono)
  then show ?case using Cons.IH by simp
qed simp

lemma sorted_halves:
  assumes "sorted xs" "length xs = 2 * n"
  shows "list_all2 (\<le>) (take n xs) (drop n xs)"
  using assms by (auto simp: list_all2_conv_all_nth intro: sorted_nth_mono)

lemma fsum_rev_commute: "list_all2 (\<le>) xs ys \<Longrightarrow> list_all2 (\<le>) (rev xs) (rev ys)"
  by (simp add: list_all2_rev1)

lemma trend_of_rising:
  assumes "sorted (rev vals)" "length vals = 2 * n" "2 \<le> n"
  shows "calculateTrend vals \<le> 0"
proof -
  have "list_all2 (\<le>) (take n (rev vals)) (drop n (rev vals))"
    using assms by (intro sorted_halves) auto
  then have "list_all2 (\<le>) (rev (take n (rev vals))) (rev (drop n (rev vals)))"
    by (rule fsum_rev_commute)
  then have "list_all2 (\<le>) (drop n vals) (take n vals)"
    using assms(2) by (simp add: rev_take rev_drop)
  then have "fsum (drop n vals) \<le> fsum (take n vals)"
    by (simp add: fsum_def fsum_mono)
  then have "fdiv (fsum (drop n vals)) (of_nat n) \<le> fdiv (fsum (take n vals)) (of_nat n)"
    unfolding fdiv_def by (intro f64_mono divide_right_mono) auto
  then have "f64 (fdiv (fsum (drop n vals)) (of_nat n) - fdiv (fsum (take n vals)) (of_nat n)) \<le> 0"
    by (intro f64_nonpos) simp
  then show ?thesis using assms by (simp add: calculateTrend_def Let_def fsub_def)
qed

text \<open>The trend has the wrong sign. The history is read newest first, so the "second half" is the older
  one: when the recorded drifts have only risen, the reported trend is not positive, no breach is
  projected, and a healthy portfolio is never reported as drifting.\<close>

theorem rising_drift_unnoticed:
  assumes "analysePortfolio f now sid aid p assets days s = (r, s')"
    "sorted (map dh_overallDrift (rev (dy_history r)))" "length (dy_history r) = 2 * n" "2 \<le> n"
  shows "dy_driftTrend r \<le> 0 \<and> dy_projectedBreachDays r = None \<and>
    dy_recommendation r \<noteq> Increasing \<and> (\<forall>d. dy_recommendation r \<noteq> SoonInDays d)"
proof -
  define vals where "vals = map dh_overallDrift (dy_history r)"
  have t: "calculateTrend vals \<le> 0"
    using assms(2-4) by (intro trend_of_rising [of _ n]) (simp_all add: vals_def rev_map)
  obtain d c st where r: "dy_driftTrend r = to_fixed 4 (calculateTrend vals)"
    "dy_projectedBreachDays r = projectBreachDays d (calculateTrend vals) c"
    "dy_recommendation r = buildRecommendation st (calculateTrend vals) (dy_projectedBreachDays r)"
    using assms(1) by (auto simp: analysePortfolio_def Let_def vals_def split: prod.splits)
  have none: "dy_projectedBreachDays r = None" using r(2) t by (auto simp: projectBreachDays_def)
  have "to_fixed 4 (calculateTrend vals) \<le> 0"
  proof (cases "calculateTrend vals < 0")
    case True
    have "0 \<le> f64 (of_int (math_round (- calculateTrend vals * 10 ^ 4)) / 10 ^ 4)"
      using math_round_mono [of 0 "- calculateTrend vals * 10 ^ 4"] math_round_of_int [of 0] True
      by (intro f64_nonneg divide_nonneg_nonneg) auto
    with True show ?thesis by (simp add: to_fixed_def)
  next
    case False
    with t have "calculateTrend vals = 0" by simp
    then show ?thesis using math_round_of_int [of 0] by (simp add: to_fixed_def)
  qed
  moreover have "\<not> f64 (5/1000) < calculateTrend vals"
    using t f64_nonneg [of "5/1000"] by simp
  ultimately show ?thesis
    using r(1,3) none by (auto simp: buildRecommendation_def)
qed

lemma history_raise [simp]: "d_history (raise_alert f i p t w c a s) = d_history s"
  by (simp add: raise_alert_def dispatchWebhookNotifications_def Let_def)

lemma history_generate [simp]: "d_history (generateAlerts f aid p t w c as s) = d_history s"
  by (induction as arbitrary: aid s) simp_all

lemma configs_raise [simp]: "d_configs (raise_alert f i p t w c a s) = d_configs s"
  by (simp add: raise_alert_def dispatchWebhookNotifications_def Let_def)

lemma configs_generate [simp]: "d_configs (generateAlerts f aid p t w c as s) = d_configs s"
  by (induction as arbitrary: aid s) simp_all

lemma level_drift: "ds_overallDrift (snapshot_of 0 ''p'' None level) = 1/16"
  by code_simp

definition recorded :: "rat list \<Rightarrow> drift_service" where
  "recorded ds = empty_drift\<lparr>d_history := [(''p'', map (\<lambda>d. \<lparr>dh_snapshotId = [], dh_portfolioId = ''p'', dh_timestamp = 0,
     dh_overallDrift = d, dh_maxDrift = d, dh_status = Healthy, dh_assetCount = 1, dh_assetsInBreach = 0\<rparr>) ds)]\<rparr>"

lemma recorded_analysis:
  fixes f sid aid
  assumes "length ds < 720"
  defines "r \<equiv> fst (analysePortfolio f 0 sid aid ''p'' level 30 (recorded ds))"
  shows "map dh_overallDrift (dy_history r) = 1/16 # rev ds"
    "dy_projectedBreachDays r = projectBreachDays (1/16) (calculateTrend (1/16 # rev ds)) DEFAULT_CRITICAL"
  using assms(1)
  by (simp_all add: level_drift r_def analysePortfolio_def calculateDrift_def recorded_def empty_drift_def Let_def
      persistSnapshot_def getHistory_def slice_from_def rev_map comp_def case_prod_beta)

lemma rising_drift_unnoticed_witness:
  "let r = fst (analysePortfolio (\<lambda>_. []) 0 [] (\<lambda>_. []) ''p'' level 30 (recorded [1/64, 1/32, 3/64]))
   in dy_driftTrend r \<le> 0 \<and> dy_projectedBreachDays r = None \<and> dy_recommendation r \<noteq> Increasing \<and>
     (\<forall>d. dy_recommendation r \<noteq> SoonInDays d)"
proof -
  let ?r = "fst (analysePortfolio (\<lambda>_. []) 0 [] (\<lambda>_. []) ''p'' level 30 (recorded [1/64, 1/32, 3/64]))"
  have h: "map dh_overallDrift (dy_history ?r) = [1/16, 3/64, 1/32, 1/64]"
    by (simp add: recorded_analysis)
  then have "sorted (map dh_overallDrift (rev (dy_history ?r)))" by (simp flip: rev_map)
  moreover have "length (dy_history ?r) = 2 * 2" using arg_cong [OF h, of length] by simp
  ultimately show ?thesis
    unfolding Let_def by (rule rising_drift_unnoticed [OF surjective_pairing]) simp
qed

text \<open>Falling drift, on the other hand, is projected to breach.\<close>

lemma falling_drift_projected:
  "dy_projectedBreachDays (fst (analysePortfolio (\<lambda>_. []) 0 [] (\<lambda>_. []) ''p'' level 30
     (recorded [1/8, 1/8, 3/32]))) = Some 1"
proof -
  have "projectBreachDays (1/16) (calculateTrend [1/16, 3/32, 1/8, 1/8]) DEFAULT_CRITICAL = Some 1" by code_simp
  then show ?thesis by (simp add: recorded_analysis)
qed

end
