(* ===== verification/Rebalancing.thy ===== *)
theory Rebalancing
  imports Drift JS_Text
begin

text \<open>
  Planning, fees, execution and schedules (src/rebalancing/rebalancing.service.ts,
  rebalancing-planner.service.ts, fee-calculator.service.ts, strategies/).

  Amounts are doubles; the clock is an argument and dates are milliseconds (a start that is no date is outside the model). An empty asset list divides zero by
  zero when liquidities are averaged; the comparison with the resulting NaN, false, is spelt out.
  The two allocation maps of a request are not read by the code and are left out. Shown are: a plan's
  trades lead from the current to the target amounts, fee estimate, plan and execution agree, a dry
  run is the execution without its effect, and the next execution of a schedule may lie in the past.
\<close>

section \<open>Plans\<close>

record rebalancing_asset =
  ra_symbol :: string
  ra_currentAmount :: rat
  ra_targetAmount :: rat
  ra_liquidity :: rat
  ra_volatility :: rat

record plan_request =
  pq_portfolioId :: string
  pq_strategy :: string
  pq_assets :: "rebalancing_asset list"
  pq_tolerance :: rat

datatype direction = Buy | Sell

record rebalancing_trade =
  rt_symbol :: string
  rt_direction :: direction
  rt_amount :: rat
  rt_cost :: rat
  rt_estimatedSlippage :: rat

record plan_response =
  pn_rebalanceId :: string
  pn_portfolioId :: string
  pn_recommendedStrategy :: string
  pn_tolerance :: rat
  pn_trades :: "rebalancing_trade list"
  pn_estimatedTotalFee :: rat
  pn_executionTimeMs :: int

definition estimateSlippage :: "rat \<Rightarrow> rat \<Rightarrow> rat" where
  "estimateSlippage liquidity amount =
     to_fixed 4 (min (f64 (8/100)) (fmul (fdiv amount (max liquidity 1)) (f64 (1/100))))"

definition resolveStrategy :: "string \<Rightarrow> rebalancing_asset list \<Rightarrow> string" where
  "resolveStrategy strategy assets =
     (if strategy = ''min-cost'' \<or> strategy = ''min-time'' \<or> strategy = ''balanced'' then strategy
      else if assets \<noteq> [] \<and> 3 < fdiv (fsum (map ra_liquidity assets)) (of_nat (length assets))
        then ''min-cost'' else ''balanced'')"

definition calculateTradeCost :: "rebalancing_asset \<Rightarrow> rat \<Rightarrow> string \<Rightarrow> rat" where
  "calculateTradeCost asset amount strategy =
     (let baseFee = fmul amount (f64 (1/100));
          strategyMultiplier = (if strategy = ''min-time'' then f64 (12/10)
            else if strategy = ''balanced'' then f64 (11/10) else f64 (95/100))
      in to_fixed 4 (fadd (fmul baseFee strategyMultiplier) (fmul (ra_volatility asset) 10)))"

definition buildTrade :: "string \<Rightarrow> rebalancing_asset \<Rightarrow> rebalancing_trade" where
  "buildTrade strategy asset =
     (let delta = fsub (ra_targetAmount asset) (ra_currentAmount asset); amount = \<bar>delta\<bar>
      in \<lparr>rt_symbol = ra_symbol asset, rt_direction = (if 0 < delta then Buy else Sell), rt_amount = amount,
          rt_cost = calculateTradeCost asset amount strategy,
          rt_estimatedSlippage = estimateSlippage (ra_liquidity asset) amount\<rparr>)"

definition plan :: "int \<Rightarrow> plan_request \<Rightarrow> plan_response" where
  "plan now request =
     (let strategy = resolveStrategy (pq_strategy request) (pq_assets request);
          trades = map (buildTrade strategy) (pq_assets request)
      in \<lparr>pn_rebalanceId = ''rebalance-'' @ string_of_int now, pn_portfolioId = pq_portfolioId request,
          pn_recommendedStrategy = strategy, pn_tolerance = pq_tolerance request, pn_trades = trades,
          pn_estimatedTotalFee = fsum (map rt_cost trades), pn_executionTimeMs = 650\<rparr>)"

section \<open>Fees\<close>

record fee_estimate =
  fe_portfolioId :: string
  fe_strategy :: string
  fe_totalFee :: rat
  fe_perAssetFees :: "(string \<times> rat) list"
  fe_recommendation :: string

text \<open>The fee calculator has its own copy of the cost formula.\<close>

definition fee_tradeCost :: "rebalancing_asset \<Rightarrow> rat \<Rightarrow> string \<Rightarrow> rat" where
  "fee_tradeCost asset amount strategy =
     (let baseFee = fmul amount (f64 (1/100));
          strategyMultiplier = (if strategy = ''min-time'' then f64 (12/10)
            else if strategy = ''balanced'' then f64 (11/10) else f64 (95/100))
      in to_fixed 4 (fadd (fmul baseFee strategyMultiplier) (fmul (ra_volatility asset) 10)))"

definition estimateFees :: "string \<Rightarrow> string \<Rightarrow> rebalancing_asset list \<Rightarrow> fee_estimate" where
  "estimateFees portfolioId requested assets =
     (let strategy = resolveStrategy requested assets;
          perAssetFees = map (\<lambda>asset.
            (let delta = fsub (ra_targetAmount asset) (ra_currentAmount asset)
             in (ra_symbol asset, fee_tradeCost asset \<bar>delta\<bar> strategy))) assets
      in \<lparr>fe_portfolioId = portfolioId, fe_strategy = strategy, fe_totalFee = fsum (map snd perAssetFees),
          fe_perAssetFees = perAssetFees,
          fe_recommendation = (if strategy = ''min-cost'' then ''Route through deepest liquidity pools''
            else ''Use a faster execution venue'')\<rparr>)"

section \<open>Strategies\<close>

text \<open>The three strategy classes, which differ in their constants.\<close>

definition strategy_trade :: "rat \<Rightarrow> rat \<Rightarrow> rat \<Rightarrow> rebalancing_asset \<Rightarrow> rat \<Rightarrow> rebalancing_trade" where
  "strategy_trade rate cap slip asset amount =
     (let delta = fsub (ra_targetAmount asset) (ra_currentAmount asset)
      in \<lparr>rt_symbol = ra_symbol asset, rt_direction = (if 0 < delta then Buy else Sell), rt_amount = \<bar>delta\<bar>,
          rt_cost = to_fixed 4 (fadd (fmul amount rate) (fmul (ra_volatility asset) 10)),
          rt_estimatedSlippage = to_fixed 4 (min cap (fmul (fdiv \<bar>delta\<bar> (max (ra_liquidity asset) 1)) slip))\<rparr>)"

definition balanced_buildTrade :: "rebalancing_asset \<Rightarrow> rat \<Rightarrow> rebalancing_trade" where
  "balanced_buildTrade = strategy_trade (f64 (11/1000)) (f64 (7/100)) (f64 (11/1000))"

definition minCost_buildTrade :: "rebalancing_asset \<Rightarrow> rat \<Rightarrow> rebalancing_trade" where
  "minCost_buildTrade = strategy_trade (f64 (95/10000)) (f64 (6/100)) (f64 (1/100))"

definition minTime_buildTrade :: "rebalancing_asset \<Rightarrow> rat \<Rightarrow> rebalancing_trade" where
  "minTime_buildTrade = strategy_trade (f64 (12/1000)) (f64 (8/100)) (f64 (12/1000))"

section \<open>Execution\<close>

datatype execution_status = Completed | Simulated

record execution_result =
  er_rebalanceId :: string
  er_portfolioId :: string
  er_strategy :: string
  er_status :: execution_status
  er_trades :: "rebalancing_trade list"
  er_totalFees :: rat
  er_slippageEvents :: nat
  er_executedAt :: int

record rebalancing_schedule =
  sc_portfolioId :: string
  sc_enabled :: bool
  sc_intervalMinutes :: rat
  sc_startAt :: "int option"
  sc_timezone :: "string option"

record schedule_response =
  sr_schedule :: rebalancing_schedule
  sr_id :: string
  sr_createdAt :: int
  sr_updatedAt :: int

record execution_entry =
  eh_id :: string
  eh_portfolioId :: string
  eh_executedAt :: int
  eh_trigger :: string
  eh_status :: string

record rebalancing_service =
  rs_history :: "execution_result list"
  rs_schedules :: "schedule_response jsmap"
  rs_executionHistory :: "execution_entry list"

definition result_of :: "execution_status \<Rightarrow> int \<Rightarrow> plan_request \<Rightarrow> plan_response \<Rightarrow> execution_result" where
  "result_of status now request p =
     \<lparr>er_rebalanceId = pn_rebalanceId p, er_portfolioId = pq_portfolioId request,
      er_strategy = pn_recommendedStrategy p, er_status = status, er_trades = pn_trades p,
      er_totalFees = fsum (map rt_cost (pn_trades p)),
      er_slippageEvents = length (filter (\<lambda>t. pq_tolerance request < rt_estimatedSlippage t) (pn_trades p)),
      er_executedAt = now\<rparr>"

text \<open>The clock is read for the plan's id and again for the result.\<close>

definition execute :: "int \<Rightarrow> int \<Rightarrow> plan_request \<Rightarrow> rebalancing_service \<Rightarrow> execution_result \<times> rebalancing_service" where
  "execute t0 t1 request s =
     (let result = result_of Completed t1 request (plan t0 request)
      in (result, s\<lparr>rs_history := rs_history s @ [result]\<rparr>))"

definition dryRun :: "int \<Rightarrow> int \<Rightarrow> plan_request \<Rightarrow> execution_result" where
  "dryRun t0 t1 request = result_of Simulated t1 request (plan t0 request)"

definition getTrades :: "string \<Rightarrow> rebalancing_service \<Rightarrow> rebalancing_trade list" where
  "getTrades rebalanceId s =
     (case List.find (\<lambda>e. er_rebalanceId e = rebalanceId) (rs_history s) of Some e \<Rightarrow> er_trades e | None \<Rightarrow> [])"

definition getExecutionLog :: "string \<Rightarrow> rebalancing_service \<Rightarrow> execution_result list" where
  "getExecutionLog portfolioId s = filter (\<lambda>e. er_portfolioId e = portfolioId) (rs_history s)"

record slippage_request =
  sq_portfolioId :: string
  sq_strategy :: string
  sq_asset :: string
  sq_tradeSize :: rat
  sq_tolerance :: rat
  sq_liquidity :: rat

record slippage_response =
  sl_portfolioId :: string
  sl_strategy :: string
  sl_asset :: string
  sl_estimatedSlippage :: rat
  sl_tolerance :: rat
  sl_blocked :: bool
  sl_reason :: string

definition getSlippageEstimate :: "slippage_request \<Rightarrow> slippage_response" where
  "getSlippageEstimate request =
     (let estimate = estimateSlippage (sq_liquidity request) (sq_tradeSize request);
          blocked = (sq_tolerance request < estimate)
      in \<lparr>sl_portfolioId = sq_portfolioId request, sl_strategy = sq_strategy request, sl_asset = sq_asset request,
          sl_estimatedSlippage = estimate, sl_tolerance = sq_tolerance request, sl_blocked = blocked,
          sl_reason = (if blocked then ''Projected slippage exceeds tolerance'' else ''Slippage remains within tolerance'')\<rparr>)"

section \<open>Schedules\<close>

definition createSchedule ::
  "int \<Rightarrow> int \<Rightarrow> rebalancing_schedule \<Rightarrow> rebalancing_service \<Rightarrow> schedule_response \<times> rebalancing_service" where
  "createSchedule now t schedule s =
     (let response = \<lparr>sr_schedule = schedule, sr_id = ''sched-'' @ string_of_int t, sr_createdAt = now, sr_updatedAt = now\<rparr>
      in (response, s\<lparr>rs_schedules := map_set (sc_portfolioId schedule) response (rs_schedules s)\<rparr>))"

definition getSchedule :: "string \<Rightarrow> rebalancing_service \<Rightarrow> schedule_response option" where
  "getSchedule portfolioId s = map_get (rs_schedules s) portfolioId"

text \<open>\<open>update\<close> is the spread of the body over the stored schedule.\<close>

definition updateSchedule ::
  "int \<Rightarrow> string \<Rightarrow> (rebalancing_schedule \<Rightarrow> rebalancing_schedule) \<Rightarrow> rebalancing_service \<Rightarrow>
   error + (schedule_response \<times> rebalancing_service)" where
  "updateSchedule now portfolioId update s =
     (case map_get (rs_schedules s) portfolioId of
        None \<Rightarrow> Inl (JsError (''Schedule not found for portfolio '' @ portfolioId))
      | Some existing \<Rightarrow>
          (let updated = existing\<lparr>sr_schedule := update (sr_schedule existing), sr_updatedAt := now\<rparr>
           in Inr (updated, s\<lparr>rs_schedules := map_set portfolioId updated (rs_schedules s)\<rparr>)))"

definition deleteSchedule :: "string \<Rightarrow> rebalancing_service \<Rightarrow> bool \<times> rebalancing_service" where
  "deleteSchedule portfolioId s =
     (map_get (rs_schedules s) portfolioId \<noteq> None, s\<lparr>rs_schedules := map_delete portfolioId (rs_schedules s)\<rparr>)"

definition getExecutionHistory :: "string \<Rightarrow> rebalancing_service \<Rightarrow> execution_entry list" where
  "getExecutionHistory portfolioId s = filter (\<lambda>h. eh_portfolioId h = portfolioId) (rs_executionHistory s)"

text \<open>The next execution in milliseconds; \<open>new Date\<close> truncates a fraction of a millisecond.\<close>

definition getNextExecution :: "int \<Rightarrow> string \<Rightarrow> rebalancing_service \<Rightarrow> (string \<times> int) option" where
  "getNextExecution now portfolioId s =
     (case map_get (rs_schedules s) portfolioId of
        None \<Rightarrow> None
      | Some r \<Rightarrow>
          if \<not> sc_enabled (sr_schedule r) then None
          else (let base = or_else (sc_startAt (sr_schedule r)) now;
                    t = fadd (of_int base) (fmul (sc_intervalMinutes (sr_schedule r)) 60000)
                in Some (portfolioId, if 0 \<le> t then \<lfloor>t\<rfloor> else \<lceil>t\<rceil>)))"

definition executeNow ::
  "int \<Rightarrow> int \<Rightarrow> string \<Rightarrow> string \<Rightarrow> rebalancing_service \<Rightarrow>
   (bool \<times> execution_entry list) \<times> rebalancing_service" where
  "executeNow t now portfolioId trig s =
     (let entry = \<lparr>eh_id = ''exec-'' @ string_of_int t, eh_portfolioId = portfolioId, eh_executedAt = now, eh_trigger = trig,
            eh_status = ''success''\<rparr>;
          s' = s\<lparr>rs_executionHistory := rs_executionHistory s @ [entry]\<rparr>
      in ((True, getExecutionHistory portfolioId s'), s'))"

definition validateSchedule :: "string option \<Rightarrow> rat option \<Rightarrow> bool \<times> string list" where
  "validateSchedule portfolioId intervalMinutes =
     (let errors = (if or_else portfolioId [] = [] then [''portfolioId is required''] else []) @
            (case intervalMinutes of Some n \<Rightarrow> if n < 1 then [''intervalMinutes must be at least 1''] else [] | None \<Rightarrow> [])
      in (errors = [], errors))"

section \<open>Plan, fees and execution\<close>

lemma fee_tradeCost_eq [simp]: "fee_tradeCost = calculateTradeCost"
  by (intro ext) (simp add: fee_tradeCost_def calculateTradeCost_def)

text \<open>C24. One price. For the same assets and strategy the fee estimate, the plan, the dry run and the execution
  quote the same total and choose the same strategy; the dry run is the execution with another status,
  and only the execution is recorded.\<close>

theorem quotes_agree:
  "let fees = estimateFees (pq_portfolioId rq) (pq_strategy rq) (pq_assets rq); p = plan t0 rq;
       (done, s') = execute t0 t1 rq s; dry = dryRun t0 t1 rq
   in fe_totalFee fees = pn_estimatedTotalFee p \<and> er_totalFees done = pn_estimatedTotalFee p \<and>
      fe_strategy fees = pn_recommendedStrategy p \<and> er_strategy done = fe_strategy fees \<and>
      map snd (fe_perAssetFees fees) = map rt_cost (pn_trades p) \<and>
      dry = done\<lparr>er_status := Simulated\<rparr> \<and> s' = s\<lparr>rs_history := rs_history s @ [done]\<rparr>"
  by (simp add: estimateFees_def plan_def execute_def dryRun_def result_of_def Let_def buildTrade_def comp_def)

definition settle :: "rat \<Rightarrow> rebalancing_trade \<Rightarrow> rat" where
  "settle current t = (case rt_direction t of Buy \<Rightarrow> current + rt_amount t | Sell \<Rightarrow> current - rt_amount t)"

text \<open>Targets. Carrying out a plan takes every asset from its current to its target amount, provided the
  differences are doubles, and exactly once each, in order.\<close>

theorem plan_reaches_target:
  assumes "\<forall>a \<in> set (pq_assets rq). is_f64 (ra_targetAmount a - ra_currentAmount a)"
  shows "map rt_symbol (pn_trades (plan now rq)) = map ra_symbol (pq_assets rq) \<and>
    map2 settle (map ra_currentAmount (pq_assets rq)) (pn_trades (plan now rq)) = map ra_targetAmount (pq_assets rq)"
proof
  show "map rt_symbol (pn_trades (plan now rq)) = map ra_symbol (pq_assets rq)"
    by (simp add: plan_def buildTrade_def Let_def)
  have "settle (ra_currentAmount a) (buildTrade st a) = ra_targetAmount a" if "a \<in> set (pq_assets rq)" for a st
    using assms that by (simp add: settle_def buildTrade_def Let_def fsub_def f64_exact split: direction.split)
  then show "map2 settle (map ra_currentAmount (pq_assets rq)) (pn_trades (plan now rq)) =
      map ra_targetAmount (pq_assets rq)"
    by (simp add: plan_def Let_def map2_map_map)
qed

lemma plan_reaches_target_witness:
  "let rq = \<lparr>pq_portfolioId = ''p'', pq_strategy = ''auto'', pq_assets =
        [\<lparr>ra_symbol = ''BTC'', ra_currentAmount = 3, ra_targetAmount = 5, ra_liquidity = 4, ra_volatility = 0\<rparr>,
         \<lparr>ra_symbol = ''XLM'', ra_currentAmount = 9, ra_targetAmount = 2, ra_liquidity = 4, ra_volatility = 0\<rparr>],
        pq_tolerance = 1\<rparr>
   in map2 settle (map ra_currentAmount (pq_assets rq)) (pn_trades (plan 0 rq)) = [5, 2]"
proof -
  have "is_f64 2" "is_f64 (- 7)" using is_f64_of_int [of 2] is_f64_of_int [of "- 7"] by simp_all
  then show ?thesis
    using plan_reaches_target [of "\<lparr>pq_portfolioId = ''p'', pq_strategy = ''auto'', pq_assets =
        [\<lparr>ra_symbol = ''BTC'', ra_currentAmount = 3, ra_targetAmount = 5, ra_liquidity = 4, ra_volatility = 0\<rparr>,
         \<lparr>ra_symbol = ''XLM'', ra_currentAmount = 9, ra_targetAmount = 2, ra_liquidity = 4, ra_volatility = 0\<rparr>],
        pq_tolerance = 1\<rparr>" 0] by (simp add: Let_def)
qed

lemma slippage_bounds: "0 \<le> amount \<Longrightarrow> 0 \<le> estimateSlippage liq amount \<and> estimateSlippage liq amount \<le> to_fixed 4 (f64 (8/100))"
proof
  assume a: "0 \<le> amount"
  have n: "0 \<le> min (f64 (8/100)) (fmul (fdiv amount (max liq 1)) (f64 (1/100)))"
    using a by (auto simp: fmul_def fdiv_def intro!: f64_nonneg mult_nonneg_nonneg divide_nonneg_nonneg)
  then show "0 \<le> estimateSlippage liq amount" by (simp add: estimateSlippage_def to_fixed_nonneg)
  show "estimateSlippage liq amount \<le> to_fixed 4 (f64 (8/100))"
    using n unfolding estimateSlippage_def by (intro to_fixed_mono) auto
qed

text \<open>The next execution is one interval after the start, also when that is long past.\<close>

lemma next_execution_past:
  "let s = snd (createSchedule 0 0 \<lparr>sc_portfolioId = ''p'', sc_enabled = True, sc_intervalMinutes = 60,
         sc_startAt = Some 0, sc_timezone = None\<rparr> \<lparr>rs_history = [], rs_schedules = [], rs_executionHistory = []\<rparr>)
   in getNextExecution 900000000 ''p'' s = Some (''p'', 3600000)"
  by code_simp

end
