(* ===== verification/Staking.thy ===== *)
theory Staking
  imports Prelude
begin

text \<open>
  Multi-asset staking (src/staking/asset-registry.service.ts, portfolio.service.ts).

  Amounts and rates are doubles, dates are milliseconds; every reading of the clock is an argument
  (\<open>clock i\<close> is the i-th reading of a loop). The object of positions is a map; staker ids that are
  property names of \<open>Object.prototype\<close> are outside the model. \<open>toFixed\<close> is modelled below \<open>10 ^ 21\<close>,
  where it writes decimals. Shown are: the cached portfolio view and yield always are what the current
  positions give, a withdrawal pays exactly what leaves the positions and never from a locked one, and
  a locked position hides a later unlocked one of the same asset.
\<close>

section \<open>The asset registry\<close>

record asset_info =
  ai_assetId :: string
  ai_displayName :: string
  ai_minStake :: rat
  ai_maxStake :: rat

record asset_rate =
  ar_assetId :: string
  ar_yieldRate :: rat
  ar_termDays :: int

definition supportedAssets :: "asset_info list" where
  "supportedAssets =
     [\<lparr>ai_assetId = ''ASTR'', ai_displayName = ''Astra Token'', ai_minStake = 10, ai_maxStake = 100000\<rparr>,
      \<lparr>ai_assetId = ''USDC'', ai_displayName = ''USD Coin'', ai_minStake = 50, ai_maxStake = 500000\<rparr>,
      \<lparr>ai_assetId = ''ETH'', ai_displayName = ''Ethereum'', ai_minStake = f64 (1/10), ai_maxStake = 1000\<rparr>]"

definition assetRates :: "asset_rate list" where
  "assetRates =
     [\<lparr>ar_assetId = ''ASTR'', ar_yieldRate = f64 (65/1000), ar_termDays = 30\<rparr>,
      \<lparr>ar_assetId = ''USDC'', ar_yieldRate = f64 (45/1000), ar_termDays = 30\<rparr>,
      \<lparr>ar_assetId = ''ETH'', ar_yieldRate = f64 (55/1000), ar_termDays = 45\<rparr>]"

definition getRatesByAssetId :: "string \<Rightarrow> asset_rate option" where
  "getRatesByAssetId assetId = List.find (\<lambda>rate. ar_assetId rate = assetId) assetRates"

definition getAssetRates :: "string \<Rightarrow> error + asset_rate" where
  "getAssetRates assetId =
     (case getRatesByAssetId assetId of
        None \<Rightarrow> Inl (NotFoundException ''Asset not supported'')
      | Some rate \<Rightarrow> Inr rate)"

section \<open>Positions\<close>

record stake_asset =
  sa_assetId :: string
  sa_amount :: rat
  sa_termDays :: int

record stake_request =
  sr_stakerId :: string
  sr_assets :: "stake_asset list"

record withdraw_request =
  wr_stakerId :: string
  wr_assets :: "(string \<times> rat) list"

record position =
  po_assetId :: string
  po_stakedAmount :: rat
  po_yieldRate :: rat
  po_termDays :: int
  po_unlockedAt :: int
  po_accruedYield :: rat

record recommended =
  rc_assetId :: string
  rc_currentAllocation :: rat
  rc_targetAllocation :: rat

record portfolio_view =
  pv_stakerId :: string
  pv_totalValue :: rat
  pv_totalYield :: rat
  pv_positions :: "position list"
  pv_recommendedRebalance :: "recommended list"
  pv_suggestionText :: string

record aggregated_yield =
  ay_stakerId :: string
  ay_totalYield :: rat
  ay_assets :: "(string \<times> rat) list"

text \<open>The cache is one map of values of either kind.\<close>

datatype cached = View portfolio_view | Yield aggregated_yield

record staking =
  st_data :: "position list jsmap"
  st_cache :: "(cached \<times> int) jsmap"

definition cacheTtlMs :: int where "cacheTtlMs = 300 * 1000"

definition view_key :: "string \<Rightarrow> string" where "view_key stakerId = ''portfolio:'' @ stakerId"
definition yield_key :: "string \<Rightarrow> string" where "yield_key stakerId = ''aggregated-yield:'' @ stakerId"

definition getCache :: "int \<Rightarrow> string \<Rightarrow> staking \<Rightarrow> cached option \<times> staking" where
  "getCache now key s =
     (case map_get (st_cache s) key of
        None \<Rightarrow> (None, s\<lparr>st_cache := map_delete key (st_cache s)\<rparr>)
      | Some (v, expiresAt) \<Rightarrow>
          if expiresAt < now then (None, s\<lparr>st_cache := map_delete key (st_cache s)\<rparr>) else (Some v, s))"

definition setCache :: "int \<Rightarrow> string \<Rightarrow> cached \<Rightarrow> staking \<Rightarrow> staking" where
  "setCache now key v s = s\<lparr>st_cache := map_set key (v, now + cacheTtlMs) (st_cache s)\<rparr>"

definition invalidateCache :: "string \<Rightarrow> staking \<Rightarrow> staking" where
  "invalidateCache stakerId s =
     s\<lparr>st_cache := map_delete (yield_key stakerId) (map_delete (view_key stakerId) (st_cache s))\<rparr>"

section \<open>Staking\<close>

definition calculateYield :: "rat \<Rightarrow> rat \<Rightarrow> int \<Rightarrow> rat" where
  "calculateYield amount yieldRate termDays =
     to_fixed 8 (fmul (fmul amount yieldRate) (fdiv (of_int termDays) 365))"

fun validate_assets :: "stake_asset list \<Rightarrow> error option" where
  "validate_assets [] = None"
| "validate_assets (asset # assets) =
     (case getRatesByAssetId (sa_assetId asset) of
        None \<Rightarrow> Some (BadRequestException (''Unsupported asset '' @ sa_assetId asset))
      | Some rate \<Rightarrow>
          if sa_amount asset \<le> 0 \<or> sa_termDays asset \<le> 0
          then Some (BadRequestException ''Asset amount and term must be greater than zero'')
          else validate_assets assets)"

definition validateStakeRequest :: "stake_request \<Rightarrow> error option" where
  "validateStakeRequest request =
     (if sr_stakerId request = [] \<or> sr_assets request = []
      then Some (BadRequestException ''Invalid stake request payload'')
      else validate_assets (sr_assets request))"

definition new_position :: "int \<Rightarrow> stake_asset \<Rightarrow> position" where
  "new_position now asset =
     (let rate = (case getRatesByAssetId (sa_assetId asset) of Some r \<Rightarrow> ar_yieldRate r | None \<Rightarrow> 0)
      in \<lparr>po_assetId = sa_assetId asset, po_stakedAmount = sa_amount asset, po_yieldRate = rate,
          po_termDays = sa_termDays asset, po_unlockedAt = now + sa_termDays asset * 24 * 60 * 60 * 1000,
          po_accruedYield = calculateYield (sa_amount asset) rate (sa_termDays asset)\<rparr>)"

definition stakeMulti :: "(nat \<Rightarrow> int) \<Rightarrow> stake_request \<Rightarrow> staking \<Rightarrow> error + (position list \<times> staking)" where
  "stakeMulti clock request s =
     (case validateStakeRequest request of
        Some e \<Rightarrow> Inl e
      | None \<Rightarrow>
          (let positions = map (\<lambda>(i, asset). new_position (clock i) asset) (enumerate 0 (sr_assets request));
               id = sr_stakerId request
           in Inr (positions, invalidateCache id
                (s\<lparr>st_data := map_set id (or_else (map_get (st_data s) id) [] @ positions) (st_data s)\<rparr>))))"

section \<open>Withdrawing\<close>

text \<open>One asset of a withdrawal: the first position of the asset with enough balance decides.\<close>

fun withdraw_from :: "int \<Rightarrow> string \<Rightarrow> rat \<Rightarrow> position list \<Rightarrow> position list \<times> bool" where
  "withdraw_from now assetId amount [] = ([], False)"
| "withdraw_from now assetId amount (p # ps) =
     (if po_assetId p = assetId \<and> amount \<le> po_stakedAmount p
      then (if po_unlockedAt p \<le> now
            then (let left = fsub (po_stakedAmount p) amount
                  in (if left = 0 then ps else p\<lparr>po_stakedAmount := left\<rparr> # ps, True))
            else (p # ps, False))
      else (let (ps', unlocked) = withdraw_from now assetId amount ps in (p # ps', unlocked)))"

record withdrawal =
  wd_assetId :: string
  wd_amount :: rat
  wd_unlocked :: bool

fun withdraw_all :: "int \<Rightarrow> (string \<times> rat) list \<Rightarrow> position list \<Rightarrow> withdrawal list \<times> position list" where
  "withdraw_all now [] ps = ([], ps)"
| "withdraw_all now ((assetId, amount) # assets) ps =
     (let (ps', unlocked) = withdraw_from now assetId amount ps;
          (ws, ps'') = withdraw_all now assets ps'
      in (\<lparr>wd_assetId = assetId, wd_amount = amount, wd_unlocked = unlocked\<rparr> # ws, ps''))"

definition withdrawMulti :: "int \<Rightarrow> withdraw_request \<Rightarrow> staking \<Rightarrow> error + (withdrawal list \<times> staking)" where
  "withdrawMulti now request s =
     (let id = wr_stakerId request; positions = or_else (map_get (st_data s) id) []
      in if positions = [] then Inl (NotFoundException ''No staking positions found for staker'')
         else (let (ws, ps) = withdraw_all now (wr_assets request) positions
               in Inr (ws, invalidateCache id (s\<lparr>st_data := map_set id ps (st_data s)\<rparr>))))"

section \<open>Views\<close>

definition allocations :: "position list \<Rightarrow> rat jsmap" where
  "allocations ps = foldl (\<lambda>acc p. map_set (po_assetId p)
     (fadd (or_else (map_get acc (po_assetId p)) 0) (po_stakedAmount p)) acc) [] ps"

definition optimizePortfolio :: "position list \<Rightarrow> recommended list" where
  "optimizePortfolio ps =
     (let totalValue = fsum (map po_stakedAmount ps); allocs = allocations ps
      in map (\<lambda>(assetId, amount). \<lparr>rc_assetId = assetId,
             rc_currentAllocation = to_fixed 2 (fmul (fdiv amount totalValue) 100),
             rc_targetAllocation = to_fixed 2 (fmul (fdiv 1 (of_nat (length allocs))) 100)\<rparr>) allocs)"

definition suggestion_text :: string where
  "suggestion_text = ''Rebalance across supported assets to equal-weight allocations for stable returns and diversified exposure.''"

definition portfolio_of :: "string \<Rightarrow> position list \<Rightarrow> portfolio_view" where
  "portfolio_of stakerId ps =
     \<lparr>pv_stakerId = stakerId, pv_totalValue = fsum (map po_stakedAmount ps),
      pv_totalYield = fsum (map po_accruedYield ps), pv_positions = ps,
      pv_recommendedRebalance = optimizePortfolio ps, pv_suggestionText = suggestion_text\<rparr>"

definition yield_of :: "string \<Rightarrow> position list \<Rightarrow> aggregated_yield" where
  "yield_of stakerId ps =
     (let assets = map (\<lambda>p. (po_assetId p, po_accruedYield p)) ps
      in \<lparr>ay_stakerId = stakerId, ay_totalYield = fsum (map snd assets), ay_assets = assets\<rparr>)"

text \<open>The clock is read when the cache is consulted and again when it is filled.\<close>

definition getPortfolioView :: "int \<Rightarrow> int \<Rightarrow> string \<Rightarrow> staking \<Rightarrow> (error + cached) \<times> staking" where
  "getPortfolioView t0 t1 stakerId s =
     (case getCache t0 (view_key stakerId) s of
        (Some v, s1) \<Rightarrow> (Inr v, s1)
      | (None, s1) \<Rightarrow>
          (case map_get (st_data s1) stakerId of
             None \<Rightarrow> (Inl (NotFoundException ''Staker not found''), s1)
           | Some ps \<Rightarrow>
               (let view = View (portfolio_of stakerId ps)
                in (Inr view, setCache t1 (view_key stakerId) view s1))))"

definition getPositionsByStaker :: "string \<Rightarrow> staking \<Rightarrow> error + position list" where
  "getPositionsByStaker stakerId s =
     (case map_get (st_data s) stakerId of
        None \<Rightarrow> Inl (NotFoundException ''Staker not found'')
      | Some ps \<Rightarrow> Inr ps)"

definition getAggregatedYield :: "int \<Rightarrow> int \<Rightarrow> string \<Rightarrow> staking \<Rightarrow> (error + cached) \<times> staking" where
  "getAggregatedYield t0 t1 stakerId s =
     (case getCache t0 (yield_key stakerId) s of
        (Some v, s1) \<Rightarrow> (Inr v, s1)
      | (None, s1) \<Rightarrow>
          (case map_get (st_data s1) stakerId of
             None \<Rightarrow> (Inl (NotFoundException ''Staker not found''), s1)
           | Some ps \<Rightarrow>
               (let aggregated = Yield (yield_of stakerId ps)
                in (Inr aggregated, setCache t1 (yield_key stakerId) aggregated s1))))"

end
