(* ===== verification/Staking_Props.thy ===== *)
theory Staking_Props
  imports Staking
begin

text \<open>
  What staking guarantees: the cached views are those of the current positions in every reachable
  state; withdrawals pay out what leaves the unlocked positions and leave the others alone.
\<close>

section \<open>Views are fresh\<close>

lemma cache_keys [simp]:
  "view_key a = view_key b \<longleftrightarrow> a = b" "yield_key a = yield_key b \<longleftrightarrow> a = b"
  "view_key a \<noteq> yield_key b" "yield_key b \<noteq> view_key a"
  by (simp_all add: view_key_def yield_key_def)

definition fresh_entry :: "position list jsmap \<Rightarrow> string \<Rightarrow> cached \<Rightarrow> bool" where
  "fresh_entry d key v \<longleftrightarrow> (\<exists>sid ps. map_get d sid = Some ps \<and>
     (key = view_key sid \<and> v = View (portfolio_of sid ps) \<or> key = yield_key sid \<and> v = Yield (yield_of sid ps)))"

definition cache_fresh :: "staking \<Rightarrow> bool" where
  "cache_fresh s \<longleftrightarrow> (\<forall>key v e. map_get (st_cache s) key = Some (v, e) \<longrightarrow> fresh_entry (st_data s) key v)"

lemma getCache_data [simp]: "st_data (snd (getCache now key s)) = st_data s"
  by (simp add: getCache_def split: option.split)

lemma getCache_fresh: "cache_fresh s \<Longrightarrow> cache_fresh (snd (getCache now key s))"
  by (simp add: getCache_def cache_fresh_def split: option.split)

lemma getCache_hit: "cache_fresh s \<Longrightarrow> fst (getCache now key s) = Some v \<Longrightarrow> fresh_entry (st_data s) key v"
  by (auto simp: getCache_def cache_fresh_def split: option.splits if_splits)

lemma setCache_data [simp]: "st_data (setCache now key v s) = st_data s"
  by (simp add: setCache_def)

lemma setCache_fresh: "cache_fresh s \<Longrightarrow> fresh_entry (st_data s) key v \<Longrightarrow> cache_fresh (setCache now key v s)"
  by (simp add: setCache_def cache_fresh_def)

lemma fresh_entry_set:
  "fresh_entry d key v \<Longrightarrow> key \<noteq> view_key i \<Longrightarrow> key \<noteq> yield_key i \<Longrightarrow> fresh_entry (map_set i ps d) key v"
  unfolding fresh_entry_def by (metis map_get_set)

text \<open>Writing a staker's positions and dropping both cache entries keeps the rest of the cache fresh.\<close>

lemma invalidate_fresh:
  "cache_fresh s \<Longrightarrow> cache_fresh (invalidateCache i (s\<lparr>st_data := map_set i ps (st_data s)\<rparr>))"
  by (auto simp: cache_fresh_def invalidateCache_def intro: fresh_entry_set split: if_splits)

lemma view_fresh:
  assumes "cache_fresh s"
  shows "fst (getPortfolioView t0 t1 sid s) = (case map_get (st_data s) sid of
        None \<Rightarrow> Inl (NotFoundException ''Staker not found'') | Some ps \<Rightarrow> Inr (View (portfolio_of sid ps)))"
    and "cache_fresh (snd (getPortfolioView t0 t1 sid s))"
    and "st_data (snd (getPortfolioView t0 t1 sid s)) = st_data s"
proof -
  obtain r s1 where g: "getCache t0 (view_key sid) s = (r, s1)" by fastforce
  have s1: "st_data s1 = st_data s" "cache_fresh s1"
    using g getCache_data [of t0 "view_key sid" s] getCache_fresh [OF assms, of t0 "view_key sid"] by simp_all
  have hit: "r = Some v \<Longrightarrow> \<exists>ps. map_get (st_data s) sid = Some ps \<and> v = View (portfolio_of sid ps)" for v
    using getCache_hit [OF assms, of t0 "view_key sid" v] g by (auto simp: fresh_entry_def)
  have new: "map_get (st_data s) sid = Some ps \<Longrightarrow> fresh_entry (st_data s) (view_key sid) (View (portfolio_of sid ps))" for ps
    by (auto simp: fresh_entry_def)
  show "fst (getPortfolioView t0 t1 sid s) = (case map_get (st_data s) sid of
        None \<Rightarrow> Inl (NotFoundException ''Staker not found'') | Some ps \<Rightarrow> Inr (View (portfolio_of sid ps)))"
    using hit s1 by (fastforce simp: getPortfolioView_def g Let_def split: option.splits)
  show "cache_fresh (snd (getPortfolioView t0 t1 sid s))"
    using s1 new by (auto simp: getPortfolioView_def g Let_def setCache_fresh split: option.splits)
  show "st_data (snd (getPortfolioView t0 t1 sid s)) = st_data s"
    using s1 by (auto simp: getPortfolioView_def g Let_def split: option.splits)
qed

lemma yield_fresh:
  assumes "cache_fresh s"
  shows "fst (getAggregatedYield t0 t1 sid s) = (case map_get (st_data s) sid of
        None \<Rightarrow> Inl (NotFoundException ''Staker not found'') | Some ps \<Rightarrow> Inr (Yield (yield_of sid ps)))"
    and "cache_fresh (snd (getAggregatedYield t0 t1 sid s))"
    and "st_data (snd (getAggregatedYield t0 t1 sid s)) = st_data s"
proof -
  obtain r s1 where g: "getCache t0 (yield_key sid) s = (r, s1)" by fastforce
  have s1: "st_data s1 = st_data s" "cache_fresh s1"
    using g getCache_data [of t0 "yield_key sid" s] getCache_fresh [OF assms, of t0 "yield_key sid"] by simp_all
  have hit: "r = Some v \<Longrightarrow> \<exists>ps. map_get (st_data s) sid = Some ps \<and> v = Yield (yield_of sid ps)" for v
    using getCache_hit [OF assms, of t0 "yield_key sid" v] g by (auto simp: fresh_entry_def)
  have new: "map_get (st_data s) sid = Some ps \<Longrightarrow> fresh_entry (st_data s) (yield_key sid) (Yield (yield_of sid ps))" for ps
    by (auto simp: fresh_entry_def)
  show "fst (getAggregatedYield t0 t1 sid s) = (case map_get (st_data s) sid of
        None \<Rightarrow> Inl (NotFoundException ''Staker not found'') | Some ps \<Rightarrow> Inr (Yield (yield_of sid ps)))"
    using hit s1 by (fastforce simp: getAggregatedYield_def g Let_def split: option.splits)
  show "cache_fresh (snd (getAggregatedYield t0 t1 sid s))"
    using s1 new by (auto simp: getAggregatedYield_def g Let_def setCache_fresh split: option.splits)
  show "st_data (snd (getAggregatedYield t0 t1 sid s)) = st_data s"
    using s1 by (auto simp: getAggregatedYield_def g Let_def split: option.splits)
qed

inductive staking_reachable :: "staking \<Rightarrow> bool" where
  Start: "staking_reachable \<lparr>st_data = [], st_cache = []\<rparr>"
| Stake: "staking_reachable s \<Longrightarrow> stakeMulti clock rq s = Inr (ps, s') \<Longrightarrow> staking_reachable s'"
| Withdraw: "staking_reachable s \<Longrightarrow> withdrawMulti now wq s = Inr (ws, s') \<Longrightarrow> staking_reachable s'"
| LookPortfolio: "staking_reachable s \<Longrightarrow> staking_reachable (snd (getPortfolioView t0 t1 sid s))"
| LookYield: "staking_reachable s \<Longrightarrow> staking_reachable (snd (getAggregatedYield t0 t1 sid s))"

lemma reachable_fresh: "staking_reachable s \<Longrightarrow> cache_fresh s"
proof (induction rule: staking_reachable.induct)
  case Start
  show ?case by (simp add: cache_fresh_def)
next
  case (Stake s clock rq ps s')
  then show ?case by (auto simp: stakeMulti_def Let_def invalidate_fresh split: option.splits)
next
  case (Withdraw s now wq ws s')
  then show ?case by (auto simp: withdrawMulti_def Let_def invalidate_fresh split: if_splits prod.splits)
qed (simp_all add: view_fresh yield_fresh)

text \<open>C25. Fresh views. In every reachable state the portfolio view and the aggregated yield, whether cached or not, are those of the staker's
  current positions: no stake or withdrawal leaves a stale entry behind, and reading changes no position.\<close>

theorem portfolio_views_fresh:
  assumes "staking_reachable s"
  shows "fst (getPortfolioView t0 t1 sid s) = (case map_get (st_data s) sid of
      None \<Rightarrow> Inl (NotFoundException ''Staker not found'') | Some ps \<Rightarrow> Inr (View (portfolio_of sid ps))) \<and>
    fst (getAggregatedYield t0 t1 sid s) = (case map_get (st_data s) sid of
      None \<Rightarrow> Inl (NotFoundException ''Staker not found'') | Some ps \<Rightarrow> Inr (Yield (yield_of sid ps))) \<and>
    st_data (snd (getPortfolioView t0 t1 sid s)) = st_data s \<and> st_data (snd (getAggregatedYield t0 t1 sid s)) = st_data s"
  using reachable_fresh [OF assms] by (simp add: view_fresh yield_fresh)

definition demo_stake :: stake_request where
  "demo_stake = \<lparr>sr_stakerId = ''alice'', sr_assets = [\<lparr>sa_assetId = ''ASTR'', sa_amount = 8, sa_termDays = 30\<rparr>]\<rparr>"

text \<open>The view cached after the first stake is not returned after the second.\<close>

lemma portfolio_views_fresh_witness:
  "let p = new_position 0 \<lparr>sa_assetId = ''ASTR'', sa_amount = 8, sa_termDays = 30\<rparr>;
       s1 = snd (projr (stakeMulti (\<lambda>_. 0) demo_stake \<lparr>st_data = [], st_cache = []\<rparr>));
       s2 = snd (getPortfolioView 0 0 ''alice'' s1); s3 = snd (projr (stakeMulti (\<lambda>_. 0) demo_stake s2))
   in fst (getPortfolioView 1 1 ''alice'' s3) = Inr (View (portfolio_of ''alice'' [p, p]))"
proof -
  let ?p = "new_position 0 \<lparr>sa_assetId = ''ASTR'', sa_amount = 8, sa_termDays = 30\<rparr>"
  have ok: "validateStakeRequest demo_stake = None"
    by (simp add: validateStakeRequest_def demo_stake_def getRatesByAssetId_def assetRates_def)
  define s1 where "s1 = invalidateCache ''alice'' \<lparr>st_data = [(''alice'', [?p])], st_cache = []\<rparr>"
  define s2 where "s2 = snd (getPortfolioView 0 0 ''alice'' s1)"
  define s3 where "s3 = invalidateCache ''alice'' (s2\<lparr>st_data := [(''alice'', [?p, ?p])]\<rparr>)"
  have e1: "stakeMulti (\<lambda>_. 0) demo_stake \<lparr>st_data = [], st_cache = []\<rparr> = Inr ([?p], s1)"
    using ok by (simp add: stakeMulti_def Let_def) (simp add: demo_stake_def s1_def)
  have "staking_reachable s1" by (rule Stake [OF Start e1])
  then have r2: "staking_reachable s2" unfolding s2_def by (rule LookPortfolio)
  have d2: "st_data s2 = [(''alice'', [?p])]"
    unfolding s2_def view_fresh(3) [OF reachable_fresh [OF \<open>staking_reachable s1\<close>]] by (simp add: s1_def invalidateCache_def)
  have e3: "stakeMulti (\<lambda>_. 0) demo_stake s2 = Inr ([?p], s3)"
    using ok by (simp add: stakeMulti_def Let_def) (simp add: demo_stake_def s3_def d2)
  have "staking_reachable s3" by (rule Stake [OF r2 e3])
  then have "fst (getPortfolioView 1 1 ''alice'' s3) = Inr (View (portfolio_of ''alice'' [?p, ?p]))"
    using portfolio_views_fresh [of s3 1 1 "''alice''"] by (simp add: s3_def invalidateCache_def)
  then show ?thesis by (simp add: e1 e3 flip: s2_def)
qed

section \<open>Withdrawals\<close>

definition whole :: "rat \<Rightarrow> bool" where
  "whole x \<longleftrightarrow> (\<exists>n. 0 < n \<and> n \<le> 2 ^ 53 \<and> x = of_int n)"

definition staked_in :: "string \<Rightarrow> position list \<Rightarrow> rat" where
  "staked_in a ps = sum_list (map po_stakedAmount (filter (\<lambda>p. po_assetId p = a) ps))"

definition paid :: "string \<Rightarrow> withdrawal list \<Rightarrow> rat" where
  "paid a ws = sum_list (map wd_amount (filter (\<lambda>w. wd_unlocked w \<and> wd_assetId w = a) ws))"

lemma whole_fsub:
  assumes "whole x" "whole y" "y \<le> x"
  shows "fsub x y = x - y" and "x - y = 0 \<or> whole (x - y)"
proof -
  obtain m n where mn: "0 < m" "m \<le> 2 ^ 53" "x = of_int m" "0 < n" "y = of_int n"
    using assms(1,2) by (auto simp: whole_def)
  then have "n \<le> m" using assms(3) by simp
  with mn show "fsub x y = x - y" by (simp add: fsub_def f64_of_int flip: of_int_diff)
  show "x - y = 0 \<or> whole (x - y)"
    using mn \<open>n \<le> m\<close> by (cases "n = m") (auto simp: whole_def intro!: exI [of _ "m - n"])
qed

lemma withdraw_from_spec:
  assumes "\<forall>p \<in> set ps. whole (po_stakedAmount p)" "whole amount" "withdraw_from now a amount ps = (ps', b)"
  shows "(\<forall>p \<in> set ps'. whole (po_stakedAmount p)) \<and>
    staked_in x ps = staked_in x ps' + (if b \<and> x = a then amount else 0) \<and>
    filter (\<lambda>p. now < po_unlockedAt p) ps' = filter (\<lambda>p. now < po_unlockedAt p) ps"
  using assms
proof (induction ps arbitrary: ps')
  case (Cons p ps)
  show ?case
  proof (cases "po_assetId p = a \<and> amount \<le> po_stakedAmount p")
    case True
    then show ?thesis
      using Cons.prems whole_fsub [of "po_stakedAmount p" amount]
      by (auto simp: staked_in_def Let_def split: if_splits)
  next
    case False
    then obtain qs where "withdraw_from now a amount ps = (qs, b)" "ps' = p # qs"
      using Cons.prems(3) by (auto split: prod.splits if_splits)
    with Cons.IH [of qs] Cons.prems show ?thesis by (auto simp: staked_in_def)
  qed
qed (simp add: staked_in_def)

lemma withdraw_all_spec:
  assumes "\<forall>p \<in> set ps. whole (po_stakedAmount p)" "\<forall>(a, m) \<in> set assets. whole m"
    "withdraw_all now assets ps = (ws, ps')"
  shows "(\<forall>p \<in> set ps'. whole (po_stakedAmount p)) \<and> staked_in x ps = staked_in x ps' + paid x ws \<and>
    filter (\<lambda>p. now < po_unlockedAt p) ps' = filter (\<lambda>p. now < po_unlockedAt p) ps \<and>
    map (\<lambda>w. (wd_assetId w, wd_amount w)) ws = assets"
  using assms
proof (induction assets arbitrary: ps ws)
  case (Cons am assets)
  obtain a m where am: "am = (a, m)" by fastforce
  obtain qs b where q: "withdraw_from now a m ps = (qs, b)" by fastforce
  obtain vs where v: "withdraw_all now assets qs = (vs, ps')" "ws = \<lparr>wd_assetId = a, wd_amount = m, wd_unlocked = b\<rparr> # vs"
    using Cons.prems(3) by (auto simp: am q split: prod.splits)
  note one = withdraw_from_spec [OF Cons.prems(1) _ q, of x]
  have "whole m" using Cons.prems(2) by (simp add: am)
  with one Cons.IH [OF _ _ v(1)] Cons.prems(2) show ?case
    by (auto simp: v(2) paid_def am)
qed (simp add: paid_def)



text \<open>A locked position with enough balance makes a withdrawal fail although a later position of the
  same asset is unlocked and has enough.\<close>

lemma locked_hides_unlocked:
  assumes "po_assetId p = a" "m \<le> po_stakedAmount p" "now < po_unlockedAt p"
  shows "withdraw_from now a m (p # ps) = (p # ps, False)"
  using assms by simp

end
