(* ===== verification/Emergency_Unstake.thy ===== *)
theory Emergency_Unstake
  imports Pagination
begin

text \<open>
  Emergency unstaking (src/staking/emergency-unstake.service.ts) and the positions it draws on
  (src/contracts/contracts.service.ts).

  The repository is the list of its rows in insertion order; ids, creation dates and clock readings
  are arguments, dates are milliseconds and the server's calendar is UTC, so that seven days back are
  \<open>7 * 86400000\<close> milliseconds. The text of a number is an argument. The handler is split where it
  awaits the rate limit query, to show what two concurrent requests do. Shown are: the penalty lies
  between its bounds, grows with the remaining time and is dropped at the unlock date; sequential
  requests of one staker are admitted at most once in seven days and every record has its withdrawal;
  two concurrent ones are both admitted.
\<close>

section \<open>Positions of the contracts service\<close>

record staking_position =
  sp_id :: string
  sp_stakerId :: string
  sp_amount :: rat
  sp_unlockDate :: int

type_synonym contracts = "staking_position jsmap"

definition getStakingPosition :: "string \<Rightarrow> contracts \<Rightarrow> staking_position option" where
  "getStakingPosition i c = map_get c i"

definition processEmergencyWithdrawal :: "string \<Rightarrow> rat \<Rightarrow> contracts \<Rightarrow> error + contracts" where
  "processEmergencyWithdrawal stakingPositionId amount c =
     (case map_get c stakingPositionId of
        None \<Rightarrow> Inl (NotFoundException ''Staking position not found'')
      | Some p \<Rightarrow>
          if sp_amount p < amount then Inl (JsError ''Insufficient balance for withdrawal'')
          else Inr (map_set stakingPositionId (p\<lparr>sp_amount := fsub (sp_amount p) amount\<rparr>) c))"

definition addStakingPosition :: "staking_position \<Rightarrow> contracts \<Rightarrow> contracts" where
  "addStakingPosition p c = map_set (sp_id p) p c"

section \<open>The penalty\<close>

record penalty_config =
  pc_maxPenaltyRate :: rat
  pc_minPenaltyRate :: rat
  pc_rateLimitDays :: int
  pc_lockupPeriodDays :: int

definition penaltyConfig :: penalty_config where
  "penaltyConfig = \<lparr>pc_maxPenaltyRate = f64 (25/100), pc_minPenaltyRate = f64 (5/100), pc_rateLimitDays = 7,
     pc_lockupPeriodDays = 180\<rparr>"

definition calculatePenalty :: "int \<Rightarrow> int \<Rightarrow> rat" where
  "calculatePenalty now unlock =
     (let totalLockupPeriod = pc_lockupPeriodDays penaltyConfig * 24 * 60 * 60 * 1000;
          timeRemaining = unlock - now
      in if timeRemaining \<le> 0 then 0
         else (let timeRemainingRatio = fdiv (of_int timeRemaining) (of_int totalLockupPeriod);
                   penaltyRange = fsub (pc_maxPenaltyRate penaltyConfig) (pc_minPenaltyRate penaltyConfig);
                   penalty = fadd (pc_minPenaltyRate penaltyConfig) (fmul penaltyRange timeRemainingRatio)
               in min penalty (pc_maxPenaltyRate penaltyConfig)))"

record penalty_preview =
  pp_originalAmount :: rat
  pp_penaltyRate :: rat
  pp_penaltyAmount :: rat
  pp_netAmount :: rat
  pp_unlockDate :: int
  pp_daysRemaining :: int

definition previewPenalty :: "int \<Rightarrow> rat \<Rightarrow> int \<Rightarrow> penalty_preview" where
  "previewPenalty now amount currentUnlockDate =
     (let penalty = calculatePenalty now currentUnlockDate; penaltyAmount = fmul amount penalty
      in \<lparr>pp_originalAmount = amount, pp_penaltyRate = penalty, pp_penaltyAmount = penaltyAmount,
          pp_netAmount = fsub amount penaltyAmount, pp_unlockDate = currentUnlockDate,
          pp_daysRemaining = \<lceil>fdiv (of_int (currentUnlockDate - now)) (1000 * 60 * 60 * 24)\<rceil>\<rparr>)"

section \<open>Requests\<close>

datatype unstake_status = UPending | UProcessed | UFailed

record emergency_unstake =
  eu_id :: string
  eu_stakerId :: string
  eu_amount :: rat
  eu_penalty :: rat
  eu_penaltyRate :: rat
  eu_originalUnlockDate :: int
  eu_status :: unstake_status
  eu_createdAt :: int
  eu_processedAt :: "int option"
  eu_auditLog :: "(int \<times> string \<times> string) list"

record unstaking =
  un_rows :: "emergency_unstake list"
  un_contracts :: contracts

record unstake_request =
  ur_stakerId :: string
  ur_stakingPositionId :: string
  ur_amount :: rat

record unstake_answer =
  ua_transactionId :: string
  ua_status :: unstake_status
  ua_rate :: rat
  ua_amount :: rat
  ua_netAmount :: rat

definition sevenDaysAgo :: "int \<Rightarrow> int" where
  "sevenDaysAgo now = now - pc_rateLimitDays penaltyConfig * 86400000"

definition checkRateLimit :: "int \<Rightarrow> string \<Rightarrow> unstaking \<Rightarrow> bool" where
  "checkRateLimit now stakerId s =
     (\<not> list_ex (\<lambda>r. eu_stakerId r = stakerId \<and> sevenDaysAgo now < eu_createdAt r) (un_rows s))"

definition unstake_row :: "(rat \<Rightarrow> string) \<Rightarrow> int \<Rightarrow> string \<Rightarrow> int \<Rightarrow> unstake_request \<Rightarrow> staking_position \<Rightarrow> emergency_unstake" where
  "unstake_row num now rid created dto p =
     (let penalty = calculatePenalty now (sp_unlockDate p); penaltyAmount = fmul (ur_amount dto) penalty
      in \<lparr>eu_id = rid, eu_stakerId = ur_stakerId dto, eu_amount = ur_amount dto, eu_penalty = penaltyAmount,
          eu_penaltyRate = penalty, eu_originalUnlockDate = sp_unlockDate p, eu_status = UPending,
          eu_createdAt = created, eu_processedAt = None,
          eu_auditLog = [(now, ''INITIATED'', ''Emergency unstake initiated for amount '' @ num (ur_amount dto))]\<rparr>)"

definition unstake_guard :: "unstake_request \<Rightarrow> unstaking \<Rightarrow> error + staking_position" where
  "unstake_guard dto s =
     (case getStakingPosition (ur_stakingPositionId dto) (un_contracts s) of
        None \<Rightarrow> Inl (NotFoundException ''Staking position not found'')
      | Some p \<Rightarrow>
          if sp_stakerId p \<noteq> ur_stakerId dto then Inl (BadRequestException ''Staker ID does not match position owner'')
          else if sp_amount p < ur_amount dto then Inl (BadRequestException ''Requested amount exceeds staked balance'')
          else Inr p)"

text \<open>What follows the rate limit query: the checks, the saved row and the withdrawal. An exception of the
  withdrawal leaves the row behind.\<close>

definition unstake_commit ::
  "(rat \<Rightarrow> string) \<Rightarrow> int \<Rightarrow> string \<Rightarrow> int \<Rightarrow> unstake_request \<Rightarrow> unstaking \<Rightarrow> (error + unstake_answer) \<times> unstaking" where
  "unstake_commit num now rid created dto s =
     (case unstake_guard dto s of
        Inl e \<Rightarrow> (Inl e, s)
      | Inr p \<Rightarrow>
          (let row = unstake_row num now rid created dto p; s1 = s\<lparr>un_rows := un_rows s @ [row]\<rparr>
           in case processEmergencyWithdrawal (ur_stakingPositionId dto) (ur_amount dto) (un_contracts s1) of
                Inl e \<Rightarrow> (Inl e, s1)
              | Inr c \<Rightarrow> (Inr \<lparr>ua_transactionId = rid, ua_status = eu_status row, ua_rate = eu_penaltyRate row,
                    ua_amount = eu_penalty row, ua_netAmount = fsub (ur_amount dto) (eu_penalty row)\<rparr>,
                  s1\<lparr>un_contracts := c\<rparr>)))"

definition initiateEmergencyUnstake ::
  "(rat \<Rightarrow> string) \<Rightarrow> int \<Rightarrow> int \<Rightarrow> string \<Rightarrow> int \<Rightarrow> unstake_request \<Rightarrow> unstaking \<Rightarrow> (error + unstake_answer) \<times> unstaking" where
  "initiateEmergencyUnstake num t0 t1 rid created dto s =
     (if \<not> checkRateLimit t0 (ur_stakerId dto) s
      then (Inl (BadRequestException ''Emergency unstake is limited to once every 7 days per staker''), s)
      else unstake_commit num t1 rid created dto s)"

section \<open>Queries\<close>

record unstake_record =
  uc_id :: string
  uc_status :: unstake_status
  uc_amount :: rat
  uc_penalty :: rat
  uc_createdAt :: int
  uc_processedAt :: "int option"

definition getUnstakeStatus :: "string \<Rightarrow> string option \<Rightarrow> unstaking \<Rightarrow> error + unstake_record list" where
  "getUnstakeStatus stakerId unstakeId s =
     (let rows = filter (\<lambda>r. eu_stakerId r = stakerId \<and> (or_else unstakeId [] \<noteq> [] \<longrightarrow> Some (eu_id r) = unstakeId)) (un_rows s);
          unstakes = ordered False eu_createdAt rows
      in if unstakes = [] then Inl (NotFoundException ''No emergency unstake records found'')
         else Inr (map (\<lambda>r. \<lparr>uc_id = eu_id r, uc_status = eu_status r, uc_amount = eu_amount r, uc_penalty = eu_penalty r,
                uc_createdAt = eu_createdAt r, uc_processedAt = eu_processedAt r\<rparr>) unstakes))"

record history_filter =
  hf_status :: "unstake_status option"
  hf_startDate :: "int option"
  hf_endDate :: "int option"
  hf_asc :: bool
  hf_page :: int
  hf_limit :: int

text \<open>\<open>column\<close> is the sort column of the request; the page is cut by the database.\<close>

definition getEmergencyHistory ::
  "(emergency_unstake \<Rightarrow> 'k::linorder) \<Rightarrow> string \<Rightarrow> history_filter \<Rightarrow> unstaking \<Rightarrow> emergency_unstake list \<times> pagination_meta" where
  "getEmergencyHistory column stakerId filters s =
     (let rows = filter (\<lambda>r. eu_stakerId r = stakerId
             \<and> (case hf_status filters of Some st \<Rightarrow> eu_status r = st | None \<Rightarrow> True)
             \<and> (case hf_startDate filters of Some d \<Rightarrow> d \<le> eu_createdAt r | None \<Rightarrow> True)
             \<and> (case hf_endDate filters of Some d \<Rightarrow> eu_createdAt r \<le> d | None \<Rightarrow> True)) (un_rows s);
          records = page_of (hf_page filters) (hf_limit filters) (ordered (hf_asc filters) column rows)
      in createOffsetPaginatedResponse records (int (length rows)) (hf_page filters) (hf_limit filters))"

section \<open>The penalty's range\<close>

lemma penalty_constants:
  "pc_maxPenaltyRate penaltyConfig = 1/4" "pc_minPenaltyRate penaltyConfig = f64 (5/100)" "is_f64 (1/4)"
  "f64 (5/100) \<le> 1/4" "0 \<le> f64 (5/100)"
proof -
  show q: "is_f64 (1/4)"
    unfolding is_f64_def by (intro exI [of _ 1] exI [of _ "- 2"]) (simp add: power_int_minus_divide)
  show "pc_maxPenaltyRate penaltyConfig = 1/4" using f64_exact [OF q] by (simp add: penaltyConfig_def)
  show "pc_minPenaltyRate penaltyConfig = f64 (5/100)" by (simp add: penaltyConfig_def)
  show "f64 (5/100) \<le> 1/4" by (rule f64_le_is_f64 [OF q]) simp
  show "0 \<le> f64 (5/100)" by (rule f64_nonneg) simp
qed

lemma penalty_range_nonneg: "0 \<le> fsub (pc_maxPenaltyRate penaltyConfig) (pc_minPenaltyRate penaltyConfig)"
  unfolding fsub_def using penalty_constants by (intro f64_nonneg) simp

lemma penalty_bounds_rate:
  "now < unlock \<Longrightarrow> f64 (5/100) \<le> calculatePenalty now unlock"
  "calculatePenalty now unlock \<le> 1/4" "0 \<le> calculatePenalty now unlock"
proof -
  let ?r = "fsub (pc_maxPenaltyRate penaltyConfig) (pc_minPenaltyRate penaltyConfig)"
  let ?q = "fdiv (of_int (unlock - now)) (of_int (pc_lockupPeriodDays penaltyConfig * 24 * 60 * 60 * 1000))"
  have low: "f64 (5/100) \<le> calculatePenalty now unlock" if "now < unlock"
  proof -
    have "0 \<le> fmul ?r ?q"
      using that penalty_range_nonneg
      by (auto simp: fmul_def fdiv_def penaltyConfig_def intro!: f64_nonneg mult_nonneg_nonneg divide_nonneg_nonneg)
    then have "f64 (5/100) \<le> fadd (f64 (5/100)) (fmul ?r ?q)"
      unfolding fadd_def by (intro f64_ge_is_f64) auto
    then show ?thesis
      using that penalty_constants(4) by (simp add: calculatePenalty_def Let_def penalty_constants(1,2))
  qed
  then show "now < unlock \<Longrightarrow> f64 (5/100) \<le> calculatePenalty now unlock" .
  have "min x (1/4) * 4 \<le> 1" for x :: rat using min.cobounded2 [of x "1/4"] by simp
  then show "calculatePenalty now unlock \<le> 1/4" by (simp add: calculatePenalty_def Let_def penalty_constants(1))
  show "0 \<le> calculatePenalty now unlock"
  proof (cases "now < unlock")
    case True
    then show ?thesis using low penalty_constants by (meson order_trans)
  qed (simp add: calculatePenalty_def)
qed

lemma penalty_mono: "unlock \<le> unlock' \<Longrightarrow> calculatePenalty now unlock \<le> calculatePenalty now unlock'"
proof (cases "now < unlock")
  case True
  assume le: "unlock \<le> unlock'"
  let ?r = "fsub (pc_maxPenaltyRate penaltyConfig) (pc_minPenaltyRate penaltyConfig)"
  have "fadd m (fmul ?r (fdiv (of_int (unlock - now)) d)) \<le> fadd m (fmul ?r (fdiv (of_int (unlock' - now)) d))"
    if "0 \<le> d" for m d
    unfolding fadd_def fmul_def fdiv_def
    using le that penalty_range_nonneg by (intro f64_mono add_left_mono mult_left_mono divide_right_mono) auto
  from this [of "of_int (pc_lockupPeriodDays penaltyConfig * 24 * 60 * 60 * 1000)" "pc_minPenaltyRate penaltyConfig"]
  show ?thesis using True le by (auto simp: calculatePenalty_def Let_def penaltyConfig_def)
next
  case False
  then have "calculatePenalty now unlock = 0" by (simp add: calculatePenalty_def)
  then show ?thesis using penalty_bounds_rate(3) by simp
qed

text \<open>The penalty. Before the unlock date the rate lies between five and twenty-five percent, from the unlock date on it is
  zero, and it never falls when the remaining time grows; penalty and net amount are between zero and the amount.\<close>

theorem penalty_in_range:
  assumes "is_f64 amount" "0 \<le> amount"
  shows "let v = previewPenalty now amount unlock in
    (if now < unlock then f64 (5/100) \<le> pp_penaltyRate v \<and> pp_penaltyRate v \<le> 1/4
     else pp_penaltyRate v = 0 \<and> pp_netAmount v = amount) \<and>
    0 \<le> pp_penaltyAmount v \<and> pp_penaltyAmount v \<le> amount \<and> 0 \<le> pp_netAmount v \<and> pp_netAmount v \<le> amount \<and>
    (\<forall>later \<ge> unlock. pp_penaltyRate v \<le> pp_penaltyRate (previewPenalty now amount later))"
proof -
  let ?p = "calculatePenalty now unlock"
  have "amount * ?p \<le> amount * 1" using assms(2) penalty_bounds_rate(2) [of now unlock] by (intro mult_left_mono) auto
  then have hi: "fmul amount ?p \<le> amount" unfolding fmul_def by (intro f64_le_is_f64 assms(1)) simp
  have lo: "0 \<le> fmul amount ?p"
    unfolding fmul_def using assms(2) penalty_bounds_rate(3) by (intro f64_nonneg mult_nonneg_nonneg) auto
  have "fsub amount (fmul amount ?p) \<le> amount" unfolding fsub_def using lo by (intro f64_le_is_f64 assms(1)) simp
  moreover have "0 \<le> fsub amount (fmul amount ?p)" unfolding fsub_def using hi by (intro f64_nonneg) simp
  moreover have "\<not> now < unlock \<Longrightarrow> ?p = 0" by (simp add: calculatePenalty_def)
  moreover have "fsub amount (fmul amount 0) = amount"
    using f64_exact [OF assms(1)] by (simp add: fmul_def fsub_def)
  ultimately show ?thesis
    using hi lo penalty_bounds_rate(1,2) [of now unlock] penalty_mono [of unlock _ now]
    by (simp add: previewPenalty_def Let_def)
qed

lemma penalty_in_range_witness:
  "f64 (5/100) \<le> pp_penaltyRate (previewPenalty 0 100 86400000) \<and> pp_netAmount (previewPenalty 0 100 86400000) \<le> 100 \<and>
    pp_netAmount (previewPenalty 5 100 5) = 100"
proof -
  have "is_f64 100" using is_f64_of_int [of 100] by simp
  then show ?thesis
    using penalty_in_range [of 100 0 86400000] penalty_in_range [of 100 5 5] by (simp add: Let_def)
qed

section \<open>Once in seven days\<close>

inductive unstaking_reachable :: "unstaking \<Rightarrow> bool" where
  Start: "unstaking_reachable \<lparr>un_rows = [], un_contracts = []\<rparr>"
| Position: "unstaking_reachable s \<Longrightarrow> unstaking_reachable (s\<lparr>un_contracts := addStakingPosition p (un_contracts s)\<rparr>)"
| Request: "unstaking_reachable s \<Longrightarrow> t0 \<le> created \<Longrightarrow>
    unstaking_reachable (snd (initiateEmergencyUnstake num t0 t1 rid created dto s))"

lemma unstake_guard_Inr:
  "unstake_guard dto s = Inr p \<Longrightarrow> map_get (un_contracts s) (ur_stakingPositionId dto) = Some p \<and>
    sp_stakerId p = ur_stakerId dto \<and> ur_amount dto \<le> sp_amount p"
  by (auto simp: unstake_guard_def getStakingPosition_def split: option.splits if_splits)

text \<open>Without interleaving the withdrawal never fails: a request is answered with an error and changes
  nothing, or it is recorded and paid.\<close>

lemma unstake_commit_cases:
  "unstake_commit num now rid created dto s =
    (case unstake_guard dto s of
       Inl e \<Rightarrow> (Inl e, s)
     | Inr p \<Rightarrow> let row = unstake_row num now rid created dto p in
        (Inr \<lparr>ua_transactionId = rid, ua_status = UPending, ua_rate = eu_penaltyRate row, ua_amount = eu_penalty row,
              ua_netAmount = fsub (ur_amount dto) (eu_penalty row)\<rparr>,
         \<lparr>un_rows = un_rows s @ [row], un_contracts = map_set (ur_stakingPositionId dto)
            (p\<lparr>sp_amount := fsub (sp_amount p) (ur_amount dto)\<rparr>) (un_contracts s)\<rparr>))"
proof (cases "unstake_guard dto s")
  case (Inr p)
  from unstake_guard_Inr [OF this] show ?thesis
    by (simp add: unstake_commit_def Inr processEmergencyWithdrawal_def Let_def unstake_row_def)
qed (simp add: unstake_commit_def)

lemma unstake_row_simps [simp]:
  "eu_stakerId (unstake_row num now rid created dto p) = ur_stakerId dto"
  "eu_createdAt (unstake_row num now rid created dto p) = created"
  "eu_amount (unstake_row num now rid created dto p) = ur_amount dto"
  by (simp_all add: unstake_row_def Let_def)

definition week_apart :: "emergency_unstake list \<Rightarrow> bool" where
  "week_apart rows \<longleftrightarrow>
     sorted_wrt (\<lambda>a b. eu_stakerId a = eu_stakerId b \<longrightarrow> eu_createdAt a + 7 * 86400000 \<le> eu_createdAt b) rows"

lemma reachable_week_apart: "unstaking_reachable s \<Longrightarrow> week_apart (un_rows s)"
proof (induction rule: unstaking_reachable.induct)
  case (Request s t0 created num t1 rid dto)
  show ?case
  proof (cases "checkRateLimit t0 (ur_stakerId dto) s \<and> (\<exists>p. unstake_guard dto s = Inr p)")
    case True
    then obtain p where p: "unstake_guard dto s = Inr p" by blast
    have "eu_stakerId r = ur_stakerId dto \<Longrightarrow> eu_createdAt r + 7 * 86400000 \<le> created" if "r \<in> set (un_rows s)" for r
      using True that Request.hyps(2)
      by (fastforce simp: checkRateLimit_def list_ex_iff sevenDaysAgo_def penaltyConfig_def)
    then show ?thesis
      using Request.IH True
      by (auto simp: initiateEmergencyUnstake_def unstake_commit_cases p Let_def week_apart_def sorted_wrt_append)
  next
    case False
    then show ?thesis
      using Request.IH by (cases "unstake_guard dto s") (auto simp: initiateEmergencyUnstake_def unstake_commit_cases)
  qed
qed (simp_all add: week_apart_def)

text \<open>C27. One in seven days. Requests served one after the other are admitted at most once in seven days per staker, and each is all or nothing: an
  error changes nothing, a success records the request and takes its amount, which the position had, from it.\<close>

theorem unstake_once_a_week:
  assumes "unstaking_reachable s"
  shows "(\<forall>i j. i < j \<and> j < length (un_rows s) \<and> eu_stakerId (un_rows s ! i) = eu_stakerId (un_rows s ! j) \<longrightarrow>
      eu_createdAt (un_rows s ! i) + 7 * 86400000 \<le> eu_createdAt (un_rows s ! j)) \<and>
    (case initiateEmergencyUnstake num t0 t1 rid created dto s of
       (Inl e, s') \<Rightarrow> s' = s
     | (Inr a, s') \<Rightarrow> \<exists>p row. map_get (un_contracts s) (ur_stakingPositionId dto) = Some p \<and> ur_amount dto \<le> sp_amount p \<and>
         sp_stakerId p = ur_stakerId dto \<and> un_rows s' = un_rows s @ [row] \<and> eu_amount row = ur_amount dto \<and>
         un_contracts s' = map_set (ur_stakingPositionId dto) (p\<lparr>sp_amount := fsub (sp_amount p) (ur_amount dto)\<rparr>) (un_contracts s))"
proof
  show "\<forall>i j. i < j \<and> j < length (un_rows s) \<and> eu_stakerId (un_rows s ! i) = eu_stakerId (un_rows s ! j) \<longrightarrow>
      eu_createdAt (un_rows s ! i) + 7 * 86400000 \<le> eu_createdAt (un_rows s ! j)"
    using reachable_week_apart [OF assms(1)] by (auto simp: week_apart_def sorted_wrt_iff_nth_less)
  show "case initiateEmergencyUnstake num t0 t1 rid created dto s of
       (Inl e, s') \<Rightarrow> s' = s
     | (Inr a, s') \<Rightarrow> \<exists>p row. map_get (un_contracts s) (ur_stakingPositionId dto) = Some p \<and> ur_amount dto \<le> sp_amount p \<and>
         sp_stakerId p = ur_stakerId dto \<and> un_rows s' = un_rows s @ [row] \<and> eu_amount row = ur_amount dto \<and>
         un_contracts s' = map_set (ur_stakingPositionId dto) (p\<lparr>sp_amount := fsub (sp_amount p) (ur_amount dto)\<rparr>) (un_contracts s)"
    by (cases "unstake_guard dto s")
      (auto simp: initiateEmergencyUnstake_def unstake_commit_cases Let_def dest: unstake_guard_Inr)
qed

definition demo_unstake :: unstake_request where
  "demo_unstake = \<lparr>ur_stakerId = ''alice'', ur_stakingPositionId = ''p1'', ur_amount = 3\<rparr>"

definition demo_unstaking :: unstaking where
  "demo_unstaking = \<lparr>un_rows = [], un_contracts =
     [(''p1'', \<lparr>sp_id = ''p1'', sp_stakerId = ''alice'', sp_amount = 10, sp_unlockDate = 900000000\<rparr>)]\<rparr>"

lemma demo_unstake_reachable: "unstaking_reachable demo_unstaking"
  using unstaking_reachable.Position [OF unstaking_reachable.Start,
      of "\<lparr>sp_id = ''p1'', sp_stakerId = ''alice'', sp_amount = 10, sp_unlockDate = 900000000\<rparr>"]
  by (simp add: demo_unstaking_def addStakingPosition_def)

lemma fsub_10_3 [simp]: "fsub 10 3 = 7"
  using f64_of_int [of 7] by (simp add: fsub_def)

lemma unstake_once_a_week_witness:
  "let s1 = snd (initiateEmergencyUnstake (\<lambda>_. []) 0 0 ''r1'' 0 demo_unstake demo_unstaking);
       s2 = snd (initiateEmergencyUnstake (\<lambda>_. []) 604800000 604800000 ''r2'' 604800000 demo_unstake s1)
   in length (un_rows s2) = 2 \<and> eu_createdAt (un_rows s2 ! 0) + 7 * 86400000 \<le> eu_createdAt (un_rows s2 ! 1)"
proof -
  define s1 where "s1 = snd (initiateEmergencyUnstake (\<lambda>_. []) 0 0 ''r1'' 0 demo_unstake demo_unstaking)"
  define s2 where "s2 = snd (initiateEmergencyUnstake (\<lambda>_. []) 604800000 604800000 ''r2'' 604800000 demo_unstake s1)"
  have "unstaking_reachable s2"
    unfolding s2_def s1_def by (intro unstaking_reachable.Request demo_unstake_reachable) simp_all
  moreover have "length (un_rows s2) = 2" "eu_stakerId (un_rows s2 ! 0) = eu_stakerId (un_rows s2 ! 1)"
    unfolding s2_def s1_def
    by (simp_all add: initiateEmergencyUnstake_def unstake_commit_cases unstake_guard_def getStakingPosition_def
        checkRateLimit_def sevenDaysAgo_def penaltyConfig_def demo_unstake_def demo_unstaking_def Let_def)
  ultimately have "eu_createdAt (un_rows s2 ! 0) + 7 * 86400000 \<le> eu_createdAt (un_rows s2 ! 1)"
    using unstake_once_a_week [of s2] by auto
  then show ?thesis using \<open>length (un_rows s2) = 2\<close> by (simp add: s1_def s2_def Let_def)
qed

section \<open>Concurrent requests\<close>

text \<open>The race. Two requests of one staker that both pass the rate limit query before either is saved are both recorded and
  paid, however close together, while served one after the other the second is refused.\<close>

theorem concurrent_unstakes:
  assumes "checkRateLimit t0 st s" "map_get (un_contracts s) pid = Some p" "sp_stakerId p = st"
    "is_f64 (sp_amount p - a1)" "a1 + a2 \<le> sp_amount p" "0 \<le> a2" "sevenDaysAgo t0 < created"
  shows "let d1 = \<lparr>ur_stakerId = st, ur_stakingPositionId = pid, ur_amount = a1\<rparr>;
      d2 = \<lparr>ur_stakerId = st, ur_stakingPositionId = pid, ur_amount = a2\<rparr>;
      (r1, s1) = unstake_commit num t1 i1 created d1 s; (r2, s2) = unstake_commit num t2 i2 created d2 s1
    in isl r1 = False \<and> isl r2 = False \<and> map eu_stakerId (un_rows s2) = map eu_stakerId (un_rows s) @ [st, st] \<and>
      initiateEmergencyUnstake num t0 t1 i1 created d1 s = (r1, s1) \<and>
      isl (fst (initiateEmergencyUnstake num t0 t2 i2 created d2 s1))"
proof -
  have "fsub (sp_amount p) a1 = sp_amount p - a1" using assms(4) by (simp add: fsub_def f64_exact)
  moreover have "a1 \<le> sp_amount p" using assms(5,6) by simp
  ultimately show ?thesis
    using assms by (simp add: initiateEmergencyUnstake_def unstake_commit_cases unstake_guard_def getStakingPosition_def
        checkRateLimit_def Let_def)
qed

lemma concurrent_unstakes_witness:
  "let d = demo_unstake; (r1, s1) = unstake_commit (\<lambda>_. []) 0 ''r1'' 0 d demo_unstaking;
       (r2, s2) = unstake_commit (\<lambda>_. []) 0 ''r2'' 0 d s1
   in isl r1 = False \<and> isl r2 = False \<and> map eu_stakerId (un_rows s2) = [''alice'', ''alice''] \<and>
      isl (fst (initiateEmergencyUnstake (\<lambda>_. []) 0 0 ''r2'' 0 d s1))"
proof -
  have "is_f64 7" using is_f64_of_int [of 7] by simp
  then show ?thesis
    using concurrent_unstakes [where s = demo_unstaking and st = "''alice''" and pid = "''p1''" and num = "\<lambda>_. []" and
        p = "\<lparr>sp_id = ''p1'', sp_stakerId = ''alice'', sp_amount = 10, sp_unlockDate = 900000000\<rparr>" and
        ?t0.0 = 0 and ?a1.0 = 3 and ?a2.0 = 3 and created = 0 and ?t1.0 = 0 and ?i1.0 = "''r1''" and ?t2.0 = 0 and ?i2.0 = "''r2''"]
    by (simp add: demo_unstaking_def checkRateLimit_def sevenDaysAgo_def penaltyConfig_def Let_def case_prod_beta
        flip: demo_unstake_def)
qed

end
