(* ===== verification/Audit_Log.thy ===== *)
theory Audit_Log
  imports Pagination
begin

text \<open>
  The audit log (src/audit-log): queries, exports, statistics and the checksum chain.

  The table is the list of its rows, dates are milliseconds and the calendar is UTC. SHA-256 (\<open>sha\<close>),
  \<open>JSON.stringify\<close> (\<open>json_text\<close>, and \<open>pretty\<close> with indentation), \<open>toISOString\<close> (\<open>iso_text\<close>) and the
  cache manager (\<open>cget\<close>, \<open>cset\<close>) are arguments. The program only reads this table; its rows are
  written elsewhere. Shown are: two intact chains with the same last checksum have the same entries,
  as far as the checksum covers them, and it covers neither the address nor the user agent; a CSV
  export splits back into its fields if no field holds a separator; the statistics add up.
\<close>

section \<open>Entries\<close>

record audit_log =
  al_id :: string
  al_userId :: string
  al_eventType :: string
  al_portfolioId :: "string option"
  al_userAction :: string
  al_details :: json
  al_ipAddress :: string
  al_userAgent :: string
  al_checksum :: string
  al_previousChecksum :: "string option"
  al_createdAt :: int

record audit_entry =
  ae_id :: string
  ae_userId :: string
  ae_eventType :: string
  ae_portfolioId :: "string option"
  ae_userAction :: string
  ae_details :: json
  ae_ipAddress :: string
  ae_userAgent :: string
  ae_createdAt :: int

definition mapToDto :: "audit_log \<Rightarrow> audit_entry" where
  "mapToDto lg =
     \<lparr>ae_id = al_id lg, ae_userId = al_userId lg, ae_eventType = al_eventType lg,
      ae_portfolioId = al_portfolioId lg, ae_userAction = al_userAction lg, ae_details = al_details lg,
      ae_ipAddress = al_ipAddress lg, ae_userAgent = al_userAgent lg, ae_createdAt = al_createdAt lg\<rparr>"

record audit_filter =
  af_startDate :: "int option"
  af_endDate :: "int option"
  af_eventType :: "string option"
  af_portfolioId :: "string option"
  af_userAction :: "string option"
  af_asc :: bool
  af_page :: int
  af_limit :: int

section \<open>Queries\<close>

definition audit_matches :: "audit_filter \<Rightarrow> string \<Rightarrow> audit_log \<Rightarrow> bool" where
  "audit_matches f userId lg \<longleftrightarrow> al_userId lg = userId
     \<and> (case af_startDate f of Some d \<Rightarrow> d \<le> al_createdAt lg | None \<Rightarrow> True)
     \<and> (case af_endDate f of Some d \<Rightarrow> al_createdAt lg \<le> d | None \<Rightarrow> True)
     \<and> (given (af_eventType f) \<longrightarrow> Some (al_eventType lg) = af_eventType f)
     \<and> (given (af_portfolioId f) \<longrightarrow> al_portfolioId lg = af_portfolioId f)
     \<and> (given (af_userAction f) \<longrightarrow> Some (al_userAction lg) = af_userAction f)"

text \<open>\<open>column\<close> is the sort column of the request. The result is the page and the number of matching rows.\<close>

definition buildQuery ::
  "(audit_log \<Rightarrow> 'k::linorder) \<Rightarrow> audit_filter \<Rightarrow> string \<Rightarrow> audit_log list \<Rightarrow> audit_log list \<times> nat" where
  "buildQuery column f userId rows =
     (let matching = filter (audit_matches f userId) rows
      in (page_of (af_page f) (af_limit f) (ordered (af_asc f) column matching), length matching))"

definition audit_findAll ::
  "(audit_log \<Rightarrow> 'k::linorder) \<Rightarrow> audit_filter \<Rightarrow> string \<Rightarrow> audit_log list \<Rightarrow> audit_entry list \<times> pagination_meta" where
  "audit_findAll column f userId rows =
     (let (logs, n) = buildQuery column f userId rows
      in createOffsetPaginatedResponse (map mapToDto logs) (int n) (af_page f) (af_limit f))"

definition audit_findOne :: "string \<Rightarrow> string \<Rightarrow> audit_log list \<Rightarrow> error + audit_entry" where
  "audit_findOne logId userId rows =
     (case List.find (\<lambda>lg. al_id lg = logId \<and> al_userId lg = userId) rows of
        None \<Rightarrow> Inl (NotFoundException ''Audit log entry not found'')
      | Some lg \<Rightarrow> Inr (mapToDto lg))"

section \<open>Exports\<close>

datatype export_format = JsonFormat | CsvFormat

definition quote_char :: char where "quote_char = CHR 0x22"
definition newline :: char where "newline = CHR 0x0A"

text \<open>\<open>s.replace(/"/g, '""')\<close>.\<close>

fun double_quotes :: "string \<Rightarrow> string" where
  "double_quotes [] = []"
| "double_quotes (c # cs) = (if c = quote_char then c # c # double_quotes cs else c # double_quotes cs)"

definition csv_headers :: "string list" where
  "csv_headers = [''id'', ''userId'', ''eventType'', ''portfolioId'', ''userAction'', ''ipAddress'', ''userAgent'',
     ''createdAt'', ''details'']"

definition csv_row :: "(int \<Rightarrow> string) \<Rightarrow> (json \<Rightarrow> string) \<Rightarrow> audit_entry \<Rightarrow> string list" where
  "csv_row iso_text json_text lg =
     [ae_id lg, ae_userId lg, ae_eventType lg, or_else (ae_portfolioId lg) [], ae_userAction lg,
      ae_ipAddress lg, ae_userAgent lg, iso_text (ae_createdAt lg), double_quotes (json_text (ae_details lg))]"

definition csv_export :: "(int \<Rightarrow> string) \<Rightarrow> (json \<Rightarrow> string) \<Rightarrow> audit_entry list \<Rightarrow> string" where
  "csv_export iso_text json_text logs =
     join [newline] (join '','' csv_headers # map (\<lambda>row. join '','' row) (map (csv_row iso_text json_text) logs))"

record export_result =
  ex_content :: string
  ex_contentType :: string
  ex_fileName :: string

definition day_of :: "(int \<Rightarrow> string) \<Rightarrow> int \<Rightarrow> string" where
  "day_of iso_text t = hd (split_on CHR ''T'' (iso_text t))"

definition audit_export ::
  "(audit_log \<Rightarrow> 'k::linorder) \<Rightarrow> (int \<Rightarrow> string) \<Rightarrow> (json \<Rightarrow> string) \<Rightarrow> (audit_entry list \<Rightarrow> string) \<Rightarrow> int \<Rightarrow>
   export_format \<Rightarrow> audit_filter \<Rightarrow> string \<Rightarrow> audit_log list \<Rightarrow> export_result" where
  "audit_export column iso_text json_text pretty now fmt f userId rows =
     (let logs = fst (buildQuery column (f\<lparr>af_limit := 10000\<rparr>) userId rows); dtos = map mapToDto logs
      in case fmt of
           JsonFormat \<Rightarrow> \<lparr>ex_content = pretty dtos, ex_contentType = ''application/json'',
             ex_fileName = ''audit-logs-'' @ day_of iso_text now @ ''.json''\<rparr>
         | CsvFormat \<Rightarrow> \<lparr>ex_content = csv_export iso_text json_text dtos, ex_contentType = ''text/csv'',
             ex_fileName = ''audit-logs-'' @ day_of iso_text now @ ''.csv''\<rparr>)"

section \<open>Statistics\<close>

record audit_statistics =
  as_totalLogs :: nat
  as_logsByEventType :: "nat jsmap"
  as_logsByUserAction :: "nat jsmap"
  as_logsByDay :: "nat jsmap"
  as_recentActivity :: nat
  as_uniquePortfolios :: nat

definition bump :: "string \<Rightarrow> nat jsmap \<Rightarrow> nat jsmap" where
  "bump k m = map_set k (or_else (map_get m k) 0 + 1) m"

definition tally :: "string list \<Rightarrow> nat jsmap" where
  "tally ks = foldl (\<lambda>m k. bump k m) [] ks"

definition statistics_of :: "(int \<Rightarrow> string) \<Rightarrow> int \<Rightarrow> audit_log list \<Rightarrow> audit_statistics" where
  "statistics_of iso_text now logs =
     \<lparr>as_totalLogs = length logs, as_logsByEventType = tally (map al_eventType logs),
      as_logsByUserAction = tally (map al_userAction logs),
      as_logsByDay = tally (map (\<lambda>lg. day_of iso_text (al_createdAt lg)) logs),
      as_recentActivity = length (filter (\<lambda>lg. now - 86400000 < al_createdAt lg) logs),
      as_uniquePortfolios = length (remdups (map (\<lambda>lg. the (al_portfolioId lg)) (filter (\<lambda>lg. given (al_portfolioId lg)) logs)))\<rparr>"

definition audit_getStatistics ::
  "(string \<Rightarrow> 'c \<Rightarrow> audit_statistics option) \<Rightarrow> (string \<Rightarrow> audit_statistics \<Rightarrow> int \<Rightarrow> 'c \<Rightarrow> 'c) \<Rightarrow> (int \<Rightarrow> string) \<Rightarrow> int \<Rightarrow>
   string \<Rightarrow> audit_log list \<Rightarrow> 'c \<Rightarrow> audit_statistics \<times> 'c" where
  "audit_getStatistics cget cset iso_text now userId rows cache =
     (let cacheKey = ''audit-stats-'' @ userId
      in case cget cacheKey cache of
           Some stats \<Rightarrow> (stats, cache)
         | None \<Rightarrow> (let stats = statistics_of iso_text now (filter (\<lambda>lg. al_userId lg = userId) rows)
                   in (stats, cset cacheKey stats 3600000 cache)))"

section \<open>Integrity\<close>

definition checksum_text :: "(int \<Rightarrow> string) \<Rightarrow> (json \<Rightarrow> string) \<Rightarrow> audit_log \<Rightarrow> string" where
  "checksum_text iso_text json_text lg =
     al_id lg @ al_userId lg @ al_eventType lg @ or_else (al_portfolioId lg) [] @ al_userAction lg @
     json_text (al_details lg) @ iso_text (al_createdAt lg)"

definition generateChecksum ::
  "(string \<Rightarrow> string) \<Rightarrow> (int \<Rightarrow> string) \<Rightarrow> (json \<Rightarrow> string) \<Rightarrow> audit_log \<Rightarrow> string \<Rightarrow> string" where
  "generateChecksum sha iso_text json_text lg previousChecksum = sha (checksum_text iso_text json_text lg @ previousChecksum)"

fun verify_loop ::
  "(string \<Rightarrow> string) \<Rightarrow> (int \<Rightarrow> string) \<Rightarrow> (json \<Rightarrow> string) \<Rightarrow> string \<Rightarrow> audit_log list \<Rightarrow> string list" where
  "verify_loop sha iso_text json_text previousChecksum [] = []"
| "verify_loop sha iso_text json_text previousChecksum (lg # logs) =
     (if al_checksum lg \<noteq> generateChecksum sha iso_text json_text lg previousChecksum then [al_id lg] else []) @
     verify_loop sha iso_text json_text (al_checksum lg) logs"

definition in_time_order :: "audit_log list \<Rightarrow> audit_log list" where
  "in_time_order logs = js_sort (\<lambda>a b. al_createdAt a - al_createdAt b) logs"

definition verifyLogs ::
  "(string \<Rightarrow> string) \<Rightarrow> (int \<Rightarrow> string) \<Rightarrow> (json \<Rightarrow> string) \<Rightarrow> audit_log list \<Rightarrow> bool \<times> string list" where
  "verifyLogs sha iso_text json_text logs =
     (let invalid = verify_loop sha iso_text json_text [] (in_time_order logs) in (invalid = [], invalid))"

definition verifyIntegrity ::
  "(string \<Rightarrow> string) \<Rightarrow> (int \<Rightarrow> string) \<Rightarrow> (json \<Rightarrow> string) \<Rightarrow> string \<Rightarrow> audit_log list \<Rightarrow> bool \<times> string list" where
  "verifyIntegrity sha iso_text json_text userId rows = verifyLogs sha iso_text json_text (filter (\<lambda>lg. al_userId lg = userId) rows)"

section \<open>Tamper evidence\<close>

text \<open>Everything the checks of two chains hash.\<close>

fun hashed :: "(int \<Rightarrow> string) \<Rightarrow> (json \<Rightarrow> string) \<Rightarrow> string \<Rightarrow> audit_log list \<Rightarrow> string set" where
  "hashed iso_text json_text previousChecksum [] = {}"
| "hashed iso_text json_text previousChecksum (lg # logs) =
     insert (checksum_text iso_text json_text lg @ previousChecksum) (hashed iso_text json_text (al_checksum lg) logs)"

lemma verify_loop_append:
  "verify_loop sha iso_text jt prev (xs @ [y]) = verify_loop sha iso_text jt prev xs @
     (if al_checksum y \<noteq> generateChecksum sha iso_text jt y (if xs = [] then prev else al_checksum (last xs)) then [al_id y] else [])"
  by (induction xs arbitrary: prev) auto

lemma hashed_append:
  "hashed iso_text jt prev (xs @ [y]) = insert (checksum_text iso_text jt y @ (if xs = [] then prev else al_checksum (last xs))) (hashed iso_text jt prev xs)"
  by (induction xs arbitrary: prev) auto

text \<open>Two intact chains of the same length with the same last checksum agree, entry by entry from the back.\<close>

lemma chains_agree:
  assumes "length xs = length ys" "verify_loop sha iso_text jt [] xs = []" "verify_loop sha iso_text jt [] ys = []"
    "inj_on sha (hashed iso_text jt [] xs \<union> hashed iso_text jt [] ys)" "\<forall>x. length (sha x) = 64"
    "xs \<noteq> [] \<longrightarrow> al_checksum (last xs) = al_checksum (last ys)"
  shows "map (checksum_text iso_text jt) xs = map (checksum_text iso_text jt) ys \<and> map al_checksum xs = map al_checksum ys"
  using assms
proof (induction xs arbitrary: ys rule: rev_induct)
  case (snoc x xs)
  then obtain z zs where ys: "ys = zs @ [z]" by (cases ys rule: rev_cases) auto
  have len: "length xs = length zs" using snoc.prems(1) ys by simp
  let ?px = "if xs = [] then [] else al_checksum (last xs)" and ?pz = "if zs = [] then [] else al_checksum (last zs)"
  have vx: "verify_loop sha iso_text jt [] xs = []" "al_checksum x = sha (checksum_text iso_text jt x @ ?px)"
    using snoc.prems(2) by (auto simp: verify_loop_append generateChecksum_def split: if_splits)
  have vz: "verify_loop sha iso_text jt [] zs = []" "al_checksum z = sha (checksum_text iso_text jt z @ ?pz)"
    using snoc.prems(3) by (auto simp: ys verify_loop_append generateChecksum_def split: if_splits)
  have eq: "al_checksum x = al_checksum z" using snoc.prems(6) by (simp add: ys)
  have texts: "checksum_text iso_text jt x @ ?px = checksum_text iso_text jt z @ ?pz"
    using inj_onD [OF snoc.prems(4), of "checksum_text iso_text jt x @ ?px" "checksum_text iso_text jt z @ ?pz"] vx vz eq
    by (simp add: ys hashed_append)
  have valid: "length (al_checksum (last ls)) = 64" if "ls \<noteq> []" "verify_loop sha iso_text jt [] ls = []" for ls
    using that snoc.prems(5) by (cases ls rule: rev_cases) (auto simp: verify_loop_append generateChecksum_def split: if_splits)
  have "length ?px = length ?pz" using len valid [of xs] valid [of zs] vx vz by auto
  then have parts: "checksum_text iso_text jt x = checksum_text iso_text jt z" "?px = ?pz" using texts by simp_all
  have "inj_on sha (hashed iso_text jt [] xs \<union> hashed iso_text jt [] zs)"
    using snoc.prems(4) by (rule inj_on_subset) (auto simp: ys hashed_append)
  then have "map (checksum_text iso_text jt) xs = map (checksum_text iso_text jt) zs \<and> map al_checksum xs = map al_checksum zs"
    using snoc.IH [OF len vx(1) vz(1)] snoc.prems(5) parts(2) len by (auto split: if_splits)
  then show ?case using parts(1) eq by (simp add: ys)
qed simp
text \<open>C28. Tamper evidence. Two sets of entries that both pass the integrity check, equally many and with the same
  checksum of the newest entry, have the same entries in order of time as far as the checksum covers them (and the same checksums), provided
  SHA-256 does not collide on what is hashed.\<close>

theorem audit_tamper_evident:
  assumes "\<forall>x. length (sha x) = 64"
    "inj_on sha (hashed iso_text jt [] (in_time_order a) \<union> hashed iso_text jt [] (in_time_order b))"
    "fst (verifyLogs sha iso_text jt a)" "fst (verifyLogs sha iso_text jt b)" "length a = length b" "a \<noteq> []"
    "al_checksum (last (in_time_order a)) = al_checksum (last (in_time_order b))"
  shows "map (checksum_text iso_text jt) (in_time_order a) = map (checksum_text iso_text jt) (in_time_order b) \<and>
    map al_checksum (in_time_order a) = map al_checksum (in_time_order b)"
proof (rule chains_agree)
  show "length (in_time_order a) = length (in_time_order b)" using assms(5) by (simp add: in_time_order_def)
  show "verify_loop sha iso_text jt [] (in_time_order a) = []" "verify_loop sha iso_text jt [] (in_time_order b) = []"
    using assms(3,4) by (simp_all add: verifyLogs_def Let_def)
qed (use assms in auto)

text \<open>What the checksum does not cover can be changed freely.\<close>

lemma insert_cmp_map:
  "(\<And>x y. cmp (f x) (f y) = cmp x y) \<Longrightarrow> insert_cmp cmp (f x) (map f xs) = map f (insert_cmp cmp x xs)"
  by (induction xs) auto

lemma js_sort_map: "(\<And>x y. cmp (f x) (f y) = cmp x y) \<Longrightarrow> js_sort cmp (map f xs) = map f (js_sort cmp xs)"
  by (induction xs) (simp_all add: js_sort_def insert_cmp_map)

lemma verify_loop_map:
  assumes "\<And>x. checksum_text iso_text jt (f x) = checksum_text iso_text jt x" "\<And>x. al_checksum (f x) = al_checksum x"
    "\<And>x. al_id (f x) = al_id x"
  shows "verify_loop sha iso_text jt prev (map f xs) = verify_loop sha iso_text jt prev xs"
  by (induction xs arbitrary: prev) (simp_all add: generateChecksum_def assms)

text \<open>Undetected tampering. Rewriting the addresses and user agents of any entries does not change the result of the integrity
  check; nor does moving text across the boundary of two adjacent fields change what is hashed.\<close>

theorem audit_tampering_undetected:
  "verifyLogs sha iso_text jt (map (\<lambda>l. l\<lparr>al_ipAddress := f l, al_userAgent := g l\<rparr>) logs) = verifyLogs sha iso_text jt logs \<and>
   generateChecksum sha iso_text jt (l\<lparr>al_userId := u @ x, al_eventType := e\<rparr>) prev =
   generateChecksum sha iso_text jt (l\<lparr>al_userId := u, al_eventType := x @ e\<rparr>) prev"
proof
  let ?f = "\<lambda>l. l\<lparr>al_ipAddress := f l, al_userAgent := g l\<rparr>"
  have "in_time_order (map ?f logs) = map ?f (in_time_order logs)"
    unfolding in_time_order_def by (rule js_sort_map) simp
  moreover have "verify_loop sha iso_text jt [] (map ?f xs) = verify_loop sha iso_text jt [] xs" for xs
    by (rule verify_loop_map) (simp_all add: checksum_text_def)
  ultimately show "verifyLogs sha iso_text jt (map ?f logs) = verifyLogs sha iso_text jt logs"
    by (simp add: verifyLogs_def)
qed (simp add: generateChecksum_def checksum_text_def)

text \<open>The removal of the newest entries is not detected either.\<close>

lemma audit_truncation_undetected:
  "verify_loop sha iso_text jt prev (xs @ ys) = [] \<Longrightarrow> verify_loop sha iso_text jt prev xs = []"
  by (induction xs arbitrary: prev) auto

definition toy_sha :: "string \<Rightarrow> string" where
  "toy_sha s = take 64 (s @ replicate 64 CHR ''.'')"

definition demo_entry :: "string \<Rightarrow> int \<Rightarrow> string \<Rightarrow> string \<Rightarrow> audit_log" where
  "demo_entry i t ip c = \<lparr>al_id = i, al_userId = ''u'', al_eventType = ''login'', al_portfolioId = None, al_userAction = ''x'',
     al_details = JNull, al_ipAddress = ip, al_userAgent = [], al_checksum = c, al_previousChecksum = None, al_createdAt = t\<rparr>"

definition demo_chain :: "string \<Rightarrow> audit_log list" where
  "demo_chain ip =
     (let c1 = toy_sha ''auloginxnull'' in
      [demo_entry ''b'' 2 ip (toy_sha (''buloginxnull'' @ c1)), demo_entry ''a'' 1 ip c1])"

definition null_text :: "json \<Rightarrow> string" where "null_text j = ''null''"

lemma demo_chain_order:
  "in_time_order (demo_chain ip) = rev (demo_chain ip)"
  by (simp add: in_time_order_def js_sort_def demo_chain_def demo_entry_def Let_def)

lemma demo_chain_hashed:
  "hashed (\<lambda>_. []) null_text [] (in_time_order (demo_chain ip)) = {''auloginxnull'', ''buloginxnull'' @ toy_sha ''auloginxnull''}"
  "fst (verifyLogs toy_sha (\<lambda>_. []) null_text (demo_chain ip))"
  unfolding verifyLogs_def demo_chain_order
  by (auto simp: demo_chain_def demo_entry_def Let_def checksum_text_def generateChecksum_def null_text_def)

lemma demo_chain_last [simp]:
  "al_checksum (last (in_time_order (demo_chain ip))) = toy_sha (''buloginxnull'' @ toy_sha ''auloginxnull'')"
  "length (demo_chain ip) = 2" "demo_chain ip \<noteq> []" "length (toy_sha x) = 64"
  unfolding demo_chain_order by (simp_all add: demo_chain_def demo_entry_def Let_def toy_sha_def)

lemma audit_tamper_evident_witness:
  "map (checksum_text (\<lambda>_. []) null_text) (in_time_order (demo_chain ''1.1.1.1'')) =
    map (checksum_text (\<lambda>_. []) null_text) (in_time_order (demo_chain ''6.6.6.6''))"
proof -
  have "inj_on toy_sha {''auloginxnull'', ''buloginxnull'' @ toy_sha ''auloginxnull''}"
    by (simp add: toy_sha_def)
  then have "inj_on toy_sha (hashed (\<lambda>_. []) null_text [] (in_time_order (demo_chain ''1.1.1.1'')) \<union>
      hashed (\<lambda>_. []) null_text [] (in_time_order (demo_chain ''6.6.6.6'')))"
    by (simp add: demo_chain_hashed)
  then show ?thesis
    using audit_tamper_evident [OF _ _ demo_chain_hashed(2) demo_chain_hashed(2), of "''1.1.1.1''" "''6.6.6.6''"]
    by (simp add: demo_chain_last)
qed

section \<open>Exports read back\<close>

text \<open>CSV. When no field of the exported entries holds a comma or a line break, splitting the CSV export at line breaks and
  commas gives the header and the fields of every entry, in order.\<close>

theorem csv_export_readable:
  assumes "\<forall>e \<in> set logs. \<forall>field \<in> set (csv_row iso_text jt e). CHR '','' \<notin> set field \<and> newline \<notin> set field"
  shows "map (split_on CHR '','') (split_on newline (csv_export iso_text jt logs)) =
    csv_headers # map (csv_row iso_text jt) logs"
proof -
  let ?rows = "csv_headers # map (csv_row iso_text jt) logs"
  have fields: "\<forall>row \<in> set ?rows. row \<noteq> [] \<and> (\<forall>field \<in> set row. CHR '','' \<notin> set field \<and> newline \<notin> set field)"
    using assms by (auto simp: csv_headers_def newline_def) (simp add: csv_row_def)
  have lines: "csv_export iso_text jt logs = join [newline] (map (join '','') ?rows)"
    by (simp add: csv_export_def comp_def)
  have free: "c \<notin> set (join sep row)" if "c \<notin> set sep" "\<forall>field \<in> set row. c \<notin> set field" for c sep row
    using that by (induction sep row rule: join.induct) auto
  have "newline \<notin> set (join '','' row)" if "row \<in> set ?rows" for row
    using fields that by (intro free) (auto simp: newline_def)
  then have "split_on newline (csv_export iso_text jt logs) = map (join '','') ?rows"
    unfolding lines by (intro split_on_join) auto
  moreover have "split_on CHR '','' (join '','' row) = row" if "row \<in> set ?rows" for row
    using fields that by (intro split_on_join) auto
  ultimately show ?thesis by (simp add: map_idI)
qed

lemma csv_export_readable_witness:
  "map (split_on CHR '','') (split_on newline (csv_export (\<lambda>_. ''2024'') null_text [mapToDto (demo_entry ''a'' 1 ''1.1.1.1'' [])])) =
    [csv_headers, [''a'', ''u'', ''login'', [], ''x'', ''1.1.1.1'', [], ''2024'', ''null'']]"
  using csv_export_readable [of "[mapToDto (demo_entry ''a'' 1 ''1.1.1.1'' [])]" "\<lambda>_. ''2024''" null_text]
  by (simp add: csv_row_def mapToDto_def demo_entry_def null_text_def newline_def quote_char_def)

text \<open>The details of an entry are not quoted: an object of two members adds a column.\<close>

lemma length_split_on: "length (split_on c s) = Suc (count_list s c)"
  by (induction s) (auto split: list.splits)

lemma csv_row_columns:
  "length (split_on CHR '','' (join '','' (csv_row iso_text jt e))) = 9 + sum_list (map (\<lambda>field. count_list field CHR '','') (csv_row iso_text jt e))"
  unfolding length_split_on by (simp add: csv_row_def)

section \<open>Statistics add up\<close>

lemma tally_snoc: "tally (ks @ [k]) = bump k (tally ks)"
  by (simp add: tally_def)

lemma wf_tally [simp]: "wf_map (tally ks)"
proof (induction ks rule: rev_induct)
  case (snoc k ks)
  then show ?case by (simp add: tally_snoc bump_def)
qed (simp add: tally_def)

lemma map_get_tally: "map_get (tally ks) k = (if k \<in> set ks then Some (count_list ks k) else None)"
proof (induction ks rule: rev_induct)
  case (snoc x ks)
  then show ?case by (auto simp: tally_snoc bump_def)
qed (simp add: tally_def)

lemma sum_map_set:
  "wf_map m \<Longrightarrow> sum_list (map snd (map_set k (v :: nat) m)) + or_else (map_get m k) 0 = sum_list (map snd m) + v"
proof (induction m)
  case (Cons p m)
  then show ?case by (cases p) (auto simp: map_of_eq_None_iff [THEN iffD2])
qed simp

lemma sum_tally: "sum_list (map snd (tally ks)) = length ks"
proof (induction ks rule: rev_induct)
  case (snoc k ks)
  then show ?case using sum_map_set [of "tally ks" k "or_else (map_get (tally ks) k) 0 + 1"] by (simp add: tally_snoc bump_def)
qed (simp add: tally_def)

text \<open>Statistics. Each breakdown counts every entry of the user exactly once, under its own key, so that each adds up to the number of entries; the
  recent entries and the distinct portfolios are at most that many.\<close>

theorem audit_statistics_add_up:
  "let st = statistics_of iso_text now logs in
    sum_list (map snd (as_logsByEventType st)) = length logs \<and> sum_list (map snd (as_logsByUserAction st)) = length logs \<and>
    sum_list (map snd (as_logsByDay st)) = length logs \<and>
    or_else (map_get (as_logsByEventType st) e) 0 = length (filter (\<lambda>l. al_eventType l = e) logs) \<and>
    or_else (map_get (as_logsByUserAction st) e) 0 = length (filter (\<lambda>l. al_userAction l = e) logs) \<and>
    as_recentActivity st \<le> as_totalLogs st \<and> as_uniquePortfolios st \<le> as_totalLogs st"
proof -
  have c: "or_else (map_get (tally (map f logs)) e) 0 = length (filter (\<lambda>l. f l = e) logs)" for f :: "audit_log \<Rightarrow> string"
  proof -
    have "count_list (map f logs) e = length (filter (\<lambda>l. f l = e) logs)" by (induction logs) auto
    then show ?thesis using count_list_0_iff [of "map f logs" e] by (simp add: map_get_tally)
  qed
  have "length (remdups (map h (filter P logs))) \<le> length logs" for h :: "audit_log \<Rightarrow> string" and P
    by (rule le_trans [OF length_remdups_leq]) simp
  then show ?thesis by (simp add: statistics_of_def Let_def sum_tally c)
qed

end
