(* ===== verification/Local_Storage.thy ===== *)
theory Local_Storage
  imports Prelude
begin

text \<open>
  The storage interface (src/files/storage/storage.interface.ts) and its local provider
  (src/files/storage/providers/local-storage.provider.ts).

  A provider is the record of its operations over a state \<open>'st\<close>; an operation that rejects is \<open>Inl\<close>.
  A buffer is a string of bytes. The file system of the local provider is a map from absolute paths,
  as lists of segments, to contents; directories are created on demand and not represented, and the
  system calls do not fail. Shown are: paths without parent segments stay inside the storage
  directory and are told apart by their segments, a parent segment leaves it, what is uploaded (whole
  or in chunks) is downloaded, and uploading elsewhere changes nothing else.
\<close>

section \<open>Paths\<close>

text \<open>\<open>path.join(base, p)\<close> for an absolute \<open>base\<close>: empty and \<open>.\<close> segments disappear, \<open>..\<close> takes one
  segment away and is void at the root. The accumulator is reversed.\<close>

fun resolve :: "string list \<Rightarrow> string list \<Rightarrow> string list" where
  "resolve acc [] = rev acc"
| "resolve acc (seg # segs) =
     (if seg = [] \<or> seg = ''.'' then resolve acc segs
      else if seg = ''..'' then resolve (drop 1 acc) segs
      else resolve (seg # acc) segs)"

definition path_join :: "string list \<Rightarrow> string \<Rightarrow> string list" where
  "path_join base p = resolve (rev base) (split_on CHR ''/'' p)"

text \<open>\<open>path.extname\<close> of the last segment: from its last dot, which must not be its first character;
  the name \<open>..\<close> has none.\<close>

definition extname_of :: "string \<Rightarrow> string" where
  "extname_of seg =
     (let suffix = takeWhile (\<lambda>c. c \<noteq> CHR ''.'') (rev seg); n = length seg - length suffix
      in if n \<le> 1 \<or> seg = ''..'' then [] else drop (n - 1) seg)"

definition extname :: "string \<Rightarrow> string" where
  "extname p =
     (case dropWhile (\<lambda>seg. seg = []) (rev (split_on CHR ''/'' p)) of [] \<Rightarrow> [] | seg # _ \<Rightarrow> extname_of seg)"

section \<open>The interface\<close>

type_synonym buffer = string

text \<open>\<open>'p\<close> is what a chunk returns and a completion takes back, \<open>any\<close> in the code.\<close>

record ('p, 'st) storage_provider =
  sp_upload :: "string \<Rightarrow> buffer \<Rightarrow> string \<Rightarrow> 'st \<Rightarrow> (error + string) \<times> 'st"
  sp_uploadChunk :: "string \<Rightarrow> int \<Rightarrow> buffer \<Rightarrow> 'st \<Rightarrow> (error + 'p) \<times> 'st"
  sp_initializeMultipartUpload :: "string \<Rightarrow> string \<Rightarrow> 'st \<Rightarrow> (error + string) \<times> 'st"
  sp_completeMultipartUpload :: "string \<Rightarrow> string \<Rightarrow> 'p list \<Rightarrow> 'st \<Rightarrow> (error + string) \<times> 'st"
  sp_download :: "string \<Rightarrow> 'st \<Rightarrow> error + buffer"
  sp_delete :: "string \<Rightarrow> 'st \<Rightarrow> (error + unit) \<times> 'st"
  sp_getSignedUrl :: "string \<Rightarrow> int \<Rightarrow> 'st \<Rightarrow> error + string"

section \<open>The local provider\<close>

type_synonym file_system = "(string list \<times> buffer) list"

record local_storage =
  ls_cwd :: "string list"
  ls_files :: file_system
  ls_activeUploads :: "string list jsmap"

definition storageDir :: "local_storage \<Rightarrow> string list" where
  "storageDir s = ls_cwd s @ [''uploads'']"

definition local_upload :: "string \<Rightarrow> buffer \<Rightarrow> string \<Rightarrow> local_storage \<Rightarrow> (error + string) \<times> local_storage" where
  "local_upload filePath d mimeType s =
     (let fullPath = path_join (storageDir s) filePath
      in (Inr filePath, s\<lparr>ls_files := map_set fullPath d (ls_files s)\<rparr>))"

text \<open>\<open>uploadId\<close> is the random id.\<close>

definition local_initialize :: "string \<Rightarrow> string \<Rightarrow> string \<Rightarrow> local_storage \<Rightarrow> (error + string) \<times> local_storage" where
  "local_initialize uploadId filePath mimeType s =
     (let tempPath = path_join (storageDir s) (''temp_'' @ uploadId)
      in (Inr uploadId, s\<lparr>ls_activeUploads := map_set uploadId tempPath (ls_activeUploads s),
            ls_files := map_set tempPath [] (ls_files s)\<rparr>))"

definition local_uploadChunk :: "string \<Rightarrow> int \<Rightarrow> buffer \<Rightarrow> local_storage \<Rightarrow> (error + int) \<times> local_storage" where
  "local_uploadChunk uploadId partNumber d s =
     (case map_get (ls_activeUploads s) uploadId of
        None \<Rightarrow> (Inl (InternalServerErrorException ''Upload session not found''), s)
      | Some tempPath \<Rightarrow>
          (Inr partNumber, s\<lparr>ls_files := map_set tempPath (or_else (map_get (ls_files s) tempPath) [] @ d) (ls_files s)\<rparr>))"

text \<open>A rename of a missing file throws.\<close>

definition local_complete :: "string \<Rightarrow> string \<Rightarrow> int list \<Rightarrow> local_storage \<Rightarrow> (error + string) \<times> local_storage" where
  "local_complete uploadId filePath parts s =
     (case map_get (ls_activeUploads s) uploadId of
        None \<Rightarrow> (Inl (InternalServerErrorException ''Upload session not found''), s)
      | Some tempPath \<Rightarrow>
          (let fullPath = path_join (storageDir s) filePath
           in case map_get (ls_files s) tempPath of
                None \<Rightarrow> (Inl (JsError ''ENOENT''), s)
              | Some d \<Rightarrow> (Inr filePath, s\<lparr>ls_files := map_set fullPath d (map_delete tempPath (ls_files s)),
                    ls_activeUploads := map_delete uploadId (ls_activeUploads s)\<rparr>)))"

definition local_download :: "string \<Rightarrow> local_storage \<Rightarrow> error + buffer" where
  "local_download filePath s =
     (case map_get (ls_files s) (path_join (storageDir s) filePath) of
        None \<Rightarrow> Inl (InternalServerErrorException ''File not found in local storage'')
      | Some d \<Rightarrow> Inr d)"

definition local_delete :: "string \<Rightarrow> local_storage \<Rightarrow> (error + unit) \<times> local_storage" where
  "local_delete filePath s =
     (Inr (), s\<lparr>ls_files := map_delete (path_join (storageDir s) filePath) (ls_files s)\<rparr>)"

definition local_getSignedUrl :: "string \<Rightarrow> int \<Rightarrow> local_storage \<Rightarrow> error + string" where
  "local_getSignedUrl filePath expiresIn s = Inr (''/api/files/download/'' @ filePath)"

text \<open>The provider, for the random id the next session gets.\<close>

definition local_provider :: "string \<Rightarrow> (int, local_storage) storage_provider" where
  "local_provider uploadId =
     \<lparr>sp_upload = local_upload, sp_uploadChunk = local_uploadChunk, sp_initializeMultipartUpload = local_initialize uploadId,
      sp_completeMultipartUpload = local_complete, sp_download = local_download, sp_delete = local_delete,
      sp_getSignedUrl = local_getSignedUrl\<rparr>"

section \<open>Confinement\<close>

definition plain_segment :: "string \<Rightarrow> bool" where
  "plain_segment seg \<longleftrightarrow> seg \<noteq> [] \<and> seg \<noteq> ''.'' \<and> seg \<noteq> ''..'' \<and> CHR ''/'' \<notin> set seg"

lemma resolve_plain: "\<forall>seg \<in> set segs. plain_segment seg \<Longrightarrow> resolve acc segs = rev acc @ segs"
  by (induction segs arbitrary: acc) (auto simp: plain_segment_def)

lemma resolve_confined: "''..'' \<notin> set segs \<Longrightarrow> \<exists>rest. resolve acc segs = rev acc @ rest"
proof (induction segs arbitrary: acc)
  case (Cons seg segs)
  then show ?case using Cons.IH [of "seg # acc"] Cons.IH [of acc] by auto
qed simp

lemma path_join_plain:
  assumes "segs \<noteq> []" "\<forall>seg \<in> set segs. plain_segment seg"
  shows "path_join base (join ''/'' segs) = base @ segs"
proof -
  have "split_on CHR ''/'' (join ''/'' segs) = segs"
    using assms by (intro split_on_join) (auto simp: plain_segment_def)
  then show ?thesis using assms(2) by (simp add: path_join_def resolve_plain)
qed

text \<open>A path without a parent segment stays inside the storage directory; \<open>n\<close> parent segments climb \<open>n\<close>
  directories above it, so that the rest of the path is taken from there.\<close>

lemma storage_paths_confined:
  "(''..'' \<notin> set (split_on CHR ''/'' p) \<longrightarrow> take (length base) (path_join base p) = base) \<and>
   (\<forall>segs. segs \<noteq> [] \<and> list_all plain_segment segs \<longrightarrow>
      path_join base (join ''/'' (replicate n ''..'' @ segs)) = take (length base - n) base @ segs)"
proof (intro conjI impI allI)
  assume "''..'' \<notin> set (split_on CHR ''/'' p)"
  then show "take (length base) (path_join base p) = base"
    using resolve_confined [of "split_on CHR ''/'' p" "rev base"] by (auto simp: path_join_def)
next
  fix segs assume segs: "segs \<noteq> [] \<and> list_all plain_segment segs"
  have up: "resolve acc (replicate n ''..'' @ segs) = resolve (drop n acc) segs" for acc
    by (induction n arbitrary: acc) simp_all
  have "split_on CHR ''/'' (join ''/'' (replicate n ''..'' @ segs)) = replicate n ''..'' @ segs"
  proof (rule split_on_join)
    show "\<forall>p \<in> set (replicate n ''..'' @ segs). CHR ''/'' \<notin> set p"
      using segs by (force simp: plain_segment_def list_all_iff)
  qed (use segs in simp)
  then show "path_join base (join ''/'' (replicate n ''..'' @ segs)) = take (length base - n) base @ segs"
    using segs by (simp add: path_join_def up resolve_plain list_all_iff rev_drop)
qed

section \<open>Chunks\<close>

lemma chunk_steps:
  assumes "map_get (ls_activeUploads s) up = Some temp" "map_get (ls_files s) temp = Some d"
  shows "let s' = foldl (\<lambda>s (part, b). snd (local_uploadChunk up part b s)) s chunks
    in map_get (ls_activeUploads s') up = Some temp \<and> map_get (ls_files s') temp = Some (d @ concat (map snd chunks)) \<and>
       ls_cwd s' = ls_cwd s"
  using assms
proof (induction chunks arbitrary: s d)
  case (Cons c chunks)
  obtain part b where c: "c = (part, b)" by fastforce
  let ?s = "snd (local_uploadChunk up part b s)"
  have "map_get (ls_activeUploads ?s) up = Some temp" "map_get (ls_files ?s) temp = Some (d @ b)" "ls_cwd ?s = ls_cwd s"
    using Cons.prems by (simp_all add: local_uploadChunk_def)
  with Cons.IH [of ?s "d @ b"] show ?case by (simp add: c Let_def)
qed (simp add: Let_def)

text \<open>Chunks. A chunked upload to local storage stores its chunks one after the other as they arrived, whatever their part
  numbers, and downloading the completed file returns exactly that.\<close>

theorem chunks_in_arrival_order:
  "let s1 = snd (local_initialize up path mime s);
       s2 = foldl (\<lambda>s (part, b). snd (local_uploadChunk up part b s)) s1 chunks;
       (r, s3) = local_complete up path parts s2
   in r = Inr path \<and> local_download path s3 = Inr (concat (map snd chunks))"
proof -
  define s1 where "s1 = snd (local_initialize up path mime s)"
  define s2 where "s2 = foldl (\<lambda>s (part, b). snd (local_uploadChunk up part b s)) s1 chunks"
  let ?temp = "path_join (storageDir s) (''temp_'' @ up)"
  have "map_get (ls_activeUploads s1) up = Some ?temp" "map_get (ls_files s1) ?temp = Some []"
    by (simp_all add: s1_def local_initialize_def Let_def)
  from chunk_steps [OF this, of chunks]
  have "map_get (ls_activeUploads s2) up = Some ?temp" "map_get (ls_files s2) ?temp = Some (concat (map snd chunks))"
    by (simp_all add: s2_def Let_def)
  then have "fst (local_complete up path parts s2) = Inr path"
    "local_download path (snd (local_complete up path parts s2)) = Inr (concat (map snd chunks))"
    by (simp_all add: local_complete_def local_download_def storageDir_def Let_def)
  then show ?thesis by (simp add: s1_def s2_def Let_def case_prod_beta)
qed

end
