(* ===== verification/Files.thy ===== *)
theory Files
  imports Local_Storage JS_Text
begin

text \<open>
  File uploads (src/files/services): validation of type and size, virus scan, image optimisation,
  storage quotas, whole and chunked uploads, retrieval, soft deletion and garbage collection.

  The storage provider is an argument. ClamAV (\<open>clam\<close>) and sharp (\<open>sharp_width\<close>, \<open>sharp_encode\<close>) are
  arguments too, as are the environment, the random ids and the clock (milliseconds, UTC). The three
  tables are lists of rows; the unique index of \<open>storagePath\<close> rejects a second row. An operation is
  a function from the state to a result and the new state: an exception does not undo what was done
  before it.
\<close>

section \<open>Tables\<close>

record file_record =
  fr_id :: string
  fr_userId :: string
  fr_originalName :: string
  fr_mimeType :: string
  fr_size :: int
  fr_storageProvider :: string
  fr_storagePath :: string
  fr_cdnUrl :: "string option"
  fr_isCompressed :: bool
  fr_isScanned :: bool
  fr_isInfected :: bool
  fr_isDeleted :: bool
  fr_createdAt :: int
  fr_updatedAt :: int

record storage_quota =
  sq_userId :: string
  sq_usedBytes :: int
  sq_maxBytes :: int

definition DEFAULT_MAX_BYTES :: int where "DEFAULT_MAX_BYTES = 5 * 1024 * 1024 * 1024"

record 'st files =
  fs_records :: "file_record list"
  fs_quotas :: "storage_quota list"
  fs_storage :: 'st

section \<open>Validation\<close>

definition allowedMimeTypes :: "string list" where
  "allowedMimeTypes =
     [''image/jpeg'', ''image/png'', ''image/webp'', ''image/gif'', ''application/pdf'', ''text/plain'', ''application/msword'',
      ''application/vnd.openxmlformats-officedocument.wordprocessingml.document'', ''application/vnd.ms-excel'',
      ''application/vnd.openxmlformats-officedocument.spreadsheetml.sheet'']"

definition maxSizeBytes :: int where "maxSizeBytes = 100 * 1024 * 1024"

definition validateFile :: "string \<Rightarrow> int \<Rightarrow> error option" where
  "validateFile mimeType n =
     (if mimeType \<notin> set allowedMimeTypes
      then Some (BadRequestException (''File type '' @ mimeType @ '' is not supported.''))
      else if maxSizeBytes < n
      then Some (BadRequestException (''File size exceeds the maximum limit of '' @ string_of_int (maxSizeBytes div 1024 div 1024) @ '' MB.''))
      else None)"

definition validateChunkSize :: "int \<Rightarrow> error option" where
  "validateChunkSize n =
     (if 10 * 1024 * 1024 < n then Some (BadRequestException ''Chunk size exceeds maximum of 10MB'') else None)"

section \<open>Virus scan\<close>

text \<open>The answer of ClamAV may lack either part; a failed scan lets the file through.\<close>

definition scanBuffer ::
  "bool \<Rightarrow> (buffer \<Rightarrow> error + (bool option \<times> string list option)) \<Rightarrow> buffer \<Rightarrow> bool \<times> string list" where
  "scanBuffer isInitialized clam b =
     (if \<not> isInitialized then (False, [])
      else (case clam b of
              Inr (isInfected, viruses) \<Rightarrow> (or_else isInfected False, or_else viruses [])
            | Inl _ \<Rightarrow> (False, [])))"

section \<open>Image optimisation\<close>

text \<open>\<open>sharp_width\<close> reads the width of an image, \<open>sharp_encode\<close> encodes it, scaled down or not, in the
  given format (\<open>None\<close>: its own); either may throw.\<close>

record image_library =
  sharp_width :: "buffer \<Rightarrow> error + int option"
  sharp_encode :: "bool \<Rightarrow> string option \<Rightarrow> buffer \<Rightarrow> error + buffer"

definition target_format :: "string \<Rightarrow> string option" where
  "target_format mimeType =
     (if mimeType = ''image/jpeg'' \<or> mimeType = ''image/jpg'' then Some ''jpeg''
      else if mimeType = ''image/png'' then Some ''png''
      else if mimeType = ''image/webp'' then Some ''webp'' else None)"

definition optimizeImage :: "image_library \<Rightarrow> buffer \<Rightarrow> string \<Rightarrow> buffer \<times> bool" where
  "optimizeImage lib b mimeType =
     (if \<not> starts_with mimeType ''image/'' \<or> mimeType = ''image/svg+xml'' then (b, False)
      else (case sharp_width lib b of
              Inl _ \<Rightarrow> (b, False)
            | Inr width \<Rightarrow>
                (let scale = (case width of Some w \<Rightarrow> w \<noteq> 0 \<and> 3840 < w | None \<Rightarrow> False)
                 in case sharp_encode lib scale (target_format mimeType) b of
                      Inl _ \<Rightarrow> (b, False)
                    | Inr optimized \<Rightarrow> if length optimized < length b then (optimized, True) else (b, False))))"

section \<open>Quotas\<close>

definition quota_of :: "string \<Rightarrow> storage_quota list \<Rightarrow> storage_quota option" where
  "quota_of userId qs = List.find (\<lambda>q. sq_userId q = userId) qs"

definition ensure_quota :: "string \<Rightarrow> storage_quota list \<Rightarrow> storage_quota list" where
  "ensure_quota userId qs =
     (case quota_of userId qs of
        Some q \<Rightarrow> qs
      | None \<Rightarrow> qs @ [\<lparr>sq_userId = userId, sq_usedBytes = 0, sq_maxBytes = DEFAULT_MAX_BYTES\<rparr>])"

definition checkStorageQuota :: "string \<Rightarrow> int \<Rightarrow> 'st files \<Rightarrow> error option \<times> 'st files" where
  "checkStorageQuota userId additionalBytes s =
     (let qs = ensure_quota userId (fs_quotas s); s' = s\<lparr>fs_quotas := qs\<rparr>
      in case quota_of userId qs of
           Some q \<Rightarrow> (if sq_maxBytes q < sq_usedBytes q + additionalBytes
             then Some (BadRequestException ''Storage quota exceeded'') else None, s')
         | None \<Rightarrow> (None, s'))"

definition updateStorageQuota :: "string \<Rightarrow> int \<Rightarrow> 'st files \<Rightarrow> 'st files" where
  "updateStorageQuota userId bytesAdded s =
     s\<lparr>fs_quotas := map (\<lambda>q. if sq_userId q = userId then q\<lparr>sq_usedBytes := sq_usedBytes q + bytesAdded\<rparr> else q) (fs_quotas s)\<rparr>"

section \<open>Uploads\<close>

record files_env =
  fe_provider_name :: "string option"
  fe_cdnBase :: "string option"
  fe_clam_ready :: bool
  fe_clam :: "buffer \<Rightarrow> error + (bool option \<times> string list option)"
  fe_images :: image_library

definition generateCdnUrl :: "files_env \<Rightarrow> string \<Rightarrow> string option" where
  "generateCdnUrl env storagePath =
     (case fe_cdnBase env of
        Some base \<Rightarrow> if base \<noteq> [] then Some (base @ ''/'' @ storagePath) else None
      | None \<Rightarrow> None)"

definition provider_name :: "files_env \<Rightarrow> string" where
  "provider_name env = (if or_else (fe_provider_name env) [] = [] then ''local'' else the (fe_provider_name env))"

definition storage_path :: "string \<Rightarrow> string \<Rightarrow> string \<Rightarrow> string" where
  "storage_path userId fileId originalName = ''users/'' @ userId @ ''/'' @ fileId @ extname originalName"

text \<open>\<open>save\<close> of a new record, under its unique index.\<close>

definition insert_record :: "file_record \<Rightarrow> 'st files \<Rightarrow> error option \<times> 'st files" where
  "insert_record r s =
     (if list_ex (\<lambda>x. fr_storagePath x = fr_storagePath r) (fs_records s)
      then (Some (JsError ''duplicate key value violates unique constraint''), s)
      else (None, s\<lparr>fs_records := fs_records s @ [r]\<rparr>))"

text \<open>The steps from the scan on; \<open>fileId\<close> names the object, \<open>rid\<close> is the row's own id.\<close>

definition store_file ::
  "files_env \<Rightarrow> ('p, 'st) storage_provider \<Rightarrow> string \<Rightarrow> string \<Rightarrow> int \<Rightarrow> string \<Rightarrow> string \<Rightarrow> string \<Rightarrow> buffer \<Rightarrow> 'st files \<Rightarrow>
   (error + file_record) \<times> 'st files" where
  "store_file env P fileId rid now userId originalName mimeType b s =
     (let (isInfected, viruses) = scanBuffer (fe_clam_ready env) (fe_clam env) b
      in if isInfected then (Inl (BadRequestException (''Virus detected! Viruses: '' @ join '', '' viruses)), s)
         else (let (processed, isCompressed) = optimizeImage (fe_images env) b mimeType;
                   path = storage_path userId fileId originalName
               in case sp_upload P path processed mimeType (fs_storage s) of
                    (Inl e, st) \<Rightarrow> (Inl e, s\<lparr>fs_storage := st\<rparr>)
                  | (Inr _, st) \<Rightarrow>
                      (let r = \<lparr>fr_id = rid, fr_userId = userId, fr_originalName = originalName, fr_mimeType = mimeType,
                             fr_size = int (length processed), fr_storageProvider = provider_name env, fr_storagePath = path,
                             fr_cdnUrl = generateCdnUrl env path, fr_isCompressed = isCompressed, fr_isScanned = True,
                             fr_isInfected = False, fr_isDeleted = False, fr_createdAt = now, fr_updatedAt = now\<rparr>
                       in case insert_record r (s\<lparr>fs_storage := st\<rparr>) of
                            (Some e, s') \<Rightarrow> (Inl e, s')
                          | (None, s') \<Rightarrow> (Inr r, updateStorageQuota userId (int (length processed)) s'))))"

definition uploadFile ::
  "files_env \<Rightarrow> ('p, 'st) storage_provider \<Rightarrow> string \<Rightarrow> string \<Rightarrow> int \<Rightarrow> string \<Rightarrow> string \<Rightarrow> string \<Rightarrow> buffer \<Rightarrow> 'st files \<Rightarrow>
   (error + file_record) \<times> 'st files" where
  "uploadFile env P fileId rid now userId originalName mimeType b s =
     (case validateFile mimeType (int (length b)) of
        Some e \<Rightarrow> (Inl e, s)
      | None \<Rightarrow>
          (case checkStorageQuota userId (int (length b)) s of
             (Some e, s1) \<Rightarrow> (Inl e, s1)
           | (None, s1) \<Rightarrow> store_file env P fileId rid now userId originalName mimeType b s1))"

definition initializeChunkedUpload ::
  "('p, 'st) storage_provider \<Rightarrow> string \<Rightarrow> string \<Rightarrow> string \<Rightarrow> string \<Rightarrow> int \<Rightarrow> 'st files \<Rightarrow>
   (error + (string \<times> string)) \<times> 'st files" where
  "initializeChunkedUpload P fileId userId originalName mimeType totalSize s =
     (case validateFile mimeType totalSize of
        Some e \<Rightarrow> (Inl e, s)
      | None \<Rightarrow>
          (case checkStorageQuota userId totalSize s of
             (Some e, s1) \<Rightarrow> (Inl e, s1)
           | (None, s1) \<Rightarrow>
               (let path = storage_path userId fileId originalName;
                    (r, st) = sp_initializeMultipartUpload P path mimeType (fs_storage s1)
                in (map_sum (\<lambda>e. e) (\<lambda>uploadId. (uploadId, path)) r, s1\<lparr>fs_storage := st\<rparr>))))"

definition files_uploadChunk :: "('p, 'st) storage_provider \<Rightarrow> string \<Rightarrow> int \<Rightarrow> buffer \<Rightarrow> 'st files \<Rightarrow> (error + 'p) \<times> 'st files" where
  "files_uploadChunk P uploadId partNumber b s =
     (case validateChunkSize (int (length b)) of
        Some e \<Rightarrow> (Inl e, s)
      | None \<Rightarrow> (let (r, st) = sp_uploadChunk P uploadId partNumber b (fs_storage s) in (r, s\<lparr>fs_storage := st\<rparr>)))"

definition completeChunkedUpload ::
  "files_env \<Rightarrow> ('p, 'st) storage_provider \<Rightarrow> string \<Rightarrow> int \<Rightarrow> string \<Rightarrow> string \<Rightarrow> string \<Rightarrow> string \<Rightarrow> string \<Rightarrow> int \<Rightarrow> 'p list \<Rightarrow> 'st files \<Rightarrow>
   (error + file_record) \<times> 'st files" where
  "completeChunkedUpload env P rid now userId uploadId path originalName mimeType totalSize parts s =
     (case sp_completeMultipartUpload P uploadId path parts (fs_storage s) of
        (Inl e, st) \<Rightarrow> (Inl e, s\<lparr>fs_storage := st\<rparr>)
      | (Inr _, st) \<Rightarrow>
          (let r = \<lparr>fr_id = rid, fr_userId = userId, fr_originalName = originalName, fr_mimeType = mimeType,
                 fr_size = totalSize, fr_storageProvider = provider_name env, fr_storagePath = path,
                 fr_cdnUrl = generateCdnUrl env path, fr_isCompressed = False, fr_isScanned = False,
                 fr_isInfected = False, fr_isDeleted = False, fr_createdAt = now, fr_updatedAt = now\<rparr>
           in case insert_record r (s\<lparr>fs_storage := st\<rparr>) of
                (Some e, s') \<Rightarrow> (Inl e, s')
              | (None, s') \<Rightarrow> (Inr r, updateStorageQuota userId totalSize s')))"

section \<open>Retrieval and deletion\<close>

definition live_file :: "string \<Rightarrow> 'st files \<Rightarrow> file_record option" where
  "live_file fileId s = List.find (\<lambda>r. fr_id r = fileId \<and> \<not> fr_isDeleted r) (fs_records s)"

definition owned_file :: "string \<Rightarrow> file_record option \<Rightarrow> error + file_record" where
  "owned_file userId found =
     (case found of
        None \<Rightarrow> Inl (NotFoundException ''File not found'')
      | Some r \<Rightarrow> if fr_userId r \<noteq> userId then Inl (ForbiddenException ''Access denied'') else Inr r)"

definition getFile :: "('p, 'st) storage_provider \<Rightarrow> string \<Rightarrow> string \<Rightarrow> 'st files \<Rightarrow> error + (buffer \<times> string)" where
  "getFile P userId fileId s =
     (case owned_file userId (live_file fileId s) of
        Inl e \<Rightarrow> Inl e
      | Inr r \<Rightarrow> map_sum (\<lambda>e. e) (\<lambda>b. (b, fr_mimeType r)) (sp_download P (fr_storagePath r) (fs_storage s)))"

definition getSignedUrl :: "('p, 'st) storage_provider \<Rightarrow> string \<Rightarrow> string \<Rightarrow> 'st files \<Rightarrow> error + string" where
  "getSignedUrl P userId fileId s =
     (case owned_file userId (live_file fileId s) of
        Inl e \<Rightarrow> Inl e
      | Inr r \<Rightarrow> sp_getSignedUrl P (fr_storagePath r) 3600 (fs_storage s))"

text \<open>Saving a changed row writes its update date, saving an unchanged one nothing. The deletion also
  finds rows that are already deleted.\<close>

definition deleteFile :: "int \<Rightarrow> string \<Rightarrow> string \<Rightarrow> 'st files \<Rightarrow> (error + unit) \<times> 'st files" where
  "deleteFile now userId fileId s =
     (case owned_file userId (List.find (\<lambda>r. fr_id r = fileId) (fs_records s)) of
        Inl e \<Rightarrow> (Inl e, s)
      | Inr r \<Rightarrow> (Inr (), s\<lparr>fs_records :=
            map (\<lambda>x. if fr_id x = fileId then x\<lparr>fr_isDeleted := True, fr_updatedAt := (if fr_isDeleted x then fr_updatedAt x else now)\<rparr> else x) (fs_records s)\<rparr>))"

section \<open>Garbage collection\<close>

definition RETENTION_DAYS :: int where "RETENTION_DAYS = 30"

definition expired_file :: "int \<Rightarrow> file_record \<Rightarrow> bool" where
  "expired_file now r \<longleftrightarrow> fr_isDeleted r \<and> fr_updatedAt r < now - RETENTION_DAYS * 86400000"

text \<open>One pass over the expired rows; a file whose deletion fails is kept. The count is the log line's.\<close>

fun collect :: "('p, 'st) storage_provider \<Rightarrow> file_record list \<Rightarrow> nat \<Rightarrow> 'st files \<Rightarrow> nat \<times> 'st files" where
  "collect P [] n s = (n, s)"
| "collect P (r # rs) n s =
     (case sp_delete P (fr_storagePath r) (fs_storage s) of
        (Inl _, st) \<Rightarrow> collect P rs n (s\<lparr>fs_storage := st\<rparr>)
      | (Inr _, st) \<Rightarrow> collect P rs (Suc n)
          (s\<lparr>fs_storage := st, fs_records := filter (\<lambda>x. fr_id x \<noteq> fr_id r) (fs_records s)\<rparr>))"

definition cleanupDeletedFiles :: "('p, 'st) storage_provider \<Rightarrow> int \<Rightarrow> 'st files \<Rightarrow> nat \<times> 'st files" where
  "cleanupDeletedFiles P now s = collect P (filter (expired_file now) (fs_records s)) 0 s"

section \<open>Routes\<close>

text \<open>The simulated identity: the header \<open>x-user-id\<close>.\<close>

definition getUserId :: "string option \<Rightarrow> string" where
  "getUserId header = (if or_else header [] = [] then ''test-user-id'' else the header)"

end
