(* ===== verification/Cloud_Storage.thy ===== *)
theory Cloud_Storage
  imports Local_Storage JS_Text
begin

text \<open>
  The cloud providers of the file storage (src/files/storage/providers/s3-storage.provider.ts,
  azure-storage.provider.ts) and the choice between the providers (src/files/storage/storage.module.ts).

  The clients of the two services are arguments: records of their calls over a state \<open>'st\<close>, each with its
  outcome. What the code relies on is stated as \<open>s3_laws\<close> and \<open>azure_laws\<close>. Shown are: each provider
  meets the contract \<open>object_store\<close>, chunks in S3 are always refused, and what Azure assembles from chunks is
  in the order of the committed list.
\<close>

section \<open>What a provider promises\<close>

text \<open>\<open>content st p\<close> is what is stored under \<open>p\<close>.\<close>

locale object_store =
  fixes P :: "('p, 'st) storage_provider" and content :: "'st \<Rightarrow> string \<Rightarrow> buffer option"
  assumes upload_content: "sp_upload P p b m st = (Inr r, st') \<Longrightarrow> r = p \<and> content st' p = Some b"
    and download_content: "sp_download P p st = Inr b \<longleftrightarrow> content st p = Some b"
    and delete_content: "sp_delete P p st = (Inr (), st') \<Longrightarrow> content st' p = None"
begin

lemma upload_download: "sp_upload P p b m st = (Inr r, st') \<Longrightarrow> sp_download P p st' = Inr b"
  using upload_content download_content by blast

lemma delete_download: "sp_delete P p st = (Inr (), st') \<Longrightarrow> isl (sp_download P p st')"
  using delete_content [of p st st'] download_content [of p st'] by (cases "sp_download P p st'") auto

end

definition local_content :: "local_storage \<Rightarrow> string \<Rightarrow> buffer option" where
  "local_content s p = map_get (ls_files s) (path_join (storageDir s) p)"

interpretation local_store: object_store "local_provider x" local_content for x
  by unfold_locales
    (auto simp: local_provider_def local_upload_def local_download_def local_delete_def local_content_def
      storageDir_def Let_def split: option.splits)

section \<open>S3\<close>

record 'st s3_client =
  s3_putObject :: "string \<Rightarrow> string \<Rightarrow> buffer \<Rightarrow> string \<Rightarrow> 'st \<Rightarrow> (error + unit) \<times> 'st"
  s3_createMultipartUpload :: "string \<Rightarrow> string \<Rightarrow> string \<Rightarrow> 'st \<Rightarrow> (error + string option) \<times> 'st"
  s3_completeMultipartUpload :: "string \<Rightarrow> string \<Rightarrow> string \<Rightarrow> json list \<Rightarrow> 'st \<Rightarrow> (error + unit) \<times> 'st"
  s3_getObject :: "string \<Rightarrow> string \<Rightarrow> 'st \<Rightarrow> error + buffer option"
  s3_deleteObject :: "string \<Rightarrow> string \<Rightarrow> 'st \<Rightarrow> (error + unit) \<times> 'st"
  s3_presign :: "string \<Rightarrow> string \<Rightarrow> int \<Rightarrow> 'st \<Rightarrow> error + string"

record s3_config =
  s3_region :: string
  s3_accessKeyId :: string
  s3_secretAccessKey :: string
  s3_bucketName :: string

text \<open>\<open>env\<close> is the environment of the process; a variable that is empty counts as missing.\<close>

definition env_or :: "(string \<Rightarrow> string option) \<Rightarrow> string \<Rightarrow> string \<Rightarrow> string" where
  "env_or env k d = (if given (env k) then the (env k) else d)"

definition s3_configuration :: "(string \<Rightarrow> string option) \<Rightarrow> s3_config" where
  "s3_configuration env =
     \<lparr>s3_region = env_or env ''AWS_REGION'' ''us-east-1'',
      s3_accessKeyId = env_or env ''AWS_ACCESS_KEY_ID'' [],
      s3_secretAccessKey = env_or env ''AWS_SECRET_ACCESS_KEY'' [],
      s3_bucketName = env_or env ''AWS_S3_BUCKET'' ''astraport-uploads''\<rparr>"

definition s3_upload :: "'st s3_client \<Rightarrow> string \<Rightarrow> string \<Rightarrow> buffer \<Rightarrow> string \<Rightarrow> 'st \<Rightarrow> (error + string) \<times> 'st" where
  "s3_upload c bucket filePath d mimeType st =
     (case s3_putObject c bucket filePath d mimeType st of
        (Inl e, st') \<Rightarrow> (Inl e, st')
      | (Inr _, st') \<Rightarrow> (Inr filePath, st'))"

definition s3_initialize :: "'st s3_client \<Rightarrow> string \<Rightarrow> string \<Rightarrow> string \<Rightarrow> 'st \<Rightarrow> (error + string) \<times> 'st" where
  "s3_initialize c bucket filePath mimeType st =
     (case s3_createMultipartUpload c bucket filePath mimeType st of
        (Inl e, st') \<Rightarrow> (Inl e, st')
      | (Inr uploadId, st') \<Rightarrow>
          (if given uploadId then Inr (the uploadId)
           else Inl (InternalServerErrorException ''Failed to initialize S3 multipart upload''), st'))"

definition s3_uploadChunk :: "string \<Rightarrow> int \<Rightarrow> buffer \<Rightarrow> 'st \<Rightarrow> (error + json) \<times> 'st" where
  "s3_uploadChunk uploadId partNumber d st =
     (Inl (JsError ''uploadChunk requires Key, consider passing it or storing it.''), st)"

definition s3_complete :: "'st s3_client \<Rightarrow> string \<Rightarrow> string \<Rightarrow> string \<Rightarrow> json list \<Rightarrow> 'st \<Rightarrow> (error + string) \<times> 'st" where
  "s3_complete c bucket uploadId filePath parts st =
     (case s3_completeMultipartUpload c bucket filePath uploadId parts st of
        (Inl e, st') \<Rightarrow> (Inl e, st')
      | (Inr _, st') \<Rightarrow> (Inr filePath, st'))"

definition s3_download :: "'st s3_client \<Rightarrow> string \<Rightarrow> string \<Rightarrow> 'st \<Rightarrow> error + buffer" where
  "s3_download c bucket filePath st =
     (case s3_getObject c bucket filePath st of
        Inl e \<Rightarrow> Inl e
      | Inr None \<Rightarrow> Inl (InternalServerErrorException ''File body is empty'')
      | Inr (Some bytes) \<Rightarrow> Inr bytes)"

definition s3_delete :: "'st s3_client \<Rightarrow> string \<Rightarrow> string \<Rightarrow> 'st \<Rightarrow> (error + unit) \<times> 'st" where
  "s3_delete c bucket filePath st = s3_deleteObject c bucket filePath st"

definition s3_getSignedUrl :: "'st s3_client \<Rightarrow> string \<Rightarrow> string \<Rightarrow> int \<Rightarrow> 'st \<Rightarrow> error + string" where
  "s3_getSignedUrl c bucket filePath expiresIn st = s3_presign c bucket filePath expiresIn st"

definition s3_provider :: "'st s3_client \<Rightarrow> string \<Rightarrow> (json, 'st) storage_provider" where
  "s3_provider c bucket =
     \<lparr>sp_upload = s3_upload c bucket, sp_uploadChunk = s3_uploadChunk, sp_initializeMultipartUpload = s3_initialize c bucket,
      sp_completeMultipartUpload = s3_complete c bucket, sp_download = s3_download c bucket, sp_delete = s3_delete c bucket,
      sp_getSignedUrl = s3_getSignedUrl c bucket\<rparr>"

text \<open>Objects of a bucket: what was put is there, what was deleted is not, and a missing object is an error.\<close>

definition s3_laws :: "'st s3_client \<Rightarrow> string \<Rightarrow> ('st \<Rightarrow> string \<Rightarrow> buffer option) \<Rightarrow> bool" where
  "s3_laws c bucket obj \<longleftrightarrow>
     (\<forall>k b m st st'. s3_putObject c bucket k b m st = (Inr (), st') \<longrightarrow> obj st' = (obj st)(k \<mapsto> b)) \<and>
     (\<forall>k st st'. s3_deleteObject c bucket k st = (Inr (), st') \<longrightarrow> obj st' = (obj st)(k := None)) \<and>
     (\<forall>k st. case obj st k of Some b \<Rightarrow> s3_getObject c bucket k st = Inr (Some b) | None \<Rightarrow> isl (s3_getObject c bucket k st))"

lemma s3_object_store:
  assumes "s3_laws c bucket obj"
  shows "object_store (s3_provider c bucket) obj"
proof -
  have "case obj st k of Some b \<Rightarrow> s3_getObject c bucket k st = Inr (Some b) | None \<Rightarrow> isl (s3_getObject c bucket k st)" for k st
    using assms by (simp add: s3_laws_def)
  note get_object = this
  have get: "s3_download c bucket p st = Inr b \<longleftrightarrow> obj st p = Some b" for p st b
    using get_object [of p st] by (cases "obj st p") (auto simp: s3_download_def isl_def split: option.splits)
  show ?thesis
    using assms get
    by unfold_locales (auto simp: s3_provider_def s3_upload_def s3_delete_def s3_laws_def split: prod.splits sum.splits)
qed

text \<open>No chunk is ever accepted.\<close>

lemma s3_chunks_refused: "sp_uploadChunk (s3_provider c bucket) up n b st = (Inl e, st') \<longrightarrow> st' = st"
  "isl (fst (sp_uploadChunk (s3_provider c bucket) up n b st))"
  by (simp_all add: s3_provider_def s3_uploadChunk_def)

section \<open>Base 64\<close>

definition base64_chars :: string where
  "base64_chars = ''ABCDEFGHIJKLMNOPQRSTUVWXYZabcdefghijklmnopqrstuvwxyz0123456789+/''"

definition base64_char :: "nat \<Rightarrow> char" where "base64_char n = base64_chars ! n"

fun base64 :: "string \<Rightarrow> string" where
  "base64 [] = []"
| "base64 [a] = (let x = of_char a in [base64_char (x div 4), base64_char (x mod 4 * 16), CHR ''='', CHR ''=''])"
| "base64 [a, b] =
     (let x = of_char a; y = of_char b
      in [base64_char (x div 4), base64_char (x mod 4 * 16 + y div 16), base64_char (y mod 16 * 4), CHR ''=''])"
| "base64 (a # b # c # s) =
     (let x = of_char a; y = of_char b; z = of_char c
      in [base64_char (x div 4), base64_char (x mod 4 * 16 + y div 16), base64_char (y mod 16 * 4 + z div 64), base64_char (z mod 64)] @
         base64 s)"

lemma length_base64: "length (base64 s) = (length s + 2) div 3 * 4"
proof (induction s rule: base64.induct)
  case (4 a b c s)
  have "(length (a # b # c # s) + 2) div 3 = (length s + 2) div 3 + 1" by (simp add: div_add_self2 [symmetric, of 3])
  with 4 show ?case by (simp add: Let_def)
qed (simp_all add: Let_def)

lemma base64_char_inj: "m < 64 \<Longrightarrow> n < 64 \<Longrightarrow> base64_char m = base64_char n \<longleftrightarrow> m = n"
proof -
  have "distinct base64_chars \<and> length base64_chars = 64" by (simp add: base64_chars_def)
  then show "m < 64 \<Longrightarrow> n < 64 \<Longrightarrow> base64_char m = base64_char n \<longleftrightarrow> m = n"
    by (simp add: base64_char_def nth_eq_iff_index_eq)
qed

lemma base64_char_pad: "n < 64 \<Longrightarrow> base64_char n \<noteq> CHR ''=''"
proof -
  have "CHR ''='' \<notin> set base64_chars \<and> length base64_chars = 64" by (simp add: base64_chars_def)
  then show "n < 64 \<Longrightarrow> base64_char n \<noteq> CHR ''=''" by (metis base64_char_def nth_mem)
qed

text \<open>The groups of six bits of three bytes.\<close>

lemma digits_of_base: "(b::nat) < k \<Longrightarrow> d < k \<Longrightarrow> a * k + b = c * k + d \<longleftrightarrow> a = c \<and> b = d"
  by (metis add.commute div_mult_self1 div_less add_0 mod_less mod_mult_self1 gr_implies_not0)

lemma byte_parts:
  fixes x :: nat
  assumes "x < 256"
  shows "x div 4 < 64" "x mod 4 < 4" "x div 16 < 16" "x mod 16 < 16" "x div 64 < 4" "x mod 64 < 64"
  using assms by (simp_all add: less_mult_imp_div_less)

lemma group_bounds:
  fixes a b :: nat
  shows "a < 4 \<Longrightarrow> b < 16 \<Longrightarrow> a * 16 + b < 64" "a < 16 \<Longrightarrow> b < 4 \<Longrightarrow> a * 4 + b < 64" "a < 4 \<Longrightarrow> a * 16 < 64" "a < 16 \<Longrightarrow> a * 4 < 64"
  by simp_all

lemma byte_bound: "(of_char c :: nat) < 256"
  by (metis nat_of_char_less_256)

lemma char_by_parts: "(of_char x :: nat) div n = of_char y div n \<Longrightarrow> (of_char x :: nat) mod n = of_char y mod n \<Longrightarrow> x = y"
  by (metis div_mult_mod_eq of_char_eq_iff)

lemma base64_inj: "base64 s = base64 t \<longleftrightarrow> s = t"
proof
  have pad: "CHR ''='' \<noteq> base64_char n" if "n < 64" for n using base64_char_pad [OF that] by simp
  note simps = Let_def base64_char_inj base64_char_pad pad byte_parts group_bounds digits_of_base
  show "base64 s = base64 t \<Longrightarrow> s = t"
  proof (induction s arbitrary: t rule: base64.induct)
    case 1
    then show ?case by (cases t rule: base64.cases) (simp_all add: Let_def)
  next
    case (2 a)
    then show ?case by (cases t rule: base64.cases) (auto simp: simps intro: char_by_parts)
  next
    case (3 a b)
    then show ?case by (cases t rule: base64.cases) (auto simp: simps intro: char_by_parts)
  next
    case (4 a b c s)
    then show ?case by (cases t rule: base64.cases) (auto simp: simps intro: char_by_parts)
  qed
qed simp

section \<open>Azure\<close>

text \<open>The client of the container; \<open>az_download\<close> gives the pieces of the stream, if there is one.\<close>

record 'st azure_client =
  az_uploadData :: "string \<Rightarrow> buffer \<Rightarrow> string \<Rightarrow> 'st \<Rightarrow> (error + unit) \<times> 'st"
  az_stageBlock :: "string \<Rightarrow> string \<Rightarrow> buffer \<Rightarrow> int \<Rightarrow> 'st \<Rightarrow> (error + unit) \<times> 'st"
  az_commitBlockList :: "string \<Rightarrow> string list \<Rightarrow> 'st \<Rightarrow> (error + unit) \<times> 'st"
  az_download :: "string \<Rightarrow> 'st \<Rightarrow> error + buffer list option"
  az_deleteIfExists :: "string \<Rightarrow> 'st \<Rightarrow> (error + unit) \<times> 'st"
  az_url :: "string \<Rightarrow> string"

definition azure_connection :: "(string \<Rightarrow> string option) \<Rightarrow> string \<times> string" where
  "azure_connection env =
     (env_or env ''AZURE_STORAGE_CONNECTION_STRING'' ''UseDevelopmentStorage=true'',
      env_or env ''AZURE_STORAGE_CONTAINER'' ''astraport-uploads'')"

definition azure_upload :: "'st azure_client \<Rightarrow> string \<Rightarrow> buffer \<Rightarrow> string \<Rightarrow> 'st \<Rightarrow> (error + string) \<times> 'st" where
  "azure_upload c filePath d mimeType st =
     (case az_uploadData c filePath d mimeType st of
        (Inl e, st') \<Rightarrow> (Inl e, st')
      | (Inr _, st') \<Rightarrow> (Inr filePath, st'))"

definition azure_initialize :: "string \<Rightarrow> string \<Rightarrow> 'st \<Rightarrow> (error + string) \<times> 'st" where
  "azure_initialize filePath mimeType st = (Inr filePath, st)"

definition pad_start :: "nat \<Rightarrow> char \<Rightarrow> string \<Rightarrow> string" where
  "pad_start n c s = replicate (n - length s) c @ s"

definition block_id :: "int \<Rightarrow> string" where
  "block_id partNumber = base64 (''block-'' @ pad_start 5 CHR ''0'' (string_of_int partNumber))"

definition azure_uploadChunk :: "'st azure_client \<Rightarrow> string \<Rightarrow> int \<Rightarrow> buffer \<Rightarrow> 'st \<Rightarrow> (error + string) \<times> 'st" where
  "azure_uploadChunk c uploadId partNumber d st =
     (case az_stageBlock c uploadId (block_id partNumber) d (int (length d)) st of
        (Inl e, st') \<Rightarrow> (Inl e, st')
      | (Inr _, st') \<Rightarrow> (Inr (block_id partNumber), st'))"

definition azure_complete :: "'st azure_client \<Rightarrow> string \<Rightarrow> string \<Rightarrow> string list \<Rightarrow> 'st \<Rightarrow> (error + string) \<times> 'st" where
  "azure_complete c uploadId filePath parts st =
     (case az_commitBlockList c filePath parts st of
        (Inl e, st') \<Rightarrow> (Inl e, st')
      | (Inr _, st') \<Rightarrow> (Inr filePath, st'))"

definition azure_download :: "'st azure_client \<Rightarrow> string \<Rightarrow> 'st \<Rightarrow> error + buffer" where
  "azure_download c filePath st =
     (case az_download c filePath st of
        Inl e \<Rightarrow> Inl e
      | Inr None \<Rightarrow> Inl (InternalServerErrorException ''No readable stream body'')
      | Inr (Some chunks) \<Rightarrow> Inr (concat chunks))"

definition azure_delete :: "'st azure_client \<Rightarrow> string \<Rightarrow> 'st \<Rightarrow> (error + unit) \<times> 'st" where
  "azure_delete c filePath st = az_deleteIfExists c filePath st"

text \<open>The token options the code builds are not used.\<close>

definition azure_getSignedUrl :: "'st azure_client \<Rightarrow> string \<Rightarrow> int \<Rightarrow> 'st \<Rightarrow> error + string" where
  "azure_getSignedUrl c filePath expiresIn st = Inr (az_url c filePath)"

definition azure_provider :: "'st azure_client \<Rightarrow> (string, 'st) storage_provider" where
  "azure_provider c =
     \<lparr>sp_upload = azure_upload c, sp_uploadChunk = azure_uploadChunk c, sp_initializeMultipartUpload = azure_initialize,
      sp_completeMultipartUpload = azure_complete c, sp_download = azure_download c, sp_delete = azure_delete c,
      sp_getSignedUrl = azure_getSignedUrl c\<rparr>"

text \<open>Blobs and staged blocks of a container. A block that is staged again replaces the earlier one; a
  committed list names staged blocks, whose contents become the blob in the order of the list.\<close>

definition azure_laws :: "'st azure_client \<Rightarrow> ('st \<Rightarrow> string \<Rightarrow> buffer option) \<Rightarrow> ('st \<Rightarrow> string \<Rightarrow> string \<Rightarrow> buffer option) \<Rightarrow> bool" where
  "azure_laws c blob staged \<longleftrightarrow>
     (\<forall>k b m st st'. az_uploadData c k b m st = (Inr (), st') \<longrightarrow> blob st' = (blob st)(k \<mapsto> b)) \<and>
     (\<forall>k st st'. az_deleteIfExists c k st = (Inr (), st') \<longrightarrow> blob st' = (blob st)(k := None)) \<and>
     (\<forall>k i b n st st'. az_stageBlock c k i b n st = (Inr (), st') \<longrightarrow>
        blob st' = blob st \<and> staged st' = (staged st)(k := (staged st k)(i \<mapsto> b))) \<and>
     (\<forall>k is st st'. az_commitBlockList c k is st = (Inr (), st') \<longrightarrow>
        None \<notin> set (map (staged st k) is) \<and> blob st' = (blob st)(k \<mapsto> concat (map (\<lambda>i. the (staged st k i)) is))) \<and>
     (\<forall>k st. case blob st k of
        Some b \<Rightarrow> (\<exists>chunks. az_download c k st = Inr (Some chunks) \<and> concat chunks = b)
      | None \<Rightarrow> isl (az_download c k st))"

lemma azure_read:
  assumes "azure_laws c blob staged"
  shows "azure_download c p st = Inr b \<longleftrightarrow> blob st p = Some b"
proof -
  have "case blob st p of Some b \<Rightarrow> (\<exists>chunks. az_download c p st = Inr (Some chunks) \<and> concat chunks = b)
      | None \<Rightarrow> isl (az_download c p st)"
    using assms by (simp add: azure_laws_def)
  then show ?thesis by (cases "blob st p") (auto simp: azure_download_def isl_def split: option.splits)
qed

lemma azure_object_store:
  assumes "azure_laws c blob staged"
  shows "object_store (azure_provider c) blob"
  using assms azure_read [OF assms]
  by unfold_locales (auto simp: azure_provider_def azure_upload_def azure_delete_def azure_laws_def split: prod.splits sum.splits)

section \<open>Chunks\<close>

text \<open>Block ids tell part numbers apart, and they are of one length, as Azure requires, up to part 999999.\<close>

lemma length_digits_of: "n < 10 ^ Suc k \<Longrightarrow> length (digits_of n) \<le> Suc k"
proof (induction k arbitrary: n)
  case 0
  then show ?case by (subst digits_of.simps) simp
next
  case (Suc k)
  then have "n div 10 < 10 ^ Suc k" by (simp add: less_mult_imp_div_less mult.commute)
  then show ?case using Suc.IH [of "n div 10"] by (subst digits_of.simps) auto
qed

lemma parse_zeros: "parse_digits 10 0 (replicate k CHR ''0'' @ s) = parse_digits 10 0 s"
proof -
  have "digit_value CHR ''0'' = Some 0" by (simp add: digit_value_def)
  then show ?thesis by (induction k) simp_all
qed

lemma block_id_eq: "0 \<le> m \<Longrightarrow> 0 \<le> n \<Longrightarrow> block_id m = block_id n \<longleftrightarrow> m = n"
  using parse_zeros [of _ "digits_of (nat m)"] parse_zeros [of _ "digits_of (nat n)"]
  by (auto simp: block_id_def base64_inj pad_start_def string_of_int_def parse_digits_of dest: arg_cong [where f = "parse_digits 10 0"])

lemma length_block_id:
  assumes "0 \<le> n" "n < 10 ^ 6"
  shows "length (block_id n) = 16"
proof -
  have "nat n < 10 ^ Suc 5" using assms by (simp add: nat_less_iff)
  from length_digits_of [OF this]
  have "length (digits_of (nat n)) = 6 \<or> 6 + (5 - length (digits_of (nat n))) + length (digits_of (nat n)) = 11" by arith
  then show ?thesis using assms by (auto simp: block_id_def length_base64 pad_start_def string_of_int_def)
qed

text \<open>Chunks one after the other; \<open>None\<close> if one of them fails.\<close>

fun azure_stage :: "'st azure_client \<Rightarrow> string \<Rightarrow> (int \<times> buffer) list \<Rightarrow> 'st \<Rightarrow> 'st option" where
  "azure_stage c up [] st = Some st"
| "azure_stage c up ((n, b) # chunks) st =
     (case azure_uploadChunk c up n b st of (Inl _, _) \<Rightarrow> None | (Inr _, st') \<Rightarrow> azure_stage c up chunks st')"

lemma azure_staged:
  assumes "azure_laws c blob staged"
  shows "azure_stage c up chunks st = Some st' \<Longrightarrow> distinct (map fst chunks) \<Longrightarrow> \<forall>n \<in> fst ` set chunks. 0 \<le> n \<Longrightarrow>
    (\<forall>(n, b) \<in> set chunks. staged st' up (block_id n) = Some b) \<and>
    (\<forall>i. i \<notin> block_id ` fst ` set chunks \<longrightarrow> staged st' up i = staged st up i)"
proof (induction chunks arbitrary: st)
  case (Cons chunk chunks)
  obtain n b where chunk: "chunk = (n, b)" by fastforce
  obtain st1 where st1: "az_stageBlock c up (block_id n) b (int (length b)) st = (Inr (), st1)" "azure_stage c up chunks st1 = Some st'"
    using Cons.prems(1) by (auto simp: chunk azure_uploadChunk_def split: prod.splits sum.splits)
  have "staged st1 = (staged st)(up := (staged st up)(block_id n \<mapsto> b))"
    using assms st1(1) by (auto simp: azure_laws_def)
  moreover have "block_id n \<notin> block_id ` fst ` set chunks" using Cons.prems(2,3)
    by (auto simp: chunk block_id_eq dest!: block_id_eq [THEN iffD1, rotated 2])
  ultimately show ?case using Cons.IH [OF st1(2)] Cons.prems(2,3) by (auto simp: chunk)
qed simp

text \<open>The completed blob has the chunks in the order of the list of parts the caller commits, whatever the order
  in which they arrived; parts left out of the list are left out of the blob.\<close>

theorem azure_parts_in_list_order:
  assumes "azure_laws c blob staged" "azure_stage c path chunks st = Some st1"
    and "distinct (map fst chunks)" "\<forall>n \<in> fst ` set chunks. 0 \<le> n" "set parts \<subseteq> set chunks"
    and "azure_complete c path path (map (\<lambda>(n, b). block_id n) parts) st1 = (Inr r, st2)"
  shows "r = path \<and> azure_download c path st2 = Inr (concat (map snd parts))"
proof -
  have "staged st1 path (block_id n) = Some b" if "(n, b) \<in> set parts" for n b
    using azure_staged [OF assms(1-4)] that assms(5) by auto
  then have parts: "map (\<lambda>i. the (staged st1 path i)) (map (\<lambda>(n, b). block_id n) parts) = map snd parts"
    by (auto intro!: map_cong)
  have commit: "r = path" "az_commitBlockList c path (map (\<lambda>(n, b). block_id n) parts) st1 = (Inr (), st2)"
    using assms(6) by (auto simp: azure_complete_def split: prod.splits sum.splits)
  have "\<forall>k is st st'. az_commitBlockList c k is st = (Inr (), st') \<longrightarrow>
      blob st' = (blob st)(k \<mapsto> concat (map (\<lambda>i. the (staged st k i)) is))"
    using assms(1) by (simp add: azure_laws_def)
  with commit(2) have "blob st2 path = Some (concat (map snd parts))" unfolding parts [symmetric] by simp
  with commit(1) show ?thesis by (simp add: azure_read [OF assms(1)])
qed

section \<open>The choice of the provider\<close>

datatype provider_kind = LocalStorage | S3Storage | AzureStorage

definition storage_factory :: "(string \<Rightarrow> string option) \<Rightarrow> provider_kind" where
  "storage_factory env =
     (let provider = env_or env ''STORAGE_PROVIDER'' ''local''
      in if provider = ''s3'' then S3Storage else if provider = ''azure'' then AzureStorage else LocalStorage)"

end
