(* ===== verification/Files_Props.thy ===== *)
theory Files_Props
  imports Files Cloud_Storage
begin

text \<open>
  What the file service guarantees: only the owner reaches a file; without chunked completions no
  user's stored bytes exceed the quota; with them the quota means nothing; an uploaded file is read
  back; the collector removes exactly the files deleted longer ago than the retention period.
\<close>

section \<open>Access\<close>


definition demo_record :: file_record where
  "demo_record = \<lparr>fr_id = ''f1'', fr_userId = ''alice'', fr_originalName = ''a.txt'', fr_mimeType = ''text/plain'', fr_size = 3,
     fr_storageProvider = ''local'', fr_storagePath = ''users/alice/k.txt'', fr_cdnUrl = None, fr_isCompressed = False,
     fr_isScanned = True, fr_isInfected = False, fr_isDeleted = False, fr_createdAt = 0, fr_updatedAt = 0\<rparr>"

definition demo_local :: local_storage where
  "demo_local = \<lparr>ls_cwd = [''srv''], ls_files = [([''srv'', ''uploads'', ''users'', ''alice'', ''k.txt''], ''abc'')], ls_activeUploads = []\<rparr>"

definition demo_files :: "local_storage files" where
  "demo_files = \<lparr>fs_records = [demo_record], fs_quotas = [\<lparr>sq_userId = ''alice'', sq_usedBytes = 3, sq_maxBytes = DEFAULT_MAX_BYTES\<rparr>],
     fs_storage = demo_local\<rparr>"


section \<open>Quotas\<close>

inductive files_run :: "files_env \<Rightarrow> ('p, 'st) storage_provider \<Rightarrow> 'st files \<Rightarrow> bool" for env P where
  Start: "files_run env P \<lparr>fs_records = [], fs_quotas = [], fs_storage = st\<rparr>"
| Upload: "files_run env P s \<Longrightarrow> files_run env P (snd (uploadFile env P k i now u name mime b s))"
| Initialize: "files_run env P s \<Longrightarrow> files_run env P (snd (initializeChunkedUpload P k u name mime n s))"
| Chunk: "files_run env P s \<Longrightarrow> files_run env P (snd (files_uploadChunk P up part b s))"
| Delete: "files_run env P s \<Longrightarrow> files_run env P (snd (deleteFile now u i s))"
| Collect: "files_run env P s \<Longrightarrow> files_run env P (snd (cleanupDeletedFiles P now s))"

definition stored_bytes :: "string \<Rightarrow> file_record list \<Rightarrow> int" where
  "stored_bytes u rs = sum_list (map fr_size (filter (\<lambda>r. fr_userId r = u) rs))"

definition quota_ok :: "file_record list \<Rightarrow> storage_quota list \<Rightarrow> bool" where
  "quota_ok rs qs \<longleftrightarrow> (\<forall>r \<in> set rs. 0 \<le> fr_size r \<and> quota_of (fr_userId r) qs \<noteq> None) \<and>
     (\<forall>u q. quota_of u qs = Some q \<longrightarrow> stored_bytes u rs \<le> sq_usedBytes q \<and> sq_usedBytes q \<le> sq_maxBytes q)"

abbreviation state_ok :: "'st files \<Rightarrow> bool" where
  "state_ok s \<equiv> quota_ok (fs_records s) (fs_quotas s)"

lemma stored_bytes_simps [simp]:
  "stored_bytes u [] = 0" "stored_bytes u (rs @ [r]) = stored_bytes u rs + (if fr_userId r = u then fr_size r else 0)"
  by (simp_all add: stored_bytes_def)

lemma stored_bytes_filter:
  "\<forall>r \<in> set rs. 0 \<le> fr_size r \<Longrightarrow> stored_bytes u (filter Q rs) \<le> stored_bytes u rs \<and> 0 \<le> stored_bytes u rs"
  by (induction rs) (auto simp: stored_bytes_def)

lemma stored_bytes_map:
  "(\<And>r. fr_userId (f r) = fr_userId r) \<Longrightarrow> (\<And>r. fr_size (f r) = fr_size r) \<Longrightarrow> stored_bytes u (map f rs) = stored_bytes u rs"
  by (induction rs) (auto simp: stored_bytes_def)

lemma stored_bytes_none: "\<forall>r \<in> set rs. fr_userId r \<noteq> u \<Longrightarrow> stored_bytes u rs = 0"
  by (simp add: stored_bytes_def)

lemma quota_of_append: "quota_of u (qs @ [q]) = (case quota_of u qs of Some x \<Rightarrow> Some x | None \<Rightarrow> if sq_userId q = u then Some q else None)"
  by (induction qs) (auto simp: quota_of_def)

lemma quota_of_map:
  "(\<And>q. sq_userId (f q) = sq_userId q) \<Longrightarrow> quota_of u (map f qs) = map_option f (quota_of u qs)"
  by (induction qs) (auto simp: quota_of_def)

lemma quota_of_user: "quota_of u qs = Some q \<Longrightarrow> sq_userId q = u"
  by (auto simp: quota_of_def find_Some_iff)

text \<open>The invariant survives fewer rows, updated rows and a new quota.\<close>

lemma quota_ok_filter:
  assumes "quota_ok rs qs" shows "quota_ok (filter Q rs) qs"
proof -
  have "\<forall>r \<in> set rs. 0 \<le> fr_size r" using assms by (simp add: quota_ok_def)
  then have le: "stored_bytes u (filter Q rs) \<le> stored_bytes u rs" for u using stored_bytes_filter by blast
  show ?thesis using assms by (auto simp: quota_ok_def intro: order_trans [OF le])
qed

lemma quota_ok_map:
  assumes "quota_ok rs qs" "\<And>r. fr_userId (f r) = fr_userId r" "\<And>r. fr_size (f r) = fr_size r"
  shows "quota_ok (map f rs) qs"
  using assms(1) unfolding quota_ok_def stored_bytes_map [of f, OF assms(2,3)] by (auto simp: assms(2,3))

lemma quota_ok_ensure:
  assumes "quota_ok rs qs" shows "quota_ok rs (ensure_quota u qs)"
proof (cases "quota_of u qs")
  case None
  then have "stored_bytes u rs = 0" using assms by (intro stored_bytes_none) (auto simp: quota_ok_def)
  then show ?thesis
    using assms None
    by (auto simp: quota_ok_def ensure_quota_def quota_of_append DEFAULT_MAX_BYTES_def split: option.splits if_splits)
qed (use assms in \<open>simp add: ensure_quota_def\<close>)

lemma check_simps:
  "snd (checkStorageQuota u n s) = s\<lparr>fs_quotas := ensure_quota u (fs_quotas s)\<rparr>"
  by (simp add: checkStorageQuota_def Let_def split: option.split)

lemma check_passed:
  assumes "fst (checkStorageQuota u n s) = None"
  obtains q where "quota_of u (ensure_quota u (fs_quotas s)) = Some q" "sq_usedBytes q + n \<le> sq_maxBytes q"
  using assms that
  by (auto simp: checkStorageQuota_def Let_def ensure_quota_def quota_of_append split: option.splits if_splits)

lemma optimize_shorter: "length (fst (optimizeImage lib b mime)) \<le> length b"
  by (auto simp: optimizeImage_def Let_def split: sum.splits)

text \<open>A new row and the matching charge.\<close>

lemma quota_ok_insert:
  assumes ok: "quota_ok rs qs" and q: "quota_of u qs = Some q" and r: "fr_userId r = u" "fr_size r = n"
    and room: "sq_usedBytes q + n \<le> sq_maxBytes q" "0 \<le> n"
  shows "quota_ok (rs @ [r]) (map (\<lambda>x. if sq_userId x = u then x\<lparr>sq_usedBytes := sq_usedBytes x + n\<rparr> else x) qs)"
proof -
  let ?f = "\<lambda>x. if sq_userId x = u then x\<lparr>sq_usedBytes := sq_usedBytes x + n\<rparr> else x"
  have f: "quota_of v (map ?f qs) = map_option ?f (quota_of v qs)" for v
    by (rule quota_of_map) simp
  have le: "stored_bytes v (rs @ [r]) \<le> sq_usedBytes (?f x) \<and> sq_usedBytes (?f x) \<le> sq_maxBytes (?f x)"
    if "quota_of v qs = Some x" for v x
    using ok that q r room quota_of_user [OF that] by (cases "v = u") (auto simp: quota_ok_def)
  have "\<forall>x \<in> set (rs @ [r]). 0 \<le> fr_size x \<and> quota_of (fr_userId x) qs \<noteq> None"
    using ok q r room(2) by (auto simp: quota_ok_def)
  moreover have "stored_bytes v (rs @ [r]) \<le> sq_usedBytes y \<and> sq_usedBytes y \<le> sq_maxBytes y"
    if "map_option ?f (quota_of v qs) = Some y" for v y
  proof (cases "quota_of v qs")
    case (Some x)
    with that have "y = ?f x" by simp
    then show ?thesis using le [OF Some] by (simp only:)
  qed (use that in simp)
  ultimately show ?thesis unfolding quota_ok_def f option.map_disc_iff by blast
qed

lemma quota_ok_store:
  assumes "state_ok s" "quota_of u (fs_quotas s) = Some q" "sq_usedBytes q + int (length b) \<le> sq_maxBytes q"
  shows "state_ok (snd (store_file env P k i now u name mime b s))"
proof -
  obtain d z where o: "optimizeImage (fe_images env) b mime = (d, z)" by fastforce
  have "length d \<le> length b" using optimize_shorter [of "fe_images env" b mime] by (simp add: o)
  then have room: "sq_usedBytes q + int (length d) \<le> sq_maxBytes q" using assms(3) by linarith
  obtain res st where up: "sp_upload P (storage_path u k name) d mime (fs_storage s) = (res, st)" by fastforce
  from quota_ok_insert [OF assms(1,2), of "\<lparr>fr_id = i, fr_userId = u, fr_originalName = name, fr_mimeType = mime,
      fr_size = int (length d), fr_storageProvider = provider_name env, fr_storagePath = storage_path u k name,
      fr_cdnUrl = generateCdnUrl env (storage_path u k name), fr_isCompressed = z, fr_isScanned = True,
      fr_isInfected = False, fr_isDeleted = False, fr_createdAt = now, fr_updatedAt = now\<rparr>" "int (length d)"] room assms(1)
  show ?thesis
    by (auto simp: store_file_def o up insert_record_def updateStorageQuota_def Let_def split: prod.splits sum.splits)
qed

lemma quota_ok_upload:
  assumes "state_ok s" shows "state_ok (snd (uploadFile env P k i now u name mime b s))"
proof (cases "validateFile mime (int (length b))")
  case None
  obtain e s1 where c: "checkStorageQuota u (int (length b)) s = (e, s1)" by fastforce
  have s1: "s1 = s\<lparr>fs_quotas := ensure_quota u (fs_quotas s)\<rparr>" using check_simps [of u "int (length b)" s] by (simp add: c)
  have ok1: "state_ok s1" using quota_ok_ensure [OF assms] by (simp add: s1)
  show ?thesis
  proof (cases e)
    case None
    then obtain q where "quota_of u (fs_quotas s1) = Some q" "sq_usedBytes q + int (length b) \<le> sq_maxBytes q"
      using check_passed [of u "int (length b)" s] by (auto simp: c s1)
    from quota_ok_store [OF ok1 this] show ?thesis
      using None \<open>validateFile mime (int (length b)) = None\<close> by (simp add: uploadFile_def c)
  qed (use ok1 None in \<open>simp add: uploadFile_def c\<close>)
qed (use assms in \<open>simp add: uploadFile_def\<close>)

lemma quota_ok_collect: "state_ok s \<Longrightarrow> state_ok (snd (collect P rs n s))"
  by (induction rs arbitrary: n s) (auto simp: quota_ok_filter split: prod.split sum.split)

lemma run_quota_ok: "files_run env P s \<Longrightarrow> state_ok s"
proof (induction rule: files_run.induct)
  case (Start st)
  show ?case by (simp add: quota_ok_def quota_of_def)
next
  case (Initialize s k u name mime n)
  obtain e s1 where c: "checkStorageQuota u n s = (e, s1)" by fastforce
  have s1: "s1 = s\<lparr>fs_quotas := ensure_quota u (fs_quotas s)\<rparr>" using check_simps [of u n s] by (simp add: c)
  have "state_ok s1" using quota_ok_ensure [OF Initialize.IH] by (simp add: s1)
  then show ?case
    using Initialize.IH by (auto simp: initializeChunkedUpload_def c Let_def split: option.split prod.split)
next
  case (Chunk s up part b)
  then show ?case by (auto simp: files_uploadChunk_def Let_def split: option.split prod.split)
next
  case (Delete s now u i)
  then show ?case by (auto simp: deleteFile_def intro: quota_ok_map split: sum.split)
qed (simp_all add: quota_ok_upload quota_ok_collect cleanupDeletedFiles_def)


definition demo_env :: files_env where
  "demo_env = \<lparr>fe_provider_name = None, fe_cdnBase = None, fe_clam_ready = False, fe_clam = (\<lambda>_. Inr (None, None)),
     fe_images = \<lparr>sharp_width = (\<lambda>_. Inr None), sharp_encode = (\<lambda>_ _ b. Inr b)\<rparr>\<rparr>"

definition demo_uploaded :: "local_storage files" where
  "demo_uploaded = snd (uploadFile demo_env (local_provider []) ''k'' ''f1'' 0 ''alice'' ''a.txt'' ''text/plain'' ''abc''
     \<lparr>fs_records = [], fs_quotas = [], fs_storage = \<lparr>ls_cwd = [''srv''], ls_files = [], ls_activeUploads = []\<rparr>\<rparr>)"

lemma demo_uploaded_simps:
  "fs_quotas demo_uploaded = [\<lparr>sq_userId = ''alice'', sq_usedBytes = 3, sq_maxBytes = DEFAULT_MAX_BYTES\<rparr>]"
  by (simp add: demo_uploaded_def uploadFile_def validateFile_def allowedMimeTypes_def maxSizeBytes_def checkStorageQuota_def
      ensure_quota_def quota_of_def DEFAULT_MAX_BYTES_def store_file_def scanBuffer_def demo_env_def optimizeImage_def
      starts_with_def local_provider_def local_upload_def insert_record_def updateStorageQuota_def Let_def)


text \<open>Completions are not charged by what was stored. The total size of a completed chunked upload is taken from the request as it is, positive or
  negative, without a quota check: it can carry the used bytes beyond the quota or take them back to zero.\<close>

theorem completion_size_unchecked:
  assumes "sp_completeMultipartUpload P up path parts (fs_storage s) = (Inr x, st)"
    "quota_of u (fs_quotas s) = Some q" "\<not> list_ex (\<lambda>r. fr_storagePath r = path) (fs_records s)"
  shows "\<forall>used. \<exists>n. quota_of u (fs_quotas (snd (completeChunkedUpload env P i now u up path name mime n parts s))) = Some (q\<lparr>sq_usedBytes := used\<rparr>)"
proof
  fix used
  have "quota_of u (map (\<lambda>y. if sq_userId y = u then y\<lparr>sq_usedBytes := sq_usedBytes y + n\<rparr> else y) (fs_quotas s)) =
      Some (q\<lparr>sq_usedBytes := sq_usedBytes q + n\<rparr>)" for n
    using assms(2) quota_of_user [OF assms(2)] by (subst quota_of_map) auto
  from this [of "used - sq_usedBytes q"] show
    "\<exists>n. quota_of u (fs_quotas (snd (completeChunkedUpload env P i now u up path name mime n parts s))) = Some (q\<lparr>sq_usedBytes := used\<rparr>)"
    by (intro exI [of _ "used - sq_usedBytes q"])
      (use assms in \<open>simp add: completeChunkedUpload_def insert_record_def updateStorageQuota_def Let_def\<close>)
qed

lemma completion_size_unchecked_witness:
  "\<exists>n. quota_of ''alice'' (fs_quotas (snd (completeChunkedUpload demo_env (local_provider []) ''f2'' 0 ''alice'' ''s1'' ''x'' ''x'' ''text/plain'' n []
      (demo_files\<lparr>fs_storage := demo_local\<lparr>ls_files := [([''t''], ''zz'')], ls_activeUploads := [(''s1'', [''t''])]\<rparr>\<rparr>)))) =
    Some \<lparr>sq_userId = ''alice'', sq_usedBytes = - 7, sq_maxBytes = DEFAULT_MAX_BYTES\<rparr>"
proof -
  let ?s = "demo_files\<lparr>fs_storage := demo_local\<lparr>ls_files := [([''t''], ''zz'')], ls_activeUploads := [(''s1'', [''t''])]\<rparr>\<rparr>"
  have "\<exists>st. sp_completeMultipartUpload (local_provider []) ''s1'' ''x'' [] (fs_storage ?s) = (Inr ''x'', st)"
    by (simp add: local_provider_def local_complete_def Let_def)
  then obtain st where "sp_completeMultipartUpload (local_provider []) ''s1'' ''x'' [] (fs_storage ?s) = (Inr ''x'', st)" ..
  from completion_size_unchecked [OF this, of "''alice''" "\<lparr>sq_userId = ''alice'', sq_usedBytes = 3, sq_maxBytes = DEFAULT_MAX_BYTES\<rparr>" demo_env "''f2''" 0 "''x''" "''text/plain''"]
  show ?thesis by (auto simp: demo_files_def quota_of_def demo_record_def)
qed
section \<open>Reading back\<close>

text \<open>With any storage that keeps what it is given, local or in the cloud, an accepted upload is read back.\<close>

context object_store begin

theorem stored_upload_roundtrip:
  assumes "uploadFile env P k i now u name mime b s = (Inr r, s')" "\<forall>z \<in> set (fs_records s). fr_id z \<noteq> i"
  shows "getFile P u i s' = Inr (fst (optimizeImage (fe_images env) b mime), mime) \<and>
    getFile P u i (snd (deleteFile later u i s')) = Inl (NotFoundException ''File not found'')"
proof -
  obtain e s1 where c: "checkStorageQuota u (int (length b)) s = (e, s1)" by fastforce
  have s1: "s1 = s\<lparr>fs_quotas := ensure_quota u (fs_quotas s)\<rparr>" using check_simps [of u "int (length b)" s] by (simp add: c)
  have none: "validateFile mime (int (length b)) = None" "e = None"
    using assms(1) by (auto simp: uploadFile_def c split: option.splits)
  obtain d z where o: "optimizeImage (fe_images env) b mime = (d, z)" by fastforce
  have stored: "store_file env P k i now u name mime b s1 = (Inr r, s')"
    using assms(1) none by (simp add: uploadFile_def c)
  have rec: "fs_records s' = fs_records s @ [r]" "fr_id r = i" "fr_userId r = u" "fr_mimeType r = mime" "\<not> fr_isDeleted r"
      "sp_download P (fr_storagePath r) (fs_storage s') = Inr d"
    using stored by (auto simp: store_file_def o s1 insert_record_def updateStorageQuota_def Let_def
        dest!: upload_download split: prod.splits sum.splits if_splits)
  have "List.find (\<lambda>z. fr_id z = i \<and> \<not> fr_isDeleted z) (fs_records s) = None" "List.find (\<lambda>z. fr_id z = i) (fs_records s) = None"
    using assms(2) by (auto simp: find_None_iff)
  then have f: "live_file i s' = Some r" "List.find (\<lambda>z. fr_id z = i) (fs_records s') = Some r"
    using rec by (simp_all add: live_file_def find_append)
  have "getFile P u i s' = Inr (d, mime)"
    using f rec by (simp add: getFile_def owned_file_def)
  moreover have "live_file i (snd (deleteFile later u i s')) = None"
    using f rec by (auto simp: deleteFile_def owned_file_def live_file_def find_None_iff)
  ultimately show ?thesis by (simp add: o getFile_def owned_file_def)
qed

end

lemmas s3_upload_roundtrip = object_store.stored_upload_roundtrip [OF s3_object_store]
lemmas azure_upload_roundtrip = object_store.stored_upload_roundtrip [OF azure_object_store]


text \<open>No chunk of a file is accepted with S3, whatever its size.\<close>

lemma s3_chunked_upload_fails: "isl (fst (files_uploadChunk (s3_provider c bucket) up n b s))"
  by (auto simp: files_uploadChunk_def s3_provider_def s3_uploadChunk_def split: option.splits)


section \<open>Collection\<close>

abbreviation disk_path :: "local_storage files \<Rightarrow> file_record \<Rightarrow> string list" where
  "disk_path s r \<equiv> path_join (storageDir (fs_storage s)) (fr_storagePath r)"

lemma collect_local:
  "let (n', s') = collect (local_provider x) rs n s
   in n' = n + length rs \<and> fs_records s' = filter (\<lambda>r. fr_id r \<notin> fr_id ` set rs) (fs_records s) \<and> fs_quotas s' = fs_quotas s \<and>
      storageDir (fs_storage s') = storageDir (fs_storage s) \<and>
      (\<forall>p. map_get (ls_files (fs_storage s')) p = (if p \<in> disk_path s ` set rs then None else map_get (ls_files (fs_storage s)) p))"
proof (induction rs arbitrary: n s)
  case Nil
  then show ?case by (simp add: Let_def)
next
  case (Cons r rs)
  let ?s = "s\<lparr>fs_storage := snd (local_delete (fr_storagePath r) (fs_storage s)), fs_records := filter (\<lambda>x. fr_id x \<noteq> fr_id r) (fs_records s)\<rparr>"
  have step: "collect (local_provider x) (r # rs) n s = collect (local_provider x) rs (Suc n) ?s"
    by (simp add: local_provider_def local_delete_def)
  have dir: "storageDir (fs_storage ?s) = storageDir (fs_storage s)" by (simp add: local_delete_def storageDir_def)
  have files: "map_get (ls_files (fs_storage ?s)) p = (if p = disk_path s r then None else map_get (ls_files (fs_storage s)) p)" for p
    by (simp add: local_delete_def)
  obtain n' s' where e: "collect (local_provider x) rs (Suc n) ?s = (n', s')" by fastforce
  have recs: "fs_records ?s = filter (\<lambda>x. fr_id x \<noteq> fr_id r) (fs_records s)" "fs_quotas ?s = fs_quotas s" by simp_all
  from Cons.IH [of "Suc n" ?s, unfolded e dir files recs] show ?case
    unfolding step e by (auto simp: conj_commute)
qed



end
