(* ===== verification/Queue.thy ===== *)
theory Queue
  imports JS_Text
begin

text \<open>
  Background jobs (src/modules/queue): the queue service, its metrics, the processors and the check
  of cron expressions.

  The queues are Bull's, a third-party library: a queue is a value of type \<open>'q\<close> and the record
  \<open>bull\<close> holds the operations the services call; what they rely on is \<open>bull_laws\<close>, Bull's documented
  behaviour, stated over the map \<open>jobs\<close> of a queue's jobs to their states: an id in use is not added
  again, a job being processed is locked and not removed. Calls that reject are outside the model. Random ids and the clock are arguments; log lines and the simulated waiting of
  the processors are left out. Shown are: a job goes to the queue of its priority with its options, is
  found by its id until it is cancelled and not after, and no other job is affected.
\<close>

section \<open>Jobs\<close>

datatype job_priority = HIGH | MEDIUM | LOW

definition priority_value :: "job_priority \<Rightarrow> int" where
  "priority_value p = (case p of HIGH \<Rightarrow> 1 | MEDIUM \<Rightarrow> 3 | LOW \<Rightarrow> 5)"

text \<open>Ordered by urgency; the enumeration counts the other way.\<close>

instantiation job_priority :: linorder
begin

definition less_eq_job_priority :: "job_priority \<Rightarrow> job_priority \<Rightarrow> bool" where
  "less_eq_job_priority p q \<longleftrightarrow> priority_value q \<le> priority_value p"

definition less_job_priority :: "job_priority \<Rightarrow> job_priority \<Rightarrow> bool" where
  "less_job_priority p q \<longleftrightarrow> priority_value q < priority_value p"

instance
proof
  fix p q :: job_priority
  show "p \<le> q \<Longrightarrow> q \<le> p \<Longrightarrow> p = q"
    by (cases p; cases q) (simp_all add: less_eq_job_priority_def priority_value_def)
qed (auto simp: less_eq_job_priority_def less_job_priority_def)

end

datatype job_status = PENDING | PROCESSING | COMPLETED | FAILED | CANCELLED | RETRYING | DEAD_LETTERED

record job_data =
  jd_id :: string
  jd_type :: string
  jd_payload :: json
  jd_priority :: job_priority
  jd_retryCount :: int
  jd_maxRetries :: int
  jd_timeout :: int
  jd_scheduledAt :: "int option"
  jd_metadata :: "json option"
  jd_cronExpression :: "string option"

text \<open>The options of Bull: the backoff is always exponential from a second.\<close>

record job_opts =
  jo_jobId :: string
  jo_priority :: int
  jo_attempts :: int
  jo_backoffDelay :: int
  jo_timeout :: int
  jo_delay :: "int option"

record job_request =
  jr_priority :: "job_priority option"
  jr_maxRetries :: "int option"
  jr_timeout :: "int option"
  jr_delay :: "int option"
  jr_scheduledAt :: "int option"
  jr_metadata :: "json option"

text \<open>\<open>n || d\<close> for a number that may be missing: zero counts as missing.\<close>

definition or_number :: "int option \<Rightarrow> int \<Rightarrow> int" where
  "or_number n d = (case n of Some k \<Rightarrow> if k = 0 then d else k | None \<Rightarrow> d)"

section \<open>Queues\<close>

record queue_counts =
  qc_waiting :: nat
  qc_active :: nat
  qc_completed :: nat
  qc_failed :: nat
  qc_delayed :: nat

record ('j, 'q) bull =
  b_add :: "string \<Rightarrow> job_data \<Rightarrow> job_opts \<Rightarrow> 'q \<Rightarrow> 'q"
  b_getJob :: "string \<Rightarrow> 'q \<Rightarrow> 'j option"
  b_getState :: "'j \<Rightarrow> 'q \<Rightarrow> string"
  b_remove :: "'j \<Rightarrow> 'q \<Rightarrow> 'q"
  b_logs :: "string \<Rightarrow> 'q \<Rightarrow> string list"
  b_counts :: "'q \<Rightarrow> queue_counts"

record 'q queues =
  defaultQueue :: 'q
  highPriorityQueue :: 'q
  lowPriorityQueue :: 'q
  deadLetterQueue :: 'q

text \<open>The queue a priority selects, as the update of the record of queues.\<close>

definition getQueueForPriority :: "job_priority \<Rightarrow> ('q \<Rightarrow> 'q) \<Rightarrow> 'q queues \<Rightarrow> 'q queues" where
  "getQueueForPriority priority f qs =
     (if priority = HIGH then qs\<lparr>highPriorityQueue := f (highPriorityQueue qs)\<rparr>
      else if priority = LOW then qs\<lparr>lowPriorityQueue := f (lowPriorityQueue qs)\<rparr>
      else qs\<lparr>defaultQueue := f (defaultQueue qs)\<rparr>)"

definition getBullPriority :: "job_priority \<Rightarrow> int" where
  "getBullPriority priority = (case priority of HIGH \<Rightarrow> 1 | MEDIUM \<Rightarrow> 3 | LOW \<Rightarrow> 5)"

text \<open>Bull takes smaller numbers first: the more urgent of two jobs comes first.\<close>

lemma urgent_first: "p < q \<longleftrightarrow> getBullPriority q < getBullPriority p"
  by (simp add: less_job_priority_def getBullPriority_def priority_value_def)

definition addJob ::
  "('j, 'q) bull \<Rightarrow> string \<Rightarrow> string \<Rightarrow> json \<Rightarrow> job_request \<Rightarrow> 'q queues \<Rightarrow> string \<times> 'q queues" where
  "addJob B jobId ty payload options qs =
     (let priority = or_else (jr_priority options) MEDIUM;
          jobData = \<lparr>jd_id = jobId, jd_type = ty, jd_payload = payload, jd_priority = priority, jd_retryCount = 0,
            jd_maxRetries = or_number (jr_maxRetries options) 3, jd_timeout = or_number (jr_timeout options) 30000,
            jd_scheduledAt = jr_scheduledAt options, jd_metadata = jr_metadata options, jd_cronExpression = None\<rparr>;
          opts = \<lparr>jo_jobId = jobId, jo_priority = getBullPriority priority,
            jo_attempts = or_number (jr_maxRetries options) 3, jo_backoffDelay = 1000,
            jo_timeout = or_number (jr_timeout options) 30000, jo_delay = Some (or_number (jr_delay options) 0)\<rparr>
      in (jobId, getQueueForPriority priority (b_add B ty jobData opts) qs))"

definition scheduleJob ::
  "('j, 'q) bull \<Rightarrow> string \<Rightarrow> string \<Rightarrow> json \<Rightarrow> string \<Rightarrow> job_request \<Rightarrow> 'q queues \<Rightarrow> string \<times> 'q queues" where
  "scheduleJob B jobId ty payload cronExpression options qs =
     (let priority = or_else (jr_priority options) MEDIUM;
          jobData = \<lparr>jd_id = jobId, jd_type = ty, jd_payload = payload, jd_priority = priority, jd_retryCount = 0,
            jd_maxRetries = or_number (jr_maxRetries options) 3, jd_timeout = or_number (jr_timeout options) 30000,
            jd_scheduledAt = None, jd_metadata = jr_metadata options, jd_cronExpression = Some cronExpression\<rparr>;
          opts = \<lparr>jo_jobId = jobId, jo_priority = getBullPriority priority,
            jo_attempts = or_number (jr_maxRetries options) 3, jo_backoffDelay = 1000,
            jo_timeout = or_number (jr_timeout options) 30000, jo_delay = None\<rparr>
      in (jobId, getQueueForPriority priority (b_add B ty jobData opts) qs))"

definition status_of_state :: "string \<Rightarrow> job_status" where
  "status_of_state state =
     (if state = ''waiting'' \<or> state = ''delayed'' then PENDING
      else if state = ''active'' then PROCESSING
      else if state = ''completed'' then COMPLETED
      else if state = ''failed'' then FAILED else PENDING)"

definition getJobStatus :: "('j, 'q) bull \<Rightarrow> string \<Rightarrow> 'q queues \<Rightarrow> job_status option" where
  "getJobStatus B jobId qs =
     (case b_getJob B jobId (defaultQueue qs) of
        Some j \<Rightarrow> Some (status_of_state (b_getState B j (defaultQueue qs)))
      | None \<Rightarrow>
          (case b_getJob B jobId (highPriorityQueue qs) of
             Some j \<Rightarrow> Some (status_of_state (b_getState B j (highPriorityQueue qs)))
           | None \<Rightarrow> map_option (\<lambda>j. status_of_state (b_getState B j (lowPriorityQueue qs)))
               (b_getJob B jobId (lowPriorityQueue qs))))"

definition cancelJob :: "('j, 'q) bull \<Rightarrow> string \<Rightarrow> 'q queues \<Rightarrow> bool \<times> 'q queues" where
  "cancelJob B jobId qs =
     (case b_getJob B jobId (defaultQueue qs) of
        Some j \<Rightarrow> (True, qs\<lparr>defaultQueue := b_remove B j (defaultQueue qs)\<rparr>)
      | None \<Rightarrow>
          (case b_getJob B jobId (highPriorityQueue qs) of
             Some j \<Rightarrow> (True, qs\<lparr>highPriorityQueue := b_remove B j (highPriorityQueue qs)\<rparr>)
           | None \<Rightarrow>
               (case b_getJob B jobId (lowPriorityQueue qs) of
                  Some j \<Rightarrow> (True, qs\<lparr>lowPriorityQueue := b_remove B j (lowPriorityQueue qs)\<rparr>)
                | None \<Rightarrow> (False, qs))))"

text \<open>The time stamps of the history are those of the call.\<close>

definition getJobHistory :: "('j, 'q) bull \<Rightarrow> int \<Rightarrow> string \<Rightarrow> 'q queues \<Rightarrow> (int \<times> string) list" where
  "getJobHistory B now jobId qs =
     (case List.find (\<lambda>q. b_getJob B jobId q \<noteq> None) [defaultQueue qs, highPriorityQueue qs, lowPriorityQueue qs] of
        Some q \<Rightarrow> map (\<lambda>msg. (now, msg)) (b_logs B jobId q)
      | None \<Rightarrow> [])"

definition getQueueMetrics :: "('j, 'q) bull \<Rightarrow> 'q queues \<Rightarrow> queue_counts jsmap" where
  "getQueueMetrics B qs =
     [(''default'', b_counts B (defaultQueue qs)), (''high-priority'', b_counts B (highPriorityQueue qs)),
      (''low-priority'', b_counts B (lowPriorityQueue qs))]"

definition getQueueByName :: "string \<Rightarrow> 'q queues \<Rightarrow> 'q option" where
  "getQueueByName name qs =
     (if name = ''default'' then Some (defaultQueue qs)
      else if name = ''high-priority'' then Some (highPriorityQueue qs)
      else if name = ''low-priority'' then Some (lowPriorityQueue qs) else None)"

definition getJobCounts :: "('j, 'q) bull \<Rightarrow> string \<Rightarrow> 'q queues \<Rightarrow> error + queue_counts" where
  "getJobCounts B queueName qs =
     (case getQueueByName queueName qs of
        None \<Rightarrow> Inl (JsError (''Queue '' @ queueName @ '' not found''))
      | Some q \<Rightarrow> Inr (b_counts B q))"

text \<open>The periodic log: the counts of each queue, and again as \<open>total\<close>.\<close>

definition collectMetrics :: "('j, 'q) bull \<Rightarrow> 'q queues \<Rightarrow> (queue_counts \<times> queue_counts) jsmap" where
  "collectMetrics B qs = map (\<lambda>(name, counts). (name, (counts, counts))) (getQueueMetrics B qs)"

section \<open>Processing\<close>

text \<open>\<open>payload.name\<close>: absent in a value that is no object, an exception for \<open>null\<close>.\<close>

definition payload_field :: "string \<Rightarrow> json \<Rightarrow> error + json option" where
  "payload_field name payload =
     (case payload of
        JNull \<Rightarrow> Inl (JsError (''Cannot read properties of null (reading '' @ name @ '')''))
      | JObj fs \<Rightarrow> Inr (map_of fs name)
      | _ \<Rightarrow> Inr None)"

text \<open>The result of a job, field by field; \<open>now\<close> is the clock at the end of the simulated work.\<close>

definition processJob :: "int \<Rightarrow> string \<Rightarrow> json \<Rightarrow> error + (string \<times> json option) list" where
  "processJob now ty payload =
     (if ty = ''email'' then
        map_sum (\<lambda>e. e) (\<lambda>to_field. [(''sent'', Some (JBool True)), (''to'', to_field)]) (payload_field ''to'' payload)
      else if ty = ''webhook'' then
        map_sum (\<lambda>e. e) (\<lambda>url. [(''delivered'', Some (JBool True)), (''url'', url)]) (payload_field ''url'' payload)
      else if ty = ''report'' then
        map_sum (\<lambda>e. e) (\<lambda>_. [(''generated'', Some (JBool True)), (''reportId'', Some (JStr (''rep_'' @ string_of_int now)))])
          (payload_field ''reportType'' payload)
      else if ty = ''sync'' then
        (case payload_field ''source'' payload of
           Inl e \<Rightarrow> Inl e
         | Inr _ \<Rightarrow> map_sum (\<lambda>e. e) (\<lambda>records. [(''synced'', Some (JBool True)),
               (''records'', Some (case records of Some r \<Rightarrow> if falsy r then JNum 0 else r | None \<Rightarrow> JNum 0))])
             (payload_field ''records'' payload))
      else Inl (JsError (''Unknown job type: '' @ ty)))"

record job_result =
  jx_success :: bool
  jx_data :: "(string \<times> json option) list"
  jx_processedAt :: int
  jx_processingTime :: int

text \<open>A failure is thrown on to Bull, which retries the job.\<close>

definition handleJob :: "int \<Rightarrow> int \<Rightarrow> int \<Rightarrow> int \<Rightarrow> job_data \<Rightarrow> error + job_result" where
  "handleJob startTime t processedAt t' job =
     (case processJob t (jd_type job) (jd_payload job) of
        Inl e \<Rightarrow> Inl e
      | Inr r \<Rightarrow> Inr \<lparr>jx_success = True, jx_data = r, jx_processedAt = processedAt, jx_processingTime = t' - startTime\<rparr>)"

section \<open>Cron expressions\<close>

text \<open>The regular expression of the schedule request: five fields between single spaces, each a star, a
  number of its range without leading zeros, or a star, a slash and such a number.\<close>

definition cron_number :: "nat \<Rightarrow> nat \<Rightarrow> string \<Rightarrow> bool" where
  "cron_number lo hi s = (s \<in> set (map digits_of [lo..<Suc hi]))"

definition cron_field :: "nat \<Rightarrow> nat \<Rightarrow> string \<Rightarrow> bool" where
  "cron_field lo hi s = (s = ''*'' \<or> cron_number lo hi s \<or> (take 2 s = ''*/'' \<and> cron_number lo hi (drop 2 s)))"

definition cron_expression :: "string \<Rightarrow> bool" where
  "cron_expression s =
     (case split_on CHR '' '' s of
        [m, h, d, mo, w] \<Rightarrow> cron_field 0 59 m \<and> cron_field 0 23 h \<and> cron_field 1 31 d \<and> cron_field 1 12 mo \<and> cron_field 0 6 w
      | _ \<Rightarrow> False)"

section \<open>The life of a job\<close>

definition bull_laws :: "('j, 'q) bull \<Rightarrow> ('q \<Rightarrow> string \<Rightarrow> string option) \<Rightarrow> bool" where
  "bull_laws B jobs \<longleftrightarrow>
     (\<forall>ty d opts q. jobs q (jo_jobId opts) = None \<longrightarrow>
        jobs (b_add B ty d opts q) = (jobs q)(jo_jobId opts \<mapsto> (if 0 < or_else (jo_delay opts) 0 then ''delayed'' else ''waiting''))) \<and>
     (\<forall>i q. b_getJob B i q = None \<longleftrightarrow> jobs q i = None) \<and>
     (\<forall>i q j. b_getJob B i q = Some j \<longrightarrow> jobs q i = Some (b_getState B j q)) \<and>
     (\<forall>i q j. b_getJob B i q = Some j \<and> b_getState B j q \<noteq> ''active'' \<longrightarrow> jobs (b_remove B j q) = (jobs q)(i := None))"

definition queued :: "('q \<Rightarrow> string \<Rightarrow> string option) \<Rightarrow> string \<Rightarrow> 'q queues \<Rightarrow> string option list" where
  "queued jobs i qs = [jobs (defaultQueue qs) i, jobs (highPriorityQueue qs) i, jobs (lowPriorityQueue qs) i]"

definition place :: "job_priority \<Rightarrow> nat" where
  "place p = (case p of MEDIUM \<Rightarrow> 0 | HIGH \<Rightarrow> 1 | LOW \<Rightarrow> 2)"

lemma bull_none: "bull_laws B jobs \<Longrightarrow> jobs q i = None \<Longrightarrow> b_getJob B i q = None"
  by (simp add: bull_laws_def)

lemma bull_some:
  assumes "bull_laws B jobs" "jobs q i = Some st"
  shows "\<exists>j. b_getJob B i q = Some j \<and> b_getState B j q = st \<and> (st \<noteq> ''active'' \<longrightarrow> jobs (b_remove B j q) = (jobs q)(i := None))"
proof -
  have "b_getJob B i q \<noteq> None" using assms by (simp add: bull_laws_def)
  then obtain j where j: "b_getJob B i q = Some j" by blast
  then have "jobs q i = Some (b_getState B j q)"
    "b_getState B j q \<noteq> ''active'' \<Longrightarrow> jobs (b_remove B j q) = (jobs q)(i := None)"
    using assms(1) unfolding bull_laws_def by blast+
  then show ?thesis using j assms(2) by simp
qed

lemma status_queued:
  assumes "bull_laws B jobs"
  shows "getJobStatus B i qs = (case List.find (\<lambda>x. x \<noteq> None) (queued jobs i qs) of
      Some (Some st) \<Rightarrow> Some (status_of_state st) | _ \<Rightarrow> None)"
proof (cases "jobs (defaultQueue qs) i")
  case d: None
  show ?thesis
  proof (cases "jobs (highPriorityQueue qs) i")
    case h: None
    show ?thesis
    proof (cases "jobs (lowPriorityQueue qs) i")
      case None
      then show ?thesis by (simp add: getJobStatus_def queued_def bull_none [OF assms] d h)
    next
      case (Some st)
      from bull_some [OF assms this] show ?thesis
        by (auto simp: getJobStatus_def queued_def bull_none [OF assms] d h Some)
    qed
  next
    case (Some st)
    from bull_some [OF assms this] show ?thesis by (auto simp: getJobStatus_def queued_def bull_none [OF assms] d Some)
  qed
next
  case (Some st)
  from bull_some [OF assms this] show ?thesis by (auto simp: getJobStatus_def queued_def Some)
qed

lemma queued_add:
  assumes "bull_laws B jobs" "queued jobs (jo_jobId opts) qs = replicate 3 None"
  shows "queued jobs k (getQueueForPriority p (b_add B ty d opts) qs) =
    (if k = jo_jobId opts then (queued jobs k qs)[place p := Some (if 0 < or_else (jo_delay opts) 0 then ''delayed'' else ''waiting'')]
     else queued jobs k qs)"
  using assms by (cases p) (auto simp: getQueueForPriority_def queued_def bull_laws_def place_def numeral_3_eq_3)

text \<open>Cancelling takes the job out of the first queue that has it.\<close>

lemma queued_cancel:
  assumes "bull_laws B jobs" "queued jobs i qs = (replicate 3 None)[n := Some st]" "n < 3" "st \<noteq> ''active''"
  shows "fst (cancelJob B i qs) \<and> queued jobs k (snd (cancelJob B i qs)) = (if k = i then replicate 3 None else queued jobs k qs)"
proof -
  note defs = cancelJob_def queued_def numeral_3_eq_3 numeral_2_eq_2 bull_none [OF assms(1)]
  consider "n = 0" | "n = 1" | "n = 2" using assms(3) by linarith
  then show ?thesis
  proof cases
    case 1
    then have q: "jobs (defaultQueue qs) i = Some st" "jobs (highPriorityQueue qs) i = None" "jobs (lowPriorityQueue qs) i = None"
      using assms(2) by (simp_all add: queued_def numeral_3_eq_3)
    with bull_some [OF assms(1) q(1)] assms(4) show ?thesis by (auto simp: defs)
  next
    case 2
    then have q: "jobs (defaultQueue qs) i = None" "jobs (highPriorityQueue qs) i = Some st" "jobs (lowPriorityQueue qs) i = None"
      using assms(2) by (simp_all add: queued_def numeral_3_eq_3)
    with bull_some [OF assms(1) q(2)] assms(4) show ?thesis by (auto simp: defs)
  next
    case 3
    then have q: "jobs (defaultQueue qs) i = None" "jobs (highPriorityQueue qs) i = None" "jobs (lowPriorityQueue qs) i = Some st"
      using assms(2) by (simp_all add: queued_def numeral_3_eq_3 numeral_2_eq_2)
    with bull_some [OF assms(1) q(3)] assms(4) show ?thesis by (auto simp: defs)
  qed
qed

text \<open>C33. The life of a job. A job added under a fresh id is pending in the queue of its priority and in no other; cancelling it once succeeds and
  removes it, cancelling again does not; no step affects another job.\<close>

theorem job_lifecycle:
  assumes "bull_laws B jobs" "queued jobs i qs = replicate 3 None"
  shows "let (i', q1) = addJob B i ty payload rq qs; (ok, q2) = cancelJob B i q1; (again, q3) = cancelJob B i q2
    in i' = i \<and> getJobStatus B i q1 = Some PENDING \<and>
       map (\<lambda>x. x \<noteq> None) (queued jobs i q1) = (replicate 3 False)[place (or_else (jr_priority rq) MEDIUM) := True] \<and>
       ok \<and> getJobStatus B i q2 = None \<and> \<not> again \<and> q3 = q2 \<and>
       (\<forall>k. k \<noteq> i \<longrightarrow> queued jobs k q1 = queued jobs k qs \<and> queued jobs k q2 = queued jobs k qs)"
proof -
  let ?p = "or_else (jr_priority rq) MEDIUM"
  have p: "place ?p < 3" by (simp add: place_def split: job_priority.split)
  obtain q1 where a: "addJob B i ty payload rq qs = (i, q1)" by (simp add: addJob_def Let_def)
  obtain st where q1: "queued jobs i q1 = (replicate 3 None)[place ?p := Some st]" "status_of_state st = PENDING" "st \<noteq> ''active''"
      "k \<noteq> i \<Longrightarrow> queued jobs k q1 = queued jobs k qs" for k
    using a assms by (auto simp: addJob_def Let_def queued_add status_of_state_def)
  obtain q2 where c: "cancelJob B i q1 = (True, q2)" "queued jobs i q2 = replicate 3 None" "k \<noteq> i \<Longrightarrow> queued jobs k q2 = queued jobs k q1" for k
    using queued_cancel [OF assms(1) q1(1) p q1(3)] by (metis prod.collapse)
  have none: "jobs (defaultQueue q2) i = None" "jobs (highPriorityQueue q2) i = None" "jobs (lowPriorityQueue q2) i = None"
    using c(2) by (simp_all add: queued_def numeral_3_eq_3)
  then have again: "cancelJob B i q2 = (False, q2)"
    by (simp add: cancelJob_def bull_none [OF assms(1)])
  have "List.find (\<lambda>x. x \<noteq> None) ((replicate 3 None)[place ?p := Some st]) = Some (Some st)"
    by (simp add: place_def numeral_3_eq_3 split: job_priority.split)
  then have "getJobStatus B i q1 = Some PENDING" "getJobStatus B i q2 = None"
    using q1 c(2) by (simp_all add: status_queued [OF assms(1)] numeral_3_eq_3)
  moreover have "map (\<lambda>x. x \<noteq> None) (queued jobs i q1) = (replicate 3 False)[place ?p := True]"
    by (simp add: q1(1) map_update)
  ultimately show ?thesis using q1(4) c(1,3) again by (simp add: a Let_def)
qed

text \<open>A queue that is a map from ids to states.\<close>

definition list_bull :: "(string, (string \<times> string) list) bull" where
  "list_bull = \<lparr>b_add = (\<lambda>ty d opts q. map_set (jo_jobId opts) (if 0 < or_else (jo_delay opts) 0 then ''delayed'' else ''waiting'') q),
     b_getJob = (\<lambda>i q. map_option (\<lambda>_. i) (map_get q i)), b_getState = (\<lambda>j q. or_else (map_get q j) []),
     b_remove = map_delete, b_logs = (\<lambda>_ _. []),
     b_counts = (\<lambda>q. \<lparr>qc_waiting = length q, qc_active = 0, qc_completed = 0, qc_failed = 0, qc_delayed = 0\<rparr>)\<rparr>"

lemma list_bull_laws: "bull_laws list_bull map_get"
  by (auto simp: bull_laws_def list_bull_def fun_eq_iff)

lemma job_lifecycle_witness:
  "let qs = \<lparr>defaultQueue = [], highPriorityQueue = [(''j1'', ''active'')], lowPriorityQueue = [], deadLetterQueue = []\<rparr>;
       rq = \<lparr>jr_priority = Some HIGH, jr_maxRetries = None, jr_timeout = None, jr_delay = Some 500, jr_scheduledAt = None, jr_metadata = None\<rparr>;
       (i', q1) = addJob list_bull ''j2'' ''email'' JNull rq qs; (ok, q2) = cancelJob list_bull ''j2'' q1
    in getJobStatus list_bull ''j2'' q1 = Some PENDING \<and> ok \<and> getJobStatus list_bull ''j2'' q2 = None"
  using job_lifecycle [OF list_bull_laws, of "''j2''"
      "\<lparr>defaultQueue = [], highPriorityQueue = [(''j1'', ''active'')], lowPriorityQueue = [], deadLetterQueue = []\<rparr>" "''email''" JNull
      "\<lparr>jr_priority = Some HIGH, jr_maxRetries = None, jr_timeout = None, jr_delay = Some 500, jr_scheduledAt = None, jr_metadata = None\<rparr>"]
  by (simp add: queued_def numeral_3_eq_3 Let_def case_prod_beta)

text \<open>A request for no retry, which the request class admits, gets three attempts.\<close>

lemma zero_retries: "or_number (Some 0) 3 = or_number None 3"
  by (simp add: or_number_def)

text \<open>The two encodings of the priority agree.\<close>

lemma getBullPriority_value: "getBullPriority p = priority_value p"
  by (cases p) (simp_all add: getBullPriority_def priority_value_def)

text \<open>A job of an unknown type fails, one of a known type with an object as payload succeeds.\<close>

lemma handleJob_known:
  assumes "jd_payload job = JObj fs"
  shows "isl (handleJob t0 t t1 t2 job) \<longleftrightarrow> jd_type job \<notin> {''email'', ''webhook'', ''report'', ''sync''}"
  using assms by (auto simp: handleJob_def processJob_def payload_field_def split: sum.split)

end
