(* ===== verification/Redaction.thy ===== *)
theory Redaction
  imports JS_Text
begin

text \<open>
  Keeping secrets out of the logs (src/logging/utils/redact.util.ts).

  \<open>redactSensitiveData\<close> walks a value, here a JSON value, and \<open>redactUrlParams\<close> the query parameters of
  a URL. The URL parser of the platform is an argument: its answer is the path, whether there is a
  query and the list of parameters. Shown are: up to the depth bound the walk replaces exactly the
  values of the sensitive keys and keeps everything else, it is idempotent, below the bound secrets
  remain; the loop over the live parameter list ends and leaves no sensitive parameter its value.
\<close>

section \<open>Values\<close>

definition DEFAULT_SENSITIVE_KEYS :: "string list" where
  "DEFAULT_SENSITIVE_KEYS =
     [''password'', ''passwd'', ''secret'', ''token'', ''accesstoken'', ''refreshtoken'', ''authorization'', ''apikey'', ''api_key'',
      ''privatekey'', ''private_key'', ''secretkey'', ''secret_key'', ''creditcard'', ''credit_card'', ''cardnumber'', ''card_number'',
      ''cvv'', ''ssn'', ''socialsecuritynumber'', ''passphrase'', ''mnemonic'', ''seed'']"

definition REDACTED :: string where "REDACTED = ''[REDACTED]''"

text \<open>Assigning the property \<open>__proto__\<close> of a new object creates no entry.\<close>

definition PROTO :: string where "PROTO = ''__proto__''"

fun redactSensitiveData :: "string list \<Rightarrow> nat \<Rightarrow> json \<Rightarrow> json" where
  "redactSensitiveData keys depth (JArr xs) =
     (if 10 < depth then JArr xs else JArr (map (redactSensitiveData keys (Suc depth)) xs))"
| "redactSensitiveData keys depth (JObj fs) =
     (if 10 < depth then JObj fs
      else JObj (concat (map (\<lambda>(k, v). if k = PROTO then []
        else [(k, if to_lower k \<in> set keys then JStr REDACTED else redactSensitiveData keys (Suc depth) v)]) fs)))"
| "redactSensitiveData keys depth v = v"

text \<open>What stands for the value of a key in the copy.\<close>

definition logged_value :: "string list \<Rightarrow> nat \<Rightarrow> string \<Rightarrow> json \<Rightarrow> json" where
  "logged_value keys depth k v = (if to_lower k \<in> set keys then JStr REDACTED else redactSensitiveData keys depth v)"

lemma redact_object [simp]:
  "redactSensitiveData keys depth (JObj fs) =
     (if 10 < depth then JObj fs
      else JObj (concat (map (\<lambda>(k, v). if k = PROTO then [] else [(k, logged_value keys (Suc depth) k v)]) fs)))"
  by (simp add: logged_value_def cong: if_cong)

declare redactSensitiveData.simps(2) [simp del]

text \<open>The value at the end of a path of keys and indices.\<close>

datatype step = Key string | Ix nat

fun json_at :: "step list \<Rightarrow> json \<Rightarrow> json option" where
  "json_at [] j = Some j"
| "json_at (Key k # p) (JObj fs) = (case map_of fs k of Some v \<Rightarrow> json_at p v | None \<Rightarrow> None)"
| "json_at (Ix i # p) (JArr xs) = (if i < length xs then json_at p (xs ! i) else None)"
| "json_at (st # p) v = None"

definition sensitive_step :: "string list \<Rightarrow> step \<Rightarrow> bool" where
  "sensitive_step keys st = (case st of Key k \<Rightarrow> to_lower k \<in> set keys | Ix _ \<Rightarrow> False)"

definition clean_path :: "string list \<Rightarrow> step list \<Rightarrow> bool" where
  "clean_path keys p = list_all (\<lambda>st. \<not> sensitive_step keys st \<and> st \<noteq> Key PROTO) p"

lemma map_of_redacted:
  "map_of (concat (map (\<lambda>(k, v). if k = PROTO then [] else [(k, f k v)]) fs)) k =
     (if k = PROTO then None else map_option (f k) (map_of fs k))"
  by (induction fs) auto

lemma json_at_scalar: "p \<noteq> [] \<Longrightarrow> json_at p (JStr s) = None"
  by (cases p) auto

lemma json_at_redacted:
  assumes "d + length p \<le> 10"
  shows "json_at (p @ [Key k]) (redactSensitiveData keys d j) =
    (if clean_path keys p \<and> k \<noteq> PROTO
     then map_option (logged_value keys (Suc (d + length p)) k)
       (json_at (p @ [Key k]) j)
     else None)"
  using assms
proof (induction p arbitrary: d j)
  case Nil
  then show ?case by (cases j) (auto simp: map_of_redacted clean_path_def split: option.split)
next
  case (Cons st p)
  show ?case
  proof (cases st)
    case (Key k')
    then show ?thesis
      using Cons
      by (cases j) (auto simp: logged_value_def [of _ _ k'] map_of_redacted clean_path_def sensitive_step_def json_at_scalar
          split: option.split)
  next
    case (Ix i)
    then show ?thesis using Cons by (cases j) (auto simp: clean_path_def sensitive_step_def)
  qed
qed



lemma redact_idempotent:
  "redactSensitiveData keys d (redactSensitiveData keys d j) = redactSensitiveData keys d j"
proof (induction keys d j rule: redactSensitiveData.induct)
  case (2 keys depth fs)
  show ?case
  proof (cases "10 < depth")
    case False
    let ?entry = "\<lambda>(k, v). if k = PROTO then [] else [(k, logged_value keys (Suc depth) k v)]"
    have "logged_value keys (Suc depth) k (logged_value keys (Suc depth) k v) = logged_value keys (Suc depth) k v"
      if "(k, v) \<in> set fs" "k \<noteq> PROTO" for k v
      using 2 [OF False that(1) refl that(2)] by (simp add: logged_value_def)
    then have "concat (map ?entry (concat (map ?entry fs))) = concat (map ?entry fs)"
      by (induction fs) auto
    then show ?thesis using False by (simp add: redact_object)
  qed simp
qed (simp_all cong: map_cong)

text \<open>Eleven steps down nothing is replaced.\<close>

lemma deep_secrets_remain:
  assumes "clean_path keys p" "length p = 11" "json_at (p @ [Key k]) j = Some v"
  shows "json_at (p @ [Key k]) (redactSensitiveData keys 0 j) = Some v"
proof -
  have "json_at (p @ [Key k]) (redactSensitiveData keys d j) = json_at (p @ [Key k]) j" if "d + length p = 11" "clean_path keys p" for d
    using that
  proof (induction p arbitrary: d j)
    case Nil
    then show ?case by (cases j) auto
  next
    case (Cons st p)
    show ?case
    proof (cases st)
      case (Key k')
      then show ?thesis
        using Cons by (cases j) (auto simp: logged_value_def [of _ _ k'] map_of_redacted clean_path_def sensitive_step_def split: option.split)
    next
      case (Ix i)
      then show ?thesis using Cons by (cases j) (auto simp: clean_path_def)
    qed
  qed
  from this [of 0] assms show ?thesis by simp
qed
section \<open>URLs\<close>

text \<open>\<open>encodeURIComponent\<close>: the bytes of the UTF-8 encoding, two for the code units from 128 on.\<close>

definition hex_digit :: "nat \<Rightarrow> char" where "hex_digit n = ''0123456789ABCDEF'' ! n"

definition percent :: "nat \<Rightarrow> string" where "percent n = [CHR ''%'', hex_digit (n div 16), hex_digit (n mod 16)]"

definition unreserved :: "char \<Rightarrow> bool" where
  "unreserved c \<longleftrightarrow> c \<in> set (''abcdefghijklmnopqrstuvwxyzABCDEFGHIJKLMNOPQRSTUVWXYZ0123456789-_.!~*()'' @ [CHR 0x27])"

definition encodeURIComponent :: "string \<Rightarrow> string" where
  "encodeURIComponent s =
     concat (map (\<lambda>c. let n = of_char c :: nat in
       if unreserved c then [c] else if n < 128 then percent n
       else percent (192 + n div 64) @ percent (128 + n mod 64)) s)"

text \<open>\<open>s.replace(old, new)\<close>: the first occurrence.\<close>

fun replace_first :: "string \<Rightarrow> string \<Rightarrow> string \<Rightarrow> string" where
  "replace_first old new [] = (if old = [] then new else [])"
| "replace_first old new (c # cs) =
     (if take (length old) (c # cs) = old then new @ drop (length old) (c # cs) else c # replace_first old new cs)"

record parsed_url =
  pu_pathname :: string
  pu_search :: bool
  pu_params :: "(string \<times> string) list"

text \<open>\<open>searchParams.set\<close>: the first parameter of the name gets the value, the others are removed.\<close>

fun params_set :: "string \<Rightarrow> string \<Rightarrow> (string \<times> string) list \<Rightarrow> (string \<times> string) list" where
  "params_set name val [] = [(name, val)]"
| "params_set name val ((k, v) # ps) =
     (if k = name then (k, val) # filter (\<lambda>p. fst p \<noteq> name) ps else (k, v) # params_set name val ps)"

lemma length_params_set: "name \<in> fst ` set ps \<Longrightarrow> length (params_set name val ps) \<le> length ps"
  by (induction ps) (auto simp: le_SucI, force)

definition sensitive_name :: "string \<Rightarrow> bool" where
  "sensitive_name k \<longleftrightarrow> to_lower k \<in> set DEFAULT_SENSITIVE_KEYS"

text \<open>\<open>forEach\<close> visits the live list by position.\<close>

function redact_params :: "nat \<Rightarrow> (string \<times> string) list \<Rightarrow> (string \<times> string) list" where
  "redact_params i ps =
     (if i < length ps
      then redact_params (Suc i) (if sensitive_name (fst (ps ! i)) then params_set (fst (ps ! i)) REDACTED ps else ps)
      else ps)"
  by auto

termination
proof (relation "measure (\<lambda>(i, ps). length ps - i)")
  fix i and ps :: "(string \<times> string) list" assume i: "i < length ps"
  then have "fst (ps ! i) \<in> fst ` set ps" by simp
  from length_params_set [OF this, of REDACTED] i
  show "((Suc i, if sensitive_name (fst (ps ! i)) then params_set (fst (ps ! i)) REDACTED ps else ps), i, ps)
      \<in> measure (\<lambda>(i, ps). length ps - i)"
    by auto
qed simp

declare redact_params.simps [simp del]

definition redactUrlParams :: "(string \<Rightarrow> parsed_url option) \<Rightarrow> string \<Rightarrow> string" where
  "redactUrlParams parse_url url =
     (case parse_url url of
        None \<Rightarrow> url
      | Some u \<Rightarrow>
          (let ps = redact_params 0 (pu_params u);
               search = (if pu_search u
                 then ''?'' @ replace_first (encodeURIComponent REDACTED) REDACTED
                        (join ''&'' (map (\<lambda>(k, v). encodeURIComponent k @ ''='' @ encodeURIComponent v) ps))
                 else [])
           in pu_pathname u @ search))"

lemma params_set_first:
  "name \<notin> fst ` set xs \<Longrightarrow> params_set name val (xs @ (name, v) # ys) = xs @ (name, val) # filter (\<lambda>p. fst p \<noteq> name) ys"
  by (induction xs) auto

text \<open>The loop's invariant: a sensitive name before position \<open>i\<close> has the placeholder and does not occur
  again.\<close>

definition params_done :: "(string \<times> string) list \<Rightarrow> (string \<times> string) list \<Rightarrow> bool" where
  "params_done xs ys \<longleftrightarrow> (\<forall>(k, v) \<in> set xs. sensitive_name k \<longrightarrow> v = REDACTED \<and> k \<notin> fst ` set ys)"

lemma redact_params_loop:
  assumes "params_done xs ys"
  shows "\<exists>zs. redact_params (length xs) (xs @ ys) = xs @ zs \<and> (\<forall>(k, v) \<in> set (xs @ zs). sensitive_name k \<longrightarrow> v = REDACTED) \<and>
    filter (\<lambda>p. \<not> sensitive_name (fst p)) zs = filter (\<lambda>p. \<not> sensitive_name (fst p)) ys \<and> fst ` set zs = fst ` set ys"
  using assms
proof (induction "length ys" arbitrary: xs ys rule: less_induct)
  case less
  show ?case
  proof (cases ys)
    case Nil
    then show ?thesis using less.prems by (auto simp: redact_params.simps params_done_def)
  next
    case (Cons p rest)
    obtain k v where p: "p = (k, v)" by fastforce
    define val where "val = (if sensitive_name k then REDACTED else v)"
    define rest' where "rest' = (if sensitive_name k then filter (\<lambda>q. fst q \<noteq> k) rest else rest)"
    have "k \<notin> fst ` set xs" if "sensitive_name k" using less.prems that by (auto simp: params_done_def Cons p)
    then have step: "redact_params (length xs) (xs @ ys) = redact_params (length (xs @ [(k, val)])) ((xs @ [(k, val)]) @ rest')"
      by (subst redact_params.simps) (simp add: Cons p val_def rest'_def params_set_first)
    have "params_done (xs @ [(k, val)]) rest'" "length rest' < length ys"
      using less.prems by (auto simp: params_done_def val_def rest'_def Cons p le_imp_less_Suc)
    from less.hyps [OF this(2,1)] obtain zs where zs: "redact_params (length xs) (xs @ ys) = (xs @ [(k, val)]) @ zs"
      "\<forall>(k, v) \<in> set ((xs @ [(k, val)]) @ zs). sensitive_name k \<longrightarrow> v = REDACTED"
      "filter (\<lambda>p. \<not> sensitive_name (fst p)) zs = filter (\<lambda>p. \<not> sensitive_name (fst p)) rest'" "fst ` set zs = fst ` set rest'"
      unfolding step by blast
    have "filter (\<lambda>p. \<not> sensitive_name (fst p)) rest' = filter (\<lambda>p. \<not> sensitive_name (fst p)) rest"
      by (auto simp: rest'_def intro: filter_cong)
    moreover have "insert k (fst ` set rest') = insert k (fst ` set rest)" by (auto simp: rest'_def)
    ultimately show ?thesis using zs
      by (intro exI [of _ "(k, val) # zs"]) (auto simp: Cons p val_def)
  qed
qed

text \<open>Parameters. The loop over the parameters of a URL, which shrink while it runs, ends with every sensitive parameter with the
  placeholder only, the others as they were and in order.\<close>

theorem url_secrets_redacted:
  "list_all (\<lambda>p. snd p = REDACTED) (filter (\<lambda>p. sensitive_name (fst p)) (redact_params 0 ps)) \<and>
   filter (\<lambda>p. \<not> sensitive_name (fst p)) (redact_params 0 ps) = filter (\<lambda>p. \<not> sensitive_name (fst p)) ps \<and>
   fst ` set (redact_params 0 ps) = fst ` set ps"
proof -
  have "params_done [] ps" by (simp add: params_done_def)
  from redact_params_loop [OF this] show ?thesis by (auto simp: list_all_iff)
qed

end
