(* ===== verification/Validation.thy ===== *)
theory Validation
  imports JS_Text
begin

text \<open>
  Validation of requests (src/validation): the exception it throws, the formatter of zod's issues, the
  pipe and the middleware.

  A schema of zod is a function from the input to what \<open>parse\<close> answers: the parsed value, the issues of a
  \<open>ZodError\<close>, or another exception. The parts of a request are a map from targets to values; the text of a
  value (\<open>String(v)\<close>) is an argument. Shown are: when the middleware lets a request pass, which errors it
  reports and what it leaves in the request, and that field paths are written unambiguously.
\<close>

section \<open>The exception\<close>

datatype path_segment = PName string | PIndex nat

record formatted_error =
  fx_field :: string
  fx_message :: string
  fx_code :: string
  fx_path :: "path_segment list"
  fx_received :: "json option"
  fx_expected :: "string option"

record validation_exception =
  vx_message :: string
  vx_statusCode :: int
  vx_errors :: "formatted_error list"

text \<open>An empty message counts as missing.\<close>

definition request_validation_exception :: "formatted_error list \<Rightarrow> string option \<Rightarrow> int \<Rightarrow> validation_exception" where
  "request_validation_exception errors message statusCode =
     (let defaultMessage = (if length errors = 1
            then ''Validation failed on '' @ [CHR 0x27] @ fx_field (hd errors) @ [CHR 0x27] @ '': '' @ fx_message (hd errors)
            else ''Validation failed ('' @ string_of_int (int (length errors)) @ '' error'' @
              (if length errors = 1 then '''' else ''s'') @ '')'')
      in \<lparr>vx_message = (if given message then the message else defaultMessage), vx_statusCode = statusCode, vx_errors = errors\<rparr>)"

definition forField :: "string \<Rightarrow> string \<Rightarrow> string \<Rightarrow> json option \<Rightarrow> validation_exception" where
  "forField field message code rcv =
     request_validation_exception
       [\<lparr>fx_field = field, fx_message = message, fx_code = code, fx_path = map PName (split_on CHR ''.'' field),
         fx_received = rcv, fx_expected = None\<rparr>] None 400"

section \<open>The formatter\<close>

record zod_issue =
  zi_path :: "path_segment list"
  zi_code :: string
  zi_message :: string
  zi_received :: "json option"
  zi_expected :: "json option"

text \<open>A step of the reduction; \<open>first\<close> is the index being zero.\<close>

definition path_step :: "bool \<Rightarrow> string \<Rightarrow> path_segment \<Rightarrow> string" where
  "path_step first acc seg =
     (case seg of
        PIndex i \<Rightarrow> acc @ ''['' @ digits_of i @ '']''
      | PName n \<Rightarrow> if first then n else acc @ ''.'' @ n)"

definition buildFieldPath :: "path_segment list \<Rightarrow> string" where
  "buildFieldPath path =
     (case path of [] \<Rightarrow> [] | seg # segs \<Rightarrow> foldl (path_step False) (path_step True [] seg) segs)"

definition formatZodIssue :: "(json \<Rightarrow> string) \<Rightarrow> zod_issue \<Rightarrow> formatted_error" where
  "formatZodIssue text issue =
     (let fieldPath = buildFieldPath (zi_path issue);
          message = (if zi_code issue = ''invalid_type'' \<and> zi_received issue = Some (JStr ''undefined'') \<and> zi_message issue = ''Required''
            then ''This field is required'' else zi_message issue)
      in \<lparr>fx_field = (if fieldPath = [] then ''root'' else fieldPath), fx_message = message, fx_code = zi_code issue,
           fx_path = zi_path issue, fx_received = zi_received issue, fx_expected = map_option text (zi_expected issue)\<rparr>)"

definition formatZodError :: "(json \<Rightarrow> string) \<Rightarrow> zod_issue list \<Rightarrow> formatted_error list" where
  "formatZodError text issues = map (formatZodIssue text) issues"

section \<open>The pipe\<close>

datatype zod_outcome = Parsed json | Issues "zod_issue list" | Raised error

type_synonym zod_schema = "json \<Rightarrow> zod_outcome"

definition zod_pipe ::
  "(json \<Rightarrow> string) \<Rightarrow> zod_schema option \<Rightarrow> string option \<Rightarrow> json \<Rightarrow> (error + validation_exception) + json" where
  "zod_pipe text schema customErrorMessage v =
     (case schema of
        None \<Rightarrow> Inr v
      | Some parse \<Rightarrow>
          (case parse v of
             Parsed j \<Rightarrow> Inr j
           | Issues iss \<Rightarrow> Inl (Inr (request_validation_exception (formatZodError text iss) customErrorMessage 400))
           | Raised e \<Rightarrow> Inl (Inl e)))"

text \<open>The decorator for headers: without a schema they are passed on, without headers an empty object.\<close>

definition validate_headers ::
  "(json \<Rightarrow> string) \<Rightarrow> zod_schema option \<Rightarrow> json option \<Rightarrow> (error + validation_exception) + json" where
  "validate_headers text schema headers =
     (let h = (case headers of Some j \<Rightarrow> if falsy j then JObj [] else j | None \<Rightarrow> JObj [])
      in case schema of None \<Rightarrow> Inr h | Some _ \<Rightarrow> zod_pipe text schema None h)"

section \<open>The middleware\<close>

datatype target = TBody | TQuery | TParams | THeaders

definition request_targets :: "target list" where "request_targets = [TBody, TQuery, TParams, THeaders]"

definition target_name :: "target \<Rightarrow> string" where
  "target_name t = (case t of TBody \<Rightarrow> ''body'' | TQuery \<Rightarrow> ''query'' | TParams \<Rightarrow> ''params'' | THeaders \<Rightarrow> ''headers'')"

type_synonym parts = "target \<Rightarrow> json option"

record middleware_options =
  mw_schema :: "target \<Rightarrow> zod_schema option"
  mw_abortEarly :: bool
  mw_customErrorMessage :: "string option"

datatype next_call = NextOk | NextError error | NextInvalid validation_exception

text \<open>\<open>req[target] ?? {}\<close>.\<close>

definition target_input :: "parts \<Rightarrow> target \<Rightarrow> json" where
  "target_input ps t = (case ps t of Some j \<Rightarrow> if j = JNull then JObj [] else j | None \<Rightarrow> JObj [])"

definition target_errors :: "(json \<Rightarrow> string) \<Rightarrow> target \<Rightarrow> zod_issue list \<Rightarrow> formatted_error list" where
  "target_errors text t iss =
     map (\<lambda>err. err\<lparr>fx_field := (if t = TBody then fx_field err else target_name t @ ''.'' @ fx_field err)\<rparr>) (formatZodError text iss)"

record loop_state =
  ls_parts :: parts
  ls_errors :: "formatted_error list"
  ls_data :: "(target \<times> json) list"

text \<open>The loop ends with an exception that is passed on, or with the state after its last target.\<close>

fun validate_targets ::
  "(json \<Rightarrow> string) \<Rightarrow> middleware_options \<Rightarrow> target list \<Rightarrow> loop_state \<Rightarrow> error option \<times> loop_state" where
  "validate_targets text opts [] s = (None, s)"
| "validate_targets text opts (t # ts) s =
     (case mw_schema opts t of
        None \<Rightarrow> validate_targets text opts ts s
      | Some parse \<Rightarrow>
          (case parse (target_input (ls_parts s) t) of
             Parsed j \<Rightarrow> validate_targets text opts ts (s\<lparr>ls_parts := (ls_parts s)(t := Some j), ls_data := ls_data s @ [(t, j)]\<rparr>)
           | Issues iss \<Rightarrow>
               (let s' = s\<lparr>ls_errors := ls_errors s @ target_errors text t iss\<rparr>
                in if mw_abortEarly opts then (None, s') else validate_targets text opts ts s')
           | Raised e \<Rightarrow> (Some e, s)))"

text \<open>What \<open>next\<close> is called with, the parts of the request afterwards and its \<open>validatedData\<close>.\<close>

definition validation_middleware ::
  "(json \<Rightarrow> string) \<Rightarrow> middleware_options \<Rightarrow> parts \<Rightarrow> next_call \<times> parts \<times> (target \<times> json) list option" where
  "validation_middleware text opts ps =
     (case validate_targets text opts request_targets \<lparr>ls_parts = ps, ls_errors = [], ls_data = []\<rparr> of
        (Some e, s) \<Rightarrow> (NextError e, ls_parts s, None)
      | (None, s) \<Rightarrow>
          if ls_errors s \<noteq> []
          then (NextInvalid (request_validation_exception (ls_errors s) (mw_customErrorMessage opts) 400), ls_parts s, None)
          else (NextOk, ls_parts s, Some (ls_data s)))"

section \<open>What passes\<close>

text \<open>What a target's schema says of the request as it came.\<close>

definition target_outcome :: "middleware_options \<Rightarrow> parts \<Rightarrow> target \<Rightarrow> zod_outcome option" where
  "target_outcome opts ps t = map_option (\<lambda>parse. parse (target_input ps t)) (mw_schema opts t)"

definition errors_of :: "(json \<Rightarrow> string) \<Rightarrow> middleware_options \<Rightarrow> parts \<Rightarrow> target \<Rightarrow> formatted_error list" where
  "errors_of text opts ps t = (case target_outcome opts ps t of Some (Issues iss) \<Rightarrow> target_errors text t iss | _ \<Rightarrow> [])"

definition parsed_of :: "middleware_options \<Rightarrow> parts \<Rightarrow> target \<Rightarrow> json option" where
  "parsed_of opts ps t = (case target_outcome opts ps t of Some (Parsed j) \<Rightarrow> Some j | _ \<Rightarrow> None)"

text \<open>The targets the loop reaches: with \<open>abortEarly\<close> those up to the first with errors.\<close>

fun reached :: "(target \<Rightarrow> bool) \<Rightarrow> bool \<Rightarrow> target list \<Rightarrow> target list" where
  "reached bad abort [] = []"
| "reached bad abort (t # ts) = (if abort \<and> bad t then [t] else t # reached bad abort ts)"

lemma set_reached: "set (reached bad abort ts) \<subseteq> set ts"
  by (induction ts) auto

lemma target_outcome_upd: "t' \<noteq> t \<Longrightarrow> target_outcome opts (ps(t' := v)) t = target_outcome opts ps t"
  by (simp add: target_outcome_def target_input_def)

text \<open>zod answers a \<open>ZodError\<close> with at least one issue; schemas that throw otherwise are excluded.\<close>

definition plain_schemas :: "middleware_options \<Rightarrow> bool" where
  "plain_schemas opts \<longleftrightarrow> (\<forall>t parse v. mw_schema opts t = Some parse \<longrightarrow> parse v \<noteq> Issues [] \<and> (\<forall>e. parse v \<noteq> Raised e))"

lemma loop_result:
  assumes "plain_schemas opts" "distinct ts" "\<And>t. t \<in> set ts \<Longrightarrow> target_outcome opts (ls_parts s) t = target_outcome opts ps t"
  shows "let rs = reached (\<lambda>t. errors_of text opts ps t \<noteq> []) (mw_abortEarly opts) ts
    in validate_targets text opts ts s =
      (None, \<lparr>ls_parts = (\<lambda>t. if t \<in> set rs \<and> parsed_of opts ps t \<noteq> None then parsed_of opts ps t else ls_parts s t),
        ls_errors = ls_errors s @ concat (map (errors_of text opts ps) rs),
        ls_data = ls_data s @ concat (map (\<lambda>t. case parsed_of opts ps t of Some j \<Rightarrow> [(t, j)] | None \<Rightarrow> []) rs)\<rparr>)"
  using assms(2,3)
proof (induction ts arbitrary: s)
  case Nil
  then show ?case by (simp add: Let_def)
next
  case (Cons t ts)
  have o: "target_outcome opts (ls_parts s) t = target_outcome opts ps t" using Cons.prems(2) by simp
  show ?case
  proof (cases "mw_schema opts t")
    case None
    then have e: "errors_of text opts ps t = []" "parsed_of opts ps t = None"
      by (simp_all add: errors_of_def parsed_of_def target_outcome_def)
    show ?thesis using Cons.IH [of s] Cons.prems by (simp add: None e Let_def) (auto simp: fun_eq_iff e)
  next
    case (Some parse)
    then have out: "target_outcome opts ps t = Some (parse (target_input (ls_parts s) t))" using o by (simp add: target_outcome_def)
    show ?thesis
    proof (cases "parse (target_input (ls_parts s) t)")
      case (Parsed j)
      then have e: "errors_of text opts ps t = []" "parsed_of opts ps t = Some j"
        using out by (simp_all add: errors_of_def parsed_of_def)
      let ?s = "s\<lparr>ls_parts := (ls_parts s)(t := Some j), ls_data := ls_data s @ [(t, j)]\<rparr>"
      have "target_outcome opts (ls_parts ?s) t' = target_outcome opts ps t'" if "t' \<in> set ts" for t'
        using Cons.prems that target_outcome_upd [of t t' opts "ls_parts s" "Some j"] by (cases "t' = t") auto
      from Cons.IH [OF _ this] Cons.prems(1) show ?thesis
        by (simp add: Some Parsed e Let_def) (auto simp: fun_eq_iff e)
    next
      case (Issues iss)
      then have e: "errors_of text opts ps t = target_errors text t iss" "parsed_of opts ps t = None" "iss \<noteq> []"
        using out assms(1) Some by (auto simp: errors_of_def parsed_of_def plain_schemas_def)
      then have ne: "errors_of text opts ps t \<noteq> []" by (simp add: target_errors_def formatZodError_def)
      let ?s = "s\<lparr>ls_errors := ls_errors s @ target_errors text t iss\<rparr>"
      show ?thesis
      proof (cases "mw_abortEarly opts")
        case True
        then show ?thesis using ne by (simp add: Some Issues e Let_def fun_eq_iff)
      next
        case False
        then show ?thesis
          using Cons.IH [of ?s] Cons.prems by (simp add: Some Issues e Let_def) (auto simp: fun_eq_iff e)
      qed
    next
      case (Raised e)
      then show ?thesis using assms(1) Some by (auto simp: plain_schemas_def)
    qed
  qed
qed


lemma concat_reached:
  "concat (map f (reached (\<lambda>t. f t \<noteq> []) abort ts)) =
     (if abort then concat (map f (take 1 (filter (\<lambda>t. f t \<noteq> []) ts))) else concat (map f ts))"
  by (cases abort; induction ts) simp_all

lemma reached_all: "list_all (\<lambda>t. \<not> bad t) (reached bad abort ts) \<Longrightarrow> reached bad abort ts = ts"
  by (induction ts) (simp_all split: if_splits)


definition demo_options :: middleware_options where
  "demo_options = \<lparr>mw_schema = (\<lambda>t. if t = TQuery
       then Some (\<lambda>v. if v = JObj [] then Issues [\<lparr>zi_path = [PName ''page''], zi_code = ''invalid_type'', zi_message = ''Required'',
              zi_received = Some (JStr ''undefined''), zi_expected = None\<rparr>] else Parsed v) else None),
     mw_abortEarly = False, mw_customErrorMessage = None\<rparr>"


section \<open>Field paths\<close>

text \<open>Tokens that start with a delimiter and have no other can be told apart in their concatenation.\<close>

definition seg_token :: "char set \<Rightarrow> string \<Rightarrow> bool" where
  "seg_token D t \<longleftrightarrow> (\<exists>d b. t = d # b \<and> d \<in> D \<and> set b \<inter> D = {})"

lemma token_prefix:
  assumes "\<forall>t \<in> set ts. seg_token D t" "set b \<inter> D = {}"
  shows "takeWhile (\<lambda>c. c \<notin> D) (b @ concat ts) = b" "dropWhile (\<lambda>c. c \<notin> D) (b @ concat ts) = concat ts"
proof -
  have b: "\<forall>c \<in> set b. c \<notin> D" using assms(2) by auto
  have "takeWhile (\<lambda>c. c \<notin> D) (concat ts) = []" "dropWhile (\<lambda>c. c \<notin> D) (concat ts) = concat ts"
    using assms(1) by (cases ts; auto simp: seg_token_def)+
  then show "takeWhile (\<lambda>c. c \<notin> D) (b @ concat ts) = b" "dropWhile (\<lambda>c. c \<notin> D) (b @ concat ts) = concat ts"
    using b by (simp_all add: takeWhile_append2 dropWhile_append2)
qed

lemma concat_tokens_inj:
  "\<forall>t \<in> set xs. seg_token D t \<Longrightarrow> \<forall>t \<in> set ys. seg_token D t \<Longrightarrow> concat xs = concat ys \<Longrightarrow> xs = ys"
proof (induction xs arbitrary: ys)
  case Nil
  then show ?case by (cases ys) (auto simp: seg_token_def)
next
  case (Cons x xs)
  obtain d b where x: "x = d # b" "set b \<inter> D = {}" using Cons.prems(1) by (auto simp: seg_token_def)
  then obtain y zs where ys: "ys = y # zs" using Cons.prems(3) by (cases ys) auto
  obtain d' b' where y: "y = d' # b'" "set b' \<inter> D = {}" using Cons.prems(2) by (auto simp: ys seg_token_def)
  have eq: "d = d'" "b @ concat xs = b' @ concat zs" using Cons.prems(3) by (simp_all add: x y ys)
  have toks: "\<forall>t \<in> set xs. seg_token D t" "\<forall>t \<in> set zs. seg_token D t" using Cons.prems by (simp_all add: ys)
  have "b = b'" "concat xs = concat zs"
    using token_prefix [OF toks(1) x(2)] token_prefix [OF toks(2) y(2)] unfolding eq(2) by simp_all
  then show ?case using Cons.IH [OF toks] by (simp add: x y ys eq(1))
qed

definition segment_text :: "path_segment \<Rightarrow> string" where
  "segment_text = path_step False []"

definition plain_path :: "path_segment list \<Rightarrow> bool" where
  "plain_path p = list_all (\<lambda>seg. case seg of PIndex _ \<Rightarrow> True | PName n \<Rightarrow> n \<noteq> [] \<and> CHR ''.'' \<notin> set n \<and> CHR ''['' \<notin> set n) p"

lemma path_step_append: "path_step False acc seg = acc @ segment_text seg"
  by (cases seg) (simp_all add: path_step_def segment_text_def)

lemma fold_segments: "foldl (path_step False) acc segs = acc @ concat (map segment_text segs)"
  by (induction segs arbitrary: acc) (simp_all add: path_step_append)

lemma digits_not_delimiters: "set (digits_of n) \<inter> {CHR ''.'', CHR ''[''} = {}"
proof -
  have "c \<noteq> CHR ''.'' \<and> c \<noteq> CHR ''[''" if c: "c \<in> set (digits_of n)" for c
  proof -
    obtain d where d: "d < 10" "c = char_of (48 + d :: nat)" using digits_of_digit [OF c] by blast
    then have "(of_char c :: nat) = 48 + d" by (simp add: of_char_of)
    then show ?thesis using d(1) by auto
  qed
  then show ?thesis by auto
qed

lemma segment_token: "plain_path [seg] \<Longrightarrow> seg_token {CHR ''.'', CHR ''[''} (segment_text seg)"
  using digits_not_delimiters by (cases seg) (auto simp: seg_token_def segment_text_def path_step_def plain_path_def)

lemma segment_text_inj: "segment_text a = segment_text b \<Longrightarrow> a = b"
  by (cases a; cases b) (auto simp: segment_text_def path_step_def dest: inj_digits_of)

text \<open>A leading name lacks its dot: with it, the text is the concatenation of all segments.\<close>

lemma dotted_path:
  assumes "plain_path (seg # segs)"
  shows "concat (map segment_text (seg # segs)) =
    (let t = buildFieldPath (seg # segs) in if hd t = CHR ''['' then t else ''.'' @ t)"
proof -
  have "hd n \<noteq> CHR ''[''" if "seg = PName n" for n
    using assms that by (cases n) (auto simp: plain_path_def)
  then show ?thesis
    using assms by (cases seg) (auto simp: buildFieldPath_def fold_segments segment_text_def path_step_def plain_path_def Let_def hd_append)
qed

lemma field_paths_distinct:
  assumes "plain_path p" "plain_path q" "p \<noteq> []" "q \<noteq> []" "buildFieldPath p = buildFieldPath q"
  shows "p = q"
proof -
  have "concat (map segment_text p) = concat (map segment_text q)"
    using assms dotted_path by (cases p; cases q) (simp_all only: list.distinct simp_thms)
  moreover have "\<forall>t \<in> set (map segment_text r). seg_token {CHR ''.'', CHR ''[''} t" if "plain_path r" for r
    using that segment_token by (auto simp: plain_path_def list_all_iff)
  ultimately have "map segment_text p = map segment_text q" using assms(1,2) concat_tokens_inj by blast
  then show ?thesis by (simp add: inj_map_eq_map inj_def segment_text_inj)
qed

end
