(* ===== verification/File_Validation.thy ===== *)
theory File_Validation
  imports Files Validation
begin

text \<open>
  Validation of uploaded files (src/validation/files/file-validation.ts) and its place before the file service (src/files/files.controller.ts).

  A buffer is a string of bytes. Sizes are doubles, \<open>None\<close> being NaN, with which every comparison is
  false. The texts of numbers in messages (\<open>num\<close>, and \<open>fixed2\<close> for \<open>toFixed(2)\<close>) are arguments; a
  regular expression in the list of types is its test. Shown are: what an accepted file satisfies, when
  an accepted content has the declared type's signature, that the extension can choose another
  signature, and that the upload route stores nothing it rejects.
\<close>

section \<open>Sizes\<close>

datatype size_spec = SizeNum rat | SizeText string

text \<open>\<open>parseFloat\<close> on a text of digits and dots.\<close>

definition parse_float :: "string \<Rightarrow> rat option" where
  "parse_float s =
     (let digit = (\<lambda>c. digit_value c \<noteq> None \<and> the (digit_value c) < 10);
          whole = takeWhile digit s; rest = dropWhile digit s;
          frac = (case rest of [] \<Rightarrow> [] | c # cs \<Rightarrow> if c = CHR ''.'' then takeWhile digit cs else [])
      in parse_decimal (whole @ ''.'' @ frac))"

definition size_units :: "(string \<times> rat) list" where
  "size_units = [(''B'', 1), (''KB'', 1024), (''MB'', 1024 * 1024), (''GB'', 1024 * 1024 * 1024), (''TB'', 1024 * 1024 * 1024 * 1024)]"

definition digit_or_dot :: "char \<Rightarrow> bool" where
  "digit_or_dot c = (c = CHR ''.'' \<or> c \<in> set ''0123456789'')"

text \<open>\<open>/^([\d.]+)\s*(B|KB|MB|GB|TB)$/\<close>: the number's text and the unit.\<close>

definition size_match :: "string \<Rightarrow> (string \<times> string) option" where
  "size_match s =
     (let n = takeWhile digit_or_dot s; unit = dropWhile is_js_space (dropWhile digit_or_dot s)
      in if n \<noteq> [] \<and> unit \<in> set (map fst size_units) then Some (n, unit) else None)"

definition parseSizeToBytes :: "size_spec \<Rightarrow> error + rat option" where
  "parseSizeToBytes spec =
     (case spec of
        SizeNum n \<Rightarrow> Inr (Some n)
      | SizeText t \<Rightarrow>
          (let trimmed = to_upper (js_trim t)
           in case size_match trimmed of
                Some (n, unit) \<Rightarrow>
                  Inr (map_option (\<lambda>x. of_int (math_round (fmul x (or_else (map_get size_units unit) 1)))) (parse_float n))
              | None \<Rightarrow>
                  (case number_of_string trimmed of
                     Some n \<Rightarrow> Inr (Some n)
                   | None \<Rightarrow> Inl (JsError (''Invalid size string format: '' @ [CHR 0x22] @ t @ [CHR 0x22] @ ''. Example formats: '' @
                       [CHR 0x27] @ ''5MB'' @ [CHR 0x27] @ '', '' @ [CHR 0x27] @ ''500KB'' @ [CHR 0x27] @ '', '' @ [CHR 0x27] @ ''1GB'' @ [CHR 0x27])))))"

definition above :: "rat \<Rightarrow> rat option \<Rightarrow> bool" where
  "above n bound = (case bound of Some m \<Rightarrow> m < n | None \<Rightarrow> False)"

definition below :: "rat \<Rightarrow> rat option \<Rightarrow> bool" where
  "below n bound = (case bound of Some m \<Rightarrow> n < m | None \<Rightarrow> False)"

section \<open>Signatures\<close>

definition bytes :: "buffer \<Rightarrow> nat list" where "bytes b = map of_char b"

text \<open>Node's \<open>toString('ascii', i, j)\<close> drops the highest bit of each byte.\<close>

definition ascii_slice :: "nat \<Rightarrow> nat \<Rightarrow> buffer \<Rightarrow> nat list" where
  "ascii_slice i j b = map (\<lambda>n. n mod 128) (take (j - i) (drop i (bytes b)))"

record signature =
  sg_mime :: string
  sg_extensions :: "string list"
  sg_check :: "buffer \<Rightarrow> bool"

definition MAGIC_SIGNATURES :: "signature list" where
  "MAGIC_SIGNATURES =
     [\<lparr>sg_mime = ''image/jpeg'', sg_extensions = [''jpg'', ''jpeg''],
       sg_check = (\<lambda>b. take 3 (bytes b) = [0xff, 0xd8, 0xff])\<rparr>,
      \<lparr>sg_mime = ''image/png'', sg_extensions = [''png''],
       sg_check = (\<lambda>b. take 8 (bytes b) = [0x89, 0x50, 0x4e, 0x47, 0x0d, 0x0a, 0x1a, 0x0a])\<rparr>,
      \<lparr>sg_mime = ''image/gif'', sg_extensions = [''gif''],
       sg_check = (\<lambda>b. take 6 (bytes b) \<in> {[0x47, 0x49, 0x46, 0x38, 0x37, 0x61], [0x47, 0x49, 0x46, 0x38, 0x39, 0x61]})\<rparr>,
      \<lparr>sg_mime = ''image/webp'', sg_extensions = [''webp''],
       sg_check = (\<lambda>b. 12 \<le> length b \<and> ascii_slice 0 4 b = bytes ''RIFF'' \<and> ascii_slice 8 12 b = bytes ''WEBP'')\<rparr>,
      \<lparr>sg_mime = ''application/pdf'', sg_extensions = [''pdf''],
       sg_check = (\<lambda>b. 4 \<le> length b \<and> ascii_slice 0 4 b = bytes ''%PDF'')\<rparr>,
      \<lparr>sg_mime = ''application/zip'', sg_extensions = [''zip''],
       sg_check = (\<lambda>b. 4 \<le> length b \<and> take 2 (bytes b) = [0x50, 0x4b] \<and> bytes b ! 2 \<in> {3, 5, 7} \<and> bytes b ! 3 \<in> {4, 6, 8})\<rparr>]"

section \<open>One file\<close>

record uploaded_file =
  uf_fieldname :: "string option"
  uf_originalname :: string
  uf_mimetype :: string
  uf_size :: rat
  uf_buffer :: "buffer option"

datatype mime_pattern = MimeText string | MimeTest "string \<Rightarrow> bool"

record file_options =
  fo_maxSize :: "size_spec option"
  fo_minSize :: "size_spec option"
  fo_allowedMimeTypes :: "mime_pattern list option"
  fo_allowedExtensions :: "string list option"
  fo_validateMagicBytes :: "bool option"
  fo_required :: "bool option"
  fo_customErrorMessage :: "string option"

record texts =
  tx_num :: "rat \<Rightarrow> string"
  tx_fixed2 :: "rat \<Rightarrow> string"

definition size_text :: "texts \<Rightarrow> size_spec \<Rightarrow> string" where
  "size_text tx spec = (case spec of SizeNum n \<Rightarrow> tx_num tx n | SizeText t \<Rightarrow> t)"

definition custom :: "file_options \<Rightarrow> string \<Rightarrow> string" where
  "custom opts d = (if given (fo_customErrorMessage opts) then the (fo_customErrorMessage opts) else d)"

definition field_of :: "uploaded_file \<Rightarrow> string" where
  "field_of f = (if given (uf_fieldname f) then the (uf_fieldname f) else ''file'')"

definition extension :: "string \<Rightarrow> string" where
  "extension name = (if CHR ''.'' \<in> set name then to_lower (last (split_on CHR ''.'' name)) else [])"

definition normalize_extension :: "string \<Rightarrow> string" where
  "normalize_extension e = to_lower (if starts_with e ''.'' then drop 1 e else e)"

definition mime_allowed :: "mime_pattern list \<Rightarrow> string \<Rightarrow> bool" where
  "mime_allowed ps mime = list_ex (\<lambda>p. case p of MimeText t \<Rightarrow> to_lower t = to_lower mime | MimeTest f \<Rightarrow> f mime) ps"

definition matching_signature :: "string \<Rightarrow> string \<Rightarrow> signature option" where
  "matching_signature mime ext =
     List.find (\<lambda>sig. to_lower (sg_mime sig) = to_lower mime \<or> ext \<noteq> [] \<and> ext \<in> set (sg_extensions sig)) MAGIC_SIGNATURES"

definition size_error :: "texts \<Rightarrow> file_options \<Rightarrow> uploaded_file \<Rightarrow> rat option \<Rightarrow> rat option \<Rightarrow> validation_exception option" where
  "size_error tx opts f maxBytes minBytes =
     (if above (uf_size f) maxBytes
      then Some (forField (field_of f) (custom opts (''File size ('' @ tx_fixed2 tx (fdiv (uf_size f) (1024 * 1024)) @
             '' MB) exceeds maximum allowed limit of '' @ size_text tx (or_else (fo_maxSize opts) (SizeText ''10MB''))))
             ''file_too_large'' (Some (JNum (uf_size f))))
      else if below (uf_size f) minBytes
      then Some (forField (field_of f) (custom opts (''File size ('' @ tx_num tx (uf_size f) @
             '' bytes) is below minimum required limit of '' @ size_text tx (or_else (fo_minSize opts) (SizeNum 1))))
             ''file_too_small'' (Some (JNum (uf_size f))))
      else None)"

definition extension_error :: "file_options \<Rightarrow> uploaded_file \<Rightarrow> string \<Rightarrow> validation_exception option" where
  "extension_error opts f ext =
     (let wanted = map normalize_extension (or_else (fo_allowedExtensions opts) [])
      in if wanted \<noteq> [] \<and> (ext = [] \<or> ext \<notin> set wanted)
         then Some (forField (field_of f) (custom opts (''File extension '' @ [CHR 0x27] @ ''.'' @ ext @ [CHR 0x27] @
                '' is not permitted. Allowed extensions: '' @ join '', '' (map (\<lambda>e. ''.'' @ e) wanted)))
                ''invalid_file_extension'' (Some (JStr ext)))
         else None)"

definition mime_error :: "file_options \<Rightarrow> uploaded_file \<Rightarrow> validation_exception option" where
  "mime_error opts f =
     (let patterns = or_else (fo_allowedMimeTypes opts) []
      in if patterns \<noteq> [] \<and> \<not> mime_allowed patterns (uf_mimetype f)
         then Some (forField (field_of f) (custom opts (''File MIME type '' @ [CHR 0x27] @ uf_mimetype f @ [CHR 0x27] @ '' is not permitted''))
                ''invalid_mime_type'' (Some (JStr (uf_mimetype f))))
         else None)"

definition magic_error :: "file_options \<Rightarrow> uploaded_file \<Rightarrow> string \<Rightarrow> buffer \<Rightarrow> validation_exception option" where
  "magic_error opts f ext b =
     (if or_else (fo_validateMagicBytes opts) True
      then (case matching_signature (uf_mimetype f) ext of
              Some sig \<Rightarrow> if sg_check sig b then None
                else Some (forField (field_of f) (custom opts (''File content does not match the declared file type '' @ [CHR 0x27] @
                       uf_mimetype f @ [CHR 0x27] @ '' (magic signature mismatch)'')) ''corrupted_or_spoofed_file'' None)
            | None \<Rightarrow> None)
      else None)"

text \<open>\<open>x ?? y\<close> for checks: the first that fails.\<close>

fun first_failure :: "'e option list \<Rightarrow> 'e option" where
  "first_failure [] = None"
| "first_failure (e # es) = (case e of Some x \<Rightarrow> Some x | None \<Rightarrow> first_failure es)"

text \<open>The outcome is \<open>None\<close> when the function returns, else the exception it throws: its own or that
  of an unreadable size.\<close>

definition missing_file :: "file_options \<Rightarrow> uploaded_file option \<Rightarrow> (error + validation_exception) option" where
  "missing_file opts file =
     (if or_else (fo_required opts) True
      then Some (Inr (forField (case file of Some f \<Rightarrow> field_of f | None \<Rightarrow> ''file'') (custom opts ''File is required'') ''required_file'' None))
      else None)"

definition validate_content :: "texts \<Rightarrow> file_options \<Rightarrow> uploaded_file \<Rightarrow> buffer \<Rightarrow> (error + validation_exception) option" where
  "validate_content tx opts f b =
     (case parseSizeToBytes (or_else (fo_maxSize opts) (SizeText ''10MB'')) of
        Inl e \<Rightarrow> Some (Inl e)
      | Inr maxBytes \<Rightarrow>
          (case parseSizeToBytes (or_else (fo_minSize opts) (SizeNum 1)) of
             Inl e \<Rightarrow> Some (Inl e)
           | Inr minBytes \<Rightarrow>
               (let ext = extension (uf_originalname f)
                in map_option Inr (first_failure [size_error tx opts f maxBytes minBytes, extension_error opts f ext,
                     mime_error opts f, magic_error opts f ext b]))))"

definition validate_uploaded :: "texts \<Rightarrow> file_options \<Rightarrow> uploaded_file option \<Rightarrow> (error + validation_exception) option" where
  "validate_uploaded tx opts file =
     (case file of
        None \<Rightarrow> missing_file opts file
      | Some f \<Rightarrow> (case uf_buffer f of None \<Rightarrow> missing_file opts file | Some b \<Rightarrow> validate_content tx opts f b))"

section \<open>Several files\<close>

record multi_options =
  mo_file :: file_options
  mo_minCount :: "int option"
  mo_maxCount :: "int option"
  mo_totalMaxSize :: "size_spec option"

text \<open>A total limit that is zero or empty counts as absent.\<close>

definition size_given :: "size_spec option \<Rightarrow> bool" where
  "size_given x = (case x of Some (SizeNum n) \<Rightarrow> n \<noteq> 0 | Some (SizeText t) \<Rightarrow> t \<noteq> [] | None \<Rightarrow> False)"

fun validate_each :: "texts \<Rightarrow> file_options \<Rightarrow> uploaded_file list \<Rightarrow> (error + validation_exception) option" where
  "validate_each tx opts [] = None"
| "validate_each tx opts (f # fs) =
     (case validate_uploaded tx opts (Some f) of Some e \<Rightarrow> Some e | None \<Rightarrow> validate_each tx opts fs)"

definition total_error :: "texts \<Rightarrow> multi_options \<Rightarrow> uploaded_file list \<Rightarrow> (error + validation_exception) option" where
  "total_error tx opts files =
     (if size_given (mo_totalMaxSize opts)
      then (let spec = the (mo_totalMaxSize opts)
            in case parseSizeToBytes spec of
                 Inl e \<Rightarrow> Some (Inl e)
               | Inr maxTotalBytes \<Rightarrow>
                   (let totalBytes = fsum (map uf_size files)
                    in if above totalBytes maxTotalBytes
                       then Some (Inr (forField ''files'' (custom (mo_file opts) (''Total upload size ('' @
                              tx_fixed2 tx (fdiv totalBytes (1024 * 1024)) @ '' MB) exceeds maximum total limit of '' @ size_text tx spec))
                              ''total_size_exceeded'' (Some (JNum totalBytes))))
                       else None))
      else None)"

definition validateFiles :: "texts \<Rightarrow> multi_options \<Rightarrow> uploaded_file list option \<Rightarrow> (error + validation_exception) option" where
  "validateFiles tx opts files =
     (let fs = or_else files []; n = int (length fs); minCount = or_else (mo_minCount opts) 1; o1 = mo_file opts
      in if fs = []
         then (if or_else (fo_required o1) True
               then Some (Inr (forField ''files'' (custom o1 ''At least one file must be uploaded'') ''required_files'' None))
               else None)
         else if n < minCount
         then Some (Inr (forField ''files'' (custom o1 (''Minimum '' @ string_of_int minCount @ '' file(s) required, but received '' @
                string_of_int n)) ''too_few_files'' (Some (JNum (of_int n)))))
         else if (case mo_maxCount opts of Some k \<Rightarrow> k < n | None \<Rightarrow> False)
         then Some (Inr (forField ''files'' (custom o1 (''Maximum '' @ string_of_int (the (mo_maxCount opts)) @
                '' file(s) allowed, but received '' @ string_of_int n)) ''too_many_files'' (Some (JNum (of_int n)))))
         else (case total_error tx opts fs of Some e \<Rightarrow> Some e | None \<Rightarrow> validate_each tx o1 fs))"

section \<open>The upload route\<close>

definition upload_options :: file_options where
  "upload_options = \<lparr>fo_maxSize = Some (SizeText ''25MB''), fo_minSize = None, fo_allowedMimeTypes = None, fo_allowedExtensions = None,
     fo_validateMagicBytes = Some True, fo_required = Some True, fo_customErrorMessage = None\<rparr>"

definition upload_route ::
  "texts \<Rightarrow> files_env \<Rightarrow> ('p, 'st) storage_provider \<Rightarrow> string \<Rightarrow> string \<Rightarrow> int \<Rightarrow> string option \<Rightarrow> uploaded_file option \<Rightarrow> 'st files \<Rightarrow>
   ((error + validation_exception) + file_record) \<times> 'st files" where
  "upload_route tx env P k i now header file s =
     (case validate_uploaded tx upload_options file of
        Some e \<Rightarrow> (Inl e, s)
      | None \<Rightarrow>
          (case file of
             None \<Rightarrow> (Inl (Inl (BadRequestException ''No file provided'')), s)
           | Some f \<Rightarrow>
               (let (r, s') = uploadFile env P k i now (getUserId header) (uf_originalname f) (uf_mimetype f) (or_else (uf_buffer f) []) s
                in (map_sum Inl (\<lambda>x. x) r, s'))))"

section \<open>What an accepted file satisfies\<close>

lemma first_failure_none: "first_failure es = None \<longleftrightarrow> (\<forall>e \<in> set es. e = None)"
  by (induction es) (auto split: option.split)

lemma accepted_facts:
  assumes "validate_uploaded tx opts (Some f) = None" "uf_buffer f = Some b"
    "parseSizeToBytes (or_else (fo_maxSize opts) (SizeText ''10MB'')) = Inr (Some hi)"
    "parseSizeToBytes (or_else (fo_minSize opts) (SizeNum 1)) = Inr (Some lo)"
  shows "lo \<le> uf_size f \<and> uf_size f \<le> hi \<and>
    (or_else (fo_allowedExtensions opts) [] = [] \<or>
       extension (uf_originalname f) \<in> set (map normalize_extension (or_else (fo_allowedExtensions opts) []))) \<and>
    (or_else (fo_allowedMimeTypes opts) [] = [] \<or> mime_allowed (or_else (fo_allowedMimeTypes opts) []) (uf_mimetype f)) \<and>
    (or_else (fo_validateMagicBytes opts) True = False \<or>
       (case matching_signature (uf_mimetype f) (extension (uf_originalname f)) of Some sig \<Rightarrow> sg_check sig b | None \<Rightarrow> True))"
proof -
  have "size_error tx opts f (Some hi) (Some lo) = None \<and> extension_error opts f (extension (uf_originalname f)) = None \<and>
      mime_error opts f = None \<and> magic_error opts f (extension (uf_originalname f)) b = None"
    using assms by (simp add: validate_uploaded_def validate_content_def first_failure_none Let_def del: first_failure.simps)
  then show ?thesis
    by (auto simp: size_error_def extension_error_def mime_error_def magic_error_def above_def below_def Let_def
        split: if_splits option.splits)
qed

text \<open>Accepted files. A file that passes has a size between the limits, an extension and a type from the lists where there are lists, and
  a content with the signature that its type or extension selects.\<close>

theorem accepted_file:
  assumes "validate_uploaded tx opts (Some f) = None" "uf_buffer f = Some b"
    "parseSizeToBytes (or_else (fo_maxSize opts) (SizeText ''10MB'')) = Inr (Some hi)"
    "parseSizeToBytes (or_else (fo_minSize opts) (SizeNum 1)) = Inr (Some lo)"
  shows "lo \<le> uf_size f \<and> uf_size f \<le> hi \<and>
    (or_else (fo_allowedExtensions opts) [] = [] \<or>
       extension (uf_originalname f) \<in> set (map normalize_extension (or_else (fo_allowedExtensions opts) []))) \<and>
    (or_else (fo_allowedMimeTypes opts) [] = [] \<or> mime_allowed (or_else (fo_allowedMimeTypes opts) []) (uf_mimetype f)) \<and>
    (or_else (fo_validateMagicBytes opts) True = False \<or>
       (case matching_signature (uf_mimetype f) (extension (uf_originalname f)) of Some sig \<Rightarrow> sg_check sig b | None \<Rightarrow> True))"
  using accepted_facts [OF assms] .

definition plain_texts :: texts where "plain_texts = \<lparr>tx_num = (\<lambda>_. []), tx_fixed2 = (\<lambda>_. [])\<rparr>"

definition demo_upload :: uploaded_file where
  "demo_upload = \<lparr>uf_fieldname = None, uf_originalname = ''a.gif'', uf_mimetype = ''image/gif'', uf_size = 6, uf_buffer = Some ''GIF89a''\<rparr>"

lemma upload_limits:
  "parseSizeToBytes (or_else (fo_maxSize upload_options) (SizeText ''10MB'')) = Inr (Some (25 * 1024 * 1024))"
  "parseSizeToBytes (or_else (fo_minSize upload_options) (SizeNum 1)) = Inr (Some 1)"
proof -
  have parts: "size_match (to_upper (js_trim ''25MB'')) = Some (''25'', ''MB'')" by code_simp
  have digits: "split_at_char CHR ''e'' ''25.'' = (''25.'', None)" "split_at_char CHR ''.'' ''25.'' = (''25'', Some [])"
    "parse_digits 10 0 ''25'' = Some 25"
    by code_simp+
  have "parse_float ''25'' = Some (f64 (of_int 25))"
    by (simp add: parse_float_def digit_value_def parse_decimal_def digits)
  then have number: "parse_float ''25'' = Some 25" by (subst (asm) f64_of_int) simp_all
  have "f64 (of_int 26214400) = of_int 26214400" by (rule f64_of_int) simp
  then have "f64 (26214400 :: rat) = of_int 26214400" by simp
  then have "fmul 25 (or_else (map_get size_units ''MB'') 1) = of_int 26214400"
    by (simp add: fmul_def size_units_def)
  then show "parseSizeToBytes (or_else (fo_maxSize upload_options) (SizeText ''10MB'')) = Inr (Some (25 * 1024 * 1024))"
    by (simp add: parseSizeToBytes_def upload_options_def parts number del: of_int_numeral)
qed (simp add: parseSizeToBytes_def upload_options_def)

lemma gif_signature:
  "matching_signature ''image/gif'' (extension ''a.gif'') = Some (MAGIC_SIGNATURES ! 2)"
  "matching_signature ''application/pdf'' (extension ''a.gif'') = Some (MAGIC_SIGNATURES ! 2)"
  "sg_check (MAGIC_SIGNATURES ! 2) ''GIF89a''" "\<not> sg_check (MAGIC_SIGNATURES ! 4) ''GIF89a''"
proof -
  have ext: "extension ''a.gif'' = ''gif''" by code_simp
  have low: "to_lower m = m" if "m \<in> set [''image/gif'', ''image/jpeg'', ''image/png'', ''image/webp'', ''application/pdf'', ''application/zip'']" for m
    using that by (auto simp: to_lower_def lower_char_def)
  show "matching_signature ''image/gif'' (extension ''a.gif'') = Some (MAGIC_SIGNATURES ! 2)"
    "matching_signature ''application/pdf'' (extension ''a.gif'') = Some (MAGIC_SIGNATURES ! 2)"
    by (simp_all add: matching_signature_def MAGIC_SIGNATURES_def ext low)
  show "sg_check (MAGIC_SIGNATURES ! 2) ''GIF89a''" "\<not> sg_check (MAGIC_SIGNATURES ! 4) ''GIF89a''"
    by (simp_all add: MAGIC_SIGNATURES_def bytes_def ascii_slice_def)
qed

text \<open>A small GIF passes the upload route's limits, whatever its declared type.\<close>

lemma gif_accepted:
  assumes "uf_size f = 6" "uf_buffer f = Some ''GIF89a''"
    "matching_signature (uf_mimetype f) (extension (uf_originalname f)) = Some (MAGIC_SIGNATURES ! 2)"
  shows "validate_uploaded tx upload_options (Some f) = None"
proof -
  have "size_error tx upload_options f (Some (25 * 1024 * 1024)) (Some 1) = None"
    by (simp add: size_error_def above_def below_def assms)
  moreover have "extension_error upload_options f e = None" "mime_error upload_options f = None" for e
    by (simp_all add: extension_error_def mime_error_def upload_options_def)
  moreover have "magic_error upload_options f (extension (uf_originalname f)) ''GIF89a'' = None"
    by (simp add: magic_error_def assms gif_signature)
  ultimately show ?thesis
    by (simp add: validate_uploaded_def validate_content_def upload_limits assms(2) Let_def)
qed

lemma demo_upload_accepted: "validate_uploaded tx upload_options (Some demo_upload) = None"
  by (rule gif_accepted) (simp_all add: demo_upload_def gif_signature)

lemma accepted_file_witness: "(1 :: rat) \<le> uf_size demo_upload \<and> uf_size demo_upload \<le> 25 * 1024 * 1024"
  using accepted_file [OF demo_upload_accepted [of plain_texts] _ upload_limits, of "''GIF89a''"] by (simp add: demo_upload_def)

text \<open>With an extension of its own type, or none, the content has the signature of the declared type.\<close>

lemma find_unique:
  assumes "x \<in> set xs" "P x" "\<forall>y \<in> set xs. P y \<longrightarrow> y = x" shows "List.find P xs = Some x"
proof -
  have "List.find P xs \<noteq> None" using assms(1,2) by (auto simp: find_None_iff)
  then obtain y where y: "List.find P xs = Some y" by blast
  then have "y \<in> set xs" "P y" by (auto simp: find_Some_iff)
  with assms(3) y show ?thesis by blast
qed

lemma accepted_content_matches:
  assumes "validate_uploaded tx opts (Some f) = None" "uf_buffer f = Some b"
    "parseSizeToBytes (or_else (fo_maxSize opts) (SizeText ''10MB'')) = Inr (Some hi)"
    "parseSizeToBytes (or_else (fo_minSize opts) (SizeNum 1)) = Inr (Some lo)"
    "or_else (fo_validateMagicBytes opts) True" "sig \<in> set MAGIC_SIGNATURES" "to_lower (sg_mime sig) = to_lower (uf_mimetype f)"
    "\<forall>other \<in> set MAGIC_SIGNATURES. to_lower (sg_mime other) = to_lower (uf_mimetype f) \<or>
       extension (uf_originalname f) \<noteq> [] \<and> extension (uf_originalname f) \<in> set (sg_extensions other) \<longrightarrow> other = sig"
  shows "sg_check sig b"
proof -
  have "matching_signature (uf_mimetype f) (extension (uf_originalname f)) = Some sig"
    unfolding matching_signature_def by (rule find_unique [OF assms(6)]) (simp add: assms(7), rule assms(8))
  then show ?thesis using accepted_facts [OF assms(1-4)] assms(5) by simp
qed

text \<open>The extension can choose the signature. The list is searched for the first entry of the declared type or of the name's extension: a file
  declared as PDF with the name of a GIF is accepted with a GIF's content, which has no PDF signature.\<close>

theorem extension_overrides_type:
  "\<exists>f b sig. uf_mimetype f = ''application/pdf'' \<and> uf_buffer f = Some b \<and> validate_uploaded tx upload_options (Some f) = None \<and>
     sig \<in> set MAGIC_SIGNATURES \<and> sg_mime sig = ''application/pdf'' \<and> \<not> sg_check sig b"
proof -
  let ?f = "demo_upload\<lparr>uf_mimetype := ''application/pdf''\<rparr>"
  have pdf: "MAGIC_SIGNATURES ! 4 \<in> set MAGIC_SIGNATURES" "sg_mime (MAGIC_SIGNATURES ! 4) = ''application/pdf''"
    by (simp_all add: MAGIC_SIGNATURES_def)
  have "validate_uploaded tx upload_options (Some ?f) = None"
    by (rule gif_accepted) (simp_all add: demo_upload_def gif_signature)
  then show ?thesis using gif_signature(4) pdf
    by (intro exI [of _ ?f] exI [of _ "''GIF89a''"] exI [of _ "MAGIC_SIGNATURES ! 4"]) (simp add: demo_upload_def)
qed

text \<open>C34. The upload route. What the pipe or the service's own checks reject leaves records and storage as they were; what is recorded belongs to the
  user of the request header, has an allowed type and at most twenty-five megabytes.\<close>

theorem upload_route_checked:
  assumes "\<forall>f. file = Some f \<longrightarrow> uf_size f = of_nat (length (or_else (uf_buffer f) []))"
  shows "(case upload_route tx env P k i now header file s of
      (Inr r, s') \<Rightarrow> fr_userId r = getUserId header \<and> fr_mimeType r \<in> set allowedMimeTypes \<and> fr_size r \<le> 25 * 1024 * 1024 \<and>
        fs_records s' = fs_records s @ [r]
    | (Inl e, s') \<Rightarrow> fs_records s' = fs_records s \<and>
        (validate_uploaded tx upload_options file = None \<or> s' = s))"
proof (cases "validate_uploaded tx upload_options file")
  case None
  then obtain f b where f: "file = Some f" "uf_buffer f = Some b"
    by (auto simp: validate_uploaded_def missing_file_def upload_options_def split: option.splits)
  let ?u = "getUserId header" and ?name = "uf_originalname f" and ?mime = "uf_mimetype f"
  have "uf_size f \<le> 25 * 1024 * 1024" using accepted_facts [OF None [unfolded f(1)] f(2) upload_limits] by simp
  then have "(of_nat (length b) :: rat) \<le> of_nat (25 * 1024 * 1024)" using assms f by simp
  then have small: "length b \<le> 25 * 1024 * 1024" by (simp only: of_nat_le_iff)
  obtain d z where o: "optimizeImage (fe_images env) b ?mime = (d, z)" by fastforce
  have "length d \<le> length b" using o by (auto simp: optimizeImage_def Let_def split: sum.splits if_splits option.splits)
  with small have "length d \<le> 25 * 1024 * 1024" by linarith
  then have size: "int (length d) \<le> 25 * 1024 * 1024" by simp
  have check: "snd (checkStorageQuota ?u n s) = s\<lparr>fs_quotas := ensure_quota ?u (fs_quotas s)\<rparr>" for n
    by (simp add: checkStorageQuota_def Let_def split: option.split)
  obtain e s1 where c: "checkStorageQuota ?u (int (length b)) s = (e, s1)" by fastforce
  have s1: "fs_records s1 = fs_records s" using check [of "int (length b)"] by (simp add: c)
  have "case uploadFile env P k i now ?u ?name ?mime b s of
      (Inr r, s') \<Rightarrow> fr_userId r = ?u \<and> fr_mimeType r \<in> set allowedMimeTypes \<and> fr_size r \<le> 25 * 1024 * 1024 \<and> fs_records s' = fs_records s @ [r]
    | (Inl e, s') \<Rightarrow> fs_records s' = fs_records s"
    using size s1
    by (auto simp: uploadFile_def c store_file_def o insert_record_def updateStorageQuota_def validateFile_def Let_def
        split: option.split prod.split sum.split if_splits)
  then show ?thesis using None f by (auto simp: upload_route_def split: prod.splits sum.splits)
qed (simp add: upload_route_def)

lemma upload_route_checked_witness:
  "fs_records (snd (upload_route plain_texts \<lparr>fe_provider_name = None, fe_cdnBase = None, fe_clam_ready = False, fe_clam = (\<lambda>_. Inr (None, None)),
      fe_images = \<lparr>sharp_width = (\<lambda>_. Inr None), sharp_encode = (\<lambda>_ _ b. Inr b)\<rparr>\<rparr> (local_provider []) ''k'' ''f1'' 0 None
      (Some (demo_upload\<lparr>uf_size := 0, uf_buffer := None\<rparr>))
      \<lparr>fs_records = [], fs_quotas = [], fs_storage = \<lparr>ls_cwd = [], ls_files = [], ls_activeUploads = []\<rparr>\<rparr>)) = []"
proof -
  let ?f = "demo_upload\<lparr>uf_size := 0, uf_buffer := None\<rparr>"
  let ?env = "\<lparr>fe_provider_name = None, fe_cdnBase = None, fe_clam_ready = False, fe_clam = (\<lambda>_. Inr (None, None)),
      fe_images = \<lparr>sharp_width = (\<lambda>_. Inr None), sharp_encode = (\<lambda>_ _ b. Inr b)\<rparr>\<rparr>"
  let ?s = "\<lparr>fs_records = [], fs_quotas = [], fs_storage = \<lparr>ls_cwd = [], ls_files = [], ls_activeUploads = []\<rparr>\<rparr>"
  have bad: "\<exists>e. validate_uploaded plain_texts upload_options (Some ?f) = Some e"
    by (simp add: validate_uploaded_def missing_file_def upload_options_def)
  have "\<forall>g. Some ?f = Some g \<longrightarrow> uf_size g = of_nat (length (or_else (uf_buffer g) []))" by simp
  from upload_route_checked [OF this, where tx = plain_texts and env = ?env and P = "local_provider []" and k = "''k''" and i = "''f1''"
      and now = 0 and header = None and s = ?s] bad
  show ?thesis by (auto simp: upload_route_def)
qed

end
