(* ===== verification/Error_Handling.thy ===== *)
theory Error_Handling
  imports Redaction File_Validation
begin

text \<open>
  Application errors, correlation ids, error tracking and the global exception filter (src/logging); the logger
  and its interceptor are in Request_Log.thy, its transports in Log_Output.thy.

  What a handler throws is a value of \<open>thrown\<close>: an application error, an exception of NestJS (with its
  status and response body), another \<open>Error\<close> or any other value. The client of
  Sentry is not modelled: the log is the list of calls of the logger, the tracked events
  are a list. Texts of values (\<open>text\<close>), random ids, the clock and its texts are arguments; stack
  traces are left out. The fields of an answer to a rejected file are shown here, what is reported and what names a
  request in Request_Log.thy.
\<close>

section \<open>Application errors\<close>

record app_error =
  ae_name :: string
  ae_message :: string
  ae_code :: string
  ae_statusCode :: int
  ae_isOperational :: bool
  ae_context :: "json option"
  ae_errors :: "json list option"
  ae_retryAfterSeconds :: "int option"

definition base_app_error :: "string \<Rightarrow> string \<Rightarrow> string \<Rightarrow> int \<Rightarrow> bool option \<Rightarrow> json option \<Rightarrow> app_error" where
  "base_app_error name message code statusCode isOperational ctx =
     \<lparr>ae_name = name, ae_message = message, ae_code = code, ae_statusCode = statusCode, ae_isOperational = or_else isOperational True,
      ae_context = ctx, ae_errors = None, ae_retryAfterSeconds = None\<rparr>"

definition ValidationError :: "string option \<Rightarrow> json option \<Rightarrow> app_error" where
  "ValidationError message ctx =
     base_app_error ''ValidationError'' (or_else message ''Validation failed'') ''VALIDATION_ERROR'' 400 (Some True) ctx"

definition AuthenticationError :: "string option \<Rightarrow> json option \<Rightarrow> app_error" where
  "AuthenticationError message ctx =
     base_app_error ''AuthenticationError'' (or_else message ''Authentication required'') ''AUTHENTICATION_ERROR'' 401 (Some True) ctx"

definition AuthorizationError :: "string option \<Rightarrow> json option \<Rightarrow> app_error" where
  "AuthorizationError message ctx =
     base_app_error ''AuthorizationError'' (or_else message ''Insufficient permissions'') ''AUTHORIZATION_ERROR'' 403 (Some True) ctx"

definition ResourceNotFoundError :: "string \<Rightarrow> string option \<Rightarrow> json option \<Rightarrow> app_error" where
  "ResourceNotFoundError resource i ctx =
     (let msg = (if given i then resource @ '' with id '' @ [CHR 0x27] @ the i @ [CHR 0x27] @ '' was not found''
                 else resource @ '' was not found'')
      in base_app_error ''ResourceNotFoundError'' msg ''RESOURCE_NOT_FOUND'' 404 (Some True) ctx)"

definition ConflictError :: "string option \<Rightarrow> json option \<Rightarrow> app_error" where
  "ConflictError message ctx =
     base_app_error ''ConflictError'' (or_else message ''Resource already exists or conflicts with current state'')
       ''CONFLICT_ERROR'' 409 (Some True) ctx"

definition BusinessLogicError :: "string \<Rightarrow> json option \<Rightarrow> app_error" where
  "BusinessLogicError message ctx =
     base_app_error ''BusinessLogicError'' message ''BUSINESS_LOGIC_ERROR'' 422 (Some True) ctx"

definition RateLimitError :: "string option \<Rightarrow> int option \<Rightarrow> app_error" where
  "RateLimitError message retryAfterSeconds =
     (base_app_error ''RateLimitError'' (or_else message ''Too many requests'') ''RATE_LIMIT_EXCEEDED'' 429 (Some True) None)
       \<lparr>ae_retryAfterSeconds := retryAfterSeconds\<rparr>"

definition ExternalServiceError :: "string \<Rightarrow> string option \<Rightarrow> json option \<Rightarrow> app_error" where
  "ExternalServiceError service message ctx =
     base_app_error ''ExternalServiceError'' (or_else message (''External service '' @ [CHR 0x27] @ service @ [CHR 0x27] @ '' failed''))
       ''EXTERNAL_SERVICE_ERROR'' 502 (Some False) ctx"

definition InternalError :: "string option \<Rightarrow> json option \<Rightarrow> app_error" where
  "InternalError message ctx =
     base_app_error ''InternalError'' (or_else message ''An unexpected error occurred'') ''INTERNAL_ERROR'' 500 (Some False) ctx"

definition ServiceUnavailableError :: "string option \<Rightarrow> json option \<Rightarrow> app_error" where
  "ServiceUnavailableError message ctx =
     base_app_error ''ServiceUnavailableError'' (or_else message ''Service temporarily unavailable'') ''SERVICE_UNAVAILABLE'' 503
       (Some True) ctx"

definition PortfolioError :: "string \<Rightarrow> json option \<Rightarrow> app_error" where
  "PortfolioError message ctx = base_app_error ''PortfolioError'' message ''PORTFOLIO_ERROR'' 422 (Some True) ctx"

definition InsufficientBalanceError :: "(rat \<Rightarrow> string) \<Rightarrow> rat \<Rightarrow> rat \<Rightarrow> app_error" where
  "InsufficientBalanceError num required available =
     base_app_error ''InsufficientBalanceError''
       (''Insufficient balance: required '' @ num required @ '', available '' @ num available) ''INSUFFICIENT_BALANCE'' 422
       (Some True) (Some (JObj [(''required'', JNum required), (''available'', JNum available)]))"

text \<open>The exception of the validation module is one of them.\<close>

definition segment_json :: "path_segment \<Rightarrow> json" where
  "segment_json seg = (case seg of PName n \<Rightarrow> JStr n | PIndex i \<Rightarrow> JNum (of_nat i))"

definition formatted_json :: "formatted_error \<Rightarrow> json" where
  "formatted_json e =
     JObj ([(''field'', JStr (fx_field e)), (''message'', JStr (fx_message e)), (''code'', JStr (fx_code e)),
            (''path'', JArr (map segment_json (fx_path e)))] @
           (case fx_received e of Some r \<Rightarrow> [(''received'', r)] | None \<Rightarrow> []) @
           (case fx_expected e of Some x \<Rightarrow> [(''expected'', JStr x)] | None \<Rightarrow> []))"

definition validation_app_error :: "validation_exception \<Rightarrow> app_error" where
  "validation_app_error x =
     (let errs = map formatted_json (vx_errors x)
      in (base_app_error ''RequestValidationException'' (vx_message x) ''VALIDATION_ERROR'' (vx_statusCode x) (Some True)
            (Some (JObj [(''errorCount'', JNum (of_nat (length errs))), (''errors'', JArr errs)])))
           \<lparr>ae_errors := Some errs\<rparr>)"

record http_exception =
  he_name :: string
  he_message :: string
  he_status :: int
  he_response :: json

datatype thrown = ThrownApp app_error | ThrownHttp http_exception | ThrownError string string | ThrownValue json

section \<open>Correlation ids\<close>

record tagged_request =
  rq_method :: string
  rq_url :: "string option"
  rq_correlationId :: "string option"

text \<open>The middleware: the id it attaches to the request, which it also sends back in the header.\<close>

definition correlation_middleware :: "string option \<Rightarrow> string \<Rightarrow> tagged_request \<Rightarrow> tagged_request \<times> string" where
  "correlation_middleware header uuid r =
     (let existing = or_else (map_option js_trim header) [];
          correlationId = (if existing \<noteq> [] then existing else uuid)
      in (r\<lparr>rq_correlationId := Some correlationId\<rparr>, correlationId))"

definition getCorrelationId :: "tagged_request \<Rightarrow> string" where
  "getCorrelationId r = or_else (rq_correlationId r) []"

section \<open>Error tracking\<close>

record sentry_event =
  sy_error :: thrown
  sy_correlationId :: "string option"
  sy_user :: "string option"
  sy_extra :: "(string \<times> json) list option"
  sy_errorCode :: "string option"

record tracking_meta =
  tm_correlationId :: "string option"
  tm_userId :: "string option"
  tm_extra :: "(string \<times> json) list option"
  tm_force :: bool

text \<open>Starting the module: tracking is enabled when \<open>SENTRY_DSN\<close> is set.\<close>

definition tracking_enabled :: "string option \<Rightarrow> bool" where
  "tracking_enabled dsn = given dsn"

definition operational :: "thrown \<Rightarrow> bool" where
  "operational x = (case x of ThrownApp e \<Rightarrow> ae_isOperational e | _ \<Rightarrow> False)"

definition non_empty :: "string option \<Rightarrow> string option" where
  "non_empty x = (if given x then x else None)"

text \<open>\<open>client\<close> is the id Sentry answers with.\<close>

definition captureException ::
  "bool \<Rightarrow> (sentry_event \<Rightarrow> string) \<Rightarrow> thrown \<Rightarrow> tracking_meta \<Rightarrow> sentry_event list \<Rightarrow> string option \<times> sentry_event list" where
  "captureException enabled client x meta events =
     (if \<not> enabled then (None, events)
      else if operational x \<and> \<not> tm_force meta then (None, events)
      else (let ev = \<lparr>sy_error = x, sy_correlationId = non_empty (tm_correlationId meta), sy_user = non_empty (tm_userId meta),
                 sy_extra = tm_extra meta, sy_errorCode = (case x of ThrownApp e \<Rightarrow> Some (ae_code e) | _ \<Rightarrow> None)\<rparr>
            in (Some (client ev), events @ [ev])))"

section \<open>The exception filter\<close>

record error_response =
  er_statusCode :: int
  er_error :: json
  er_message :: json
  er_correlationId :: string
  er_timestamp :: string
  er_path :: string
  er_code :: "json option"
  er_retryAfter :: "json option"
  er_errors :: "json option"

text \<open>The calls of the logger: \<open>logError\<close> with the error's name and message, \<open>warn\<close> with the parts of
  its text.\<close>

datatype log_call = LogError string string string string "string option" int | LogWarn json json

text \<open>\<open>x && x.length > 0\<close> for a JSON value.\<close>

definition has_length :: "json \<Rightarrow> bool" where
  "has_length j =
     (case j of
        JArr xs \<Rightarrow> xs \<noteq> []
      | JStr s \<Rightarrow> s \<noteq> []
      | JObj fs \<Rightarrow> (case map_of fs ''length'' of Some v \<Rightarrow> (case number_of_json v of Some n \<Rightarrow> 0 < n | None \<Rightarrow> False) | None \<Rightarrow> False)
      | _ \<Rightarrow> False)"

record derived =
  dv_statusCode :: int
  dv_message :: json
  dv_code :: "json option"
  dv_retryAfter :: "json option"
  dv_errorName :: json
  dv_errors :: "json option"

definition derive :: "thrown \<Rightarrow> derived" where
  "derive x =
     (case x of
        ThrownApp e \<Rightarrow>
          \<lparr>dv_statusCode = ae_statusCode e, dv_message = JStr (ae_message e), dv_code = Some (JStr (ae_code e)), dv_retryAfter = None,
            dv_errorName = JStr (ae_name e), dv_errors = map_option JArr (ae_errors e)\<rparr>
      | ThrownHttp e \<Rightarrow>
          (let plain = \<lparr>dv_statusCode = he_status e, dv_message = JStr (he_message e), dv_code = None, dv_retryAfter = None,
                 dv_errorName = JStr (he_name e), dv_errors = None\<rparr>
           in case he_response e of
                JStr s \<Rightarrow> plain\<lparr>dv_message := JStr s\<rparr>
              | JObj fs \<Rightarrow>
                  (case map_of fs ''message'' of
                     None \<Rightarrow> plain
                   | Some msg \<Rightarrow>
                       \<lparr>dv_statusCode = he_status e, dv_message = msg, dv_code = map_of fs ''code'', dv_retryAfter = map_of fs ''retryAfter'',
                         dv_errorName = (case map_of fs ''error'' of Some n \<Rightarrow> if falsy n then JStr (he_name e) else n | None \<Rightarrow> JStr (he_name e)),
                         dv_errors = map_of fs ''errors''\<rparr>)
              | _ \<Rightarrow> plain)
      | ThrownError name message \<Rightarrow>
          \<lparr>dv_statusCode = 500, dv_message = JStr ''An unexpected error occurred'', dv_code = None, dv_retryAfter = None,
            dv_errorName = JStr name, dv_errors = None\<rparr>
      | ThrownValue v \<Rightarrow>
          \<lparr>dv_statusCode = 500, dv_message = JStr ''An unexpected error occurred'', dv_code = None, dv_retryAfter = None,
            dv_errorName = JStr ''UnknownError'', dv_errors = None\<rparr>)"

definition error_parts :: "(json \<Rightarrow> string) \<Rightarrow> thrown \<Rightarrow> string \<times> string" where
  "error_parts text x =
     (case x of
        ThrownApp e \<Rightarrow> (ae_name e, ae_message e)
      | ThrownHttp e \<Rightarrow> (he_name e, he_message e)
      | ThrownError name message \<Rightarrow> (name, message)
      | ThrownValue v \<Rightarrow> (''Error'', text v))"

definition filter_log :: "(json \<Rightarrow> string) \<Rightarrow> tagged_request \<Rightarrow> thrown \<Rightarrow> log_call list" where
  "filter_log text r x =
     (let d = derive x; (name, message) = error_parts text x
      in if 500 \<le> dv_statusCode d then [LogError name message (getCorrelationId r) (rq_method r) (rq_url r) (dv_statusCode d)]
         else if 400 \<le> dv_statusCode d then [LogWarn (dv_errorName d) (dv_message d)]
         else [])"

definition filter_report ::
  "bool \<Rightarrow> (sentry_event \<Rightarrow> string) \<Rightarrow> tagged_request \<Rightarrow> thrown \<Rightarrow> sentry_event list \<Rightarrow> sentry_event list" where
  "filter_report enabled client r x events =
     (if \<not> operational x \<and> (case x of ThrownValue _ \<Rightarrow> False | _ \<Rightarrow> True)
      then snd (captureException enabled client x
             \<lparr>tm_correlationId = Some (getCorrelationId r), tm_userId = None,
               tm_extra = Some ([(''method'', JStr (rq_method r))] @ (case rq_url r of Some u \<Rightarrow> [(''url'', JStr u)] | None \<Rightarrow> []) @
                 [(''statusCode'', JNum (of_int (dv_statusCode (derive x))))]), tm_force = False\<rparr> events)
      else events)"

definition error_body :: "string \<Rightarrow> tagged_request \<Rightarrow> thrown \<Rightarrow> error_response" where
  "error_body timestamp r x =
     (let d = derive x
      in \<lparr>er_statusCode = dv_statusCode d, er_error = dv_errorName d, er_message = dv_message d, er_correlationId = getCorrelationId r,
           er_timestamp = timestamp, er_path = or_else (rq_url r) [],
           er_code = (case dv_code d of Some c \<Rightarrow> if falsy c then None else Some c | None \<Rightarrow> None),
           er_retryAfter = dv_retryAfter d,
           er_errors = (case dv_errors d of Some es \<Rightarrow> if has_length es then Some es else None | None \<Rightarrow> None)\<rparr>)"

definition catch_exception ::
  "(json \<Rightarrow> string) \<Rightarrow> bool \<Rightarrow> (sentry_event \<Rightarrow> string) \<Rightarrow> string \<Rightarrow> tagged_request \<Rightarrow> thrown \<Rightarrow> sentry_event list \<Rightarrow>
   error_response \<times> log_call list \<times> sentry_event list" where
  "catch_exception text enabled client timestamp r x events =
     (error_body timestamp r x, filter_log text r x, filter_report enabled client r x events)"

section \<open>Answers\<close>

text \<open>What the file checks throw carries one error.\<close>

lemma file_exception:
  assumes "validate_uploaded tx opts file = Some (Inr x)"
  shows "\<exists>f m c rcv. x = forField f m c rcv"
  using assms
  by (auto simp: validate_uploaded_def missing_file_def validate_content_def size_error_def extension_error_def mime_error_def
      magic_error_def Let_def split: option.splits if_splits sum.splits)

text \<open>Rejected files. Whatever the file checks reject is answered with status 400, the code of a validation error and the one field error in a
  list, logged as a client error and never reported.\<close>

theorem file_rejection_answer:
  assumes "validate_uploaded tx opts file = Some (Inr x)"
  shows "\<exists>e. vx_errors x = [e] \<and>
    (let (body, calls, events') = catch_exception txt enabled client ts r (ThrownApp (validation_app_error x)) events
     in er_statusCode body = 400 \<and> er_code body = Some (JStr ''VALIDATION_ERROR'') \<and> er_message body = JStr (vx_message x) \<and>
        er_errors body = Some (JArr [formatted_json e]) \<and>
        vx_message x = ''Validation failed on '' @ [CHR 0x27] @ fx_field e @ [CHR 0x27] @ '': '' @ fx_message e \<and>
        calls = [LogWarn (JStr ''RequestValidationException'') (JStr (vx_message x))] \<and> events' = events)"
proof -
  obtain f m c rcv where x: "x = forField f m c rcv" using file_exception [OF assms] by blast
  let ?e = "\<lparr>fx_field = f, fx_message = m, fx_code = c, fx_path = map PName (split_on CHR ''.'' f), fx_received = rcv, fx_expected = None\<rparr>"
  have v: "vx_errors x = [?e]" "vx_statusCode x = 400"
    "vx_message x = ''Validation failed on '' @ [CHR 0x27] @ f @ [CHR 0x27] @ '': '' @ m"
    by (simp_all add: x forField_def request_validation_exception_def given_def)
  then show ?thesis
    by (simp add: catch_exception_def error_body_def derive_def filter_log_def filter_report_def error_parts_def operational_def
        validation_app_error_def base_app_error_def has_length_def falsy_def Let_def)
qed

lemma file_rejection_answer_witness:
  "\<exists>e. vx_errors (forField ''file'' ''File is required'' ''required_file'' None) = [e] \<and>
    er_statusCode (fst (catch_exception (\<lambda>_. []) True (\<lambda>_. []) [] \<lparr>rq_method = ''POST'', rq_url = None, rq_correlationId = None\<rparr>
      (ThrownApp (validation_app_error (forField ''file'' ''File is required'' ''required_file'' None))) [])) = 400"
proof -
  have "validate_uploaded plain_texts upload_options None = Some (Inr (forField ''file'' ''File is required'' ''required_file'' None))"
    by (simp add: validate_uploaded_def missing_file_def upload_options_def custom_def given_def)
  from file_rejection_answer [OF this, of "\<lambda>_. []" True "\<lambda>_. []" "[]" "\<lparr>rq_method = ''POST'', rq_url = None, rq_correlationId = None\<rparr>" "[]"]
  show ?thesis unfolding Let_def case_prod_beta by blast
qed

text \<open>The answer to an unexpected error does not depend on its message; the constructors' statuses are errors.\<close>

lemma unexpected_error_opaque:
  "error_body ts r (ThrownError n m) = error_body ts r (ThrownError n m')" "error_body ts r (ThrownValue v) = error_body ts r (ThrownValue v')"
  by (simp_all add: error_body_def derive_def)

text \<open>The waiting time of a rate limit error is not part of its answer.\<close>

lemma retry_after_lost: "er_retryAfter (error_body ts r (ThrownApp (RateLimitError m (Some n)))) = None"
  by (simp add: error_body_def derive_def)

end
