(* ===== verification/Request_Log.thy ===== *)
theory Request_Log
  imports Error_Handling
begin

text \<open>
  The application logger, the interceptor that logs every request and the decorator that times a
  method (src/logging/services/app-logger.service.ts, interceptors/http-logging.interceptor.ts,
  utils/performance.decorator.ts), and a request's way through middleware, interceptor and filter.

  A log entry is what the logger hands to winston: level, message and metadata; absent fields are left
  out. The arrows of the messages are written \<open>->\<close> and \<open><-\<close>.
\<close>

section \<open>The logger\<close>

record app_log_entry =
  le_level :: string
  le_message :: string
  le_meta :: "(string \<times> json) list"

definition optional :: "string \<Rightarrow> json option \<Rightarrow> (string \<times> json) list" where
  "optional k v = (case v of Some j \<Rightarrow> [(k, j)] | None \<Rightarrow> [])"

definition logger_info :: "string \<Rightarrow> (string \<times> json) list \<Rightarrow> app_log_entry" where
  "logger_info message meta = \<lparr>le_level = ''info'', le_message = message, le_meta = meta\<rparr>"

definition logger_http :: "string \<Rightarrow> (string \<times> json) list \<Rightarrow> app_log_entry" where
  "logger_http message meta = \<lparr>le_level = ''http'', le_message = message, le_meta = meta\<rparr>"

definition logger_log :: "string \<Rightarrow> string option \<Rightarrow> app_log_entry" where
  "logger_log message ctx = logger_info message (optional ''service'' (map_option JStr ctx))"

definition logger_with_context :: "string \<Rightarrow> string \<Rightarrow> string option \<Rightarrow> app_log_entry" where
  "logger_with_context level message ctx =
     \<lparr>le_level = level, le_message = message, le_meta = optional ''service'' (map_option JStr ctx)\<rparr>"

definition logger_warn :: "string \<Rightarrow> string option \<Rightarrow> app_log_entry" where "logger_warn = logger_with_context ''warn''"
definition logger_debug :: "string \<Rightarrow> string option \<Rightarrow> app_log_entry" where "logger_debug = logger_with_context ''debug''"
definition logger_verbose :: "string \<Rightarrow> string option \<Rightarrow> app_log_entry" where "logger_verbose = logger_with_context ''verbose''"

datatype trace_or_meta = Trace string | Meta "(string \<times> json) list"

definition logger_error :: "string \<Rightarrow> trace_or_meta option \<Rightarrow> string option \<Rightarrow> app_log_entry" where
  "logger_error message traceOrMeta ctx =
     \<lparr>le_level = ''error'', le_message = message,
       le_meta = (case traceOrMeta of
           Some (Trace stack) \<Rightarrow> [(''error'', JObj [(''stack'', JStr stack)])] @ optional ''service'' (map_option JStr ctx)
         | Some (Meta m) \<Rightarrow> m
         | None \<Rightarrow> [])\<rparr>"

definition logger_logError :: "string \<Rightarrow> string \<Rightarrow> string option \<Rightarrow> json option \<Rightarrow> (string \<times> json) list \<Rightarrow> app_log_entry" where
  "logger_logError name message stack code meta =
     \<lparr>le_level = ''error'', le_message = message,
       le_meta = map_set ''error'' (JObj ([(''name'', JStr name), (''message'', JStr message)] @
         optional ''stack'' (map_option JStr stack) @ optional ''code'' code)) meta\<rparr>"

definition logger_logPerformance :: "string \<Rightarrow> int \<Rightarrow> (string \<times> json) list \<Rightarrow> app_log_entry" where
  "logger_logPerformance operation durationMs meta =
     logger_info (''[PERF] '' @ operation @ '' completed in '' @ string_of_int durationMs @ ''ms'')
       (map_set ''performance'' (JObj [(''operation'', JStr operation), (''durationMs'', JNum (of_int durationMs))]) meta)"

text \<open>The format of the files and of production, on the fields winston passes it.\<close>

definition redactFormat :: "(string \<times> json) list \<Rightarrow> (string \<times> json) list" where
  "redactFormat info =
     (case map_of info ''meta'' of
        Some v \<Rightarrow> if falsy v then info else map_set ''meta'' (redactSensitiveData DEFAULT_SENSITIVE_KEYS 0 v) info
      | None \<Rightarrow> info)"

section \<open>The interceptor\<close>

definition LOG_BODY_MAX_BYTES :: nat where "LOG_BODY_MAX_BYTES = 2048"

definition truncateBody :: "(json \<Rightarrow> string) \<Rightarrow> json option \<Rightarrow> json option" where
  "truncateBody stringify body =
     (case body of
        None \<Rightarrow> None
      | Some b \<Rightarrow>
          if falsy b then None
          else (let str = stringify b
                in if length str \<le> LOG_BODY_MAX_BYTES then Some b
                   else Some (JStr (''[truncated '' @ string_of_int (int (length str)) @ '' bytes]''))))"

record logged_request =
  lr_request :: tagged_request
  lr_originalUrl :: string
  lr_forwardedFor :: "string option"
  lr_remoteAddress :: "string option"
  lr_userAgent :: "string option"
  lr_body :: "json option"

definition request_meta :: "string \<Rightarrow> logged_request \<Rightarrow> (string \<times> json) list \<Rightarrow> (string \<times> json) list \<Rightarrow> (string \<times> json) list" where
  "request_meta url q outcome client =
     [(''correlationId'', JStr (getCorrelationId (lr_request q))),
      (''http'', JObj ([(''method'', JStr (rq_method (lr_request q))), (''url'', JStr url)] @ outcome @ client))]"

definition client_meta :: "logged_request \<Rightarrow> (string \<times> json) list" where
  "client_meta q =
     [(''ip'', JStr (or_else (lr_forwardedFor q) (or_else (lr_remoteAddress q) []))), (''userAgent'', JStr (or_else (lr_userAgent q) []))]"

definition request_entry :: "(json \<Rightarrow> string) \<Rightarrow> (string \<Rightarrow> parsed_url option) \<Rightarrow> logged_request \<Rightarrow> app_log_entry" where
  "request_entry stringify parse_url q =
     (let method = rq_method (lr_request q); url = redactUrlParams parse_url (lr_originalUrl q)
      in logger_http (''-> '' @ method @ '' '' @ url)
           (request_meta url q [] (client_meta q) @
            optional ''requestBody'' (truncateBody stringify (map_option (redactSensitiveData DEFAULT_SENSITIVE_KEYS 0) (lr_body q)))))"

text \<open>\<open>statusCode\<close> is the status of the response at the end of the handler; the result of the handler is
  passed on.\<close>

definition log_intercept ::
  "(json \<Rightarrow> string) \<Rightarrow> (json \<Rightarrow> string) \<Rightarrow> (string \<Rightarrow> parsed_url option) \<Rightarrow> logged_request \<Rightarrow> int \<Rightarrow> int \<Rightarrow> int \<Rightarrow> thrown + 'a \<Rightarrow>
   (thrown + 'a) \<times> app_log_entry list" where
  "log_intercept text stringify parse_url q startedAt endedAt resStatus result =
     (let method = rq_method (lr_request q); url = redactUrlParams parse_url (lr_originalUrl q);
          durationMs = endedAt - startedAt;
          answer = (\<lambda>statusCode. [(''statusCode'', JNum (of_int statusCode)), (''durationMs'', JNum (of_int durationMs))]);
          message = (\<lambda>statusCode. ''<- '' @ method @ '' '' @ url @ '' '' @ string_of_int statusCode @ '' ('' @ string_of_int durationMs @ ''ms)'')
      in (result, request_entry stringify parse_url q #
           (case result of
              Inr _ \<Rightarrow>
                [logger_http (message resStatus) (request_meta url q (answer resStatus) (client_meta q)),
                 logger_logPerformance (method @ '' '' @ url) durationMs
                   (request_meta url q [(''statusCode'', JNum (of_int resStatus))] [])]
            | Inl x \<Rightarrow>
                (let statusCode = (if resStatus = 0 then 500 else resStatus);
                     err = (case x of ThrownValue v \<Rightarrow> [(''message'', JStr (text v))]
                            | _ \<Rightarrow> (let (name, m) = error_parts text x in [(''name'', JStr name), (''message'', JStr m)]))
                 in [logger_http (message statusCode @ '' [ERROR]'')
                       (request_meta url q (answer statusCode) (client_meta q) @ [(''error'', JObj err)])]))))"

section \<open>Timed methods\<close>

datatype ('a, 'e) call_outcome = Returned 'a | Threw 'e | Resolved 'a | Rejected 'e

text \<open>The decorator passes the outcome on; a method that throws before it returns is not logged.\<close>

definition TrackPerformance ::
  "string option \<Rightarrow> string \<Rightarrow> string \<Rightarrow> bool \<Rightarrow> int \<Rightarrow> ('a, 'e) call_outcome \<Rightarrow> ('a, 'e) call_outcome \<times> app_log_entry list" where
  "TrackPerformance labelOverride className propertyKey hasLogger durationMs outcome =
     (let label = or_else labelOverride (className @ ''.'' @ propertyKey);
          logResult = (\<lambda>success. if hasLogger
            then [logger_logPerformance label durationMs
                   [(''service'', JStr className),
                    (''performance'', JObj [(''operation'', JStr label), (''durationMs'', JNum (of_int durationMs))]),
                    (''success'', JBool success)]]
            else [])
      in (outcome, case outcome of Returned _ \<Rightarrow> logResult True | Resolved _ \<Rightarrow> logResult True | Rejected _ \<Rightarrow> logResult False | Threw _ \<Rightarrow> []))"

section \<open>A request\<close>

record log_env =
  lg_text :: "json \<Rightarrow> string"
  lg_stringify :: "json \<Rightarrow> string"
  lg_parse_url :: "string \<Rightarrow> parsed_url option"
  lg_tracking :: bool
  lg_client :: "sentry_event \<Rightarrow> string"

record 'a answered =
  sv_header :: string
  sv_result :: "error_response + 'a"
  sv_entries :: "app_log_entry list"
  sv_calls :: "log_call list"
  sv_events :: "sentry_event list"

text \<open>Middleware, interceptor around the handler, whose outcome is \<open>result\<close>, and filter.\<close>

definition serve_request ::
  "log_env \<Rightarrow> string option \<Rightarrow> string \<Rightarrow> string \<Rightarrow> logged_request \<Rightarrow> int \<Rightarrow> int \<Rightarrow> int \<Rightarrow> thrown + 'a \<Rightarrow> sentry_event list \<Rightarrow> 'a answered" where
  "serve_request env header uuid timestamp q t0 t1 resStatus result events =
     (let (r, sent) = correlation_middleware header uuid (lr_request q);
          (result', entries) = log_intercept (lg_text env) (lg_stringify env) (lg_parse_url env) (q\<lparr>lr_request := r\<rparr>) t0 t1 resStatus result
      in case result' of
           Inr a \<Rightarrow> \<lparr>sv_header = sent, sv_result = Inr a, sv_entries = entries, sv_calls = [], sv_events = events\<rparr>
         | Inl x \<Rightarrow>
             (let (body, calls, events') = catch_exception (lg_text env) (lg_tracking env) (lg_client env) timestamp r x events
              in \<lparr>sv_header = sent, sv_result = Inl body, sv_entries = entries, sv_calls = calls, sv_events = events'\<rparr>))"

lemma sent_header: "sv_header (serve_request env header uuid ts q t0 t1 st result events) = snd (correlation_middleware header uuid (lr_request q))"
  by (simp add: serve_request_def catch_exception_def case_prod_beta split: sum.split)

lemma correlation_attached: "getCorrelationId (fst (correlation_middleware header uuid r)) = snd (correlation_middleware header uuid r)"
  by (simp add: correlation_middleware_def getCorrelationId_def Let_def)

lemma entries_correlated:
  "list_all (\<lambda>e. map_of (le_meta e) ''correlationId'' = Some (JStr (getCorrelationId (lr_request q))))
     (snd (log_intercept text stringify parse_url q t0 t1 st result))"
  by (simp add: log_intercept_def request_entry_def request_meta_def logger_http_def logger_logPerformance_def logger_info_def Let_def
      split: sum.split)


text \<open>A failed request is reported once if tracking is on, what was thrown is an error and not an expected one of the
  application; nothing else is reported. That includes every exception of the framework, not found and bad request among them.\<close>

lemma reported_errors:
  "map sy_error (sv_events (serve_request env header uuid ts q t0 t1 st result events)) =
   map sy_error events @
     (case result of
        Inl (ThrownApp e) \<Rightarrow> if lg_tracking env \<and> \<not> ae_isOperational e then [ThrownApp e] else []
      | Inl (ThrownValue v) \<Rightarrow> []
      | Inl x \<Rightarrow> if lg_tracking env then [x] else []
      | Inr _ \<Rightarrow> [])"
  by (auto simp: serve_request_def log_intercept_def catch_exception_def filter_report_def captureException_def operational_def case_prod_beta Let_def
      split: sum.split thrown.split)

section \<open>What the log holds\<close>

text \<open>Whatever the request body holds under a sensitive key, up to the depth bound, the log entry of the request has the
  placeholder there or nothing.\<close>

lemma request_log_clean:
  assumes "length p \<le> 10" "sensitive_name k"
  shows "case map_of (le_meta (request_entry stringify parse_url q)) ''requestBody'' of
      Some b \<Rightarrow> json_at (p @ [Key k]) b \<in> {None, Some (JStr REDACTED)}
    | None \<Rightarrow> True"
proof (cases "lr_body q")
  case None
  then show ?thesis
    by (simp add: request_entry_def request_meta_def logger_http_def optional_def truncateBody_def Let_def)
next
  case (Some body)
  let ?b = "redactSensitiveData DEFAULT_SENSITIVE_KEYS 0 body"
  have "json_at (p @ [Key k]) ?b \<in> {None, Some (JStr REDACTED)}"
    using json_at_redacted [of 0 p k DEFAULT_SENSITIVE_KEYS body] assms
    by (auto simp: logged_value_def sensitive_name_def split: if_splits)
  moreover have "json_at (p @ [Key k]) (JStr x) = None" for x by (rule json_at_scalar) simp
  ultimately show ?thesis
    by (auto simp: request_entry_def request_meta_def logger_http_def optional_def truncateBody_def Some Let_def)
qed

lemma request_log_clean_witness:
  "case map_of (le_meta (request_entry (\<lambda>_. []) (\<lambda>_. None) \<lparr>lr_request = \<lparr>rq_method = ''POST'', rq_url = None, rq_correlationId = None\<rparr>,
      lr_originalUrl = ''/auth/login'', lr_forwardedFor = None, lr_remoteAddress = None, lr_userAgent = None,
      lr_body = Some (JObj [(''Password'', JStr ''hunter2'')])\<rparr>)) ''requestBody'' of
      Some b \<Rightarrow> json_at [Key ''Password''] b \<in> {None, Some (JStr REDACTED)}
    | None \<Rightarrow> True"
proof -
  have name: "sensitive_name ''Password''" by code_simp
  show ?thesis by (rule request_log_clean [OF _ name, of "[]", unfolded append_Nil]) simp
qed

text \<open>The format of the files looks at a field \<open>meta\<close>, which none of the logger's methods sets: without it
  the metadata is written as it is.\<close>

lemma files_not_redacted: "map_of info ''meta'' = None \<Longrightarrow> redactFormat info = info"
  by (simp add: redactFormat_def)

text \<open>The log entry of a failed request has the status the response had so far, not the one the filter answers.\<close>

lemma failure_logged_with_old_status:
  assumes "st \<noteq> 0" "log_intercept tx stringify parse_url q t0 t1 st (Inl x :: thrown + 'a) = (r, es)"
  shows "r = Inl x \<and> json_at [Key ''statusCode''] (or_else (map_of (le_meta (last es)) ''http'') JNull) = Some (JNum (of_int st))"
  using assms by (auto simp: log_intercept_def request_meta_def logger_http_def Let_def)

text \<open>A method that throws at once is not timed.\<close>

lemma timed_calls:
  "fst (TrackPerformance l c k True d res) = res \<and>
   (snd (TrackPerformance l c k True d res) = [] \<longleftrightarrow> (\<exists>e. res = Threw e))"
  by (cases res) (simp_all add: TrackPerformance_def Let_def)

end
