(* ===== verification/Domain_Rules.thy ===== *)
theory Domain_Rules
  imports JS_Text
begin

text \<open>
  The domain rules of the validation module (src/validation/rules/domain-rules.ts).

  A rule is a function from the value it is given to its issues or its output. The rules are built from
  zod: its checks on strings run in order and all report, a transformation runs only when they passed.
  Left to zod or to libraries, and arguments here, are the check of a Stellar key, the coercion to a
  date and the text of a number; the rules for dates, UUIDs and IP addresses that are zod's alone are
  not modelled. Shown are: what an accepted amount and password satisfy, and that a sanitized string
  contains no tag.
\<close>

definition or_text :: "string option \<Rightarrow> string \<Rightarrow> string" where
  "or_text x d = (if given x then the x else d)"

definition refined :: "bool \<Rightarrow> string \<Rightarrow> 'a \<Rightarrow> string list + 'a" where
  "refined ok message v = (if ok then Inr v else Inl [message])"

section \<open>Keys, hashes and codes\<close>

definition decimal_digits :: string where "decimal_digits = ''0123456789''"
definition hex_chars :: string where "hex_chars = ''abcdefABCDEF0123456789''"
definition base32_chars :: string where "base32_chars = ''ABCDEFGHIJKLMNOPQRSTUVWXYZ234567''"
definition alphanumeric :: string where
  "alphanumeric = ''abcdefghijklmnopqrstuvwxyzABCDEFGHIJKLMNOPQRSTUVWXYZ0123456789''"

definition exactly :: "nat \<Rightarrow> string \<Rightarrow> string \<Rightarrow> bool" where
  "exactly n cs s = (length s = n \<and> list_all (\<lambda>c. c \<in> set cs) s)"

text \<open>\<open>strkey\<close> is the check of stellar-sdk; where it throws, the shape decides.\<close>

definition stellar_key :: "string \<Rightarrow> (string \<Rightarrow> error + bool) \<Rightarrow> string \<Rightarrow> bool" where
  "stellar_key prefix strkey val =
     (case strkey val of
        Inr ok \<Rightarrow> ok
      | Inl _ \<Rightarrow> take 1 val = prefix \<and> exactly 55 base32_chars (drop 1 val))"

definition stellarAddress :: "(string \<Rightarrow> error + bool) \<Rightarrow> string option \<Rightarrow> string \<Rightarrow> string list + string" where
  "stellarAddress isValidEd25519PublicKey customMessage s =
     (let val = js_trim s
      in refined (stellar_key ''G'' isValidEd25519PublicKey val)
           (or_text customMessage ''Invalid Stellar public address (must be a valid 56-character Ed25519 public key starting with G)'') val)"

definition stellarSecretKey :: "(string \<Rightarrow> error + bool) \<Rightarrow> string option \<Rightarrow> string \<Rightarrow> string list + string" where
  "stellarSecretKey isValidEd25519SecretSeed customMessage s =
     (let val = js_trim s
      in refined (stellar_key ''S'' isValidEd25519SecretSeed val)
           (or_text customMessage ''Invalid Stellar secret key (must be a valid 56-character secret seed starting with S)'') val)"

definition stellarTxHash :: "string option \<Rightarrow> string \<Rightarrow> string list + string" where
  "stellarTxHash customMessage s =
     (let val = js_trim s
      in refined (exactly 64 hex_chars val)
           (or_text customMessage ''Invalid transaction hash: must be a 64-character hexadecimal string'') val)"

definition stellarAssetCode :: "string option \<Rightarrow> string \<Rightarrow> string list + string" where
  "stellarAssetCode customMessage s =
     (let val = js_trim s
      in refined (val = ''native'' \<or> (\<exists>n \<in> {1..12}. exactly n alphanumeric val))
           (or_text customMessage (''Invalid asset code: must be '' @ [CHR 0x22] @ ''native'' @ [CHR 0x22] @ '' or 1-12 alphanumeric characters'')) val)"

definition ethereumAddress :: "string option \<Rightarrow> string \<Rightarrow> string list + string" where
  "ethereumAddress customMessage val =
     refined (take 2 val = ''0x'' \<and> exactly 40 hex_chars (drop 2 val))
       (or_text customMessage ''Invalid Ethereum address (must be 0x followed by 40 hexadecimal characters)'') val"

section \<open>Amounts\<close>

datatype amount = AmountText string | AmountNumber rat

record amount_options =
  ao_min :: "rat option"
  ao_max :: "rat option"
  ao_maxDecimals :: "nat option"
  ao_allowZero :: "bool option"

text \<open>\<open>/^-?\d+(\.\d+)?$/\<close>.\<close>

definition decimal_text :: "string \<Rightarrow> bool" where
  "decimal_text s =
     (case split_on CHR ''.'' (if starts_with s ''-'' then drop 1 s else s) of
        [w] \<Rightarrow> w \<noteq> [] \<and> set w \<subseteq> set decimal_digits
      | [w, f] \<Rightarrow> w \<noteq> [] \<and> set w \<subseteq> set decimal_digits \<and> f \<noteq> [] \<and> set f \<subseteq> set decimal_digits
      | _ \<Rightarrow> False)"

definition currencyAmount :: "(rat \<Rightarrow> string) \<Rightarrow> amount_options \<Rightarrow> amount \<Rightarrow> string list + string" where
  "currencyAmount num options val =
     (let strVal = (case val of AmountNumber n \<Rightarrow> num n | AmountText t \<Rightarrow> js_trim t);
          lo = or_else (ao_min options) 0; maxDecimals = or_else (ao_maxDecimals options) 7
      in case number_of_string strVal of
           None \<Rightarrow> Inl [''Amount must be a valid numeric value'']
         | Some n \<Rightarrow>
             if \<not> decimal_text strVal then Inl [''Amount must be a valid numeric value'']
             else if \<not> or_else (ao_allowZero options) True \<and> n = 0 then Inl [''Amount must be strictly greater than zero'']
             else if n < lo then Inl [''Amount must be at least '' @ num lo]
             else if (case ao_max options of Some hi \<Rightarrow> hi < n | None \<Rightarrow> False)
             then Inl [''Amount cannot exceed '' @ num (the (ao_max options))]
             else (let decimalParts = split_on CHR ''.'' strVal
                   in if length decimalParts = 2 \<and> maxDecimals < length (decimalParts ! 1)
                      then Inl [''Amount exceeds maximum allowed precision of '' @ string_of_int (int maxDecimals) @ '' decimal places'']
                      else Inr strVal))"

text \<open>The coercion is \<open>Number(v)\<close>; \<open>None\<close> stands for a result that is no number.\<close>

definition percentage :: "(rat \<Rightarrow> string) \<Rightarrow> rat option \<Rightarrow> rat option \<Rightarrow> json \<Rightarrow> string list + rat" where
  "percentage num omin omax v =
     (let lo = or_else omin 0; hi = or_else omax 100
      in case number_of_json v of
           None \<Rightarrow> Inl [''Percentage must be a valid number'']
         | Some n \<Rightarrow>
             (let issues = (if n < lo then [''Percentage must be at least '' @ num lo @ ''%''] else []) @
                           (if hi < n then [''Percentage cannot exceed '' @ num hi @ ''%''] else [])
              in if issues = [] then Inr n else Inl issues))"

section \<open>Passwords\<close>

record password_options =
  po_minLength :: "nat option"
  po_requireUppercase :: "bool option"
  po_requireLowercase :: "bool option"
  po_requireNumbers :: "bool option"
  po_requireSpecial :: "bool option"

definition upper_letters :: string where "upper_letters = ''ABCDEFGHIJKLMNOPQRSTUVWXYZ''"
definition lower_letters :: string where "lower_letters = ''abcdefghijklmnopqrstuvwxyz''"
definition special_chars :: string where
  "special_chars = ''!@#$%^&*()_+-=[]{};:'' @ [CHR 0x27, CHR 0x22, CHR 0x5C] @ ''|,.<>/?''"

definition missing :: "bool option \<Rightarrow> string \<Rightarrow> string \<Rightarrow> string \<Rightarrow> string list" where
  "missing required cs val message = (if or_else required True \<and> \<not> list_ex (\<lambda>c. c \<in> set cs) val then [message] else [])"

definition securePassword :: "password_options \<Rightarrow> string \<Rightarrow> string list + string" where
  "securePassword options val =
     (let minLength = or_else (po_minLength options) 8;
          issues = (if length val < minLength then [''Password must be at least '' @ string_of_int (int minLength) @ '' characters long''] else []) @
            missing (po_requireUppercase options) upper_letters val ''Password must contain at least one uppercase letter'' @
            missing (po_requireLowercase options) lower_letters val ''Password must contain at least one lowercase letter'' @
            missing (po_requireNumbers options) decimal_digits val ''Password must contain at least one number'' @
            missing (po_requireSpecial options) special_chars val ''Password must contain at least one special character''
      in if issues = [] then Inr val else Inl issues)"

section \<open>Sanitized text\<close>

text \<open>A regular expression with the flag \<open>i\<close> on a prefix.\<close>

definition prefix_ci :: "string \<Rightarrow> string \<Rightarrow> bool" where
  "prefix_ci p s = (to_lower (take (length p) s) = p)"

definition word_char :: "char \<Rightarrow> bool" where
  "word_char c \<longleftrightarrow> c \<in> set alphanumeric \<or> c = CHR ''_''"

text \<open>\<open><script\b\<close>, and the rest after the first closing tag: the expression's middle part crosses every
  other angle bracket.\<close>

definition script_open :: "string \<Rightarrow> bool" where
  "script_open s \<longleftrightarrow> prefix_ci ''<script'' s \<and> (case drop 7 s of [] \<Rightarrow> True | c # _ \<Rightarrow> \<not> word_char c)"

fun after_close :: "string \<Rightarrow> string option" where
  "after_close [] = None"
| "after_close (c # cs) = (if prefix_ci ''</script>'' (c # cs) then Some (drop 9 (c # cs)) else after_close cs)"

lemma after_close_shorter: "after_close s = Some r \<Longrightarrow> length r < length s"
  by (induction s) (auto split: if_splits simp: less_Suc_eq_le)

function strip_scripts :: "string \<Rightarrow> string" where
  "strip_scripts [] = []"
| "strip_scripts (c # cs) =
     (if script_open (c # cs)
      then (case after_close (drop 7 (c # cs)) of Some rest \<Rightarrow> strip_scripts rest | None \<Rightarrow> c # strip_scripts cs)
      else c # strip_scripts cs)"
  by pat_completeness auto

termination
proof (relation "measure length")
  fix c cs rest assume "after_close (drop 7 (c # cs)) = Some rest"
  from after_close_shorter [OF this] show "(rest, c # cs) \<in> measure length" by simp
qed simp_all

text \<open>\<open>/<[^>]+>/\<close> after its first character.\<close>

definition tag_rest :: "string \<Rightarrow> string option" where
  "tag_rest s =
     (let body = takeWhile (\<lambda>c. c \<noteq> CHR ''>'') s; r = dropWhile (\<lambda>c. c \<noteq> CHR ''>'') s
      in if body \<noteq> [] \<and> r \<noteq> [] then Some (tl r) else None)"

lemma tag_rest_split: "tag_rest s = Some r \<Longrightarrow> \<exists>b. b \<noteq> [] \<and> s = b @ CHR ''>'' # r"
proof -
  assume a: "tag_rest s = Some r"
  then have r: "dropWhile (\<lambda>c. c \<noteq> CHR ''>'') s \<noteq> []" "r = tl (dropWhile (\<lambda>c. c \<noteq> CHR ''>'') s)"
    by (auto simp: tag_rest_def Let_def split: if_splits)
  have "hd (dropWhile (\<lambda>c. c \<noteq> CHR ''>'') s) = CHR ''>''" using hd_dropWhile [OF r(1)] by simp
  then have "dropWhile (\<lambda>c. c \<noteq> CHR ''>'') s = CHR ''>'' # r" using r by (metis list.collapse)
  moreover have "takeWhile (\<lambda>c. c \<noteq> CHR ''>'') s \<noteq> []"
    using a by (simp add: tag_rest_def Let_def split: if_splits)
  ultimately show ?thesis by (metis takeWhile_dropWhile_id)
qed

lemma tag_rest_shorter: "tag_rest s = Some r \<Longrightarrow> length r < length s"
  by (auto dest: tag_rest_split)

function strip_tags :: "string \<Rightarrow> string" where
  "strip_tags [] = []"
| "strip_tags (c # cs) =
     (if c = CHR ''<'' then (case tag_rest cs of Some rest \<Rightarrow> strip_tags rest | None \<Rightarrow> c # strip_tags cs)
      else c # strip_tags cs)"
  by pat_completeness auto

termination
proof (relation "measure length")
  fix c :: char and cs rest assume "tag_rest cs = Some rest"
  from tag_rest_shorter [OF this] show "(rest, c # cs) \<in> measure length" by simp
qed simp_all

definition sanitize :: "string \<Rightarrow> string" where
  "sanitize val = filter (\<lambda>c. c \<noteq> CHR 0x00) (strip_tags (strip_scripts val))"

record length_options =
  lo_minLength :: "nat option"
  lo_maxLength :: "nat option"

definition sanitizedString :: "length_options \<Rightarrow> string \<Rightarrow> string list + string" where
  "sanitizedString options s =
     (let val = js_trim s;
          issues = (case lo_minLength options of Some n \<Rightarrow> if length val < n then [''Must be at least '' @ string_of_int (int n) @ '' characters''] else [] | None \<Rightarrow> []) @
                   (case lo_maxLength options of Some n \<Rightarrow> if n < length val then [''Cannot exceed '' @ string_of_int (int n) @ '' characters''] else [] | None \<Rightarrow> [])
      in if issues = [] then Inr (sanitize val) else Inl issues)"

section \<open>Dates\<close>

definition futureDate :: "(json \<Rightarrow> int option) \<Rightarrow> int \<Rightarrow> string option \<Rightarrow> json \<Rightarrow> string list + int" where
  "futureDate to_date now customMessage v =
     (case to_date v of
        None \<Rightarrow> Inl [''Invalid date'']
      | Some d \<Rightarrow> refined (now < d) (or_text customMessage ''Date must be in the future'') d)"

definition pastDate :: "(json \<Rightarrow> int option) \<Rightarrow> int \<Rightarrow> string option \<Rightarrow> json \<Rightarrow> string list + int" where
  "pastDate to_date now customMessage v =
     (case to_date v of
        None \<Rightarrow> Inl [''Invalid date'']
      | Some d \<Rightarrow> refined (d < now) (or_text customMessage ''Date must be in the past'') d)"

section \<open>No tags\<close>

fun has_tag :: "string \<Rightarrow> bool" where
  "has_tag [] = False"
| "has_tag (c # cs) = (c = CHR ''<'' \<and> tag_rest cs \<noteq> None \<or> has_tag cs)"

lemma tag_rest_none: "tag_rest s = None \<longleftrightarrow> s = [] \<or> hd s = CHR ''>'' \<or> CHR ''>'' \<notin> set s"
  by (cases s) (auto simp: tag_rest_def Let_def dropWhile_eq_Nil_conv)

lemma set_strip_tags: "set (strip_tags s) \<subseteq> set s"
proof (induction s rule: strip_tags.induct)
  case (2 c cs)
  have "set r \<subseteq> set cs" if "tag_rest cs = Some r" for r
    using tag_rest_split [OF that] by auto
  then show ?case using 2 by (auto split: option.split; blast)
qed simp

lemma tag_rest_strip:
  assumes "tag_rest s = None" shows "tag_rest (strip_tags s) = None"
proof (cases "CHR ''>'' \<in> set s")
  case True
  then obtain cs where "s = CHR ''>'' # cs" using assms by (cases s) (auto simp: tag_rest_none)
  then show ?thesis by (simp add: tag_rest_none)
next
  case False
  then show ?thesis using set_strip_tags [of s] by (auto simp: tag_rest_none)
qed

lemma strip_tags_clean: "\<not> has_tag (strip_tags s)"
  by (induction s rule: strip_tags.induct) (auto simp: tag_rest_strip split: option.split)

lemma tag_rest_filter: "tag_rest s = None \<Longrightarrow> tag_rest (filter (\<lambda>c. c \<noteq> CHR 0x00) s) = None"
  by (cases s) (auto simp: tag_rest_none)

lemma filter_clean: "\<not> has_tag s \<Longrightarrow> \<not> has_tag (filter (\<lambda>c. c \<noteq> CHR 0x00) s)"
  by (induction s) (auto simp: tag_rest_filter)

text \<open>Only letters are changed to letters.\<close>

lemma lower_char_nonletter:
  assumes "lower_char c = d" "(of_char d :: nat) < 97" shows "c = d"
proof (rule ccontr)
  assume c: "c \<noteq> d"
  then have r: "65 \<le> (of_char c :: nat)" "(of_char c :: nat) \<le> 90" and l: "lower_char c = char_of ((of_char c :: nat) + 32)"
    using assms by (simp_all add: lower_char_def split: if_splits)
  have "(of_char (lower_char c) :: nat) = (of_char c + 32) mod 256" unfolding l by (simp only: of_char_of)
  then show False using assms r by simp
qed

lemma script_open_first: "script_open (c # cs) \<Longrightarrow> c = CHR ''<''"
  by (auto simp: script_open_def prefix_ci_def to_lower_def intro: lower_char_nonletter)

lemma strip_scripts_plain: "CHR ''<'' \<notin> set s \<Longrightarrow> strip_scripts s = s"
  by (induction s) (auto dest: script_open_first)

lemma strip_tags_plain: "CHR ''<'' \<notin> set s \<Longrightarrow> strip_tags s = s"
  by (induction s) auto

text \<open>What \<open>has_tag\<close> says: a match of \<open>/<[^>]+>/\<close>.\<close>

lemma has_tag_iff: "has_tag s \<longleftrightarrow> (\<exists>a b d. s = a @ CHR ''<'' # b @ CHR ''>'' # d \<and> b \<noteq> [] \<and> CHR ''>'' \<notin> set b)"
proof (induction s)
  case (Cons c cs)
  have "tag_rest cs \<noteq> None \<longleftrightarrow> (\<exists>b d. cs = b @ CHR ''>'' # d \<and> b \<noteq> [] \<and> CHR ''>'' \<notin> set b)"
    (is "?l \<longleftrightarrow> ?r")
  proof
    assume ?l
    then have cs: "cs \<noteq> []" "hd cs \<noteq> CHR ''>''" "CHR ''>'' \<in> set cs" by (simp_all add: tag_rest_none)
    then obtain b d where "cs = b @ CHR ''>'' # d" "CHR ''>'' \<notin> set b" by (metis split_list_first)
    moreover from this cs(2) have "b \<noteq> []" by auto
    ultimately show ?r by blast
  next
    assume ?r
    then show ?l by (auto simp: tag_rest_none hd_append neq_Nil_conv)
  qed
  moreover have "(\<exists>a b d. c # cs = a @ CHR ''<'' # b @ CHR ''>'' # d \<and> b \<noteq> [] \<and> CHR ''>'' \<notin> set b) \<longleftrightarrow>
      c = CHR ''<'' \<and> (\<exists>b d. cs = b @ CHR ''>'' # d \<and> b \<noteq> [] \<and> CHR ''>'' \<notin> set b) \<or>
      (\<exists>a b d. cs = a @ CHR ''<'' # b @ CHR ''>'' # d \<and> b \<noteq> [] \<and> CHR ''>'' \<notin> set b)" (is "?m \<longleftrightarrow> ?here \<or> ?later")
  proof
    assume ?m
    then obtain a b d where "c # cs = a @ CHR ''<'' # b @ CHR ''>'' # d" "b \<noteq> [] \<and> CHR ''>'' \<notin> set b" by blast
    then show "?here \<or> ?later" by (cases a) (simp_all, blast+)
  next
    assume "?here \<or> ?later"
    then show ?m
    proof
      assume ?here
      then obtain b d where "c # cs = [] @ CHR ''<'' # b @ CHR ''>'' # d" "b \<noteq> [] \<and> CHR ''>'' \<notin> set b" by auto
      then show ?m by blast
    next
      assume ?later
      then obtain a b d where "cs = a @ CHR ''<'' # b @ CHR ''>'' # d" "b \<noteq> [] \<and> CHR ''>'' \<notin> set b" by blast
      then have "c # cs = (c # a) @ CHR ''<'' # b @ CHR ''>'' # d" "b \<noteq> [] \<and> CHR ''>'' \<notin> set b" by auto
      then show ?m by blast
    qed
  qed
  ultimately show ?case unfolding has_tag.simps Cons.IH by blast
qed simp

lemma strip_tags_fixed: "\<not> has_tag s \<Longrightarrow> strip_tags s = s"
  by (induction s) (auto split: option.split)

lemma prefix_ci_mem:
  assumes "prefix_ci p s" "d \<in> set p" "(of_char d :: nat) < 97" shows "d \<in> set s"
proof -
  have "set p = lower_char ` set (take (length p) s)"
    using assms(1) unfolding prefix_ci_def to_lower_def by (metis list.set_map)
  then obtain c where "c \<in> set (take (length p) s)" "lower_char c = d" using assms(2) by auto
  then show ?thesis using lower_char_nonletter [of c d] assms(3) by (auto dest: in_set_takeD)
qed

lemma after_close_gt: "after_close s = Some r \<Longrightarrow> CHR ''>'' \<in> set s"
proof (induction s)
  case (Cons c cs)
  show ?case
  proof (cases "prefix_ci ''</script>'' (c # cs)")
    case True
    then show ?thesis by (rule prefix_ci_mem) simp_all
  next
    case False
    then show ?thesis using Cons by simp
  qed
qed simp

lemma strip_scripts_fixed: "\<not> has_tag s \<Longrightarrow> strip_scripts s = s"
proof (induction s)
  case (Cons c cs)
  have "after_close (drop 7 (c # cs)) = None" if "script_open (c # cs)"
  proof (rule ccontr)
    assume a: "after_close (drop 7 (c # cs)) \<noteq> None"
    then have gt: "CHR ''>'' \<in> set cs" using after_close_gt set_drop_subset [of 6 cs] by fastforce
    have "c = CHR ''<''" using that by (rule script_open_first)
    moreover have "cs \<noteq> [] \<and> lower_char (hd cs) = CHR ''s''"
      using that by (cases cs) (auto simp: script_open_def prefix_ci_def to_lower_def)
    moreover have "lower_char CHR ''>'' = CHR ''>''" by (simp add: lower_char_def)
    ultimately have "tag_rest cs \<noteq> None" using gt by (auto simp: tag_rest_none)
    then show False using Cons.prems \<open>c = _\<close> by simp
  qed
  then show ?case using Cons by auto
qed simp

lemma filter_fixed: "CHR 0x00 \<notin> set s \<Longrightarrow> filter (\<lambda>c. c \<noteq> CHR 0x00) s = s"
  by (induction s) auto



text \<open>Text without angle brackets and NUL is only trimmed; the length limits are checked before the tags go.\<close>

lemma sanitize_plain: "CHR ''<'' \<notin> set s \<Longrightarrow> CHR 0x00 \<notin> set s \<Longrightarrow> sanitize s = s"
  by (simp add: sanitize_def strip_scripts_plain strip_tags_plain filter_fixed)

lemma short_after_sanitizing: "sanitizedString \<lparr>lo_minLength = Some 3, lo_maxLength = None\<rparr> ''<b>'' = Inr []"
  by code_simp

section \<open>Accepted amounts and passwords\<close>

definition decimals :: "string \<Rightarrow> nat" where
  "decimals s = (case split_on CHR ''.'' s of [_, f] \<Rightarrow> length f | _ \<Rightarrow> 0)"

lemma currency_amount_accepted:
  "currencyAmount num options val = Inr s \<longleftrightarrow>
     s = (case val of AmountNumber n \<Rightarrow> num n | AmountText t \<Rightarrow> js_trim t) \<and> decimal_text s \<and>
     (\<exists>n. number_of_string s = Some n \<and> or_else (ao_min options) 0 \<le> n \<and>
        (case ao_max options of Some hi \<Rightarrow> n \<le> hi | None \<Rightarrow> True) \<and> (if or_else (ao_allowZero options) True then True else n \<noteq> 0)) \<and>
     decimals s \<le> or_else (ao_maxDecimals options) 7"
proof -
  have two: "(length ps = 2 \<and> m < length (ps ! 1)) \<longleftrightarrow> m < (case ps of [_, f] \<Rightarrow> length f | _ \<Rightarrow> 0)" for ps :: "string list" and m
    by (auto split: list.split)
  show ?thesis
    unfolding currencyAmount_def Let_def two decimals_def [symmetric]
    by (auto split: option.splits if_splits)
qed

lemma secure_password_accepted:
  "securePassword \<lparr>po_minLength = None, po_requireUppercase = None, po_requireLowercase = None, po_requireNumbers = None, po_requireSpecial = None\<rparr> v = Inr w \<longleftrightarrow>
     w = v \<and> 8 \<le> length v \<and> set v \<inter> set upper_letters \<noteq> {} \<and> set v \<inter> set lower_letters \<noteq> {} \<and>
     set v \<inter> set decimal_digits \<noteq> {} \<and> set v \<inter> set special_chars \<noteq> {}"
  by (auto simp: securePassword_def missing_def list_ex_iff Let_def)

end
