(* ===== verification/Log_Output.thy ===== *)
theory Log_Output
  imports Request_Log
begin

text \<open>
  Where the application logger writes (src/logging/services/app-logger.service.ts): its transports and the two
  formats of an entry.

  The levels are those of npm, winston's default: a transport writes an entry whose level is at or above the
  transport's own level, or the level of the logger where it has none; a name that is no level lets nothing
  through. The fields winston passes to a format, colours, timestamps and the printing of JSON are
  arguments. Shown are: which files an entry reaches, and what remains of a request's entries at the default level.
\<close>

section \<open>Transports\<close>

datatype log_format = DevFormat | ProdFormat

datatype log_destination = ConsoleLog | RotatingFile string

record log_transport =
  lt_destination :: log_destination
  lt_level :: "string option"
  lt_maxFiles :: "string option"
  lt_format :: log_format
  lt_handleExceptions :: bool

record log_settings =
  ls_dir :: "string option"
  ls_level :: "string option"
  ls_nodeEnv :: "string option"

definition LOG_DIR :: "log_settings \<Rightarrow> string" where "LOG_DIR st = or_else (ls_dir st) ''logs''"
definition LOG_LEVEL :: "log_settings \<Rightarrow> string" where "LOG_LEVEL st = or_else (ls_level st) ''info''"
definition NODE_ENV :: "log_settings \<Rightarrow> string" where "NODE_ENV st = or_else (ls_nodeEnv st) ''development''"

definition buildTransports :: "log_settings \<Rightarrow> log_transport list" where
  "buildTransports st =
     [\<lparr>lt_destination = ConsoleLog, lt_level = None, lt_maxFiles = None,
        lt_format = (if NODE_ENV st = ''production'' then ProdFormat else DevFormat), lt_handleExceptions = True\<rparr>,
      \<lparr>lt_destination = RotatingFile (LOG_DIR st @ ''/application-%DATE%.log''), lt_level = None, lt_maxFiles = Some ''14d'',
        lt_format = ProdFormat, lt_handleExceptions = False\<rparr>,
      \<lparr>lt_destination = RotatingFile (LOG_DIR st @ ''/error-%DATE%.log''), lt_level = Some ''error'', lt_maxFiles = Some ''30d'',
        lt_format = ProdFormat, lt_handleExceptions = False\<rparr>]"

definition npm_levels :: "string list" where
  "npm_levels = [''error'', ''warn'', ''info'', ''http'', ''verbose'', ''debug'', ''silly'']"

definition level_rank :: "string \<Rightarrow> nat option" where
  "level_rank l = (let n = length (takeWhile (\<lambda>x. x \<noteq> l) npm_levels) in if n < length npm_levels then Some n else None)"

definition passes :: "log_settings \<Rightarrow> log_transport \<Rightarrow> app_log_entry \<Rightarrow> bool" where
  "passes st t e =
     (case (level_rank (or_else (lt_level t) (LOG_LEVEL st)), level_rank (le_level e)) of
        (Some bound, Some n) \<Rightarrow> n \<le> bound
      | _ \<Rightarrow> False)"

definition written_to :: "log_settings \<Rightarrow> app_log_entry \<Rightarrow> log_destination list" where
  "written_to st e = map lt_destination (filter (\<lambda>t. passes st t e) (buildTransports st))"

section \<open>Formats\<close>

definition line_feed :: char where "line_feed = CHR 0x0A"

definition indent :: "string \<Rightarrow> string" where
  "indent s = concat (map (\<lambda>c. if c = line_feed then [line_feed] @ ''  '' else [c]) s)"

definition devLine :: "(json \<Rightarrow> string) \<Rightarrow> (json \<Rightarrow> string) \<Rightarrow> (string \<times> json) list \<Rightarrow> string" where
  "devLine text pretty info =
     (let shown = (\<lambda>k. case map_of info k of Some v \<Rightarrow> text v | None \<Rightarrow> ''undefined'');
          present = (\<lambda>k. case map_of info k of Some v \<Rightarrow> \<not> falsy v | None \<Rightarrow> False);
          cid = (if present ''correlationId'' then '' ['' @ shown ''correlationId'' @ '']'' else []);
          svc = (if present ''service'' then '' ('' @ shown ''service'' @ '')'' else []);
          rest = filter (\<lambda>(k, v). k \<notin> {''timestamp'', ''level'', ''message'', ''correlationId'', ''service''}) info;
          extra = (if rest = [] then []
            else [line_feed] @ ''  '' @ indent (pretty (redactSensitiveData DEFAULT_SENSITIVE_KEYS 0 (JObj rest))))
      in shown ''timestamp'' @ '' '' @ shown ''level'' @ svc @ cid @ '': '' @ shown ''message'' @ extra)"

definition prodLine :: "(json \<Rightarrow> string) \<Rightarrow> string \<Rightarrow> (string \<times> json) list \<Rightarrow> string" where
  "prodLine stringify now info = stringify (JObj (map_set ''timestamp'' (JStr now) (redactFormat info)))"

section \<open>What is written\<close>

lemma rank_simps [simp]:
  "level_rank ''error'' = Some 0" "level_rank ''warn'' = Some 1" "level_rank ''info'' = Some 2" "level_rank ''http'' = Some 3"
  "level_rank ''verbose'' = Some 4" "level_rank ''debug'' = Some 5"
  by (simp_all add: level_rank_def npm_levels_def Let_def)

definition error_log :: "log_settings \<Rightarrow> log_destination" where
  "error_log st = RotatingFile (LOG_DIR st @ ''/error-%DATE%.log'')"

text \<open>The error file gets the errors and nothing else, at any level of the logger, a mistyped one included.\<close>

lemma error_file_entries:
  assumes "le_level e \<in> set npm_levels"
  shows "error_log st \<in> set (written_to st e) \<longleftrightarrow> le_level e = ''error''"
  using assms
  by (auto simp: written_to_def buildTransports_def passes_def error_log_def npm_levels_def level_rank_def Let_def split: option.splits)

lemma not_written:
  "le_level e \<noteq> ''error'' \<Longrightarrow> level_rank (LOG_LEVEL st) = Some b \<Longrightarrow> level_rank (le_level e) = Some n \<Longrightarrow> b < n \<Longrightarrow> n \<noteq> 0 \<Longrightarrow>
   written_to st e = []"
  by (simp add: written_to_def buildTransports_def passes_def)

text \<open>At the default level neither entry of the interceptor about a request is written anywhere; of a request
  that is answered there remains the timing, of one that fails nothing.\<close>

theorem request_entries_at_default:
  assumes "ls_level st = None"
  shows "filter (\<lambda>e. written_to st e \<noteq> []) (snd (log_intercept text stringify parse_url q t0 t1 status result)) =
    (case result of
       Inr _ \<Rightarrow> [logger_logPerformance (rq_method (lr_request q) @ '' '' @ redactUrlParams parse_url (lr_originalUrl q)) (t1 - t0)
         (request_meta (redactUrlParams parse_url (lr_originalUrl q)) q [(''statusCode'', JNum (of_int status))] [])]
     | Inl _ \<Rightarrow> [])"
proof -
  have default: "level_rank (LOG_LEVEL st) = Some 2" using assms by (simp add: LOG_LEVEL_def)
  have http: "written_to st (logger_http m meta) = []" for m meta
    by (rule not_written [OF _ default, of _ 3]) (simp_all add: logger_http_def)
  have perf: "written_to st (logger_logPerformance op d meta) \<noteq> []" for op d meta
    using default by (simp add: written_to_def buildTransports_def passes_def logger_logPerformance_def logger_info_def)
  show ?thesis
    by (cases result) (simp_all add: log_intercept_def request_entry_def http perf Let_def case_prod_beta split: thrown.split)
qed

text \<open>The format of the files redacts one field, \<open>meta\<close>; every other field, whatever its key, is printed as it is, while
  the format of development prints the redacted values.\<close>

lemma file_line_unredacted:
  "map_of info ''meta'' = None \<Longrightarrow> prodLine stringify now info = stringify (JObj (map_set ''timestamp'' (JStr now) info))"
  by (simp add: prodLine_def redactFormat_def)

end
