(* ===== verification/Portfolio_Api.thy ===== *)
theory Portfolio_Api
  imports Drift_Props Rebalancing Staking_Props Emergency_Unstake
begin

text \<open>
  The controllers in front of the portfolio services: src/rebalancing/drift-detection.controller.ts,
  multi-asset-rebalancing.controller.ts and rebalancing.controller.ts, src/staking/staking.controller.ts and
  emergency-unstake.controller.ts.

  A request that has passed the guards and pipes is a constructor of the call type of its controller, with the
  parts of the request the handler takes; a controller is a function from the readings of the outside world, the
  call and the state of its service to the answer and the new state. \<open>parse_int\<close> is \<open>parseInt(s, 10)\<close>, with
  \<open>None\<close> for NaN, which every \<open>slice\<close> behind these handlers reads as zero. Shown are: every run of drift
  requests keeps one open alert per breach, which calls leave the state alone, and what the limits of a
  history select.
\<close>

section \<open>Numbers in queries\<close>

definition parse_int :: "string \<Rightarrow> int option" where
  "parse_int s =
     (let t = dropWhile is_js_space s;
          (sign, u) = (case t of [] \<Rightarrow> (1, []) | c # cs \<Rightarrow> if c = CHR ''-'' then (- 1, cs) else if c = CHR ''+'' then (1, cs) else (1, t));
          ds = takeWhile (\<lambda>c. digit_value c \<noteq> None \<and> the (digit_value c) < 10) u
      in if ds = [] then None else map_option (\<lambda>n. sign * int n) (parse_digits 10 0 ds))"

text \<open>\<open>q ? parseInt(q, 10) : d\<close>.\<close>

definition query_int :: "string option \<Rightarrow> int \<Rightarrow> int option" where
  "query_int q d = (if given q then parse_int (the q) else Some d)"

section \<open>Drift detection\<close>

datatype drift_call =
    GetDriftStatus string "asset_allocation list option"
  | CreateDriftConfig drift_config_request
  | UpdateDriftConfig string drift_config_update
  | GetDriftHistory string "string option"
  | GetDriftAlerts "string option"
  | AcknowledgeAlert string "string option"
  | GetDriftAnalysis "string option" "string option" string "asset_allocation list option"
  | RegisterDriftWebhook string string "drift_event list" "string option"

datatype drift_answer =
    StatusAnswer drift_status
  | ConfigAnswer drift_config
  | HistoryAnswer string "drift_history_entry list"
  | AlertsAnswer nat "drift_alert list"
  | AlertAnswer drift_alert
  | AnalysisAnswer "int option" drift_analysis
  | WebhookAnswer string string string "drift_event list" int

record drift_readings =
  dg_fixed2 :: "rat \<Rightarrow> string"
  dg_now :: int
  dg_id :: string
  dg_alertId :: "nat \<Rightarrow> string"

text \<open>The period of an analysis is answered as it was parsed.\<close>

primrec drift_controller :: "drift_readings \<Rightarrow> drift_call \<Rightarrow> drift_service \<Rightarrow> (error + drift_answer) \<times> drift_service" where
  "drift_controller g (GetDriftStatus portfolioId assets) s =
     (let (st, s') = calculateDrift (dg_fixed2 g) (dg_now g) (dg_id g) (dg_alertId g) portfolioId (or_else assets []) s
      in (Inr (StatusAnswer st), s'))"
| "drift_controller g (CreateDriftConfig dto) s = (let (c, s') = createConfig (dg_now g) dto s in (Inr (ConfigAnswer c), s'))"
| "drift_controller g (UpdateDriftConfig portfolioId dto) s =
     (case updateConfig (dg_now g) portfolioId dto s of Inl e \<Rightarrow> (Inl e, s) | Inr (c, s') \<Rightarrow> (Inr (ConfigAnswer c), s'))"
| "drift_controller g (GetDriftHistory portfolioId limit) s =
     (Inr (HistoryAnswer portfolioId (getHistory portfolioId (or_else (query_int limit 100) 0) s)), s)"
| "drift_controller g (GetDriftAlerts portfolioId) s =
     (let alerts = getActiveAlerts portfolioId s in (Inr (AlertsAnswer (length alerts) alerts), s))"
| "drift_controller g (AcknowledgeAlert alertId acknowledgedBy) s =
     (case acknowledgeAlert (dg_now g) alertId acknowledgedBy s of
        Inl e \<Rightarrow> (Inl e, s) | Inr (a, s') \<Rightarrow> (Inr (AlertAnswer a), s'))"
| "drift_controller g (GetDriftAnalysis portfolioId periodDays bodyPortfolioId assets) s =
     (let days = query_int periodDays 30;
          (a, s') = analysePortfolio (dg_fixed2 g) (dg_now g) (dg_id g) (dg_alertId g)
            (or_else portfolioId bodyPortfolioId) (or_else assets []) (or_else days 0) s
      in (Inr (AnalysisAnswer days a), s'))"
| "drift_controller g (RegisterDriftWebhook portfolioId url evs secret) s =
     (let (w, s') = registerWebhook (dg_id g) (dg_now g) portfolioId url evs secret s
      in (Inr (WebhookAnswer (dw_webhookId w) (dw_portfolioId w) (dw_webhookUrl w) (dw_events w) (dw_registeredAt w)), s'))"

section \<open>Rebalancing\<close>

datatype rebalancing_call =
    Plan plan_request
  | Strategies
  | EstimateFees string string "rebalancing_asset list"
  | Execute plan_request
  | GetTrades string
  | GetSlippageEstimate string string string string string string
  | GetExecutionLog string
  | DryRun plan_request
  | CreateSchedule rebalancing_schedule
  | GetSchedule string
  | UpdateSchedule string "rebalancing_schedule \<Rightarrow> rebalancing_schedule"
  | DeleteSchedule string
  | GetExecutionHistory string
  | GetNextExecution string
  | ExecuteNow string
  | ValidateSchedule "string option" "rat option"

datatype rebalancing_answer =
    PlanAnswer plan_response
  | StrategiesAnswer "(string \<times> string) list"
  | FeesAnswer fee_estimate
  | ExecutionAnswer execution_result
  | TradesAnswer string "rebalancing_trade list"
  | SlippageAnswer "slippage_response option"
  | LogAnswer "execution_result list"
  | ScheduleAnswer "schedule_response option"
  | DeletedAnswer bool
  | ExecutionsAnswer "execution_entry list"
  | NextAnswer "(string \<times> int) option"
  | ExecutedAnswer bool "execution_entry list"
  | ValidAnswer bool "string list"

definition strategies :: "(string \<times> string) list" where
  "strategies = [(''min-cost'', ''Optimize for lower fees''), (''min-time'', ''Favor quicker execution''),
     (''balanced'', ''Balance cost and speed'')]"

text \<open>The two clock readings of a call. A slippage query whose numbers are not numbers (\<open>None\<close> here)
  reaches the service with NaN; its answer is not modelled.\<close>

primrec rebalancing_controller ::
  "int \<Rightarrow> int \<Rightarrow> rebalancing_call \<Rightarrow> rebalancing_service \<Rightarrow> (error + rebalancing_answer) \<times> rebalancing_service" where
  "rebalancing_controller t0 t1 (Plan body) s = (Inr (PlanAnswer (plan t0 body)), s)"
| "rebalancing_controller t0 t1 Strategies s = (Inr (StrategiesAnswer strategies), s)"
| "rebalancing_controller t0 t1 (EstimateFees portfolioId strategy assets) s =
     (Inr (FeesAnswer (estimateFees portfolioId strategy assets)), s)"
| "rebalancing_controller t0 t1 (Execute body) s = (let (r, s') = execute t0 t1 body s in (Inr (ExecutionAnswer r), s'))"
| "rebalancing_controller t0 t1 (GetTrades rebalanceId) s = (Inr (TradesAnswer rebalanceId (getTrades rebalanceId s)), s)"
| "rebalancing_controller t0 t1 (GetSlippageEstimate portfolioId strategy asset tradeSize tolerance liquidity) s =
     (Inr (SlippageAnswer
        (case (number_of_string tradeSize, number_of_string tolerance, number_of_string liquidity) of
           (Some a, Some b, Some c) \<Rightarrow> Some (getSlippageEstimate
             \<lparr>sq_portfolioId = portfolioId, sq_strategy = strategy, sq_asset = asset, sq_tradeSize = a, sq_tolerance = b,
              sq_liquidity = c\<rparr>)
         | _ \<Rightarrow> None)), s)"
| "rebalancing_controller t0 t1 (GetExecutionLog portfolioId) s = (Inr (LogAnswer (getExecutionLog portfolioId s)), s)"
| "rebalancing_controller t0 t1 (DryRun body) s = (Inr (ExecutionAnswer (dryRun t0 t1 body)), s)"
| "rebalancing_controller t0 t1 (CreateSchedule schedule) s =
     (let (r, s') = createSchedule t0 t1 schedule s in (Inr (ScheduleAnswer (Some r)), s'))"
| "rebalancing_controller t0 t1 (GetSchedule portfolioId) s = (Inr (ScheduleAnswer (getSchedule portfolioId s)), s)"
| "rebalancing_controller t0 t1 (UpdateSchedule portfolioId f) s =
     (case updateSchedule t0 portfolioId f s of Inl e \<Rightarrow> (Inl e, s) | Inr (r, s') \<Rightarrow> (Inr (ScheduleAnswer (Some r)), s'))"
| "rebalancing_controller t0 t1 (DeleteSchedule portfolioId) s =
     (let (b, s') = deleteSchedule portfolioId s in (Inr (DeletedAnswer b), s'))"
| "rebalancing_controller t0 t1 (GetExecutionHistory portfolioId) s =
     (Inr (ExecutionsAnswer (getExecutionHistory portfolioId s)), s)"
| "rebalancing_controller t0 t1 (GetNextExecution portfolioId) s = (Inr (NextAnswer (getNextExecution t0 portfolioId s)), s)"
| "rebalancing_controller t0 t1 (ExecuteNow portfolioId) s =
     (let ((ok, h), s') = executeNow t0 t1 portfolioId ''manual'' s in (Inr (ExecutedAnswer ok h), s'))"
| "rebalancing_controller t0 t1 (ValidateSchedule portfolioId interval) s =
     (let (ok, es) = validateSchedule portfolioId interval in (Inr (ValidAnswer ok es), s))"

section \<open>Staking\<close>

datatype staking_call =
    StakeMulti stake_request
  | WithdrawMulti withdraw_request
  | GetPortfolio string
  | GetPositions string
  | GetYield string
  | GetAssets
  | GetAssetRates string
  | OptimizePortfolio string

datatype staking_answer =
    PositionsAnswer "position list"
  | WithdrawalsAnswer "withdrawal list"
  | CachedAnswer cached
  | AssetsAnswer "asset_info list"
  | RateAnswer asset_rate
  | OptimizedAnswer "recommended list" string
  | NoAnswer

record staking_readings =
  sg_clock :: "nat \<Rightarrow> int"
  sg_t0 :: int
  sg_t1 :: int

primrec staking_controller :: "staking_readings \<Rightarrow> staking_call \<Rightarrow> staking \<Rightarrow> (error + staking_answer) \<times> staking" where
  "staking_controller g (StakeMulti request) s =
     (case stakeMulti (sg_clock g) request s of Inl e \<Rightarrow> (Inl e, s) | Inr (ps, s') \<Rightarrow> (Inr (PositionsAnswer ps), s'))"
| "staking_controller g (WithdrawMulti request) s =
     (case withdrawMulti (sg_t0 g) request s of Inl e \<Rightarrow> (Inl e, s) | Inr (ws, s') \<Rightarrow> (Inr (WithdrawalsAnswer ws), s'))"
| "staking_controller g (GetPortfolio stakerId) s =
     (let (r, s') = getPortfolioView (sg_t0 g) (sg_t1 g) stakerId s
      in (case r of Inl e \<Rightarrow> Inl e | Inr v \<Rightarrow> Inr (CachedAnswer v), s'))"
| "staking_controller g (GetPositions stakerId) s =
     (case getPositionsByStaker stakerId s of Inl e \<Rightarrow> Inl e | Inr ps \<Rightarrow> Inr (PositionsAnswer ps), s)"
| "staking_controller g (GetYield stakerId) s =
     (let (r, s') = getAggregatedYield (sg_t0 g) (sg_t1 g) stakerId s
      in (case r of Inl e \<Rightarrow> Inl e | Inr v \<Rightarrow> Inr (CachedAnswer v), s'))"
| "staking_controller g GetAssets s = (Inr (AssetsAnswer supportedAssets), s)"
| "staking_controller g (GetAssetRates assetId) s =
     (case getAssetRates assetId of Inl e \<Rightarrow> Inl e | Inr r \<Rightarrow> Inr (RateAnswer r), s)"
| "staking_controller g (OptimizePortfolio stakerId) s =
     (let (r, s') = getPortfolioView (sg_t0 g) (sg_t1 g) stakerId s
      in (case r of
            Inl e \<Rightarrow> Inl e
          | Inr (View v) \<Rightarrow> Inr (OptimizedAnswer (pv_recommendedRebalance v) (pv_suggestionText v))
          | Inr (Yield y) \<Rightarrow> Inr NoAnswer, s'))"

section \<open>Emergency unstaking\<close>

datatype unstake_call =
    GetEmergencyConfig
  | InitiateEmergencyUnstake unstake_request
  | PreviewPenalty rat int
  | GetUnstakeStatus string
  | GetEmergencyHistory string history_filter

datatype unstake_call_answer =
    PenaltyConfigAnswer penalty_config
  | UnstakeAnswer unstake_answer
  | PreviewAnswer penalty_preview
  | UnstakesAnswer "unstake_record list"
  | UnstakePage "emergency_unstake list" pagination_meta

record unstake_readings =
  ug_num :: "rat \<Rightarrow> string"
  ug_t0 :: int
  ug_t1 :: int
  ug_id :: string
  ug_created :: int

primrec unstake_controller ::
  "unstake_readings \<Rightarrow> (emergency_unstake \<Rightarrow> 'k::linorder) \<Rightarrow> unstake_call \<Rightarrow> unstaking \<Rightarrow>
   (error + unstake_call_answer) \<times> unstaking" where
  "unstake_controller g column GetEmergencyConfig s = (Inr (PenaltyConfigAnswer penaltyConfig), s)"
| "unstake_controller g column (InitiateEmergencyUnstake dto) s =
     (let (r, s') = initiateEmergencyUnstake (ug_num g) (ug_t0 g) (ug_t1 g) (ug_id g) (ug_created g) dto s
      in (case r of Inl e \<Rightarrow> Inl e | Inr a \<Rightarrow> Inr (UnstakeAnswer a), s'))"
| "unstake_controller g column (PreviewPenalty amount unlock) s = (Inr (PreviewAnswer (previewPenalty (ug_t0 g) amount unlock)), s)"
| "unstake_controller g column (GetUnstakeStatus stakerId) s =
     (case getUnstakeStatus stakerId None s of Inl e \<Rightarrow> Inl e | Inr rs \<Rightarrow> Inr (UnstakesAnswer rs), s)"
| "unstake_controller g column (GetEmergencyHistory stakerId filters) s =
     (let (rs, meta) = getEmergencyHistory column stakerId filters s in (Inr (UnstakePage rs meta), s))"

section \<open>Runs of requests\<close>

lemma drift_controller_reachable: "drift_reachable s \<Longrightarrow> drift_reachable (snd (drift_controller g c s))"
proof (cases c)
  case (GetDriftStatus p as)
  then show "drift_reachable s \<Longrightarrow> ?thesis"
    using drift_reachable.Calculate [of s "dg_fixed2 g" "dg_now g" "dg_id g" "dg_alertId g" p "or_else as []"] by (simp add: case_prod_beta)
next
  case (GetDriftAnalysis p d b as)
  then show "drift_reachable s \<Longrightarrow> ?thesis"
    using drift_reachable.Analyse [of s "dg_fixed2 g" "dg_now g" "dg_id g" "dg_alertId g" "or_else p b" "or_else as []" "or_else (query_int d 30) 0"]
    by (simp add: case_prod_beta Let_def)
next
  case (CreateDriftConfig dto)
  then show "drift_reachable s \<Longrightarrow> ?thesis" using drift_reachable.Create [of s "dg_now g" dto] by (simp add: case_prod_beta)
next
  case (RegisterDriftWebhook p u es k)
  then show "drift_reachable s \<Longrightarrow> ?thesis"
    using drift_reachable.Webhook [of s "dg_id g" "dg_now g" p u es k] by (simp add: case_prod_beta)
qed (auto simp: Let_def intro: drift_reachable.Update drift_reachable.Acknowledge split: sum.splits prod.splits)

definition drift_run :: "(drift_readings \<times> drift_call) list \<Rightarrow> drift_service" where
  "drift_run cs = foldl (\<lambda>s (g, c). snd (drift_controller g c s))
     \<lparr>d_configs = [], d_history = [], d_alerts = [], d_webhooks = [], d_sent = []\<rparr> cs"

lemma drift_run_reachable: "drift_reachable (drift_run cs)"
proof -
  have "drift_reachable s \<Longrightarrow> drift_reachable (foldl (\<lambda>s (g, c). snd (drift_controller g c s)) s cs)" for s
    by (induction cs arbitrary: s) (auto simp: drift_controller_reachable)
  then show ?thesis using drift_reachable.Start by (simp add: drift_run_def)
qed

lemma drift_run_one_open: "one_open (d_alerts (drift_run cs))"
  by (rule reachable_one_open [OF drift_run_reachable])

fun drift_reads :: "drift_call \<Rightarrow> bool" where
  "drift_reads (GetDriftHistory _ _) = True"
| "drift_reads (GetDriftAlerts _) = True"
| "drift_reads _ = False"

lemma drift_reads_only: "drift_reads c \<Longrightarrow> snd (drift_controller g c s) = s"
  by (cases c) (simp_all add: Let_def)

fun rebalancing_writes :: "rebalancing_call \<Rightarrow> bool" where
  "rebalancing_writes (Execute _) = True"
| "rebalancing_writes (CreateSchedule _) = True"
| "rebalancing_writes (UpdateSchedule _ _) = True"
| "rebalancing_writes (DeleteSchedule _) = True"
| "rebalancing_writes (ExecuteNow _) = True"
| "rebalancing_writes _ = False"

lemma rebalancing_reads_only: "\<not> rebalancing_writes c \<Longrightarrow> snd (rebalancing_controller t0 t1 c s) = s"
  by (cases c) (simp_all add: Let_def split: prod.splits option.splits)

lemma refused_call_unchanged: "drift_controller g c s = (Inl e, s') \<Longrightarrow> s' = s"
  by (cases c) (auto simp: Let_def split: sum.splits prod.splits)

section \<open>The limit of a history\<close>

lemma digits_of_number: "list_all (\<lambda>c. digit_value c \<noteq> None \<and> the (digit_value c) < 10) (digits_of n)"
  using digits_of_digit digit_value_digit by (fastforce simp: list_all_iff)

lemma digit_code: "d < 10 \<Longrightarrow> of_char (char_of (48 + d) :: char) = (48 + d :: nat)"
  by simp

lemma digit_no_space: "d < (10 :: nat) \<Longrightarrow> \<not> is_js_space (char_of (48 + d))"
  by (auto simp: is_js_space_def digit_code)

lemma parse_int_digits: "parse_int (digits_of n) = Some (int n)"
proof -
  obtain c cs where d: "digits_of n = c # cs" using digits_of_nonempty by (cases "digits_of n") auto
  then obtain k :: nat where k: "k < 10" "c = char_of (48 + k)" using digits_of_digit [of c n] by auto
  have "(of_char c :: nat) = 48 + k" using k digit_code by simp
  then have "c \<noteq> CHR ''-''" "c \<noteq> CHR ''+''" using k(1) by auto
  moreover have "dropWhile is_js_space (digits_of n) = digits_of n" using d digit_no_space [OF k(1)] k(2) by simp
  moreover have "takeWhile (\<lambda>c. digit_value c \<noteq> None \<and> the (digit_value c) < 10) (digits_of n) = digits_of n"
    using digits_of_number by (simp add: list_all_iff)
  ultimately show ?thesis using d parse_digits_of [of n] by (simp add: parse_int_def Let_def)
qed

text \<open>A limit of zero, or one that is no number, selects the whole history.\<close>

lemma history_unlimited:
  "or_else (query_int limit 100) 0 = 0 \<Longrightarrow>
   drift_controller g (GetDriftHistory p limit) s = (Inr (HistoryAnswer p (rev (or_else (map_get (d_history s) p) []))), s)"
  by (simp add: getHistory_def slice_from_def)

lemma history_limited:
  "0 < n \<Longrightarrow> drift_controller g (GetDriftHistory p (Some (digits_of n))) s = (Inr (HistoryAnswer p h), s') \<Longrightarrow> length h \<le> n"
  by (auto simp: query_int_def given_def parse_int_digits getHistory_def length_slice_from_neg)

end
