(* ===== verification/Bootstrap.thy ===== *)
theory Bootstrap
  imports Log_Output Portfolio_Api
begin

text \<open>
  Start-up (src/main.ts) and the start of error tracking (src/logging/services/error-tracking.service.ts).

  \<open>env\<close> is the environment of the process, a port that is no number is \<open>None\<close>. What the process does when a
  rejection or an exception reaches it is a list of effects. Shown are: a number of hops configures that number, and
  that only an uncaught exception ends the process, after it was logged and its report flushed.
\<close>

section \<open>Configuration\<close>

record pipe_options =
  po_whitelist :: bool
  po_transform :: bool
  po_forbidNonWhitelisted :: bool

definition global_pipe :: pipe_options where
  "global_pipe = \<lparr>po_whitelist = True, po_transform = True, po_forbidNonWhitelisted = True\<rparr>"

datatype trust_proxy = HopCount int | Subnets string

definition trust_proxy_setting :: "string option \<Rightarrow> trust_proxy option" where
  "trust_proxy_setting trustProxy =
     (if \<not> given trustProxy then None
      else Some (case number_of_string (the trustProxy) of
         Some n \<Rightarrow> if is_integer n \<and> 0 \<le> n then HopCount \<lfloor>n\<rfloor> else Subnets (the trustProxy)
       | None \<Rightarrow> Subnets (the trustProxy)))"

definition port_setting :: "string option \<Rightarrow> int option" where
  "port_setting port = query_int port 3000"

section \<open>Error tracking\<close>

record sentry_options =
  so_dsn :: string
  so_environment :: string
  so_release :: "string option"
  so_tracesSampleRate :: string
  so_sendDefaultPii :: bool

text \<open>The start of the service: whether it is enabled, the options Sentry gets and the entry that is logged. The sample rate is
  the text \<open>parseFloat\<close> reads; the dash of the warning is written \<open>-\<close>.\<close>

definition tracking_init :: "(string \<Rightarrow> string option) \<Rightarrow> bool \<times> sentry_options option \<times> app_log_entry" where
  "tracking_init env =
     (if \<not> given (env ''SENTRY_DSN'')
      then (False, None, logger_warn ''SENTRY_DSN is not set - error tracking disabled'' (Some ''ErrorTrackingService''))
      else (True,
        Some \<lparr>so_dsn = the (env ''SENTRY_DSN''), so_environment = or_else (env ''NODE_ENV'') ''development'',
          so_release = env ''APP_VERSION'', so_tracesSampleRate = or_else (env ''SENTRY_TRACES_SAMPLE_RATE'') ''0.1'',
          so_sendDefaultPii = False\<rparr>,
        logger_info ''Sentry error tracking initialised'' [(''service'', JStr ''ErrorTrackingService'')]))"

definition captureMessage :: "bool \<Rightarrow> (string \<Rightarrow> string \<Rightarrow> string) \<Rightarrow> string \<Rightarrow> string option \<Rightarrow> string option" where
  "captureMessage enabled client message sev = (if \<not> enabled then None else Some (client message (or_else sev ''info'')))"

section \<open>Safety nets of the process\<close>

datatype process_effect =
    LogEntry app_log_entry
  | Reported sentry_event
  | FlushEvents int
  | ExitProcess int

text \<open>What is thrown arrives as an error with its name, message and stack, or as another value, which a rejection
  wraps into an error with its text.\<close>

datatype reason = ErrorReason thrown string string "string option" "json option" | OtherReason json

definition reason_error :: "(json \<Rightarrow> string) \<Rightarrow> (string \<Rightarrow> string option) \<Rightarrow> reason \<Rightarrow> thrown \<times> string \<times> string \<times> string option \<times> json option" where
  "reason_error text stack_of r =
     (case r of
        ErrorReason x name message stack code \<Rightarrow> (x, name, message, stack, code)
      | OtherReason v \<Rightarrow> (ThrownError ''Error'' (text v), ''Error'', text v, stack_of (text v), None))"

definition safety_net :: "bool \<Rightarrow> (sentry_event \<Rightarrow> string) \<Rightarrow> string \<Rightarrow> thrown \<times> string \<times> string \<times> string option \<times> json option \<Rightarrow> process_effect list" where
  "safety_net enabled client event err =
     (case err of (x, name, message, stack, code) \<Rightarrow>
        LogEntry (logger_logError name message stack code
          [(''service'', JStr ''bootstrap''), (''context'', JObj [(''event'', JStr event)])]) #
        map Reported (snd (captureException enabled client x
          \<lparr>tm_correlationId = None, tm_userId = None, tm_extra = None, tm_force = True\<rparr> [])))"

definition on_unhandledRejection ::
  "bool \<Rightarrow> (sentry_event \<Rightarrow> string) \<Rightarrow> (json \<Rightarrow> string) \<Rightarrow> (string \<Rightarrow> string option) \<Rightarrow> reason \<Rightarrow> process_effect list" where
  "on_unhandledRejection enabled client text stack_of r =
     safety_net enabled client ''unhandledRejection'' (reason_error text stack_of r)"

definition on_uncaughtException ::
  "bool \<Rightarrow> (sentry_event \<Rightarrow> string) \<Rightarrow> thrown \<times> string \<times> string \<times> string option \<times> json option \<Rightarrow> process_effect list" where
  "on_uncaughtException enabled client err =
     safety_net enabled client ''uncaughtException'' err @ (if enabled then [FlushEvents 2000] else []) @ [ExitProcess 1]"

section \<open>What holds\<close>

lemma digits_of_set: "set (digits_of n) \<subseteq> set ''0123456789''"
proof
  fix c assume "c \<in> set (digits_of n)"
  then obtain d :: nat where "d < 10" "c = char_of (48 + d)" using digits_of_digit by blast
  moreover have "list_all (\<lambda>d. (char_of (48 + d :: nat) :: char) \<in> set ''0123456789'') [0..<10]" by code_simp
  ultimately show "c \<in> set ''0123456789''" by (simp add: list_all_iff)
qed

lemma plain_digits:
  assumes "set s \<subseteq> set ''0123456789''"
  shows "js_trim s = s" "to_lower s = s" "takeWhile (\<lambda>c. c \<noteq> CHR ''e'') s = s" "takeWhile (\<lambda>c. c \<noteq> CHR ''.'') s = s"
    "map (\<lambda>c. if c = CHR ''E'' then CHR ''e'' else c) s = s"
proof -
  have "list_all (\<lambda>c. \<not> is_js_space c \<and> lower_char c = c) ''0123456789''" by code_simp
  then have c: "\<forall>c \<in> set s. \<not> is_js_space c \<and> lower_char c = c" using assms by (auto simp: list_all_iff)
  have dw: "dropWhile is_js_space t = t" if "set t \<subseteq> set s" for t using that c by (cases t) auto
  show "js_trim s = s" by (simp add: js_trim_def dw)
  show "to_lower s = s" using c by (simp add: to_lower_def map_idI)
  show "takeWhile (\<lambda>c. c \<noteq> CHR ''e'') s = s" "takeWhile (\<lambda>c. c \<noteq> CHR ''.'') s = s"
    "map (\<lambda>c. if c = CHR ''E'' then CHR ''e'' else c) s = s"
    using assms by (auto intro!: map_idI)
qed

lemma number_of_digits: "number_of_string (digits_of n) = Some (f64 (of_nat n))"
proof -
  let ?s = "digits_of n"
  note plain = plain_digits [OF digits_of_set, of n]
  have mem: "x \<in> set ?s \<Longrightarrow> x \<in> set ''0123456789''" for x using digits_of_set by blast
  have prefix: "\<not> starts_with ?s p" if "x \<in> set p" "x \<notin> set ''0123456789''" for p x
  proof
    assume "starts_with ?s p"
    then have "x \<in> set ?s" using that(1) by (auto simp: starts_with_iff)
    then show False using mem that(2) by blast
  qed
  have "split_at_char CHR ''e'' ?s = (?s, None)" "split_at_char CHR ''.'' ?s = (?s, None)"
    using plain by (auto simp: split_at_char_def dest: mem)
  then have "parse_decimal ?s = Some (f64 (of_nat n))"
    using plain parse_digits_of [of n] by (simp add: parse_decimal_def)
  then show ?thesis
    using prefix [of "CHR ''x''" "''0x''"] prefix [of "CHR ''o''" "''0o''"] prefix [of "CHR ''b''" "''0b''"]
      prefix [of "CHR ''-''" "''-''"] prefix [of "CHR ''+''" "''+''"]
    by (simp add: number_of_string_def plain)
qed

text \<open>A count of hops, as the README writes it, is set as that number.\<close>

lemma hop_count_of_digits:
  assumes "n \<le> 2 ^ 53"
  shows "trust_proxy_setting (Some (digits_of n)) = Some (HopCount (int n))"
proof -
  have "\<bar>int n\<bar> \<le> 2 ^ 53" using assms by (metis abs_of_nat of_nat_le_iff of_nat_numeral of_nat_power)
  from f64_of_int [OF this] have "f64 (of_nat n) = of_int (int n)" by simp
  then show ?thesis by (simp add: trust_proxy_setting_def given_def number_of_digits is_integer_def del: of_int_of_nat_eq)
qed

text \<open>Every error that reaches the process is logged once at the level of the error file, and reported once where tracking
  is on, an expected one too; only an uncaught exception ends the process, and that is its last effect.\<close>

lemma process_outcome:
  "let effects = safety_net enabled client event (x, name, message, stack, code)
   in [e. LogEntry e \<leftarrow> effects] = [logger_logError name message stack code
          [(''service'', JStr ''bootstrap''), (''context'', JObj [(''event'', JStr event)])]] \<and>
      length [ev. Reported ev \<leftarrow> effects] = (if enabled then 1 else 0) \<and> ExitProcess n \<notin> set effects \<and>
      last (on_uncaughtException enabled client (x, name, message, stack, code)) = ExitProcess 1"
  by (simp add: safety_net_def captureException_def on_uncaughtException_def Let_def)

end
