(* ===== verification/Virus_Scanner.thy ===== *)
theory Virus_Scanner
  imports Files Cloud_Storage Bootstrap
begin

text \<open>
  The start of the virus scanner (src/files/services/virus-scanner.service.ts). The library's \<open>init\<close> is an
  argument: it gives the scanner or fails with a message. Shown is that without a scanner every upload passes
  the scan, and where the connection to the daemon goes.
\<close>

record clam_daemon =
  cd_socket :: string
  cd_host :: string
  cd_port :: int
  cd_timeout :: int
  cd_localFallback :: bool
  cd_path :: string
  cd_multiscan :: bool

record clam_options =
  cl_removeInfected :: bool
  cl_quarantineInfected :: bool
  cl_scanRecursively :: bool
  cl_path :: string
  cl_scanArchives :: bool
  cl_daemon :: clam_daemon
  cl_preference :: string

text \<open>Options that are null, only concern logging or repeat a default are left out.\<close>

definition clam_options :: "(string \<Rightarrow> string option) \<Rightarrow> clam_options" where
  "clam_options env =
     \<lparr>cl_removeInfected = False, cl_quarantineInfected = False, cl_scanRecursively = True, cl_path = ''/usr/bin/clamscan'',
      cl_scanArchives = True,
      cl_daemon = \<lparr>cd_socket = ''/var/run/clamav/clamd.ctl'', cd_host = env_or env ''CLAMAV_HOST'' ''127.0.0.1'',
        cd_port = (let n = or_else (Option.bind (env ''CLAMAV_PORT'') parse_int) 0 in if n = 0 then 3310 else n),
        cd_timeout = 60000, cd_localFallback = False, cd_path = ''/usr/bin/clamdscan'', cd_multiscan = True\<rparr>,
      cl_preference = ''clamdscan''\<rparr>"

type_synonym clam = "buffer \<Rightarrow> error + (bool option \<times> string list option)"

record virus_scanner =
  vs_clamscan :: "clam option"
  vs_isInitialized :: bool

definition new_virus_scanner :: virus_scanner where
  "new_virus_scanner = \<lparr>vs_clamscan = None, vs_isInitialized = False\<rparr>"

definition initClamScan :: "(clam_options \<Rightarrow> string + clam) \<Rightarrow> (string \<Rightarrow> string option) \<Rightarrow> virus_scanner \<Rightarrow> virus_scanner \<times> string" where
  "initClamScan init env s =
     (case init (clam_options env) of
        Inr c \<Rightarrow> (s\<lparr>vs_clamscan := Some c, vs_isInitialized := True\<rparr>, ''ClamAV initialized successfully'')
      | Inl message \<Rightarrow> (s\<lparr>vs_isInitialized := False\<rparr>,
          ''ClamAV initialization failed, running in mock/bypass mode. Error: '' @ message))"

text \<open>The scan of the service is \<open>scanBuffer\<close> over the state of the scanner.\<close>

definition scan_with :: "virus_scanner \<Rightarrow> buffer \<Rightarrow> bool \<times> string list" where
  "scan_with s b =
     scanBuffer (vs_isInitialized s) (case vs_clamscan s of Some c \<Rightarrow> c | None \<Rightarrow> \<lambda>_. Inl (JsError [])) b"

lemma scan_before_init: "scan_with new_virus_scanner b = (False, [])"
  by (simp add: scan_with_def new_virus_scanner_def scanBuffer_def)

text \<open>A file is turned down only for what a started scanner says of it.\<close>

lemma infected_only_by_scanner:
  assumes "fst (scan_with (fst (initClamScan init env new_virus_scanner)) b)"
  shows "\<exists>c vs. init (clam_options env) = Inr c \<and> c b = Inr (Some True, vs)"
  using assms
  by (auto simp: scan_with_def initClamScan_def new_virus_scanner_def scanBuffer_def or_else_def split: sum.splits option.splits prod.splits)

end
