(* ===== verification/OpenApi.thy ===== *)
theory OpenApi
  imports JS_Text
begin

text \<open>
  The generated documentation (src/validation/openapi/zod-to-openapi.ts, src/docs/openapi.ts,
  src/docs/documentation.service.ts): the conversion of schemas, the registry, the document built from the
  routes, and the client generated from it.

  A schema of zod is represented by what the conversion reads of it: its class, its inner schemas and
  checks, its description where it is used. Objects are lists of fields, fields that are undefined are
  left out. The routes are the tree of layers of express, with paths that are texts. Shown are: the
  document has exactly the collected operations outside \<open>/docs\<close>, none with a request body, and the names of
  the generated methods are made of letters, digits and underscores.
\<close>

section \<open>Schemas\<close>

datatype string_check = CMin rat | CMax rat | CRegex string | CEmail | CUrl | CUuid | CDatetime | COther
datatype number_check = NMin rat | NMax rat | NInt | NOther

datatype zod =
    ZOptional zod
  | ZNullable zod
  | ZDefault zod json
  | ZEffects "string option" zod
  | ZString "string option" "string_check list"
  | ZNumber "string option" "number_check list"
  | ZBoolean "string option"
  | ZDate "string option"
  | ZEnum "string option" "string list"
  | ZNativeEnum "string option" "(string \<times> json) list"
  | ZLiteral "string option" json
  | ZArray "string option" zod "nat option" "nat option"
  | ZObject "string option" "(string \<times> zod) list"
  | ZRecord "string option" zod
  | ZUnion "string option" "zod list"
  | ZOther "string option"

type_synonym fields = "(string \<times> json) list"

definition describe :: "string option \<Rightarrow> fields \<Rightarrow> fields" where
  "describe d fs = (if given d then map_set ''description'' (JStr (the d)) fs else fs)"

definition string_check_field :: "fields \<Rightarrow> string_check \<Rightarrow> fields" where
  "string_check_field res c =
     (case c of
        CMin n \<Rightarrow> map_set ''minLength'' (JNum n) res
      | CMax n \<Rightarrow> map_set ''maxLength'' (JNum n) res
      | CRegex src \<Rightarrow> map_set ''pattern'' (JStr src) res
      | CEmail \<Rightarrow> map_set ''format'' (JStr ''email'') res
      | CUrl \<Rightarrow> map_set ''format'' (JStr ''uri'') res
      | CUuid \<Rightarrow> map_set ''format'' (JStr ''uuid'') res
      | CDatetime \<Rightarrow> map_set ''format'' (JStr ''date-time'') res
      | COther \<Rightarrow> res)"

definition number_check_field :: "fields \<Rightarrow> number_check \<Rightarrow> fields" where
  "number_check_field res c =
     (case c of
        NMin n \<Rightarrow> map_set ''minimum'' (JNum n) res
      | NMax n \<Rightarrow> map_set ''maximum'' (JNum n) res
      | NInt \<Rightarrow> map_set ''type'' (JStr ''integer'') res
      | NOther \<Rightarrow> res)"

definition json_typeof :: "json \<Rightarrow> string" where
  "json_typeof v = (case v of JBool _ \<Rightarrow> ''boolean'' | JNum _ \<Rightarrow> ''number'' | JStr _ \<Rightarrow> ''string'' | _ \<Rightarrow> ''object'')"

definition always_present :: "zod \<Rightarrow> bool" where
  "always_present z = (case z of ZOptional _ \<Rightarrow> False | ZDefault _ _ \<Rightarrow> False | _ \<Rightarrow> True)"

fun zod_to_openapi :: "zod \<Rightarrow> fields" where
  "zod_to_openapi (ZOptional z) = zod_to_openapi z"
| "zod_to_openapi (ZNullable z) = map_set ''nullable'' (JBool True) (zod_to_openapi z)"
| "zod_to_openapi (ZDefault z v) = map_set ''default'' v (zod_to_openapi z)"
| "zod_to_openapi (ZEffects d z) = describe d (zod_to_openapi z)"
| "zod_to_openapi (ZString d checks) = foldl string_check_field (describe d [(''type'', JStr ''string'')]) checks"
| "zod_to_openapi (ZNumber d checks) = foldl number_check_field (describe d [(''type'', JStr ''number'')]) checks"
| "zod_to_openapi (ZBoolean d) = describe d [(''type'', JStr ''boolean'')]"
| "zod_to_openapi (ZDate d) = describe d [(''type'', JStr ''string''), (''format'', JStr ''date-time'')]"
| "zod_to_openapi (ZEnum d vs) = describe d [(''type'', JStr ''string''), (''enum'', JArr (map JStr vs))]"
| "zod_to_openapi (ZNativeEnum d entries) =
     describe d [(''type'', JStr (case entries of (_, JNum _) # _ \<Rightarrow> ''number'' | _ \<Rightarrow> ''string'')), (''enum'', JArr (map snd entries))]"
| "zod_to_openapi (ZLiteral d v) = describe d [(''type'', JStr (json_typeof v)), (''enum'', JArr [v])]"
| "zod_to_openapi (ZArray d z lo hi) =
     (let res = describe d [(''type'', JStr ''array''), (''items'', JObj (zod_to_openapi z))];
          res = (case lo of Some n \<Rightarrow> map_set ''minItems'' (JNum (of_nat n)) res | None \<Rightarrow> res)
      in case hi of Some n \<Rightarrow> map_set ''maxItems'' (JNum (of_nat n)) res | None \<Rightarrow> res)"
| "zod_to_openapi (ZObject d shape) =
     (let required = map fst (filter (\<lambda>(k, z). always_present z) shape)
      in describe d ([(''type'', JStr ''object''), (''properties'', JObj (map (\<lambda>(k, z). (k, JObj (zod_to_openapi z))) shape))] @
           (if required = [] then [] else [(''required'', JArr (map JStr required))])))"
| "zod_to_openapi (ZRecord d z) = describe d [(''type'', JStr ''object''), (''additionalProperties'', JObj (zod_to_openapi z))]"
| "zod_to_openapi (ZUnion d zs) = describe d [(''oneOf'', JArr (map (\<lambda>z. JObj (zod_to_openapi z)) zs))]"
| "zod_to_openapi (ZOther d) = describe d [(''type'', JStr ''object'')]"

definition zodToOpenApiSchema :: "zod option \<Rightarrow> fields" where
  "zodToOpenApiSchema schema = (case schema of None \<Rightarrow> [(''type'', JStr ''object'')] | Some z \<Rightarrow> zod_to_openapi z)"

section \<open>The registry\<close>

record schema_registry =
  registeredSchemas :: "zod jsmap"
  routeSchemas :: "(string \<times> zod) jsmap"

definition route_key :: "string \<Rightarrow> string \<Rightarrow> string \<Rightarrow> string" where
  "route_key method path tgt = to_upper method @ '':'' @ path @ '':'' @ tgt"

definition registerSchema :: "string \<Rightarrow> zod \<Rightarrow> schema_registry \<Rightarrow> schema_registry" where
  "registerSchema name z r = r\<lparr>registeredSchemas := map_set name z (registeredSchemas r)\<rparr>"

definition registerRouteSchema :: "string \<Rightarrow> string \<Rightarrow> string \<Rightarrow> zod \<Rightarrow> schema_registry \<Rightarrow> schema_registry" where
  "registerRouteSchema method path tgt z r = r\<lparr>routeSchemas := map_set (route_key method path tgt) (tgt, z) (routeSchemas r)\<rparr>"

definition getRouteSchema :: "string \<Rightarrow> string \<Rightarrow> string \<Rightarrow> schema_registry \<Rightarrow> zod option" where
  "getRouteSchema method path tgt r = map_option snd (map_get (routeSchemas r) (route_key method path tgt))"

definition getComponentsSchemas :: "schema_registry \<Rightarrow> fields" where
  "getComponentsSchemas r = map (\<lambda>(name, z). (name, JObj (zodToOpenApiSchema (Some z)))) (registeredSchemas r)"

section \<open>Routes\<close>

datatype layer = Layer "(string \<times> (string \<times> bool) list) option" "layer list option"

fun visit :: "layer \<Rightarrow> (string \<times> string) list" where
  "visit (Layer route stack) =
     (case route of Some (path, methods) \<Rightarrow> map (\<lambda>(m, _). (to_upper m, path)) (filter snd methods) | None \<Rightarrow> []) @
     (case stack of Some ls \<Rightarrow> concat (map visit ls) | None \<Rightarrow> [])"

definition collectOperations :: "layer list option \<Rightarrow> (string \<times> string) list" where
  "collectOperations stack = concat (map visit (or_else stack []))"

text \<open>\<open>s.replace(/P+/g, r)\<close>: every longest run of characters in \<open>P\<close> becomes \<open>r\<close>; \<open>inside\<close> tells whether the
  last character belonged to a run.\<close>

fun replace_runs :: "(char \<Rightarrow> bool) \<Rightarrow> string \<Rightarrow> bool \<Rightarrow> string \<Rightarrow> string" where
  "replace_runs P r inside [] = []"
| "replace_runs P r inside (c # cs) =
     (if P c then (if inside then [] else r) @ replace_runs P r True cs else c # replace_runs P r False cs)"

definition normalizePath :: "string \<Rightarrow> string" where
  "normalizePath path =
     (if path = [] then ''/''
      else replace_runs (\<lambda>c. c = CHR ''/'') ''/'' False (if starts_with path ''/'' then path else ''/'' @ path))"

definition getTag :: "string \<Rightarrow> string" where
  "getTag path =
     (case filter (\<lambda>seg. seg \<noteq> []) (split_on CHR ''/'' path) of
        [] \<Rightarrow> ''general''
      | seg # segs \<Rightarrow> if seg = ''api'' then (case segs of [] \<Rightarrow> ''general'' | t # _ \<Rightarrow> t) else seg)"

definition describePath :: "string \<Rightarrow> string" where
  "describePath path =
     (let cleanPath = js_trim (replace_runs (\<lambda>c. c = CHR '':'' \<or> c = CHR ''/'') '' '' False path)
      in if cleanPath = [] then ''resource'' else cleanPath)"

definition getOperationSummary :: "string \<Rightarrow> string \<Rightarrow> string" where
  "getOperationSummary method path = to_upper method @ '' '' @ describePath path"

definition getDescription :: "string \<Rightarrow> string \<Rightarrow> string" where
  "getDescription method path =
     (let action = (if method = ''POST'' then ''Create or execute'' else if method = ''PUT'' then ''Update''
            else if method = ''DELETE'' then ''Remove'' else ''Retrieve'')
      in action @ '' the '' @ describePath path @ '' resource.'')"

definition getExample :: "string \<Rightarrow> string \<Rightarrow> json" where
  "getExample method path =
     (if str_includes path ''status'' then JObj [(''status'', JStr ''ok''), (''service'', JStr ''AstraPort API'')]
      else if method = ''POST'' then JObj [(''success'', JBool True), (''message'', JStr ''Request accepted'')]
      else if method = ''DELETE'' then JObj [(''success'', JBool True)]
      else JObj [(''success'', JBool True), (''data'', JArr [])])"

definition getRequestBody :: "string \<Rightarrow> json \<Rightarrow> fields option \<Rightarrow> json option" where
  "getRequestBody method example schemaOverride =
     (if method = ''POST'' \<or> method = ''PUT'' \<or> method = ''PATCH''
      then Some (JObj [(''required'', JBool True), (''content'', JObj [(''application/json'', JObj
             [(''schema'', JObj (or_else schemaOverride [(''type'', JStr ''object''), (''additionalProperties'', JBool True)])),
              (''example'', example)])])])
      else None)"

section \<open>The document\<close>

record operation =
  op_tags :: "string list"
  op_summary :: string
  op_description :: string
  op_operationId :: string
  op_example :: json
  op_requestBody :: "json option"

definition alnum_chars :: string where
  "alnum_chars = ''abcdefghijklmnopqrstuvwxyzABCDEFGHIJKLMNOPQRSTUVWXYZ0123456789''"

definition alnum :: "char \<Rightarrow> bool" where
  "alnum c \<longleftrightarrow> c \<in> set alnum_chars"

definition operation_of :: "schema_registry \<Rightarrow> string \<Rightarrow> string \<Rightarrow> operation" where
  "operation_of reg method path =
     (let example = getExample method path; bodySchema = getRouteSchema method path ''body'' reg
      in \<lparr>op_tags = [getTag path], op_summary = getOperationSummary method path, op_description = getDescription method path,
           op_operationId = method @ ''_'' @ replace_runs (\<lambda>c. \<not> alnum c) ''_'' False path, op_example = example,
           op_requestBody = getRequestBody method example (map_option (\<lambda>z. zodToOpenApiSchema (Some z)) bodySchema)\<rparr>)"

type_synonym paths = "operation jsmap jsmap"

definition add_operation :: "schema_registry \<Rightarrow> paths \<Rightarrow> string \<times> string \<Rightarrow> paths" where
  "add_operation reg ps op =
     (let path = normalizePath (snd op); method = to_lower (fst op)
      in if path = [] \<or> starts_with path ''/docs'' then ps
         else map_set path (map_set method (operation_of reg method path) (or_else (map_get ps path) [])) ps)"

definition document_paths :: "schema_registry \<Rightarrow> layer list option \<Rightarrow> paths" where
  "document_paths reg stack = foldl (add_operation reg) [] (collectOperations stack)"

definition security :: json where
  "security = JArr [JObj [(''bearer'', JArr [])]]"

definition operation_json :: "operation \<Rightarrow> json" where
  "operation_json op =
     JObj ([(''tags'', JArr (map JStr (op_tags op))), (''summary'', JStr (op_summary op)),
            (''description'', JStr (op_description op)), (''operationId'', JStr (op_operationId op)), (''security'', security),
            (''responses'', JObj
               [(''200'', JObj [(''description'', JStr ''Successful response''),
                   (''content'', JObj [(''application/json'', JObj [(''example'', op_example op)])])]),
                (''400'', JObj [(''description'', JStr ''Validation failed or bad request''),
                   (''content'', JObj [(''application/json'', JObj
                      [(''schema'', JObj [(''$ref'', JStr ''#/components/schemas/ValidationErrorResponse'')])])])])])] @
           (case op_requestBody op of Some body \<Rightarrow> [(''requestBody'', body)] | None \<Rightarrow> []))"

definition validation_error_response :: json where
  "validation_error_response = JObj [(''type'', JStr ''object''), (''properties'', JObj
       [(''statusCode'', JObj [(''type'', JStr ''number''), (''example'', JNum 400)]),
        (''error'', JObj [(''type'', JStr ''string''), (''example'', JStr ''ValidationError'')]),
        (''message'', JObj [(''type'', JStr ''string''), (''example'', JStr ''Validation failed (2 errors)'')]),
        (''code'', JObj [(''type'', JStr ''string''), (''example'', JStr ''VALIDATION_ERROR'')]),
        (''correlationId'', JObj [(''type'', JStr ''string''), (''example'', JStr ''corr-123456'')]),
        (''timestamp'', JObj [(''type'', JStr ''string''), (''format'', JStr ''date-time'')]),
        (''path'', JObj [(''type'', JStr ''string''), (''example'', JStr ''/api/resource'')]),
        (''errors'', JObj [(''type'', JStr ''array''), (''items'', JObj [(''type'', JStr ''object''), (''properties'', JObj [(''field'', JObj [(''type'', JStr ''string''), (''example'', JStr ''amount'')]), (''message'', JObj [(''type'', JStr ''string''), (''example'', JStr ''Amount must be at least 0'')]), (''code'', JObj [(''type'', JStr ''string''), (''example'', JStr ''too_small'')]), (''path'', JObj [(''type'', JStr ''array''), (''items'', JObj [(''type'', JStr ''string'')])])])])])])]"

definition getTags :: "(string \<times> string) list" where
  "getTags =
     [(''health'', ''Health and status endpoints''),
      (''auth'', ''Authentication and session endpoints''),
      (''portfolio'', ''Portfolio operations''),
      (''risk'', ''Risk analytics endpoints''),
      (''contracts'', ''Contract management endpoints''),
      (''ai-triggers'', ''AI trigger management''),
      (''ai-analysis'', ''AI analysis and recommendations''),
      (''rebalancing'', ''Portfolio rebalancing operations''),
      (''staking'', ''Multi-asset staking operations''),
      (''subscriptions'', ''Event subscriptions and delivery''),
      (''audit-logs'', ''Audit log inspection and export''),
      (''general'', ''General endpoints'')]"

definition document_schemas :: "schema_registry \<Rightarrow> fields" where
  "document_schemas reg =
     foldl (\<lambda>fs (name, schema). map_set name schema fs) [(''ValidationErrorResponse'', validation_error_response)]
       (getComponentsSchemas reg)"

definition buildOpenApiDocument :: "string option \<Rightarrow> schema_registry \<Rightarrow> layer list option \<Rightarrow> fields" where
  "buildOpenApiDocument API_BASE_URL reg stack =
     [(''openapi'', JStr ''3.0.0''),
      (''info'', JObj [(''title'', JStr ''AstraPort API''), (''version'', JStr ''1.0.0''),
         (''description'', JStr ''Comprehensive API documentation for the AstraPort platform.'')]),
      (''servers'', JArr [JObj [(''url'', JStr (if given API_BASE_URL then the API_BASE_URL else ''http://localhost:3000'')),
         (''description'', JStr ''Local development'')]]),
      (''tags'', JArr (map (\<lambda>(name, d). JObj [(''name'', JStr name), (''description'', JStr d)]) getTags)),
      (''paths'', JObj (map (\<lambda>(path, ms). (path, JObj (map (\<lambda>(m, op). (m, operation_json op)) ms)))
         (document_paths reg stack))),
      (''components'', JObj
         [(''securitySchemes'', JObj [(''bearer'', JObj [(''type'', JStr ''http''), (''scheme'', JStr ''bearer''),
             (''bearerFormat'', JStr ''JWT'')])]),
          (''schemas'', JObj (document_schemas reg))]),
      (''security'', security), (''x-api-version'', JStr ''v1'')]"

section \<open>The generated client\<close>

definition strip_underscores :: "string \<Rightarrow> string" where
  "strip_underscores s = (let p = (\<lambda>c. c = CHR ''_'') in rev (dropWhile p (rev (dropWhile p s))))"

definition client_name :: "nat \<Rightarrow> string \<Rightarrow> string" where
  "client_name index endpoint =
     (let name = to_lower (strip_underscores (replace_runs (\<lambda>c. \<not> alnum c) ''_'' False endpoint))
      in if name = [] then ''endpoint_'' @ digits_of (index + 1) else name)"

definition client_endpoints :: "paths \<Rightarrow> string list" where
  "client_endpoints ps = take 20 (concat (map (\<lambda>(path, methods). map (\<lambda>(m, _). to_upper m @ '' '' @ path) methods) ps))"

definition client_method :: "nat \<Rightarrow> string \<Rightarrow> string" where
  "client_method index endpoint =
     (let words = split_on CHR '' '' endpoint
      in ''  async '' @ client_name index endpoint @ ''() { return this.request('' @ [CHR 0x27] @ hd words @ [CHR 0x27] @ '', '' @
         [CHR 0x27] @ join '' '' (tl words) @ [CHR 0x27] @ ''); }'')"

definition client_methods :: "paths \<Rightarrow> string" where
  "client_methods ps = join [CHR 0x0A] (map (\<lambda>(i, e). client_method i e) (enumerate 0 (client_endpoints ps)))"

text \<open>The text of the client; \<open>fetch\<close> is called with the address as the template writes it.\<close>

definition renderClientSdk :: "paths \<Rightarrow> string" where
  "renderClientSdk ps =
     join [CHR 0x0A]
       [''export class AstraPortClient {'',
        ''  constructor(private readonly baseUrl = '' @ [CHR 0x27] @ ''http://localhost:3000'' @ [CHR 0x27] @ '') {}'',
        [],
        ''  private async request(method: string, path: string) {'',
        ''    const response = await fetch('' @ [CHR 0x60] @ ''${this.baseUrl}${path'' @ [CHR 0x60] @ ''}'' @ [CHR 0x60] @ '', { method });'',
        ''    return response.json();'',
        ''  }'',
        [],
        client_methods ps,
        ''}'']"

section \<open>Which operations are documented\<close>

definition documented_operation :: "paths \<Rightarrow> string \<Rightarrow> string \<Rightarrow> operation option" where
  "documented_operation ps path method = Option.bind (map_get ps path) (\<lambda>ms. map_get ms method)"

definition op_target :: "string \<times> string \<Rightarrow> string \<times> string" where
  "op_target op = (normalizePath (snd op), to_lower (fst op))"

lemma normalizePath_not_Nil: "normalizePath path \<noteq> []"
proof (cases path)
  case (Cons c cs)
  then show ?thesis by (auto simp: normalizePath_def starts_with_def)
qed (simp add: normalizePath_def)

lemma documented_add:
  "documented_operation (add_operation reg ps op) p m =
     (if op_target op = (p, m) \<and> \<not> starts_with p ''/docs'' then Some (operation_of reg m p) else documented_operation ps p m)"
  using normalizePath_not_Nil [of "snd op"]
  by (cases "map_get ps (normalizePath (snd op))")
    (auto simp: documented_operation_def add_operation_def op_target_def Let_def)

lemma documented_foldl:
  "documented_operation (foldl (add_operation reg) ps ops) p m =
     (if (p, m) \<in> op_target ` set ops \<and> \<not> starts_with p ''/docs'' then Some (operation_of reg m p)
      else documented_operation ps p m)"
  by (induction ops arbitrary: ps) (auto simp: documented_add)

lemma lower_char_not_upper: "\<not> (65 \<le> (of_char (lower_char c) :: nat) \<and> (of_char (lower_char c) :: nat) \<le> 90)"
  by (auto simp: lower_char_def)

lemma to_lower_free: "c \<in> set (to_lower s) \<Longrightarrow> \<not> (65 \<le> (of_char c :: nat) \<and> (of_char c :: nat) \<le> 90)"
  using lower_char_not_upper by (auto simp: to_lower_def)

lemma no_body_in_lower_case: "getRequestBody (to_lower verb) example schema = None"
  using to_lower_free [of "CHR ''P''" verb] by (auto simp: getRequestBody_def)

text \<open>The document has an operation for a path and a method exactly if the router has a route whose
  normalized path and lower-cased method these are and the path does not begin with \<open>/docs\<close>; the entry is
  then the one built from that path and method, whichever routes share them. No entry, whatever its method, has
  a request body, also where a schema is registered for the route.\<close>
theorem documented_operations:
  "documented_operation (document_paths reg stack) path (to_lower method) =
     (if (path, to_lower method) \<in> op_target ` set (collectOperations stack) \<and> \<not> starts_with path ''/docs''
      then Some (operation_of reg (to_lower method) path) else None) \<and>
   op_requestBody (operation_of reg (to_lower method) path) = None"
  by (simp add: document_paths_def documented_foldl documented_operation_def [of "[]"] operation_of_def Let_def
      no_body_in_lower_case)

section \<open>Paths\<close>

fun squeezed :: "(char \<Rightarrow> bool) \<Rightarrow> string \<Rightarrow> bool" where
  "squeezed P (c # d # cs) = (\<not> (P c \<and> P d) \<and> squeezed P (d # cs))"
| "squeezed P _ = True"

lemma replace_runs_squeezed:
  "P r \<Longrightarrow> squeezed P (replace_runs P [r] b s) \<and> (b \<longrightarrow> (case replace_runs P [r] b s of [] \<Rightarrow> True | c # _ \<Rightarrow> \<not> P c))"
proof (induction P "[r]" b s rule: replace_runs.induct)
  case (2 P inside c cs)
  then show ?case
    by (cases "replace_runs P [r] True cs"; cases "replace_runs P [r] False cs") auto
qed simp

lemma replace_runs_id: "squeezed P s \<Longrightarrow> (\<And>c. c \<in> set s \<Longrightarrow> P c \<Longrightarrow> c = r) \<Longrightarrow>
   (b \<Longrightarrow> s = [] \<or> \<not> P (hd s)) \<Longrightarrow> replace_runs P [r] b s = s"
proof (induction P s arbitrary: b rule: squeezed.induct)
  case (1 P c d cs)
  then show ?case by auto
qed auto

lemma normalizePath_shape:
  "starts_with (normalizePath path) ''/'' \<and> squeezed (\<lambda>c. c = CHR ''/'') (normalizePath path)"
  using replace_runs_squeezed [of "\<lambda>c. c = CHR ''/''" "CHR ''/''" False]
  by (cases path) (auto simp: normalizePath_def starts_with_def)

lemma normalizePath_idempotent: "normalizePath (normalizePath path) = normalizePath path"
proof -
  let ?n = "normalizePath path"
  have "normalizePath ?n = replace_runs (\<lambda>c. c = CHR ''/'') ''/'' False ?n"
    using normalizePath_shape [of path] normalizePath_not_Nil [of path] by (simp add: normalizePath_def [of ?n])
  also have "\<dots> = ?n"
    using normalizePath_shape [of path] by (intro replace_runs_id) auto
  finally show ?thesis .
qed

section \<open>The names of the client\<close>

lemma replace_runs_set: "c \<in> set (replace_runs P r b s) \<Longrightarrow> c \<in> set r \<or> (c \<in> set s \<and> \<not> P c)"
  by (induction P r b s rule: replace_runs.induct) (auto split: if_splits)

lemma set_strip_underscores: "set (strip_underscores s) \<subseteq> set s"
  by (auto simp: strip_underscores_def Let_def dest!: set_dropWhileD)

definition name_chars :: string where "name_chars = ''abcdefghijklmnopqrstuvwxyz0123456789_''"

lemma lower_name_char: "alnum c \<or> c = CHR ''_'' \<Longrightarrow> lower_char c \<in> set name_chars"
proof -
  have "list_all (\<lambda>c. lower_char c \<in> set name_chars) (CHR ''_'' # alnum_chars)" by code_simp
  then show "alnum c \<or> c = CHR ''_'' \<Longrightarrow> lower_char c \<in> set name_chars"
    by (auto simp: list_all_iff alnum_def)
qed

lemma client_name_nonempty: "client_name i e \<noteq> []"
  by (simp add: client_name_def Let_def)

lemma digit_name_char: "c \<in> set (digits_of n) \<Longrightarrow> c \<in> set name_chars"
proof -
  assume "c \<in> set (digits_of n)"
  then obtain d :: nat where d: "d < 10" "c = char_of (48 + d)" using digits_of_digit by blast
  moreover have "list_all (\<lambda>d. char_of (48 + d :: nat) \<in> set name_chars) [0..<10]" by code_simp
  ultimately show ?thesis by (simp add: list_all_iff)
qed

lemma client_name_chars: "c \<in> set (client_name i e) \<Longrightarrow> c \<in> set name_chars"
proof (cases "to_lower (strip_underscores (replace_runs (\<lambda>c. \<not> alnum c) ''_'' False e)) = []")
  case True
  assume "c \<in> set (client_name i e)"
  with True have "c \<in> set ''endpoint_'' \<or> c \<in> set (digits_of (i + 1))" by (auto simp: client_name_def)
  moreover have "list_all (\<lambda>c. c \<in> set name_chars) ''endpoint_''" by code_simp
  ultimately show ?thesis using digit_name_char by (auto simp only: list_all_iff)
next
  case False
  assume "c \<in> set (client_name i e)"
  with False obtain x where x: "c = lower_char x" "x \<in> set (replace_runs (\<lambda>c. \<not> alnum c) ''_'' False e)"
    using set_strip_underscores by (fastforce simp: client_name_def Let_def to_lower_def)
  then have "alnum x \<or> x = CHR ''_''" using replace_runs_set by fastforce
  with x show ?thesis using lower_name_char by blast
qed

lemma client_names_collide: "client_name 0 ''GET /a-b'' = client_name 1 ''GET /a/b''"
  by code_simp

section \<open>Shape of a converted schema\<close>

lemma wf_describe [simp]: "wf_map fs \<Longrightarrow> wf_map (describe d fs)"
  by (simp add: describe_def)

lemma wf_string_checks [simp]: "wf_map fs \<Longrightarrow> wf_map (foldl string_check_field fs cs)"
  by (induction cs arbitrary: fs) (auto simp: string_check_field_def split: string_check.splits)

lemma wf_number_checks [simp]: "wf_map fs \<Longrightarrow> wf_map (foldl number_check_field fs cs)"
  by (induction cs arbitrary: fs) (auto simp: number_check_field_def split: number_check.splits)

lemma wf_converted: "wf_map (zod_to_openapi z)"
  by (induction z rule: zod_to_openapi.induct) (auto simp: Let_def split: option.splits intro!: wf_describe wf_map_set)

lemma registered_schema_found:
  "getRouteSchema method' path tgt (registerRouteSchema method path tgt z r) =
     (if route_key method' path tgt = route_key method path tgt then Some z else getRouteSchema method' path tgt r)"
  by (simp add: getRouteSchema_def registerRouteSchema_def)

end
