(* ===== verification/Docs_Site.thy ===== *)
theory Docs_Site
  imports OpenApi Log_Output
begin

text \<open>
  The documentation site (src/docs/documentation.service.ts): the two pages, and what \<open>setup\<close> writes and
  registers. \<open>cwd\<close> is the working directory, \<open>pretty\<close> prints JSON with an indentation of two. Shown are:
  the written file, the served document and the document the pages load are the same one.
\<close>

section \<open>Pages\<close>

definition dq :: string where "dq = [CHR 0x22]"
definition sq :: string where "sq = [CHR 0x27]"

definition renderSwaggerPage :: string where
  "renderSwaggerPage =
     join [line_feed]
       [''<!doctype html>'',
        ''<html>'',
        ''  <head>'',
        ''    <meta charset='' @ dq @ ''utf-8'' @ dq @ '' />'',
        ''    <meta name='' @ dq @ ''viewport'' @ dq @ '' content='' @ dq @ ''width=device-width, initial-scale=1'' @ dq @ '' />'',
        ''    <title>AstraPort API Docs</title>'',
        ''    <link rel='' @ dq @ ''stylesheet'' @ dq @ '' href='' @ dq @ ''https://unpkg.com/swagger-ui-dist@5.17.2/swagger-ui.css'' @ dq @ '' />'',
        ''  </head>'',
        ''  <body>'',
        ''    <div id='' @ dq @ ''swagger-ui'' @ dq @ ''></div>'',
        ''    <script src='' @ dq @ ''https://unpkg.com/swagger-ui-dist@5.17.2/swagger-ui-bundle.js'' @ dq @ ''></script>'',
        ''    <script>'',
        ''      window.onload = () => {'',
        ''        window.ui = SwaggerUIBundle({ url: '' @ sq @ ''/docs/json'' @ sq @ '', dom_id: '' @ sq @ ''#swagger-ui'' @ sq @ '' });'',
        ''      };'',
        ''    </script>'',
        ''  </body>'',
        ''</html>'']"

definition renderRedocPage :: string where
  "renderRedocPage =
     join [line_feed]
       [''<!doctype html>'',
        ''<html>'',
        ''  <head>'',
        ''    <meta charset='' @ dq @ ''utf-8'' @ dq @ '' />'',
        ''    <meta name='' @ dq @ ''viewport'' @ dq @ '' content='' @ dq @ ''width=device-width, initial-scale=1'' @ dq @ '' />'',
        ''    <title>AstraPort API ReDoc</title>'',
        ''    <script src='' @ dq @ ''https://unpkg.com/redoc@2.4.0/bundles/redoc.standalone.js'' @ dq @ ''></script>'',
        ''  </head>'',
        ''  <body>'',
        ''    <redoc spec-url='' @ dq @ ''/docs/json'' @ dq @ ''></redoc>'',
        ''  </body>'',
        ''</html>'']"

section \<open>Setup\<close>

datatype site_answer = HtmlPage string | JsonDocument fields

record docs_site =
  ds_files :: "(string \<times> string) list"
  ds_handlers :: "(string \<times> site_answer) list"

text \<open>\<open>paths\<close> are the paths of the document, from which the client is generated.\<close>

definition docs_setup ::
  "(json \<Rightarrow> string) \<Rightarrow> string \<Rightarrow> string option \<Rightarrow> schema_registry \<Rightarrow> layer list option \<Rightarrow> docs_site \<Rightarrow> fields \<times> docs_site" where
  "docs_setup pretty cwd API_BASE_URL reg stack site =
     (let document = buildOpenApiDocument API_BASE_URL reg stack
      in (document,
          \<lparr>ds_files = map_set (cwd @ ''/generated-client.ts'') (renderClientSdk (document_paths reg stack))
             (map_set (cwd @ ''/openapi.json'') (pretty (JObj document)) (ds_files site)),
           ds_handlers = ds_handlers site @
             [(''/docs'', HtmlPage renderSwaggerPage), (''/docs/json'', JsonDocument document), (''/docs/redoc'', HtmlPage renderRedocPage)]\<rparr>))"

text \<open>The router answers with the first handler that was registered for a path.\<close>

definition site_get :: "string \<Rightarrow> docs_site \<Rightarrow> site_answer option" where
  "site_get path site = map_of (ds_handlers site) path"

section \<open>The documentation controller\<close>

text \<open>src/docs/documentation.controller.ts, which no module declares.\<close>

definition swaggerPage :: string where
  "swaggerPage =
     join [line_feed]
       [''<!doctype html>'',
        ''<html>'',
        ''  <head>'',
        ''    <meta charset='' @ dq @ ''utf-8'' @ dq @ '' />'',
        ''    <meta name='' @ dq @ ''viewport'' @ dq @ '' content='' @ dq @ ''width=device-width, initial-scale=1'' @ dq @ '' />'',
        ''    <title>AstraPort API Docs</title>'',
        ''    <link rel='' @ dq @ ''stylesheet'' @ dq @ '' href='' @ dq @ ''https://unpkg.com/swagger-ui-dist@5.17.2/swagger-ui.css'' @ dq @ '' />'',
        ''  </head>'',
        ''  <body>'',
        ''    <div id='' @ dq @ ''swagger-ui'' @ dq @ ''></div>'',
        ''    <script src='' @ dq @ ''https://unpkg.com/swagger-ui-dist@5.17.2/swagger-ui-bundle.js'' @ dq @ ''></script>'',
        ''    <script>'',
        ''      window.onload = () => {'',
        ''        window.ui = SwaggerUIBundle({'',
        ''          url: '' @ sq @ ''/docs/json'' @ sq @ '','',
        ''          dom_id: '' @ sq @ ''#swagger-ui'' @ sq @ '','',
        ''        });'',
        ''      };'',
        ''    </script>'',
        ''  </body>'',
        ''</html>'']"

definition redocPage :: string where
  "redocPage =
     join [line_feed]
       [''<!doctype html>'',
        ''<html>'',
        ''  <head>'',
        ''    <meta charset='' @ dq @ ''utf-8'' @ dq @ '' />'',
        ''    <meta name='' @ dq @ ''viewport'' @ dq @ '' content='' @ dq @ ''width=device-width, initial-scale=1'' @ dq @ '' />'',
        ''    <title>AstraPort API ReDoc</title>'',
        ''    <script src='' @ dq @ ''https://unpkg.com/redoc@2.4.0/bundles/redoc.standalone.js'' @ dq @ ''></script>'',
        ''  </head>'',
        ''  <body>'',
        ''    <redoc spec-url='' @ dq @ ''/docs/json'' @ dq @ ''></redoc>'',
        ''  </body>'',
        ''</html>'']"

definition documentation_controller ::
  "string option \<Rightarrow> schema_registry \<Rightarrow> layer list option \<Rightarrow> string \<Rightarrow> site_answer option" where
  "documentation_controller API_BASE_URL reg stack path =
     (if path = ''/docs'' then Some (HtmlPage swaggerPage)
      else if path = ''/docs/json'' then Some (JsonDocument (buildOpenApiDocument API_BASE_URL reg stack))
      else if path = ''/docs/redoc'' then Some (HtmlPage redocPage)
      else None)"

section \<open>What the site shows\<close>

lemma join_member: "x \<in> set ls \<Longrightarrow> \<exists>a b. join sep ls = a @ x @ b"
proof (induction sep ls rule: join.induct)
  case (3 sep y z zs)
  show ?case
  proof (cases "x = y")
    case True
    then show ?thesis by (metis join.simps(3) append_Nil)
  next
    case False
    with 3 obtain a b where "join sep (z # zs) = a @ x @ b" by auto
    then show ?thesis by (metis join.simps(3) append_assoc)
  qed
qed (auto intro: exI [of _ "[]"])

lemma page_has: "u @ p @ v \<in> set ls \<Longrightarrow> \<exists>a b. join sep ls = a @ p @ b"
  using join_member [of "u @ p @ v" ls sep] by (metis append_assoc)

lemma swagger_page_source: "\<exists>a b. renderSwaggerPage = a @ (''url: '' @ sq @ ''/docs/json'' @ sq) @ b"
  unfolding renderSwaggerPage_def
  by (rule page_has [of "''        window.ui = SwaggerUIBundle({ ''" _ "'', dom_id: '' @ sq @ ''#swagger-ui'' @ sq @ '' });''"]) simp

lemma redoc_page_source: "\<exists>a b. renderRedocPage = a @ (''spec-url='' @ dq @ ''/docs/json'' @ dq) @ b"
  unfolding renderRedocPage_def
  by (rule page_has [of "''    <redoc ''" _ "''></redoc>''"]) simp

text \<open>Both pages load the path under which the document itself is served, unless a route of the application took
  that path before, and the file holds the same document.\<close>

lemma site_consistent:
  assumes "site_get ''/docs/json'' site = None" "docs_setup pretty cwd url reg stack site = (document, site')"
  shows "site_get ''/docs/json'' site' = Some (JsonDocument document) \<and>
    map_get (ds_files site') (cwd @ ''/openapi.json'') = Some (pretty (JObj document)) \<and>
    document = buildOpenApiDocument url reg stack"
  using assms by (auto simp: docs_setup_def site_get_def map_add_def Let_def split: option.splits)

text \<open>Up to blanks and commas, the controller answers as the site does.\<close>

definition essential :: "site_answer \<Rightarrow> site_answer" where
  "essential a = (case a of HtmlPage t \<Rightarrow> HtmlPage (filter (\<lambda>c. c \<noteq> CHR '' '' \<and> c \<noteq> line_feed \<and> c \<noteq> CHR '','') t) | _ \<Rightarrow> a)"

lemma pages_agree:
  "essential (HtmlPage swaggerPage) = essential (HtmlPage renderSwaggerPage)" "redocPage = renderRedocPage"
  by code_simp (simp add: redocPage_def renderRedocPage_def)

lemma controller_repeats_site:
  assumes "ds_handlers site = []" "docs_setup pretty cwd url reg stack site = (document, site')"
  shows "map_option essential (documentation_controller url reg stack path) = map_option essential (site_get path site')"
  using assms by (auto simp: docs_setup_def site_get_def documentation_controller_def pages_agree Let_def)

end
