(* ===== verification/Validation_Decorators.thy ===== *)
theory Validation_Decorators
  imports Validation
begin

text \<open>
  The decorators of src/validation/decorators/validate.decorator.ts on the way of a request into a handler. The
  framework runs, for each parameter of the handler, the pipes of the method and then those of the parameter, on
  the part of the request the parameter names; the handler is called if all of them return.

  Shown is when the handler is called, and that \<open>UseSchema\<close> checks every parameter, whatever target it names.
\<close>

type_synonym pipe = "json \<Rightarrow> (error + validation_exception) + json"

record parameter =
  pm_target :: target
  pm_pipes :: "pipe list"

definition ValidateBody :: "(json \<Rightarrow> string) \<Rightarrow> zod_schema \<Rightarrow> string option \<Rightarrow> parameter" where
  "ValidateBody str schema options = \<lparr>pm_target = TBody, pm_pipes = [zod_pipe str (Some schema) options]\<rparr>"

definition ValidateQuery :: "(json \<Rightarrow> string) \<Rightarrow> zod_schema \<Rightarrow> string option \<Rightarrow> parameter" where
  "ValidateQuery str schema options = \<lparr>pm_target = TQuery, pm_pipes = [zod_pipe str (Some schema) options]\<rparr>"

definition ValidateParams :: "(json \<Rightarrow> string) \<Rightarrow> zod_schema \<Rightarrow> string option \<Rightarrow> parameter" where
  "ValidateParams str schema options = \<lparr>pm_target = TParams, pm_pipes = [zod_pipe str (Some schema) options]\<rparr>"

text \<open>The metadata of a method and its pipes.\<close>

record method_schema =
  ms_metadata :: "zod_schema \<times> target"
  ms_pipes :: "pipe list"

definition UseSchema :: "(json \<Rightarrow> string) \<Rightarrow> zod_schema \<Rightarrow> target option \<Rightarrow> string option \<Rightarrow> method_schema" where
  "UseSchema str schema tgt options =
     \<lparr>ms_metadata = (schema, case tgt of Some t \<Rightarrow> t | None \<Rightarrow> TBody), ms_pipes = [zod_pipe str (Some schema) options]\<rparr>"

fun run_pipes :: "pipe list \<Rightarrow> pipe" where
  "run_pipes [] v = Inr v"
| "run_pipes (p # ps) v = (case p v of Inl e \<Rightarrow> Inl e | Inr w \<Rightarrow> run_pipes ps w)"

fun resolve_args ::
  "pipe list \<Rightarrow> parameter list \<Rightarrow> (target \<Rightarrow> json) \<Rightarrow> (error + validation_exception) + json list" where
  "resolve_args ms [] req = Inr []"
| "resolve_args ms (p # ps) req =
     (case run_pipes (ms @ pm_pipes p) (req (pm_target p)) of
        Inl e \<Rightarrow> Inl e
      | Inr v \<Rightarrow> (case resolve_args ms ps req of Inl e \<Rightarrow> Inl e | Inr vs \<Rightarrow> Inr (v # vs)))"

lemma zod_pipe_passes: "run_pipes [zod_pipe str (Some schema) options] v = Inr w \<longleftrightarrow> schema v = Parsed w"
  by (simp add: zod_pipe_def split: zod_outcome.splits)

lemma resolve_args_all2:
  "resolve_args ms ps req = Inr args \<longleftrightarrow>
   list_all2 (\<lambda>p a. run_pipes (ms @ pm_pipes p) (req (pm_target p)) = Inr a) ps args"
proof (induction ps arbitrary: args)
  case (Cons p ps)
  show ?case
    by (cases "run_pipes (ms @ pm_pipes p) (req (pm_target p))"; cases "resolve_args ms ps req")
      (auto simp: list_all2_Cons1 Cons.IH [symmetric])
qed auto

text \<open>With the decorators of parameters the handler gets what the schemas made of the parts, each its own.\<close>

lemma validated_args:
  "resolve_args [] [ValidateParams str ps o1, ValidateQuery str qs o2, ValidateBody str bs o3] req = Inr args \<longleftrightarrow>
   (\<exists>p q b. args = [p, q, b] \<and> ps (req TParams) = Parsed p \<and> qs (req TQuery) = Parsed q \<and> bs (req TBody) = Parsed b)"
  by (auto simp: ValidateParams_def ValidateQuery_def ValidateBody_def zod_pipe_passes resolve_args_all2 list_all2_Cons1
      simp del: run_pipes.simps resolve_args.simps)

text \<open>\<open>UseSchema\<close> names a target, but its pipe runs on every parameter of the method.\<close>

theorem use_schema_every_parameter:
  "(\<exists>args. resolve_args (ms_pipes (UseSchema str schema tgt options)) (map (\<lambda>t. \<lparr>pm_target = t, pm_pipes = []\<rparr>) ts) req = Inr args) \<longleftrightarrow>
   (\<forall>t \<in> set ts. \<exists>v. schema (req t) = Parsed v)"
proof -
  have "(\<exists>vs. list_all2 (\<lambda>t v. schema (req t) = Parsed v) ts vs) \<longleftrightarrow> (\<forall>t \<in> set ts. \<exists>v. schema (req t) = Parsed v)"
    by (induction ts) (auto simp: list_all2_Cons1)
  moreover have "run_pipes (ms_pipes (UseSchema str schema tgt options) @ []) w = Inr v \<longleftrightarrow> schema w = Parsed v" for w v
    by (simp add: UseSchema_def zod_pipe_passes del: run_pipes.simps)
  ultimately show ?thesis by (simp add: resolve_args_all2 list_all2_map1)
qed

text \<open>A handler with an id in its path and a body that satisfies the schema for bodies refuses the request.\<close>

lemma use_schema_path_parameter:
  fixes str :: "json \<Rightarrow> string"
  defines "schema \<equiv> (\<lambda>v. case v of JObj f \<Rightarrow> (case map_get f ''name'' of Some (JStr n) \<Rightarrow> Parsed v | _ \<Rightarrow> Issues []) | _ \<Rightarrow> Issues [])"
    and "req \<equiv> (\<lambda>t. if t = TBody then JObj [(''name'', JStr ''n'')] else JObj [(''id'', JStr ''7'')])"
  shows "schema (req TBody) = Parsed (req TBody) \<and>
    resolve_args (ms_pipes (UseSchema str schema (Some TBody) None))
      [\<lparr>pm_target = TParams, pm_pipes = []\<rparr>, \<lparr>pm_target = TBody, pm_pipes = []\<rparr>] req =
    Inl (Inr (request_validation_exception [] None 400))"
  by (simp add: schema_def req_def UseSchema_def zod_pipe_def formatZodError_def)

end
