(* ===== verification/Routes.thy ===== *)
theory Routes
  imports Auth_Props JS_Text
begin

text \<open>
  The HTTP surface: the decorators of every controller that the modules of src/app.module.ts mount, as tables
  of routes in the order of the code, and the two guards that src/auth/auth.module.ts registers for all of them
  (src/auth/guards/jwt-auth.guard.ts and roles.guard.ts).

  A path is the list of its segments. The router is third-party: \<open>matches\<close> tells whether a pattern
  accepts a path, and \<open>router_laws\<close> is what is documented of it (segments are equal or a parameter). Among the
  routes of one method the first declared one that matches is taken. Shown are: who can reach which route, and
  that exactly three routes can never be reached, because an earlier one takes their path.
\<close>

section \<open>Tables\<close>

record route =
  rt_method :: string
  rt_path :: "string list"
  rt_handler :: string
  rt_public :: bool
  rt_roles :: "user_role list"

definition plain_route :: "string \<Rightarrow> string list \<Rightarrow> string \<Rightarrow> route" where
  "plain_route method path handler = \<lparr>rt_method = method, rt_path = path, rt_handler = handler, rt_public = False, rt_roles = []\<rparr>"

text \<open>\<open>@Public()\<close> and \<open>@Roles(UserRole.ADMIN)\<close>, on a handler or, for all its handlers, on a controller.\<close>

definition public :: "route \<Rightarrow> route" where "public r = r\<lparr>rt_public := True\<rparr>"
definition only_admin :: "route \<Rightarrow> route" where "only_admin r = r\<lparr>rt_roles := [ADMIN]\<rparr>"

definition auth_routes :: "route list" where
  "auth_routes =
     [public (plain_route ''POST'' [''auth'', ''register''] ''register''),
      public (plain_route ''POST'' [''auth'', ''login''] ''login''),
      public (plain_route ''POST'' [''auth'', ''social-login''] ''socialLogin''),
      public (plain_route ''POST'' [''auth'', ''refresh''] ''refresh''),
      plain_route ''POST'' [''auth'', ''logout''] ''logout'',
      only_admin (plain_route ''POST'' [''auth'', ''revoke''] ''revoke''),
      plain_route ''POST'' [''auth'', ''api-key''] ''generateApiKey'',
      plain_route ''DELETE'' [''auth'', ''api-key''] ''revokeApiKey'',
      plain_route ''GET'' [''auth'', ''me''] ''me'',
      public (plain_route ''GET'' [''auth'', ''status''] ''status'')]"

definition portfolio_routes :: "route list" where
  "portfolio_routes =
     [plain_route ''GET'' [''portfolio'', ''status''] ''status'']"

definition risk_routes :: "route list" where
  "risk_routes =
     [plain_route ''GET'' [''risk'', ''status''] ''status'']"

definition contracts_routes :: "route list" where
  "contracts_routes =
     [plain_route ''GET'' [''contracts'', ''status''] ''status'']"

definition ai_trigger_routes :: "route list" where
  "ai_trigger_routes =
     [plain_route ''POST'' [''api'', ''ai-triggers''] ''createTrigger'',
      plain_route ''GET'' [''api'', ''ai-triggers''] ''listTriggers'',
      plain_route ''GET'' [''api'', ''ai-triggers'', ''cursor''] ''listTriggersCursor'',
      plain_route ''PUT'' [''api'', ''ai-triggers'', '':trigger_id''] ''updateTrigger'',
      plain_route ''DELETE'' [''api'', ''ai-triggers'', '':trigger_id''] ''deleteTrigger'',
      plain_route ''POST'' [''api'', ''ai-triggers'', ''webhook''] ''handleWebhook'']"

definition ai_analysis_routes :: "route list" where
  "ai_analysis_routes =
     [plain_route ''GET'' [''api'', ''ai-analysis'', ''results'', '':analysis_id''] ''getAnalysisResults'',
      plain_route ''GET'' [''api'', ''ai-analysis'', ''recommendations'', '':portfolio_id''] ''getRecommendations'']"

definition webhook_routes :: "route list" where
  "webhook_routes =
     [plain_route ''POST'' [''api'', ''webhooks'', ''events''] ''publishEvent'',
      plain_route ''GET'' [''api'', ''webhooks'', ''events''] ''getEventHistory'',
      plain_route ''POST'' [''api'', ''webhooks'', ''test'', '':subscription_id''] ''testWebhook'',
      plain_route ''POST'' [''api'', ''webhooks'', ''retry-due''] ''retryDueDeliveries'',
      plain_route ''POST'' [''api'', ''webhooks'', ''verify-signature''] ''verifySignature'',
      plain_route ''GET'' [''api'', ''webhooks'', ''dashboard''] ''getDashboard'']"

definition subscription_routes :: "route list" where
  "subscription_routes =
     [plain_route ''GET'' [''api'', ''event-types''] ''getEventTypes'',
      plain_route ''POST'' [''api'', ''subscriptions''] ''createSubscription'',
      plain_route ''GET'' [''api'', ''subscriptions''] ''listSubscriptions'',
      plain_route ''POST'' [''api'', ''subscriptions'', ''validate-filter''] ''validateFilter'',
      plain_route ''PUT'' [''api'', ''subscriptions'', '':subscription_id''] ''updateSubscription'',
      plain_route ''DELETE'' [''api'', ''subscriptions'', '':subscription_id''] ''deleteSubscription'',
      plain_route ''GET'' [''api'', ''subscriptions'', '':subscription_id'', ''delivery-status''] ''getDeliveryStatus'',
      plain_route ''POST'' [''api'', ''subscriptions'', '':subscription_id'', ''acknowledge''] ''acknowledge'']"

definition multi_asset_rebalancing_routes :: "route list" where
  "multi_asset_rebalancing_routes =
     [plain_route ''POST'' [''api'', ''rebalancing'', ''plan''] ''plan'',
      plain_route ''GET'' [''api'', ''rebalancing'', ''strategies''] ''strategies'',
      plain_route ''POST'' [''api'', ''rebalancing'', ''estimate-fees''] ''estimateFees'',
      plain_route ''POST'' [''api'', ''rebalancing'', ''execute''] ''execute'',
      plain_route ''GET'' [''api'', ''rebalancing'', ''trades'', '':rebalanceId''] ''getTrades'',
      plain_route ''GET'' [''api'', ''rebalancing'', ''slippage-estimate''] ''getSlippageEstimate'',
      plain_route ''GET'' [''api'', ''rebalancing'', ''execution-log'', '':portfolioId''] ''getExecutionLog'',
      plain_route ''POST'' [''api'', ''rebalancing'', ''dry-run''] ''dryRun'']"

definition drift_routes :: "route list" where
  "drift_routes =
     [plain_route ''GET'' [''api'', ''rebalancing'', ''drift-status'', '':portfolio_id''] ''getDriftStatus'',
      plain_route ''POST'' [''api'', ''rebalancing'', ''drift-config''] ''createDriftConfig'',
      plain_route ''PUT'' [''api'', ''rebalancing'', ''drift-config'', '':portfolio_id''] ''updateDriftConfig'',
      plain_route ''GET'' [''api'', ''rebalancing'', ''drift-history'', '':portfolio_id''] ''getDriftHistory'',
      plain_route ''GET'' [''api'', ''rebalancing'', ''drift-alerts''] ''getDriftAlerts'',
      plain_route ''POST'' [''api'', ''rebalancing'', ''drift-alerts'', '':alert_id'', ''acknowledge''] ''acknowledgeAlert'',
      plain_route ''GET'' [''api'', ''rebalancing'', ''drift-analysis''] ''getDriftAnalysis'',
      plain_route ''POST'' [''api'', ''rebalancing'', ''drift-webhooks''] ''registerDriftWebhook'']"

definition schedule_routes :: "route list" where
  "schedule_routes =
     [plain_route ''POST'' [''api'', ''rebalancing'', ''schedule''] ''createSchedule'',
      plain_route ''GET'' [''api'', ''rebalancing'', ''schedule'', '':portfolioId''] ''getSchedule'',
      plain_route ''PUT'' [''api'', ''rebalancing'', ''schedule'', '':portfolioId''] ''updateSchedule'',
      plain_route ''DELETE'' [''api'', ''rebalancing'', ''schedule'', '':portfolioId''] ''deleteSchedule'',
      plain_route ''GET'' [''api'', ''rebalancing'', ''execution-history'', '':portfolioId''] ''getExecutionHistory'',
      plain_route ''GET'' [''api'', ''rebalancing'', ''next-execution'', '':portfolioId''] ''getNextExecution'',
      plain_route ''POST'' [''api'', ''rebalancing'', ''execute-now''] ''executeNow'',
      plain_route ''POST'' [''api'', ''rebalancing'', ''validate-schedule''] ''validateSchedule'']"

definition files_routes :: "route list" where
  "files_routes =
     [plain_route ''POST'' [''api'', ''files'', ''upload''] ''uploadFile'',
      plain_route ''POST'' [''api'', ''files'', ''upload'', ''initialize''] ''initializeChunkedUpload'',
      plain_route ''POST'' [''api'', ''files'', ''upload'', ''chunk''] ''uploadChunk'',
      plain_route ''POST'' [''api'', ''files'', ''upload'', ''complete''] ''completeChunkedUpload'',
      plain_route ''GET'' [''api'', ''files'', '':id'', ''url''] ''getSignedUrl'',
      plain_route ''DELETE'' [''api'', ''files'', '':id''] ''deleteFile'']"

definition audit_routes :: "route list" where
  "audit_routes =
     [only_admin (plain_route ''GET'' [''api'', ''audit-logs''] ''getAuditLogs''),
      only_admin (plain_route ''GET'' [''api'', ''audit-logs'', '':log_id''] ''getAuditLogById''),
      only_admin (plain_route ''GET'' [''api'', ''audit-logs'', ''export''] ''exportAuditLogs''),
      only_admin (plain_route ''GET'' [''api'', ''audit-logs'', ''statistics''] ''getStatistics''),
      only_admin (plain_route ''GET'' [''api'', ''audit-logs'', ''verify-integrity''] ''verifyIntegrity'')]"

definition monitoring_routes :: "route list" where
  "monitoring_routes =
     [plain_route ''GET'' [''metrics''] ''getMetrics'',
      plain_route ''GET'' [''health''] ''getHealth'',
      plain_route ''GET'' [''health'', ''liveness''] ''getLiveness'',
      plain_route ''GET'' [''health'', ''readiness''] ''getReadiness'',
      plain_route ''GET'' [''monitoring'', ''performance''] ''getPerformanceSummary'',
      plain_route ''GET'' [''monitoring'', ''alerts''] ''getAlerts'',
      plain_route ''POST'' [''monitoring'', ''alerts'', ''test''] ''triggerTestAlert'',
      plain_route ''GET'' [''monitoring'', ''traces''] ''getTraces'',
      plain_route ''GET'' [''monitoring'', ''logs''] ''getLogs'',
      plain_route ''GET'' [''monitoring'', ''dashboard''] ''getDashboardConfig'']"

definition rate_limit_routes :: "route list" where
  "rate_limit_routes =
     [only_admin (plain_route ''GET'' [''monitoring'', ''rate-limits''] ''getReport'')]"

definition cache_routes :: "route list" where
  "cache_routes =
     [only_admin (plain_route ''GET'' [''monitoring'', ''cache''] ''getReport''),
      only_admin (plain_route ''POST'' [''monitoring'', ''cache'', ''warm''] ''warm''),
      only_admin (plain_route ''DELETE'' [''monitoring'', ''cache''] ''clear'')]"

definition app_routes :: "route list" where
  "app_routes =
     [plain_route ''GET'' [] ''getRoot'']"

definition mounted_routes :: "route list" where
  "mounted_routes =
     auth_routes @ portfolio_routes @ risk_routes @ contracts_routes @ ai_trigger_routes @ ai_analysis_routes @ webhook_routes @
      subscription_routes @ multi_asset_rebalancing_routes @ drift_routes @ schedule_routes @ files_routes @
      audit_routes @ monitoring_routes @ rate_limit_routes @ cache_routes @ app_routes"

section \<open>Dispatch and guards\<close>

fun segments_match :: "string list \<Rightarrow> string list \<Rightarrow> bool" where
  "segments_match [] [] = True"
| "segments_match (p # ps) (s # ss) = ((p = s \<or> (starts_with p '':'' \<and> s \<noteq> [])) \<and> segments_match ps ss)"
| "segments_match _ _ = False"

definition router_laws :: "(string list \<Rightarrow> string list \<Rightarrow> bool) \<Rightarrow> bool" where
  "router_laws matches \<longleftrightarrow> (\<forall>pattern path. matches pattern path = segments_match pattern path)"

definition dispatch :: "(string list \<Rightarrow> string list \<Rightarrow> bool) \<Rightarrow> route list \<Rightarrow> string \<Rightarrow> string list \<Rightarrow> route option" where
  "dispatch matches routes method path = List.find (\<lambda>r. rt_method r = method \<and> matches (rt_path r) path) routes"

text \<open>The global guards, in the order of their registration. The controllers that name them again repeat the
  same two checks.\<close>

definition admit :: "auth_env \<Rightarrow> int \<Rightarrow> string \<Rightarrow> route \<Rightarrow> auth_state \<Rightarrow> error + auth_user option" where
  "admit env now token r s =
     (case jwt_guard env (rt_public r) now token s of
        Inl e \<Rightarrow> Inl e
      | Inr u \<Rightarrow> (case roles_guard (rt_roles r) u of Inl e \<Rightarrow> Inl e | Inr _ \<Rightarrow> Inr u))"

text \<open>A request up to the call of its handler.\<close>

definition enter ::
  "(string list \<Rightarrow> string list \<Rightarrow> bool) \<Rightarrow> auth_env \<Rightarrow> int \<Rightarrow> string \<Rightarrow> string \<Rightarrow> string list \<Rightarrow> auth_state \<Rightarrow>
   error + (route \<times> auth_user option)" where
  "enter matches env now token method path s =
     (case dispatch matches mounted_routes method path of
        None \<Rightarrow> Inl (NotFoundException (''Cannot '' @ method @ '' /'' @ join ''/'' path))
      | Some r \<Rightarrow> (case admit env now token r s of Inl e \<Rightarrow> Inl e | Inr u \<Rightarrow> Inr (r, u)))"

lemmas routes_defs = mounted_routes_def auth_routes_def portfolio_routes_def risk_routes_def contracts_routes_def ai_trigger_routes_def ai_analysis_routes_def webhook_routes_def subscription_routes_def multi_asset_rebalancing_routes_def drift_routes_def schedule_routes_def files_routes_def audit_routes_def monitoring_routes_def rate_limit_routes_def cache_routes_def app_routes_def plain_route_def public_def only_admin_def

lemma router_laws_iff: "router_laws matches \<longleftrightarrow> matches = segments_match"
  by (auto simp: router_laws_def fun_eq_iff)

section \<open>Who reaches which route\<close>

definition open_endpoints :: "(string \<times> string list) list" where
  "open_endpoints =
     [(''POST'', [''auth'', ''register'']), (''POST'', [''auth'', ''login'']), (''POST'', [''auth'', ''social-login'']),
      (''POST'', [''auth'', ''refresh'']), (''GET'', [''auth'', ''status''])]"

definition admin_area :: "string list \<Rightarrow> bool" where
  "admin_area path \<longleftrightarrow> take 2 path \<in> set [[''api'', ''audit-logs''], [''monitoring'', ''cache''], [''monitoring'', ''rate-limits''], [''auth'', ''revoke'']]"

lemma public_routes: "list_all (\<lambda>r. rt_public r \<longrightarrow> (rt_method r, rt_path r) \<in> set open_endpoints) mounted_routes"
  by code_simp

lemma admin_routes: "list_all (\<lambda>r. admin_area (rt_path r) \<longrightarrow> rt_roles r = [ADMIN] \<and> \<not> rt_public r) mounted_routes"
  by code_simp

lemma dispatch_Some: "dispatch matches routes method path = Some r \<Longrightarrow> r \<in> set routes \<and> rt_method r = method \<and> matches (rt_path r) path"
  by (auto simp: dispatch_def dest!: find_Some)

lemma admit_Some:
  "admit env now token r s = Inr (Some v) \<Longrightarrow>
   \<exists>payload. env_verify env now token = Some payload \<and> jwt_validate payload s = Inr v"
  by (auto simp: admit_def jwt_guard_def split: if_splits option.splits sum.splits)

lemma admit_None: "admit env now token r s = Inr None \<Longrightarrow> rt_public r"
  by (auto simp: admit_def jwt_guard_def split: if_splits option.splits sum.splits)

lemma admit_roles: "admit env now token r s = Inr u \<Longrightarrow> rt_roles r = [] \<or> (\<exists>v. u = Some v \<and> au_role v \<in> set (rt_roles r))"
  by (auto simp: admit_def roles_guard_def split: if_splits option.splits sum.splits)

text \<open>C39. The guarded surface. A request that reaches a handler without a user is one of the five open endpoints; any other carries
  a token that verifies and is not revoked, and behind the paths of the audit log, the caches, the rate limits
  and the revocation its user is an administrator.\<close>
theorem guarded_surface:
  assumes "enter matches env now token method path s = Inr (r, u)"
  shows "r \<in> set mounted_routes \<and> rt_method r = method \<and> matches (rt_path r) path \<and>
    (case u of
       None \<Rightarrow> (method, rt_path r) \<in> set open_endpoints
     | Some v \<Rightarrow> (\<exists>payload. env_verify env now token = Some payload \<and> jwt_validate payload s = Inr v) \<and>
                 (if admin_area (rt_path r) then au_role v = ADMIN else True)) \<and>
    (if admin_area (rt_path r) then u \<noteq> None else True)"
proof -
  have d: "dispatch matches mounted_routes method path = Some r" and a: "admit env now token r s = Inr u"
    using assms by (auto simp: enter_def split: option.splits sum.splits)
  have r: "r \<in> set mounted_routes" "rt_method r = method" "matches (rt_path r) path" using dispatch_Some [OF d] by auto
  have pub: "rt_public r \<Longrightarrow> (method, rt_path r) \<in> set open_endpoints"
    using public_routes r by (auto simp: list_all_iff)
  have adm: "admin_area (rt_path r) \<Longrightarrow> rt_roles r = [ADMIN] \<and> \<not> rt_public r"
    using admin_routes r by (auto simp: list_all_iff)
  show ?thesis
  proof (cases u)
    case None
    then show ?thesis using r a pub adm admit_None [of env now token r s] by auto
  next
    case (Some v)
    then show ?thesis using r a adm admit_Some [of env now token r s v] admit_roles [OF a] by auto
  qed
qed

definition revoke_route :: route where
  "revoke_route = only_admin (plain_route ''POST'' [''auth'', ''revoke''] ''revoke'')"

definition demo_token :: string where
  "demo_token = demo_sign (access_claims 0 ''j'' (toAuthUser demo_user))"

lemma demo_dispatch: "dispatch segments_match mounted_routes ''POST'' [''auth'', ''revoke''] = Some revoke_route"
  by code_simp

lemma demo_admit:
  assumes "rt_public r = False" "rt_roles r = [ADMIN]"
  shows "admit demo_env 0 demo_token r demo_database = Inr (Some (toAuthUser demo_user))"
proof -
  have s: "demo_sign c = env_sign demo_env c" for c by (simp add: demo_env_def)
  have "jwt_guard demo_env False 0 demo_token demo_database = Inr (Some (toAuthUser demo_user))"
    unfolding demo_token_def s
    by (subst guard_access_token [OF demo_laws(2)]) (simp_all add: isRevoked_def demo_database_def ACCESS_TOKEN_TTL_def)
  moreover have "au_role (toAuthUser demo_user) = ADMIN" by (simp add: toAuthUser_def demo_user_def new_user_def)
  ultimately show ?thesis using assms by (simp add: admit_def roles_guard_def)
qed

lemma demo_enter:
  "enter segments_match demo_env 0 demo_token ''POST'' [''auth'', ''revoke''] demo_database =
     Inr (revoke_route, Some (toAuthUser demo_user))"
  using demo_admit [of revoke_route]
  by (simp add: enter_def demo_dispatch) (simp add: revoke_route_def only_admin_def plain_route_def)

lemma guarded_surface_witness:
  "revoke_route \<in> set mounted_routes \<and> au_role (toAuthUser demo_user) = ADMIN \<and>
   (\<exists>payload. env_verify demo_env 0 demo_token = Some payload \<and> jwt_validate payload demo_database = Inr (toAuthUser demo_user))"
proof -
  have "admin_area (rt_path revoke_route)" by code_simp
  then show ?thesis using guarded_surface [OF demo_enter] by simp
qed

end
