(* ===== verification/Dtos.thy ===== *)
theory Dtos
  imports Pagination
begin

text \<open>
  The bodies and queries of the requests and their validation: the decorated classes of
  src/auth/dto/auth.dto.ts, src/pagination/dto, src/audit-log/dto/audit-log-filter.dto.ts, src/staking/dtos.ts,
  src/staking/dto/emergency-unstake.dto.ts and src/modules/queue/dto, the classes without decorators, and the
  global pipe that src/main.ts installs with \<open>whitelist\<close>, \<open>transform\<close> and \<open>forbidNonWhitelisted\<close>.

  A class is the list of its decorated fields, with their rules, and its initial values. The pipe and the
  meaning of the rules belong to class-validator and class-transformer: they are the parameters \<open>pipe\<close> and
  \<open>check\<close>, and \<open>pipe_laws\<close> and \<open>rule_laws\<close> are what is documented of them. Shown are: which requests can never
  carry a body, since their class has no decorated field, that the export of audit logs cannot be asked for, and
  the bounds of an accepted page.
\<close>

section \<open>Classes\<close>

datatype rule =
    IsString | IsEmail | MinLength nat | IsEnum "json list" | IsIn "string list" | IsInt | IsNumber | Min rat | Max rat
  | IsObject | IsDateString | Matches string | IsArray | ArrayMinSize nat | ValidateNested "(string \<times> rule list) list"

record field =
  f_name :: string
  f_optional :: bool
  f_number :: bool
  f_rules :: "rule list"

record dto =
  dto_fields :: "field list"
  dto_defaults :: "(string \<times> json) list"

definition required :: "string \<Rightarrow> rule list \<Rightarrow> field" where
  "required name rules = \<lparr>f_name = name, f_optional = False, f_number = False, f_rules = rules\<rparr>"

text \<open>\<open>@IsOptional()\<close>, and with \<open>@Type(() => Number)\<close>.\<close>

definition optional_text :: "string \<Rightarrow> rule list \<Rightarrow> field" where
  "optional_text name rules = \<lparr>f_name = name, f_optional = True, f_number = False, f_rules = rules\<rparr>"

definition optional_number :: "string \<Rightarrow> rule list \<Rightarrow> field" where
  "optional_number name rules = \<lparr>f_name = name, f_optional = True, f_number = True, f_rules = rules\<rparr>"

definition plain :: "field list \<Rightarrow> dto" where "plain fs = \<lparr>dto_fields = fs, dto_defaults = []\<rparr>"

definition RegisterDto :: dto where
  "RegisterDto = plain [required ''email'' [IsEmail], required ''password'' [IsString, MinLength 8],
     optional_text ''role'' [IsEnum [JStr ''admin'', JStr ''user'', JStr ''readonly'']]]"

definition LoginDto :: dto where
  "LoginDto = plain [required ''email'' [IsEmail], required ''password'' [IsString]]"

definition SocialLoginDto :: dto where
  "SocialLoginDto = plain [required ''provider'' [IsEnum [JStr ''google'']], required ''idToken'' [IsString, MinLength 1]]"

definition RefreshTokenDto :: dto where
  "RefreshTokenDto = plain [required ''userId'' [IsString], required ''refreshToken'' [IsString]]"

definition RevokeTokenDto :: dto where
  "RevokeTokenDto = plain [required ''token'' [IsString]]"

definition PaginationQueryDto :: dto where
  "PaginationQueryDto =
     \<lparr>dto_fields = [optional_number ''page'' [IsInt, Min 1], optional_number ''limit'' [IsInt, Min 1, Max 100],
        optional_text ''sortBy'' [IsString], optional_text ''sortOrder'' [IsIn [''ASC'', ''DESC'']]],
      dto_defaults = [(''page'', JNum 1), (''limit'', JNum 10), (''sortBy'', JStr ''createdAt''), (''sortOrder'', JStr ''DESC'')]\<rparr>"

definition CursorPaginationQueryDto :: dto where
  "CursorPaginationQueryDto =
     \<lparr>dto_fields = [optional_text ''cursor'' [IsString], optional_number ''limit'' [IsInt, Min 1, Max 100],
        optional_text ''sortField'' [IsString], optional_text ''sortOrder'' [IsIn [''ASC'', ''DESC'']]],
      dto_defaults = [(''limit'', JNum 10), (''sortField'', JStr ''createdAt''), (''sortOrder'', JStr ''DESC'')]\<rparr>"

definition extends :: "dto \<Rightarrow> field list \<Rightarrow> dto" where
  "extends d fs = d\<lparr>dto_fields := dto_fields d @ fs\<rparr>"

definition AuditLogFilterDto :: dto where
  "AuditLogFilterDto = extends PaginationQueryDto
     [optional_text ''startDate'' [IsDateString], optional_text ''endDate'' [IsDateString], optional_text ''eventType'' [IsString],
      optional_text ''portfolioId'' [IsString], optional_text ''userAction'' [IsString]]"

definition InitiateEmergencyUnstakeDto :: dto where
  "InitiateEmergencyUnstakeDto = plain
     [required ''stakerId'' [IsString], required ''stakingPositionId'' [IsString],
      required ''amount'' [IsNumber, Min (f64 (1 / 1000000))]]"

definition EmergencyUnstakePreviewDto :: dto where
  "EmergencyUnstakePreviewDto = plain
     [required ''stakerId'' [IsString], required ''stakingPositionId'' [IsString],
      required ''amount'' [IsNumber, Min (f64 (1 / 1000000))], required ''currentUnlockDate'' [IsDateString]]"

definition EmergencyUnstakeHistoryFilterDto :: dto where
  "EmergencyUnstakeHistoryFilterDto = extends PaginationQueryDto
     [optional_text ''status'' [IsString], optional_text ''startDate'' [IsDateString], optional_text ''endDate'' [IsDateString]]"

definition StakingAssetRequest :: "(string \<times> rule list) list" where
  "StakingAssetRequest =
     [(''assetId'', [IsString]), (''amount'', [IsNumber, Min (f64 (1 / 100000000))]), (''termDays'', [IsInt, Min 1])]"

definition MultiAssetStakeRequest :: dto where
  "MultiAssetStakeRequest = plain
     [required ''stakerId'' [IsString], required ''assets'' [IsArray, ArrayMinSize 1, ValidateNested StakingAssetRequest]]"

definition WithdrawAssetRequest :: "(string \<times> rule list) list" where
  "WithdrawAssetRequest = [(''assetId'', [IsString]), (''amount'', [IsNumber, Min (f64 (1 / 100000000))])]"

definition MultiAssetWithdrawRequest :: dto where
  "MultiAssetWithdrawRequest = plain
     [required ''stakerId'' [IsString], required ''assets'' [IsArray, ArrayMinSize 1, ValidateNested WithdrawAssetRequest]]"

text \<open>The values of the numeric enum \<open>JobPriority\<close>, among them the names that TypeScript adds.\<close>

definition job_priorities :: "json list" where
  "job_priorities = [JStr ''HIGH'', JStr ''MEDIUM'', JStr ''LOW'', JNum 1, JNum 3, JNum 5]"

definition CreateJobDto :: dto where
  "CreateJobDto = plain
     [required ''type'' [IsString], required ''payload'' [IsObject], optional_text ''priority'' [IsEnum job_priorities],
      optional_text ''maxRetries'' [IsNumber, Min 0], optional_text ''timeout'' [IsNumber, Min 1000], optional_text ''delay'' [IsNumber, Min 0],
      optional_text ''metadata'' [IsObject]]"

text \<open>\<open>Matches\<close> names the pattern of the cron expression, which is \<open>cron_expression\<close> of Queue.thy.\<close>

definition ScheduleJobDto :: dto where
  "ScheduleJobDto = plain
     [required ''type'' [IsString], required ''payload'' [IsObject], required ''cronExpression'' [IsString, Matches ''cron''],
      optional_text ''priority'' [IsEnum job_priorities], optional_text ''maxRetries'' [IsNumber, Min 0],
      optional_text ''timeout'' [IsNumber, Min 1000], optional_text ''metadata'' [IsObject]]"

text \<open>A class none of whose fields has a decorator.\<close>

definition undecorated :: dto where "undecorated = plain []"

section \<open>Requests\<close>

text \<open>The class of the body or query of each handler whose parameter has one.\<close>

definition request_types :: "(string \<times> dto) list" where
  "request_types =
     [(''AuthController.register'', RegisterDto), (''AuthController.socialLogin'', SocialLoginDto),
      (''AuthController.refresh'', RefreshTokenDto), (''AuthController.revoke'', RevokeTokenDto),
      (''AITriggerController.createTrigger'', undecorated), (''AITriggerController.listTriggers'', PaginationQueryDto),
      (''AITriggerController.listTriggersCursor'', CursorPaginationQueryDto), (''AITriggerController.updateTrigger'', undecorated),
      (''SubscriptionController.createSubscription'', undecorated), (''SubscriptionController.listSubscriptions'', PaginationQueryDto),
      (''SubscriptionController.validateFilter'', undecorated), (''SubscriptionController.updateSubscription'', undecorated),
      (''SubscriptionController.acknowledge'', undecorated), (''MultiAssetRebalancingController.plan'', undecorated),
      (''MultiAssetRebalancingController.estimateFees'', undecorated), (''MultiAssetRebalancingController.execute'', undecorated),
      (''MultiAssetRebalancingController.dryRun'', undecorated), (''DriftDetectionController.getDriftStatus'', undecorated),
      (''DriftDetectionController.createDriftConfig'', undecorated), (''DriftDetectionController.acknowledgeAlert'', undecorated),
      (''DriftDetectionController.getDriftAnalysis'', undecorated), (''DriftDetectionController.registerDriftWebhook'', undecorated),
      (''AuditLogController.getAuditLogs'', AuditLogFilterDto), (''AuditLogController.exportAuditLogs'', AuditLogFilterDto)]"

section \<open>The pipe\<close>

text \<open>The value of a field that the rules see: missing, not a number, or a value.\<close>

datatype seen = Undefined | NaN | Val json

definition seen_number :: "json \<Rightarrow> seen" where
  "seen_number v = (if v = JNull then Val JNull else case number_of_json v of Some n \<Rightarrow> Val (JNum n) | None \<Rightarrow> NaN)"

definition seen_value :: "dto \<Rightarrow> (string \<times> json) list \<Rightarrow> field \<Rightarrow> seen" where
  "seen_value d body f =
     (case map_get body (f_name f) of
        Some v \<Rightarrow> if f_number f then seen_number v else Val v
      | None \<Rightarrow> (case map_get (dto_defaults d) (f_name f) of Some v \<Rightarrow> Val v | None \<Rightarrow> Undefined))"

definition skipped :: "field \<Rightarrow> seen \<Rightarrow> bool" where
  "skipped f v \<longleftrightarrow> f_optional f \<and> (v = Undefined \<or> v = Val JNull)"

definition unknown_keys :: "dto \<Rightarrow> (string \<times> json) list \<Rightarrow> string list" where
  "unknown_keys d body = filter (\<lambda>k. k \<notin> set (map f_name (dto_fields d))) (map fst body)"

definition accepted :: "(rule \<Rightarrow> seen \<Rightarrow> bool) \<Rightarrow> dto \<Rightarrow> (string \<times> json) list \<Rightarrow> bool" where
  "accepted check d body \<longleftrightarrow>
     unknown_keys d body = [] \<and>
     list_all (\<lambda>f. skipped f (seen_value d body f) \<or> list_all (\<lambda>r. check r (seen_value d body f)) (f_rules f)) (dto_fields d)"

definition instance_of :: "dto \<Rightarrow> (string \<times> json) list \<Rightarrow> (string \<times> seen) list" where
  "instance_of d body = map (\<lambda>f. (f_name f, seen_value d body f)) (dto_fields d)"

text \<open>What is documented: the pipe refuses with status 400 what is not accepted and passes the instance on.\<close>

definition pipe_laws ::
  "(rule \<Rightarrow> seen \<Rightarrow> bool) \<Rightarrow> (dto \<Rightarrow> (string \<times> json) list \<Rightarrow> error + (string \<times> seen) list) \<Rightarrow> bool" where
  "pipe_laws check pipe \<longleftrightarrow>
     (\<forall>d body. (case pipe d body of Inl _ \<Rightarrow> \<not> accepted check d body | Inr r \<Rightarrow> accepted check d body \<and> r = instance_of d body))"

definition rule_laws :: "(rule \<Rightarrow> seen \<Rightarrow> bool) \<Rightarrow> bool" where
  "rule_laws check \<longleftrightarrow>
     (\<forall>v. check IsInt v \<longleftrightarrow> (\<exists>i. v = Val (JNum (of_int i)))) \<and>
     (\<forall>a v. check (Min a) v \<longleftrightarrow> (\<exists>n. v = Val (JNum n) \<and> a \<le> n)) \<and>
     (\<forall>a v. check (Max a) v \<longleftrightarrow> (\<exists>n. v = Val (JNum n) \<and> n \<le> a)) \<and>
     (\<forall>xs v. check (IsIn xs) v \<longleftrightarrow> (\<exists>s. v = Val (JStr s) \<and> s \<in> set xs))"

lemma pipe_refuses: "pipe_laws check pipe \<Longrightarrow> unknown_keys d body \<noteq> [] \<Longrightarrow> \<exists>e. pipe d body = Inl e"
  by (auto simp: pipe_laws_def accepted_def split: sum.splits) (metis Inr_Inl_False obj_sumE)

lemma pipe_accepts: "pipe_laws check pipe \<Longrightarrow> pipe d body = Inr r \<Longrightarrow> accepted check d body \<and> r = instance_of d body"
  unfolding pipe_laws_def by (metis (lifting) sum.simps(6))

lemma undecorated_keys: "unknown_keys undecorated body = map fst body"
  by (simp add: unknown_keys_def undecorated_def plain_def)

section \<open>Bodies that are always refused\<close>

definition bare_pipe :: "(rule \<Rightarrow> seen \<Rightarrow> bool) \<Rightarrow> dto \<Rightarrow> (string \<times> json) list \<Rightarrow> error + (string \<times> seen) list" where
  "bare_pipe check d body = (if accepted check d body then Inr (instance_of d body) else Inl (BadRequestException []))"

lemma bare_pipe_laws: "pipe_laws check (bare_pipe check)"
  by (simp add: pipe_laws_def bare_pipe_def)

definition bodiless :: "(string \<times> dto) list" where
  "bodiless = filter (\<lambda>(handler, d). dto_fields d = []) request_types"

lemma bodiless_now:
  "map fst bodiless =
     [''AITriggerController.createTrigger'', ''AITriggerController.updateTrigger'', ''SubscriptionController.createSubscription'',
      ''SubscriptionController.validateFilter'', ''SubscriptionController.updateSubscription'', ''SubscriptionController.acknowledge'',
      ''MultiAssetRebalancingController.plan'', ''MultiAssetRebalancingController.estimateFees'',
      ''MultiAssetRebalancingController.execute'', ''MultiAssetRebalancingController.dryRun'',
      ''DriftDetectionController.getDriftStatus'', ''DriftDetectionController.createDriftConfig'',
      ''DriftDetectionController.acknowledgeAlert'', ''DriftDetectionController.getDriftAnalysis'',
      ''DriftDetectionController.registerDriftWebhook'']"
  by code_simp

lemma no_field_no_key: "dto_fields d = [] \<Longrightarrow> unknown_keys d body = map fst body"
  by (simp add: unknown_keys_def)

text \<open>C40. Refused bodies. The handlers whose body class has no decorated field, among them the creation of
  subscriptions and all of rebalancing, refuse every body that has a property at all; and the export of
  audit logs refuses every query that names the format it requires.\<close>
theorem undecorated_bodies_refused:
  assumes "pipe_laws check pipe" "body \<noteq> []"
  shows "''SubscriptionController.createSubscription'' \<in> set (map fst bodiless) \<and> length bodiless = 15 \<and>
    list_all (\<lambda>(handler, d). \<exists>e. pipe d body = Inl e) bodiless \<and>
    (\<exists>e. pipe AuditLogFilterDto ((''format'', fmt) # query) = Inl e)"
proof -
  have "length bodiless = length (map fst bodiless)" by simp
  then have n: "length bodiless = 15" unfolding bodiless_now by simp
  have "list_all (\<lambda>(handler, d). \<exists>e. pipe d body = Inl e) bodiless"
    using pipe_refuses [OF assms(1)] assms(2) by (auto simp: list_all_iff bodiless_def no_field_no_key)
  moreover have "\<exists>e. pipe AuditLogFilterDto ((''format'', fmt) # query) = Inl e"
    by (rule pipe_refuses [OF assms(1)])
      (simp add: unknown_keys_def AuditLogFilterDto_def extends_def PaginationQueryDto_def optional_text_def optional_number_def)
  ultimately show ?thesis using n unfolding bodiless_now by simp
qed

lemma undecorated_bodies_refused_witness:
  "list_all (\<lambda>(handler, d). \<exists>e. bare_pipe (\<lambda>_ _. True) d [(''name'', JStr ''alerts'')] = Inl e) bodiless \<and>
   (\<exists>e. bare_pipe (\<lambda>_ _. True) AuditLogFilterDto [(''format'', JStr ''csv'')] = Inl e)"
  using undecorated_bodies_refused [OF bare_pipe_laws, of "[(''name'', JStr ''alerts'')]" "\<lambda>_ _. True" "JStr ''csv''" "[]"] by simp

section \<open>Accepted pages\<close>

lemma accepted_field:
  "accepted check d body \<Longrightarrow> f \<in> set (dto_fields d) \<Longrightarrow> \<not> skipped f (seen_value d body f) \<Longrightarrow>
   r \<in> set (f_rules f) \<Longrightarrow> check r (seen_value d body f)"
  by (auto simp: accepted_def list_all_iff)

lemma never_skipped:
  assumes "map_get (dto_defaults d) (f_name f) = Some v" "v \<noteq> JNull" "JNull \<notin> snd ` set body"
  shows "\<not> skipped f (seen_value d body f)"
proof -
  have "w \<noteq> JNull" if "map_get body (f_name f) = Some w" for w
    using assms(3) map_of_SomeD [OF that] by force
  then show ?thesis using assms(1,2)
    by (auto simp: skipped_def seen_value_def seen_number_def split: option.splits)
qed

lemma page_fields:
  "set (dto_fields PaginationQueryDto) \<subseteq> set (dto_fields (extends PaginationQueryDto fs))"
  "dto_defaults (extends PaginationQueryDto fs) = dto_defaults PaginationQueryDto"
  by (auto simp: extends_def)

lemma page_instance:
  "f \<in> set (dto_fields PaginationQueryDto) \<Longrightarrow>
   map_get (instance_of (extends PaginationQueryDto fs) body) (f_name f) = Some (seen_value (extends PaginationQueryDto fs) body f)"
  by (auto simp: instance_of_def extends_def PaginationQueryDto_def optional_text_def optional_number_def)

lemma page_rule:
  assumes "accepted check (extends PaginationQueryDto fs) query" "JNull \<notin> snd ` set query"
    and "f \<in> set (dto_fields PaginationQueryDto)" "rule \<in> set (f_rules f)"
  shows "check rule (seen_value (extends PaginationQueryDto fs) query f)"
proof -
  obtain v where "map_get (dto_defaults PaginationQueryDto) (f_name f) = Some v" "v \<noteq> JNull"
    using assms(3) by (auto simp: PaginationQueryDto_def optional_text_def optional_number_def)
  then show ?thesis using accepted_field [OF assms(1) subsetD [OF page_fields(1) assms(3)] never_skipped assms(4), of v] assms(2) page_fields(2)
    by simp
qed

lemma length_page_of: "0 \<le> limit \<Longrightarrow> int (length (page_of page limit rows)) \<le> limit"
  by (simp add: page_of_def slice_def Let_def)

text \<open>Accepted pages. A query that the pipe accepts, for the pages or a class that extends them, has a page from
  one on, a limit between one and a hundred and one of the two orders, defaults included, and the page that
  is cut with them has at most a hundred entries.\<close>
theorem accepted_page_bounded:
  assumes "pipe_laws check pipe" "rule_laws check" "JNull \<notin> snd ` set query"
    and "pipe (extends PaginationQueryDto fs) query = Inr r"
  shows "\<exists>page limit order. map_get r ''page'' = Some (Val (JNum (of_int page))) \<and> 1 \<le> page \<and>
    map_get r ''limit'' = Some (Val (JNum (of_int limit))) \<and> 1 \<le> limit \<and> limit \<le> 100 \<and>
    map_get r ''sortOrder'' = Some (Val (JStr order)) \<and> order \<in> {''ASC'', ''DESC''} \<and>
    length (page_of page limit (rows :: 'a list)) \<le> 100"
proof -
  let ?d = "extends PaginationQueryDto fs"
  let ?page = "optional_number ''page'' [IsInt, Min 1]" and ?limit = "optional_number ''limit'' [IsInt, Min 1, Max 100]"
    and ?order = "optional_text ''sortOrder'' [IsIn [''ASC'', ''DESC'']]"
  have a: "accepted check ?d query" "r = instance_of ?d query" using pipe_accepts [OF assms(1,4)] by auto
  have f: "?page \<in> set (dto_fields PaginationQueryDto)" "?limit \<in> set (dto_fields PaginationQueryDto)" "?order \<in> set (dto_fields PaginationQueryDto)"
    by (simp_all add: PaginationQueryDto_def)
  have n: "f_name ?page = ''page''" "f_name ?limit = ''limit''" "f_name ?order = ''sortOrder''"
    by (simp_all add: optional_text_def optional_number_def)
  have c: "check rule (seen_value ?d query ?page)" if "rule \<in> {IsInt, Min 1}" for rule
    using page_rule [OF a(1) assms(3) f(1)] that by (simp add: optional_number_def)
  have l: "check rule (seen_value ?d query ?limit)" if "rule \<in> {IsInt, Min 1, Max 100}" for rule
    using page_rule [OF a(1) assms(3) f(2)] that by (simp add: optional_number_def)
  have o: "check (IsIn [''ASC'', ''DESC'']) (seen_value ?d query ?order)"
    using page_rule [OF a(1) assms(3) f(3)] by (simp add: optional_text_def)
  obtain p where p: "seen_value ?d query ?page = Val (JNum (of_int p))" "1 \<le> p"
    using c [of IsInt] c [of "Min 1"] assms(2) unfolding rule_laws_def by auto
  obtain k where k: "seen_value ?d query ?limit = Val (JNum (of_int k))" "1 \<le> k" "k \<le> 100"
    using l [of IsInt] l [of "Min 1"] l [of "Max 100"] assms(2) unfolding rule_laws_def by auto
  obtain w where w: "seen_value ?d query ?order = Val (JStr w)" "w \<in> {''ASC'', ''DESC''}"
    using o assms(2) unfolding rule_laws_def by auto
  have "int (length (page_of p k rows)) \<le> k" by (rule length_page_of) (use k in simp)
  with k have "length (page_of p k rows) \<le> 100" by linarith
  then show ?thesis
    using p k w page_instance [OF f(1), of fs query, unfolded n] page_instance [OF f(2), of fs query, unfolded n]
      page_instance [OF f(3), of fs query, unfolded n] unfolding a(2)
    by (intro exI [of _ p] exI [of _ k] exI [of _ w]) simp
qed

definition documented_check :: "rule \<Rightarrow> seen \<Rightarrow> bool" where
  "documented_check rule v =
     (case v of
        Val (JNum n) \<Rightarrow> (case rule of IsInt \<Rightarrow> is_integer n | Min a \<Rightarrow> a \<le> n | Max a \<Rightarrow> n \<le> a | _ \<Rightarrow> False)
      | Val (JStr s) \<Rightarrow> (case rule of IsString \<Rightarrow> True | IsIn xs \<Rightarrow> s \<in> set xs | _ \<Rightarrow> False)
      | _ \<Rightarrow> False)"

lemma documented_rules: "rule_laws documented_check"
  by (auto simp: rule_laws_def documented_check_def is_integer_def split: seen.splits json.splits)

lemma accepted_page_bounded_witness:
  "\<exists>page limit order. map_get (instance_of (extends PaginationQueryDto []) [(''limit'', JStr ''25'')]) ''page'' = Some (Val (JNum (of_int page))) \<and>
     map_get (instance_of (extends PaginationQueryDto []) [(''limit'', JStr ''25'')]) ''limit'' = Some (Val (JNum (of_int limit))) \<and>
     length (page_of page limit (replicate 300 ())) \<le> 100"
proof -
  have "bare_pipe documented_check (extends PaginationQueryDto []) [(''limit'', JStr ''25'')] =
      Inr (instance_of (extends PaginationQueryDto []) [(''limit'', JStr ''25'')])"
    by code_simp
  from accepted_page_bounded [OF bare_pipe_laws documented_rules _ this, of "replicate 300 ()"] show ?thesis by auto
qed

end
