(* ===== verification/Admin_Api.thy ===== *)
theory Admin_Api
  imports Rate_Limit Cache_Props
begin

text \<open>
  The reports for administrators: src/rate-limit/rate-limit.controller.ts and src/cache/cache.controller.ts with the
  summaries of the two configurations they print (rate-limit.service.ts, cache.service.ts), and the start of
  the cache warmer (src/cache/cache.warmer.ts).

  The cache statistics are those of \<open>getStatistics\<close>. Shown are: the reports are the same whatever the
  password of Redis, the values kept for warming and the addresses, users and API keys of the
  whitelist are; of these only the numbers are shown.
\<close>

section \<open>Rate limits\<close>

record rate_limit_summary =
  rs_enabled :: bool
  rs_failOpen :: bool
  rs_ip :: policy
  rs_user :: policy
  rs_endpoints :: "endpoint_policy list"
  rs_ips :: int
  rs_userIds :: int
  rs_apiKeys :: int

definition rate_limit_configurationSummary :: "rate_limit_service \<Rightarrow> rate_limit_summary" where
  "rate_limit_configurationSummary s =
     \<lparr>rs_enabled = enabled (config s), rs_failOpen = failOpen (config s), rs_ip = ip_policy (config s),
       rs_user = user_policy (config s), rs_endpoints = endpoints (config s),
       rs_ips = int (length (wl_ips (config s))), rs_userIds = int (length (wl_userIds (config s))),
       rs_apiKeys = int (length (wl_apiKeys (config s)))\<rparr>"

definition rate_limit_report :: "rate_limit_service \<Rightarrow> (analytics \<times> int) \<times> rate_limit_summary" where
  "rate_limit_report s = (getAnalytics s, rate_limit_configurationSummary s)"

section \<open>Cache\<close>

record cache_summary =
  cy_enabled :: bool
  cy_defaultTtlMs :: int
  cy_maxKeys :: int
  cy_redis_enabled :: bool
  cy_host :: string
  cy_port :: int
  cy_db :: int
  cy_prefix :: string
  cy_warm_enabled :: bool
  cy_onStartup :: bool
  cy_keys :: "string list"

definition cache_configurationSummary :: "'r cache_service \<Rightarrow> cache_summary" where
  "cache_configurationSummary s =
     (let cfg = cs_config s
      in \<lparr>cy_enabled = c_enabled cfg, cy_defaultTtlMs = defaultTtlMs cfg, cy_maxKeys = maxKeys cfg,
           cy_redis_enabled = redis_enabled cfg, cy_host = redis_host cfg, cy_port = redis_port cfg, cy_db = redis_db cfg,
           cy_prefix = redis_prefix cfg, cy_warm_enabled = warm_enabled cfg, cy_onStartup = warm_onStartup cfg,
           cy_keys = map w_key (warm_keys cfg)\<rparr>)"

datatype cache_call = GetCacheReport | WarmCache | ClearCache

datatype cache_answer =
    CacheReport bool int "cache_stats \<times> rat \<times> (string \<times> bool \<times> int) list" cache_summary
  | Warmed int
  | Cleared string

primrec cache_controller ::
  "'r redis_client \<Rightarrow> codec \<Rightarrow> (nat \<Rightarrow> nat \<Rightarrow> int) \<Rightarrow> cache_call \<Rightarrow> 'r cache_service \<Rightarrow> (cache_answer \<times> 'r cache_service) option" where
  "cache_controller c cd clk GetCacheReport s =
     (let (st, s') = getStatistics c s
      in Some (CacheReport (c_enabled (cs_config s)) (defaultTtlMs (cs_config s)) st (cache_configurationSummary s'), s'))"
| "cache_controller c cd clk WarmCache s = (let (n, s') = warmup c cd clk s in Some (Warmed n, s'))"
| "cache_controller c cd clk ClearCache s = map_option (\<lambda>s'. (Cleared ''Cache cleared'', s')) (cache_clear c s)"

text \<open>The warmer: the state after the start and the line it logs, if any.\<close>

definition onApplicationBootstrap ::
  "'r redis_client \<Rightarrow> codec \<Rightarrow> (nat \<Rightarrow> nat \<Rightarrow> int) \<Rightarrow> 'r cache_service \<Rightarrow> string option \<times> 'r cache_service" where
  "onApplicationBootstrap c cd clk s =
     (let (n, s') = warmOnStartup c cd clk s
      in (if 0 < n then Some (''Cache warmed '' @ string_of_int n @ '' keys'') else None, s'))"

section \<open>What the reports show\<close>

definition other_secrets :: "cache_configuration \<Rightarrow> string option \<Rightarrow> (string \<Rightarrow> error + json option) \<Rightarrow> cache_configuration" where
  "other_secrets cfg password produced =
     cfg\<lparr>redis_password := password, warm_keys := map (\<lambda>t. t\<lparr>w_outcome := produced (w_key t)\<rparr>) (warm_keys cfg)\<rparr>"

lemma cache_report_secrets:
  "map_option fst (cache_controller c cd clk GetCacheReport (s\<lparr>cs_config := other_secrets (cs_config s) password produced\<rparr>)) =
   map_option fst (cache_controller c cd clk GetCacheReport s)"
  by (simp add: getStatistics_def cache_configurationSummary_def other_secrets_def case_prod_beta comp_def Let_def)

lemma rate_limit_report_secrets:
  assumes "length ips = length (wl_ips (config s))" "length users = length (wl_userIds (config s))"
    "length keys = length (wl_apiKeys (config s))"
  shows "rate_limit_report (s\<lparr>config := (config s)\<lparr>wl_ips := ips, wl_userIds := users, wl_apiKeys := keys\<rparr>\<rparr>) = rate_limit_report s"
  using assms by (simp add: rate_limit_report_def getAnalytics_def rate_limit_configurationSummary_def)

end
