(* ===== verification/Platform_Api.thy ===== *)
theory Platform_Api
  imports Routes Webhook Queue Files Audit_Log Alerting Observability Request_Monitor Portfolio_Api
begin

text \<open>
  The controllers in front of the platform services: src/auth/auth.controller.ts, src/monitoring/monitoring.controller.ts,
  src/webhook/webhook.controller.ts, src/subscriptions/subscription.controller.ts, src/modules/queue/controllers/queue.controller.ts,
  src/files/files.controller.ts, src/audit-log/audit-log.controller.ts, and the triggers and analyses of src/ai-triggers,
  src/ai-analysis and src/ai, which have no other theory.

  As in Portfolio_Api.thy a call is a constructor with what its handler takes, after the guards and pipes, and
  a controller is a function of readings, call and state. The user is the one the guards attached. Shown are:
  the routes of the audit log that its parameter route takes over, that no call of a user changes another's subscription, and that a webhook without a valid signature stores no analysis.
\<close>

section \<open>Authentication\<close>

datatype auth_call =
    Register register_dto
  | Login string string
  | SocialLogin string string
  | Refresh string string
  | Logout "string option"
  | Revoke string
  | GenerateApiKey
  | RevokeApiKey
  | Me
  | AuthStatus

datatype auth_answer =
    UserAnswer auth_user
  | TokensAnswer token_pair
  | KeyAnswer string string
  | EmptyAnswer
  | TextsAnswer "(string \<times> string) list"

text \<open>The random values a call may draw: a row id, a jti with refresh token and salt, a password, a salt.\<close>

record auth_readings =
  ar_now :: int
  ar_id :: string
  ar_login :: login_randoms
  ar_password :: string
  ar_salt :: string
  ar_key :: string

definition auth_result :: "('a \<Rightarrow> auth_answer) \<Rightarrow> error + ('a \<times> auth_state) \<Rightarrow> auth_state \<Rightarrow> (error + auth_answer) \<times> auth_state" where
  "auth_result f r s = (case r of Inl e \<Rightarrow> (Inl e, s) | Inr (x, s') \<Rightarrow> (Inr (f x), s'))"

primrec auth_controller ::
  "auth_env \<Rightarrow> auth_readings \<Rightarrow> auth_user \<Rightarrow> auth_call \<Rightarrow> auth_state \<Rightarrow> (error + auth_answer) \<times> auth_state" where
  "auth_controller env g user (Register dto) s = auth_result UserAnswer (register env (ar_id g) (ar_salt g) dto s) s"
| "auth_controller env g user (Login email password) s =
     auth_result TokensAnswer (login_route env (ar_now g) (ar_login g) email password s) s"
| "auth_controller env g user (SocialLogin provider idToken) s =
     auth_result TokensAnswer (socialLogin env (ar_now g) (ar_login g) (ar_id g) (ar_password g) (ar_salt g) provider idToken s) s"
| "auth_controller env g user (Refresh userId token) s =
     auth_result TokensAnswer (refreshTokens env (ar_now g) (ar_login g) userId token s) s"
| "auth_controller env g user (Logout authorization) s = (Inr EmptyAnswer, logout_route env user authorization s)"
| "auth_controller env g user (Revoke token) s =
     (case revokeToken env token s of Inl e \<Rightarrow> (Inl e, s) | Inr s' \<Rightarrow> (Inr EmptyAnswer, s'))"
| "auth_controller env g user GenerateApiKey s =
     auth_result (\<lambda>(key, prefix). KeyAnswer key prefix) (generateApiKey env (ar_key g) (ar_salt g) (au_id user) s) s"
| "auth_controller env g user RevokeApiKey s =
     (case revokeApiKey_route env (ar_key g) (ar_salt g) user s of Inl e \<Rightarrow> (Inl e, s) | Inr s' \<Rightarrow> (Inr EmptyAnswer, s'))"
| "auth_controller env g user Me s = (Inr (UserAnswer user), s)"
| "auth_controller env g user AuthStatus s = (Inr (TextsAnswer [(''module'', ''auth''), (''status'', ''ok'')]), s)"

section \<open>Monitoring\<close>

record monitoring_state =
  ms_monitoring :: monitoring
  ms_alerting :: alerting

datatype monitoring_call =
    GetMetrics
  | GetHealth
  | GetLiveness
  | GetReadiness
  | GetPerformanceSummary
  | GetAlerts
  | TriggerTestAlert "string option"
  | GetTraces "string option" "string option" "string option"
  | GetLogs "string option" "string option" "string option" "string option" "string option" "string option"
  | GetDashboardConfig

record panel =
  pn_id :: nat
  pn_title :: string
  pn_type :: string
  pn_metrics :: "string list"

datatype monitoring_answer =
    MetricsText string
  | HealthAnswer health_report
  | LivenessAnswer health_status int
  | ReadinessAnswer readiness
  | SummaryAnswer apm_summary
  | RulesAnswer "alert_rule list" "fired_alert list"
  | TestAlertAnswer fired_alert
  | SpansAnswer "trace_span list"
  | OtelAnswer "otel_span list"
  | LogsAnswer int "log_entry list"
  | LokiAnswer "loki_stream list"
  | DashboardAnswer "panel list"

record monitoring_readings =
  mg_num :: "rat \<Rightarrow> string"
  mg_system :: system_readings
  mg_probe :: probe
  mg_ts :: int
  mg_now :: int
  mg_text :: "json \<Rightarrow> string"
  mg_line :: "log_entry \<Rightarrow> string"

text \<open>The level of a query is compared with the levels of the entries; any other text selects nothing.\<close>

definition level_of :: "string \<Rightarrow> log_level option" where
  "level_of t = map_get [(''info'', LInfo), (''warn'', LWarn), (''error'', LError), (''debug'', LDebug)] t"

definition getDashboardConfig :: "panel list" where
  "getDashboardConfig =
     [\<lparr>pn_id = 1, pn_title = ''Health Status'', pn_type = ''stat'', pn_metrics = [''health_status'']\<rparr>,
      \<lparr>pn_id = 2, pn_title = ''Request Rate (RPS)'', pn_type = ''timeseries'', pn_metrics = [''http_requests_total'']\<rparr>,
      \<lparr>pn_id = 3, pn_title = ''Latency Percentiles (p50, p95, p99)'', pn_type = ''timeseries'',
       pn_metrics = [''http_request_duration_seconds'']\<rparr>,
      \<lparr>pn_id = 4, pn_title = ''Error Rate'', pn_type = ''gauge'', pn_metrics = [''http_errors_total'']\<rparr>,
      \<lparr>pn_id = 5, pn_title = ''CPU & Memory Usage'', pn_type = ''timeseries'',
       pn_metrics = [''process_cpu_usage_ratio'', ''process_memory_rss_bytes'']\<rparr>,
      \<lparr>pn_id = 6, pn_title = ''Rebalancing & Risk Business Metrics'', pn_type = ''stat'',
       pn_metrics = [''astraport_rebalancing_executions_total'', ''astraport_risk_evaluations_total'']\<rparr>]"

primrec monitoring_controller ::
  "monitoring_readings \<Rightarrow> monitoring_call \<Rightarrow> monitoring_state \<Rightarrow> monitoring_answer \<times> monitoring_state" where
  "monitoring_controller g GetMetrics s =
     (let (t, ms) = getPrometheusMetricsText (mg_num g) (mg_system g) (mo_metrics (ms_monitoring s))
      in (MetricsText t, s\<lparr>ms_monitoring := (ms_monitoring s)\<lparr>mo_metrics := ms\<rparr>\<rparr>))"
| "monitoring_controller g GetHealth s = (HealthAnswer (getFullHealth (mg_probe g)), s)"
| "monitoring_controller g GetLiveness s = (let (st, t) = getLiveness (mg_probe g) in (LivenessAnswer st t, s))"
| "monitoring_controller g GetReadiness s = (ReadinessAnswer (getReadiness (mg_probe g)), s)"
| "monitoring_controller g GetPerformanceSummary s = (SummaryAnswer (getSummary (mo_perf (ms_monitoring s))), s)"
| "monitoring_controller g GetAlerts s = (RulesAnswer (getRules (ms_alerting s)) (getFiredAlerts (ms_alerting s)), s)"
| "monitoring_controller g (TriggerTestAlert message) s =
     (let (a, al) = triggerTestAlert (mg_ts g) (mg_now g) message (ms_alerting s) in (TestAlertAnswer a, s\<lparr>ms_alerting := al\<rparr>))"
| "monitoring_controller g (GetTraces limit traceId format) s =
     (let parsedLimit = or_else (query_int limit 50) 0
      in if format = Some ''otlp'' \<or> format = Some ''opentelemetry''
         then (OtelAnswer (getOpenTelemetryFormattedTraces (mg_text g) parsedLimit (mo_spans (ms_monitoring s))), s)
         else (SpansAnswer (getRecentTraces parsedLimit traceId (mo_spans (ms_monitoring s))), s))"
| "monitoring_controller g (GetLogs lv ctx traceId search limit format) s =
     (let parsedLimit = or_else (query_int limit 100) 0; logs = mo_logs (ms_monitoring s)
      in if format = Some ''loki'' then (LokiAnswer (getLokiFormattedLogs (mg_line g) parsedLimit logs), s)
         else if given lv \<and> level_of (the lv) = None then (LogsAnswer 0 [], s)
         else (let (n, ls) = queryLogs
                 \<lparr>lq_level = (if given lv then level_of (the lv) else None), lq_context = ctx, lq_traceId = traceId,
                  lq_search = search, lq_limit = Some parsedLimit, lq_startTime = None, lq_endTime = None\<rparr> logs
               in (LogsAnswer n ls, s)))"
| "monitoring_controller g GetDashboardConfig s = (DashboardAnswer getDashboardConfig, s)"

section \<open>Subscriptions and webhooks\<close>

text \<open>The two controllers share the subscription service, which is part of the state of the webhook service.
  The body of a published event is typed as the service reads it.\<close>

datatype event_call =
    GetEventTypes
  | CreateSubscription create_subscription_dto
  | ListSubscriptions "pagination_query option"
  | ValidateFilter event_filter
  | UpdateSubscription string update_subscription_dto
  | DeleteSubscription string
  | GetDeliveryStatus string
  | Acknowledge string "string list"
  | PublishEvent publish_event_input
  | GetEventHistory
  | TestWebhook string "string option" "string option" "json option" "string jsmap option"
  | RetryDueDeliveries
  | VerifySignature string webhook_event
  | GetDashboard

datatype event_answer =
    EventTypes "string list"
  | SubscriptionAnswer subscription
  | SubscriptionsPage "subscription list" pagination_meta
  | FilterAnswer "string list + string"
  | NoContent
  | DeliveryStatusAnswer delivery_status
  | AcknowledgedAnswer int "string list"
  | PublishedAnswer webhook_event "webhook_delivery_result list"
  | EventsAnswer "webhook_event list"
  | DeliveryAnswer webhook_delivery_result
  | DeliveriesAnswer "webhook_delivery_result list"
  | ValidSignature bool
  | DashboardView dashboard

record event_readings =
  eg_env :: webhook_env
  eg_uuid :: string
  eg_now :: int
  eg_rids :: "string \<Rightarrow> string"
  eg_clock :: "string \<Rightarrow> int \<times> int"
  eg_field :: "string \<Rightarrow> subscription \<Rightarrow> string"
  eg_compare :: "string \<Rightarrow> string \<Rightarrow> int"

definition with_subs :: "('a \<Rightarrow> event_answer) \<Rightarrow> (error + 'a) \<times> subscription_service \<Rightarrow> webhook_service \<Rightarrow> (error + event_answer) \<times> webhook_service" where
  "with_subs f r s = (map_sum (\<lambda>e. e) f (fst r), s\<lparr>subs := snd r\<rparr>)"

primrec event_controller ::
  "event_readings \<Rightarrow> string \<Rightarrow> event_call \<Rightarrow> webhook_service \<Rightarrow> (error + event_answer) \<times> webhook_service" where
  "event_controller g user GetEventTypes s = (Inr (EventTypes AVAILABLE_EVENT_TYPES), s)"
| "event_controller g user (CreateSubscription dto) s =
     (let (x, ss) = createSubscription (eg_uuid g) (eg_now g) user dto (subs s) in (Inr (SubscriptionAnswer x), s\<lparr>subs := ss\<rparr>))"
| "event_controller g user (ListSubscriptions pagination) s =
     (let (xs, meta) = listSubscriptions (eg_field g) (eg_compare g) user pagination (subs s) in (Inr (SubscriptionsPage xs meta), s))"
| "event_controller g user (ValidateFilter f) s = (Inr (FilterAnswer (validateFilter f)), s)"
| "event_controller g user (UpdateSubscription subId dto) s =
     with_subs SubscriptionAnswer (updateSubscription (eg_now g) user subId dto (subs s)) s"
| "event_controller g user (DeleteSubscription subId) s = with_subs (\<lambda>_. NoContent) (deleteSubscription user subId (subs s)) s"
| "event_controller g user (GetDeliveryStatus subId) s =
     (map_sum (\<lambda>e. e) DeliveryStatusAnswer (getDeliveryStatus user subId (subs s)), s)"
| "event_controller g user (Acknowledge subId eventIds) s =
     with_subs (\<lambda>(n, skipped). AcknowledgedAnswer n skipped) (acknowledgeEvents (eg_now g) user subId eventIds (subs s)) s"
| "event_controller g user (PublishEvent body) s =
     (let (r, s') = publishAndDeliver (eg_env g) (eg_rids g) (eg_clock g) (eg_uuid g) (eg_now g) body s
      in (map_sum (\<lambda>e. e) (\<lambda>(ev, ds). PublishedAnswer ev ds) r, s'))"
| "event_controller g user GetEventHistory s = (Inr (EventsAnswer (eventHistory s)), s)"
| "event_controller g user (TestWebhook subId ty severity data meta) s =
     (let (r, s') = simulateDelivery (eg_env g) (eg_rids g) (fst (eg_clock g subId)) (snd (eg_clock g subId)) (eg_uuid g) (eg_now g)
        subId \<lparr>in_type = or_else ty ''portfolio.updated'', in_severity = severity,
                in_data = Some (or_else data (JObj [(''test'', JBool True)])), in_metadata = Some (or_else meta [])\<rparr> s
      in (map_sum (\<lambda>e. e) DeliveryAnswer r, s'))"
| "event_controller g user RetryDueDeliveries s =
     (let (r, s') = retryDueDeliveries (eg_env g) (eg_rids g) (eg_clock g) (eg_now g) s
      in (map_sum (\<lambda>e. e) DeliveriesAnswer r, s'))"
| "event_controller g user (VerifySignature signature payload) s =
     (map_sum (\<lambda>e. e) ValidSignature (verifySignature (eg_env g) signature payload), s)"
| "event_controller g user GetDashboard s = (Inr (DashboardView (getDashboard s)), s)"

section \<open>The job queue\<close>

datatype queue_call =
    AddJob string json job_request
  | ScheduleJob string json string job_request
  | JobStatus string
  | JobHistory string
  | CancelJob string
  | QueueMetrics

datatype queue_answer =
    JobIdAnswer string
  | JobStatusAnswer "job_status option"
  | JobHistoryAnswer "(int \<times> string) list"
  | CancelledAnswer bool
  | QueueMetricsAnswer "queue_counts jsmap"

text \<open>The body has no time for a job; \<open>jr_scheduledAt\<close> is left out, for a schedule the delay too.\<close>

primrec queue_controller :: "('j, 'q) bull \<Rightarrow> string \<Rightarrow> int \<Rightarrow> queue_call \<Rightarrow> 'q queues \<Rightarrow> queue_answer \<times> 'q queues" where
  "queue_controller B fresh now (AddJob ty payload body) qs =
     (let (i, q) = addJob B fresh ty payload (body\<lparr>jr_scheduledAt := None\<rparr>) qs in (JobIdAnswer i, q))"
| "queue_controller B fresh now (ScheduleJob ty payload cron body) qs =
     (let (i, q) = scheduleJob B fresh ty payload cron (body\<lparr>jr_delay := None, jr_scheduledAt := None\<rparr>) qs in (JobIdAnswer i, q))"
| "queue_controller B fresh now (JobStatus i) qs = (JobStatusAnswer (getJobStatus B i qs), qs)"
| "queue_controller B fresh now (JobHistory i) qs = (JobHistoryAnswer (getJobHistory B now i qs), qs)"
| "queue_controller B fresh now (CancelJob i) qs = (let (ok, q) = cancelJob B i qs in (CancelledAnswer ok, q))"
| "queue_controller B fresh now QueueMetrics qs = (QueueMetricsAnswer (getQueueMetrics B qs), qs)"

section \<open>Files\<close>

text \<open>The upload itself is \<open>upload_route\<close> of File_Validation.thy. The owner is read from the header, not from the
  authenticated user. The part number is the one \<open>parseInt\<close> read; a text that is no number, which is passed on as
  NaN, is not modelled.\<close>

datatype 'p file_call =
    InitializeChunkedUpload string string int
  | UploadChunk string int "buffer option"
  | CompleteChunkedUpload string string string string int "'p list"
  | GetSignedUrl string
  | DeleteFile string

datatype 'p file_answer =
    InitializedAnswer string string
  | PartAnswer 'p
  | FileAnswer file_record
  | UrlAnswer string
  | DeletedFile

primrec files_controller ::
  "files_env \<Rightarrow> ('p, 'st) storage_provider \<Rightarrow> string \<Rightarrow> string \<Rightarrow> int \<Rightarrow> string option \<Rightarrow> 'p file_call \<Rightarrow> 'st files \<Rightarrow>
   (error + 'p file_answer) \<times> 'st files" where
  "files_controller env P k i now header (InitializeChunkedUpload originalName mimeType totalSize) s =
     (let (r, s') = initializeChunkedUpload P k (getUserId header) originalName mimeType totalSize s
      in (map_sum (\<lambda>e. e) (\<lambda>(u, p). InitializedAnswer u p) r, s'))"
| "files_controller env P k i now header (UploadChunk uploadId partNumber chunk) s =
     (case chunk of
        None \<Rightarrow> (Inl (BadRequestException ''No chunk provided''), s)
      | Some b \<Rightarrow>
          (let (r, s') = files_uploadChunk P uploadId partNumber b s in (map_sum (\<lambda>e. e) PartAnswer r, s')))"
| "files_controller env P k i now header (CompleteChunkedUpload uploadId path originalName mimeType totalSize parts) s =
     (let (r, s') = completeChunkedUpload env P i now (getUserId header) uploadId path originalName mimeType totalSize parts s
      in (map_sum (\<lambda>e. e) FileAnswer r, s'))"
| "files_controller env P k i now header (GetSignedUrl fileId) s =
     (map_sum (\<lambda>e. e) UrlAnswer (getSignedUrl P (getUserId header) fileId s), s)"
| "files_controller env P k i now header (DeleteFile fileId) s =
     (let (r, s') = deleteFile now (getUserId header) fileId s in (map_sum (\<lambda>e. e) (\<lambda>_. DeletedFile) r, s'))"

section \<open>Audit log\<close>

datatype audit_call =
    GetAuditLogs audit_filter
  | GetAuditLogById string
  | ExportAuditLogs string audit_filter
  | GetStatistics
  | VerifyIntegrity

datatype audit_answer =
    AuditPage "audit_entry list" pagination_meta
  | AuditEntry audit_entry
  | ExportAnswer export_result
  | StatisticsAnswer audit_statistics
  | IntegrityAnswer "bool \<times> string list"

text \<open>\<open>ag_uuidPipe\<close> is the \<open>ParseUUIDPipe\<close> of the parameter.\<close>

record ('k, 'c) audit_readings =
  ag_column :: "audit_log \<Rightarrow> 'k"
  ag_uuidPipe :: "string \<Rightarrow> error + string"
  ag_iso :: "int \<Rightarrow> string"
  ag_json :: "json \<Rightarrow> string"
  ag_pretty :: "audit_entry list \<Rightarrow> string"
  ag_sha :: "string \<Rightarrow> string"
  ag_now :: int
  ag_cget :: "string \<Rightarrow> 'c \<Rightarrow> audit_statistics option"
  ag_cset :: "string \<Rightarrow> audit_statistics \<Rightarrow> int \<Rightarrow> 'c \<Rightarrow> 'c"

definition export_format_of :: "string \<Rightarrow> export_format option" where
  "export_format_of fmt = (if fmt = ''json'' then Some JsonFormat else if fmt = ''csv'' then Some CsvFormat else None)"

primrec audit_controller ::
  "('k::linorder, 'c) audit_readings \<Rightarrow> string \<Rightarrow> audit_call \<Rightarrow> audit_log list \<Rightarrow> 'c \<Rightarrow> (error + audit_answer) \<times> 'c" where
  "audit_controller g user (GetAuditLogs f) rows cache =
     (let (es, meta) = audit_findAll (ag_column g) f user rows in (Inr (AuditPage es meta), cache))"
| "audit_controller g user (GetAuditLogById logId) rows cache =
     (case ag_uuidPipe g logId of
        Inl e \<Rightarrow> (Inl e, cache)
      | Inr i \<Rightarrow> (map_sum (\<lambda>e. e) AuditEntry (audit_findOne i user rows), cache))"
| "audit_controller g user (ExportAuditLogs fmt f) rows cache =
     (case export_format_of fmt of
        None \<Rightarrow> (Inl (BadRequestException ''Invalid format. Supported formats: json, csv''), cache)
      | Some k \<Rightarrow>
          (Inr (ExportAnswer (audit_export (ag_column g) (ag_iso g) (ag_json g) (ag_pretty g) (ag_now g) k f user rows)), cache))"
| "audit_controller g user GetStatistics rows cache =
     (let (st, c) = audit_getStatistics (ag_cget g) (ag_cset g) (ag_iso g) (ag_now g) user rows cache in (Inr (StatisticsAnswer st), c))"
| "audit_controller g user VerifyIntegrity rows cache =
     (Inr (IntegrityAnswer (verifyIntegrity (ag_sha g) (ag_iso g) (ag_json g) user rows)), cache)"

text \<open>The call that a route of the controller makes of a request: its last segment, its format and its filter.\<close>

definition audit_call_of :: "string \<Rightarrow> string \<Rightarrow> string \<Rightarrow> audit_filter \<Rightarrow> audit_call option" where
  "audit_call_of handler segment fmt f =
     map_get [(''getAuditLogs'', GetAuditLogs f), (''getAuditLogById'', GetAuditLogById segment),
       (''exportAuditLogs'', ExportAuditLogs fmt f), (''getStatistics'', GetStatistics), (''verifyIntegrity'', VerifyIntegrity)] handler"

definition audit_request ::
  "(string list \<Rightarrow> string list \<Rightarrow> bool) \<Rightarrow> auth_env \<Rightarrow> int \<Rightarrow> string \<Rightarrow> auth_state \<Rightarrow> ('k::linorder, 'c) audit_readings \<Rightarrow>
   string list \<Rightarrow> string \<Rightarrow> audit_filter \<Rightarrow> audit_log list \<Rightarrow> 'c \<Rightarrow> (error + audit_answer) \<times> 'c" where
  "audit_request matches env now token auth g path fmt f rows cache =
     (case enter matches env now token ''GET'' path auth of
        Inl e \<Rightarrow> (Inl e, cache)
      | Inr (r, u) \<Rightarrow>
          (case (u, audit_call_of (rt_handler r) (last path) fmt f) of
             (Some user, Some c) \<Rightarrow> audit_controller g (au_id user) c rows cache
           | _ \<Rightarrow> (Inl (NotFoundException []), cache)))"

section \<open>Triggers and analyses\<close>

record trigger_config =
  tc_name :: string
  tc_target :: string
  tc_event :: string

record ai_trigger =
  tg_id :: int
  tg_name :: string
  tg_target :: string
  tg_event :: string

record ai_analysis =
  an_id :: int
  an_analysisId :: string
  an_results :: string

text \<open>The two tables with the next value of their keys, and the webhooks sent, with body and signature.\<close>

record ai_state =
  ai_triggers :: "ai_trigger list"
  ai_analyses :: "ai_analysis list"
  ai_nextTrigger :: int
  ai_nextAnalysis :: int
  ai_sent :: "(string \<times> string \<times> string) list"

definition ai_analyze :: "string \<times> string" where
  "ai_analyze = (''123'', ''These are the analysis results from the AI service.'')"

text \<open>A webhook goes out when the runtime has \<open>fetch\<close>; its outcome is not looked at.\<close>

definition createTrigger :: "webhook_env \<Rightarrow> (ai_trigger \<Rightarrow> string) \<Rightarrow> trigger_config \<Rightarrow> ai_state \<Rightarrow> ai_trigger \<times> ai_state" where
  "createTrigger env text_of cfg s =
     (let t = \<lparr>tg_id = ai_nextTrigger s, tg_name = tc_name cfg, tg_target = tc_target cfg, tg_event = tc_event cfg\<rparr>
      in (t, s\<lparr>ai_triggers := ai_triggers s @ [t], ai_nextTrigger := ai_nextTrigger s + 1,
               ai_sent := (if fetch env = None then ai_sent s
                 else ai_sent s @ [(tg_target t, text_of t, generateSignature env (text_of t))])\<rparr>))"

definition findAllTriggers ::
  "(ai_trigger \<Rightarrow> 'k::linorder) \<Rightarrow> bool \<Rightarrow> int \<Rightarrow> int \<Rightarrow> ai_state \<Rightarrow> ai_trigger list \<times> pagination_meta" where
  "findAllTriggers column asc page limit s =
     createOffsetPaginatedResponse (page_of page limit (ordered asc column (ai_triggers s))) (int (length (ai_triggers s))) page limit"

definition trigger_row :: "ai_trigger \<Rightarrow> json jsmap" where
  "trigger_row t = [(''id'', JNum (of_int (tg_id t))), (''name'', JStr (tg_name t)), (''target'', JStr (tg_target t)), (''event'', JStr (tg_event t))]"

definition findAllCursor ::
  "(string \<Rightarrow> string) \<Rightarrow> (json \<Rightarrow> string) \<Rightarrow> (ai_trigger \<Rightarrow> 's::linorder) \<Rightarrow> bool \<Rightarrow> ('s \<times> int) option \<Rightarrow> string \<Rightarrow> nat \<Rightarrow> ai_state \<Rightarrow>
   ai_trigger list \<times> cursor_meta" where
  "findAllCursor b64 json_text column asc cursor sortField limit s =
     (let results = (case cursor of
            Some c \<Rightarrow> applyCursorPagination (\<lambda>t. (column t, tg_id t)) asc c limit (ai_triggers s)
          | None \<Rightarrow> take (limit + 1) (ordered asc column (ai_triggers s)));
          hasMore = limit < length results;
          items = (if hasMore then butlast results else results)
      in (items, buildCursorPaginationMeta b64 json_text (map trigger_row items) (int limit) sortField hasMore))"

text \<open>Updates and deletions by id answer the number of affected rows.\<close>

definition updateTrigger :: "int \<Rightarrow> trigger_config \<Rightarrow> ai_state \<Rightarrow> nat \<times> ai_state" where
  "updateTrigger i cfg s =
     (length (filter (\<lambda>t. tg_id t = i) (ai_triggers s)),
      s\<lparr>ai_triggers := map (\<lambda>t. if tg_id t = i
          then t\<lparr>tg_name := tc_name cfg, tg_target := tc_target cfg, tg_event := tc_event cfg\<rparr> else t) (ai_triggers s)\<rparr>)"

definition removeTrigger :: "int \<Rightarrow> ai_state \<Rightarrow> nat \<times> ai_state" where
  "removeTrigger i s =
     (length (filter (\<lambda>t. tg_id t = i) (ai_triggers s)), s\<lparr>ai_triggers := filter (\<lambda>t. tg_id t \<noteq> i) (ai_triggers s)\<rparr>)"

definition handleWebhook :: "ai_state \<Rightarrow> ai_analysis \<times> ai_state" where
  "handleWebhook s =
     (let a = \<lparr>an_id = ai_nextAnalysis s, an_analysisId = fst ai_analyze, an_results = snd ai_analyze\<rparr>
      in (a, s\<lparr>ai_analyses := ai_analyses s @ [a], ai_nextAnalysis := ai_nextAnalysis s + 1\<rparr>))"

text \<open>\<open>signature.length\<close> of a header that is missing throws.\<close>

definition validateWebhookSignature :: "webhook_env \<Rightarrow> string option \<Rightarrow> string \<Rightarrow> error + bool" where
  "validateWebhookSignature env signature body =
     (case signature of
        None \<Rightarrow> Inl (JsError ''Cannot read properties of undefined'')
      | Some sig \<Rightarrow> verify_text env sig body)"

definition getAnalysisResults :: "string \<Rightarrow> ai_state \<Rightarrow> error + (string \<times> string)" where
  "getAnalysisResults analysisId s =
     (case List.find (\<lambda>a. an_analysisId a = analysisId) (ai_analyses s) of
        None \<Rightarrow> Inl (JsError ''Cannot read properties of null'')
      | Some a \<Rightarrow> Inr (an_analysisId a, an_results a))"

definition getRecommendations :: "string \<Rightarrow> string \<times> string" where
  "getRecommendations portfolioId = (portfolioId, ''These are the recommendations.'')"

datatype 'k ai_call =
    CreateTrigger trigger_config
  | ListTriggers bool int int
  | ListTriggersCursor bool "('k \<times> int) option" string nat
  | UpdateTrigger string trigger_config
  | DeleteTrigger string
  | HandleWebhook "string option" string
  | GetAnalysisResults string
  | GetRecommendations string

datatype ai_answer =
    TriggerAnswer ai_trigger
  | TriggersPage "ai_trigger list" pagination_meta
  | TriggersCursor "ai_trigger list" cursor_meta
  | AffectedAnswer nat
  | AnalysisStored ai_analysis
  | ResultsAnswer string string

text \<open>\<open>ig_text\<close> is the JSON text of a trigger, \<open>ig_dbError\<close> what the database answers to an id that is NaN, and
  \<open>ig_column\<close> the sort column of the request, whose cursor is already decoded.\<close>

record 'k ai_readings =
  ig_env :: webhook_env
  ig_text :: "ai_trigger \<Rightarrow> string"
  ig_dbError :: error
  ig_column :: "ai_trigger \<Rightarrow> 'k"
  ig_b64 :: "string \<Rightarrow> string"
  ig_json :: "json \<Rightarrow> string"

primrec ai_controller :: "'k::linorder ai_readings \<Rightarrow> 'k ai_call \<Rightarrow> ai_state \<Rightarrow> (error + ai_answer) \<times> ai_state" where
  "ai_controller g (CreateTrigger cfg) s = (let (t, s') = createTrigger (ig_env g) (ig_text g) cfg s in (Inr (TriggerAnswer t), s'))"
| "ai_controller g (ListTriggers asc page limit) s =
     (let (ts, meta) = findAllTriggers (ig_column g) asc page limit s in (Inr (TriggersPage ts meta), s))"
| "ai_controller g (ListTriggersCursor asc cursor sortField limit) s =
     (let (ts, meta) = findAllCursor (ig_b64 g) (ig_json g) (ig_column g) asc cursor sortField limit s
      in (Inr (TriggersCursor ts meta), s))"
| "ai_controller g (UpdateTrigger triggerId cfg) s =
     (case parse_int triggerId of
        None \<Rightarrow> (Inl (ig_dbError g), s)
      | Some i \<Rightarrow> (let (n, s') = updateTrigger i cfg s in (Inr (AffectedAnswer n), s')))"
| "ai_controller g (DeleteTrigger triggerId) s =
     (case parse_int triggerId of
        None \<Rightarrow> (Inl (ig_dbError g), s)
      | Some i \<Rightarrow> (let (n, s') = removeTrigger i s in (Inr (AffectedAnswer n), s')))"
| "ai_controller g (HandleWebhook signature body) s =
     (case validateWebhookSignature (ig_env g) signature body of
        Inl e \<Rightarrow> (Inl e, s)
      | Inr valid \<Rightarrow>
          if \<not> valid then (Inl (JsError ''Invalid signature''), s)
          else (let (a, s') = handleWebhook s in (Inr (AnalysisStored a), s')))"
| "ai_controller g (GetAnalysisResults analysisId) s =
     (map_sum (\<lambda>e. e) (\<lambda>(i, r). ResultsAnswer i r) (getAnalysisResults analysisId s), s)"
| "ai_controller g (GetRecommendations portfolioId) s =
     (let (p, r) = getRecommendations portfolioId in (Inr (ResultsAnswer p r), s))"

section \<open>The routes of the audit log\<close>

definition audit_id_route :: route where
  "audit_id_route = only_admin (plain_route ''GET'' [''api'', ''audit-logs'', '':log_id''] ''getAuditLogById'')"

lemma audit_dispatch:
  "dispatch segments_match mounted_routes ''GET'' [''api'', ''audit-logs'', ''export''] = Some audit_id_route"
  "dispatch segments_match mounted_routes ''GET'' [''api'', ''audit-logs'', ''statistics''] = Some audit_id_route"
  "dispatch segments_match mounted_routes ''GET'' [''api'', ''audit-logs'', ''verify-integrity''] = Some audit_id_route"
  by code_simp+

text \<open>Routes taken over. A request for the export, the statistics or the integrity of the audit log reaches the route of a
  single entry, which is declared before them: once the guards admit it, it is answered with the error of the
  parameter that is no UUID, whatever format or filter it has, and no log is read.\<close>
theorem audit_named_routes_shadowed:
  assumes "router_laws matches" "name \<in> {''export'', ''statistics'', ''verify-integrity''}" "ag_uuidPipe g name = Inl e"
  shows "audit_request matches env now token auth g [''api'', ''audit-logs'', name] fmt f rows cache =
    (Inl (case enter matches env now token ''GET'' [''api'', ''audit-logs'', name] auth of Inl e' \<Rightarrow> e' | Inr _ \<Rightarrow> e), cache)"
proof -
  have m: "matches = segments_match" using assms(1) by (simp add: router_laws_iff)
  have d: "dispatch matches mounted_routes ''GET'' [''api'', ''audit-logs'', name] = Some audit_id_route"
    using assms(2) audit_dispatch unfolding m by blast
  have r: "rt_handler audit_id_route = ''getAuditLogById''" "rt_roles audit_id_route = [ADMIN]"
    by (simp_all add: audit_id_route_def only_admin_def plain_route_def)
  show ?thesis
  proof (cases "admit env now token audit_id_route auth")
    case (Inl e')
    then show ?thesis by (simp add: audit_request_def enter_def d)
  next
    case (Inr u)
    then obtain v where "u = Some v" using admit_roles [OF Inr] r by auto
    with Inr show ?thesis by (simp add: audit_request_def enter_def d r audit_call_of_def assms(3))
  qed
qed

definition demo_audit :: "(int, unit) audit_readings" where
  "demo_audit = \<lparr>ag_column = al_createdAt, ag_uuidPipe = (\<lambda>_. Inl (BadRequestException ''uuid is expected'')), ag_iso = (\<lambda>_. []),
     ag_json = (\<lambda>_. []), ag_pretty = (\<lambda>_. []), ag_sha = (\<lambda>t. t), ag_now = 0, ag_cget = (\<lambda>_ _. None), ag_cset = (\<lambda>_ _ _ c. c)\<rparr>"

definition all_logs :: audit_filter where
  "all_logs = \<lparr>af_startDate = None, af_endDate = None, af_eventType = None, af_portfolioId = None, af_userAction = None,
     af_asc = False, af_page = 1, af_limit = 10\<rparr>"

lemma audit_named_routes_shadowed_witness:
  "audit_request segments_match demo_env 0 demo_token demo_database demo_audit [''api'', ''audit-logs'', ''export''] ''csv'' all_logs [] () =
     (Inl (BadRequestException ''uuid is expected''), ())"
proof -
  have p: "ag_uuidPipe demo_audit ''export'' = Inl (BadRequestException ''uuid is expected'')" by (simp add: demo_audit_def)
  have "enter segments_match demo_env 0 demo_token ''GET'' [''api'', ''audit-logs'', ''export''] demo_database =
      Inr (audit_id_route, Some (toAuthUser demo_user))"
    using demo_admit [of audit_id_route]
    by (simp add: enter_def audit_dispatch) (simp add: audit_id_route_def only_admin_def plain_route_def)
  then show ?thesis
    using audit_named_routes_shadowed [of segments_match "''export''" demo_audit "BadRequestException ''uuid is expected''"
        demo_env 0 demo_token demo_database "''csv''" all_logs "[]" "()"] p
    by (simp add: router_laws_iff)
qed

section \<open>Subscriptions of other users\<close>

lemma deliver_keeps [simp]:
  "subscriptions (subs (snd (deliverToSubscription env rids t t' sub event force s))) = subscriptions (subs s)"
  by (simp add: deliverToSubscription_def recordDeliveryAttempt_def Let_def)

lemma deliver_loop_keeps [simp]:
  "subscriptions (subs (snd (deliver_loop env rids clock event xs s))) = subscriptions (subs s)"
  by (induction xs arbitrary: s) (simp_all add: case_prod_beta split: sum.split bool.split)

lemma retry_loop_keeps [simp]:
  "subscriptions (subs (snd (retry_loop env rids clock now rs s))) = subscriptions (subs s)"
  by (induction rs arbitrary: s) (simp_all add: case_prod_beta split: option.split sum.split)

lemma acknowledge_loop_keeps [simp]:
  "subscriptions (snd (acknowledge_loop now k es a sk ss)) = subscriptions ss"
  by (induction now k es a sk ss rule: acknowledge_loop.induct) (auto simp: Let_def split: option.split)

lemma publish_keeps [simp]: "subs (snd (publishEvent uuid now input s)) = subs s"
  by (simp add: publishEvent_def Let_def)

text \<open>Whatever a user calls, on the subscriptions or on the webhooks, the subscriptions of others stay as they are.\<close>

lemma other_subscription_kept:
  assumes "map_get (subscriptions (subs s)) k = Some x" "s_userId x \<noteq> user" "eg_uuid g \<noteq> k"
    and "\<And>j y. map_get (subscriptions (subs s)) j = Some y \<Longrightarrow> s_id y = j"
  shows "map_get (subscriptions (subs (snd (event_controller g user c s)))) k = Some x"
proof (cases c)
  case (PublishEvent body)
  have "subs (snd (publishEvent u t body s)) = subs s" for u t by simp
  then show ?thesis using PublishEvent assms(1) deliver_loop_keeps
    by (auto simp: publishAndDeliver_def case_prod_beta split: sum.split)
next
  case (TestWebhook j ty sev d m)
  then show ?thesis using assms(1)
    by (auto simp: simulateDelivery_def case_prod_beta split: sum.split)
qed (use assms in \<open>auto simp: createSubscription_def updateSubscription_def deleteSubscription_def acknowledgeEvents_def with_subs_def
      findOrThrow_def retryDueDeliveries_def Let_def case_prod_beta split: sum.split option.split\<close>)

section \<open>Signed webhooks\<close>

text \<open>Signed webhooks. An analysis is stored exactly if the signature is the HMAC of the body under the secret; otherwise the
  tables stay as they are.\<close>
lemma webhook_needs_signature:
  "let (r, s') = ai_controller g (HandleWebhook signature body) s
   in if signature = Some (generateSignature (ig_env g) body)
      then r = Inr (AnalysisStored (fst (handleWebhook s))) \<and> ai_analyses s' = ai_analyses s @ [fst (handleWebhook s)]
      else (\<exists>e. r = Inl e) \<and> s' = s"
  by (auto simp: Let_def validateWebhookSignature_def verify_text_def handleWebhook_def split: option.splits)

lemma ai_refused_unchanged: "ai_controller g c s = (Inl e, s') \<Longrightarrow> s' = s"
  by (cases c) (auto simp: Let_def split: sum.splits prod.splits option.splits if_splits)

text \<open>The keys of the triggers stay distinct.\<close>

definition triggers_ok :: "ai_state \<Rightarrow> bool" where
  "triggers_ok s \<longleftrightarrow> distinct (map tg_id (ai_triggers s)) \<and> list_all (\<lambda>t. tg_id t < ai_nextTrigger s) (ai_triggers s)"

lemma triggers_kept: "triggers_ok s \<Longrightarrow> triggers_ok (snd (ai_controller g c s))"
proof (cases c)
  case (UpdateTrigger i cfg)
  have [simp]: "tg_id \<circ> (\<lambda>t. if tg_id t = n then t\<lparr>tg_name := a, tg_target := b, tg_event := d\<rparr> else t) = tg_id"
    for n a b d by (auto simp: fun_eq_iff)
  then show "triggers_ok s \<Longrightarrow> ?thesis" using UpdateTrigger
    by (auto simp: triggers_ok_def updateTrigger_def Let_def list_all_iff split: option.splits)
qed (auto simp: triggers_ok_def createTrigger_def removeTrigger_def handleWebhook_def validateWebhookSignature_def Let_def
      list_all_iff distinct_map_filter findAllCursor_def findAllTriggers_def split: option.splits sum.splits prod.splits)

end
