(* ===== verification/Spec2Isabelle.thy ===== *)
theory Spec2Isabelle
  imports Window_Refinement Cache_Transparency Subscription_Props Alerting Request_Monitor Auth_Props Drift_Props Rebalancing
    Staking_Props Emergency_Unstake Audit_Log Files_Props Queue Request_Log Domain_Rules Log_Output Bootstrap Virus_Scanner Docs_Site Validation_Decorators Routes Dtos Admin_Api Platform_Api
begin

text \<open>
  Verification of the AstraPort API.

  The program (src/) is a NestJS service. A request passes, in this order, the correlation middleware, the two
  global guards, the global validation pipe, the interceptors (rate limits, metrics, logging, conditional
  caching) and the handler of a controller, which calls a service; what is thrown on the way is answered by
  the global exception filter. Services keep their state in maps and lists in memory (rate limiters, caches,
  metrics, logs, spans, alerts, subscriptions, webhooks, drift, staking, schedules) or in tables (users, tokens,
  files, quotas, audit rows, emergency requests, triggers). The theories follow these parts; a theory opens
  with the files it models, and definitions keep the names of the functions they translate (with the class
  in front where two classes share a name).

  Theories and code.

  Foundations. Prelude: exceptions, maps in insertion order, strings, and the contract \<open>bounded_log\<close> of the ring
  buffers. JS_Number: doubles as rationals with rounding. JS_Text: decimal texts, \<open>Number(s)\<close>, JSON.

  Rate limits (src/rate-limit). Rate_Algorithms has both limiters and the contract \<open>limiter\<close> the service
  relies on; Token_Bucket and Sliding_Window prove it and the bounds on admissions; Rate_Config loads the
  policies; Rate_Limit is the service and its interceptor; Rate_Limit_Props states verdicts, analytics,
  isolation of clients and the answer; Window_Refinement the sliding window with its clean-up against a log of all
  admissions. Shown: both limiters keep their bounds over any run, a request is admitted
  exactly if every applied limit admits it, every loaded policy is usable, and clean-up changes no answer unless a window is
  longer than an hour.

  Cache (src/cache). Cache_Key: keys and tags; Memory_Cache: the first level and the contract \<open>cache_backend\<close>,
  whose abstract specification is the map of the values last set and their expiry; Redis_Cache: the second level over
  a client; Cache_Service: both; Cache_Props: coherence of runs, promotion, warm-up; Cache_Decorators: the
  method decorators; Cache_Transparency: callers of decorated methods under changing outcomes; Admin_Api: the reports of the cache and the rate limits. Shown: a hit is the value last set,
  never an expired or deleted one, a cached method answers as it would without the cache, capacities hold, invalidation ends and is complete, and what the service does
  when Redis was unreachable or an invalidation falls into a call.

  Monitoring (src/monitoring). Metrics: the registry and its text; Performance: request statistics; Health: the
  probes; Observability: log and trace buffers; Alerting: rules and history; Request_Monitor: the interceptor that
  writes to them, with overlapping requests as steps. Shown: every request is accounted for under any interleaving,
  buffers stay bounded, a rule fires exactly while its condition holds.

  Events (src/subscriptions, src/webhook). Subscriptions, Webhook and Subscription_Props, over one state. Shown:
  the life of a delivery in every reachable state, the isolation of users, who receives an event.

  Accounts (src/auth). Auth and Auth_Props. Shown: uniqueness of accounts, the life of a session, rotation of tokens
  and keys, and that a revoked token stays refused.

  Portfolios (src/rebalancing, src/staking, src/contracts). Drift and Drift_Props: alerts; Rebalancing: plans,
  fees, executions, schedules; Staking and Staking_Props: positions and cached views; Emergency_Unstake: penalties and
  limits, also under concurrent requests; Portfolio_Api: their controllers.

  Files (src/files). Local_Storage and Cloud_Storage: the providers, with the contract \<open>object_store\<close>;
  Files and Files_Props: the service, quotas, collection; Virus_Scanner: its start; File_Validation: the checks in front
  of it. Shown: ownership, quotas, reading back with every provider, collection.

  Jobs, audit, pages. Queue (src/modules/queue), Audit_Log (src/audit-log), Pagination (src/pagination).

  Errors, logs, start (src/logging, src/main.ts). Error_Handling: error classes, correlation ids, tracking and the
  filter; Redaction: secrets; Request_Log: logger, interceptor and the way of a request through these;
  Log_Output: transports and formats; Bootstrap: start-up and the handlers of the process.

  Validation and documentation (src/validation, src/docs). Validation: exception, pipe, middleware; Validation_Decorators: how they
  meet the parameters of a handler; Domain_Rules: the
  rules; Dtos: the request classes and the global pipe; OpenApi and Docs_Site: the generated document, client and
  pages.

  HTTP surface (controllers, src/app.module.ts, the guards). Routes: all mounted routes in order and the guards;
  Portfolio_Api, Platform_Api and Admin_Api: each controller as one function of the readings of the outside
  world, the call and the state, to the answer and the new state.

  How code is represented. An object with fields is a record, a union or enum a datatype. An operation is a function from
  the state to its result and the new state; an exception is \<open>Inl\<close> of \<open>error\<close> or of \<open>thrown\<close>, and what was
  written before it stays written. \<open>undefined\<close> and \<open>null\<close> are \<open>None\<close> where the code does not tell them apart. An
  asynchronous operation is one step where its awaits do not let another one in between that matters, and is split
  at the await where they do (Emergency_Unstake, Request_Monitor, Cache_Transparency). Reachable states and runs are inductive relations
  or folds over lists of steps, and invariants are proved by induction over them.

  Numbers. A JavaScript number is an \<open>int\<close> where the code only ever holds whole numbers below \<open>2 ^ 53\<close> (counters,
  timestamps in milliseconds, limits) and a \<open>rat\<close> rounded by \<open>f64\<close> after every operation where it holds
  fractions. NaN and the infinities are not values; where the code can produce NaN the reading is an option and the
  comparisons with it are written out. Overflow beyond \<open>2 ^ 1024\<close> is outside the model.

  Strings are lists of code units below 256; case conversion is that of ASCII. Dates are milliseconds, calendars UTC.

  Parameters. What is not under src/ is an argument: clocks and random ids, \<open>JSON.stringify\<close> and \<open>JSON.parse\<close>
  where only their texts matter, digests (SHA-1, SHA-256, HMAC), bcrypt, the JWT library and Google's client
  (\<open>auth_env\<close>), \<open>fetch\<close> (\<open>webhook_env\<close>), the Redis client (\<open>redis_client\<close>), Bull (\<open>bull\<close>), the
  clients of S3 and Azure, ClamAV and sharp, the cache manager of the audit log, Sentry, winston's fields, the URL parser,
  zod's answers, class-validator's pipe and rules, the router's matching, \<open>ParseUUIDPipe\<close>, the Stellar key check and
  \<open>localeCompare\<close>. TypeORM repositories are lists of rows. Where a property relies on one of them, a predicate
  whose name ends in \<open>_law\<close> or \<open>_laws\<close> (or the hypothesis itself) states the documented behaviour used, and the
  witness of the property instantiates the argument with a concrete function that satisfies it.

  Termination. Loops are structural recursion or have a measure: eviction the number of entries, the redaction of
  parameters the remaining positions of a list that does not grow, the removal of scripts and tags the length
  of the text. Redis's scan runs until the server answers the cursor 0, so it is a partial function with \<open>None\<close> for a
  scan that never ends, and \<open>redis_invalidate_complete\<close> shows that it ends under \<open>redis_laws\<close>, by which the
  measure \<open>left\<close> of a cursor decreases. Following page cursors is shown to end by the number of rows left. No definition uses fuel.

  Contracts. \<open>limiter\<close> is interpreted by both limiters, \<open>cache_backend\<close> by the memory level, \<open>bounded_log\<close> by
  the log, trace and alert buffers, \<open>object_store\<close> by the local provider; that S3 and Azure meet the last one follows
  from the laws of their clients.

  Not modelled. The declarations of modules for dependency injection and the re-exports; classes with fields only;
  decorators that only attach metadata, beyond the tables of Routes; creation of the application, timers and schedules
  (what they call is modelled); connection options of the Redis client; a guard no route uses; log lines of services; rules of
  the validation module that are zod's alone; the numbers NaN, infinity and beyond, code units above 255, and values with
  cycles.
\<close>

end
